(* ===== verification/Go_Prelude.thy ===== *)
theory Go_Prelude
  imports Main
    "HOL-Library.AList"
    "HOL-Library.Char_ord"
    "HOL-Library.List_Lexorder"
    "HOL-Library.Multiset"
    "HOL-Library.Word"
begin

text \<open>
  The vocabulary every component shares: Go's \<open>error\<close> values, the outcome of a call
  (a value, an error or a run-time panic), state-passing actions for code that writes to a
  store or calls an API, Go maps as association lists with an explicit range order, and the
  functions of the \<open>strings\<close>, \<open>strconv\<close> and \<open>sort\<close> packages that the program uses.

  A Go string is a byte sequence, which is what HOL's \<open>string\<close> is; its \<open><\<close> is the
  bytewise lexicographic order, which is the order of \<open>List_Lexorder\<close> over \<open>Char_ord\<close>.
\<close>

section \<open>Errors and outcomes\<close>

text \<open>
  An error value keeps the format string of the \<open>Errorf\<close>/\<open>Wrapf\<close> call that made it (the
  rendered arguments are not kept) and the class the code tests for: \<open>IsNotExist\<close>,
  \<open>IsExist\<close>, \<open>IsResourceVersion\<close> of solo-kit, \<open>IsAlreadyExists\<close>, \<open>IsNotFound\<close> of the
  Kubernetes API.
\<close>

datatype err =
    Errorf string
  | Wrapf err string
  | NotExistErr string string
  | ExistErr string string
  | ResourceVersionErr string string string string
  | KubeAlreadyExists string
  | KubeNotFound string
  | MultiErr "err list"

datatype 'a go = Ret 'a | Fail err | Panic string

definition nil_deref :: "'a go" where
  "nil_deref = Panic ''nil pointer dereference''"

text \<open>\<open>github.com/pkg/errors.Wrapf\<close>: wrapping the nil error is the nil error.\<close>

definition errors_Wrapf :: "err option \<Rightarrow> string \<Rightarrow> err option" where
  "errors_Wrapf e msg = map_option (\<lambda>x. Wrapf x msg) e"

text \<open>\<open>return v, err\<close> where the caller only looks at \<open>v\<close> when \<open>err\<close> is nil.\<close>

fun go_return :: "'a \<Rightarrow> err option \<Rightarrow> 'a go" where
  "go_return v None = Ret v"
| "go_return v (Some e) = Fail e"

fun gbind :: "'a go \<Rightarrow> ('a \<Rightarrow> 'b go) \<Rightarrow> 'b go" where
  "gbind (Ret x) f = f x"
| "gbind (Fail e) f = Fail e"
| "gbind (Panic p) f = Panic p"

text \<open>\<open>if err != nil { return ..., errors.Wrapf(err, msg) }\<close>.\<close>

fun gwrap :: "string \<Rightarrow> 'a go \<Rightarrow> 'a go" where
  "gwrap msg (Fail e) = Fail (Wrapf e msg)"
| "gwrap msg r = r"

text \<open>A loop that appends the result of each round and stops at the first error.\<close>

fun gmapM :: "('a \<Rightarrow> 'b go) \<Rightarrow> 'a list \<Rightarrow> 'b list go" where
  "gmapM f [] = Ret []"
| "gmapM f (x # xs) = gbind (f x) (\<lambda>y. gbind (gmapM f xs) (\<lambda>ys. Ret (y # ys)))"

text \<open>A loop over accumulated state that stops at the first error.\<close>

fun gfold :: "('a \<Rightarrow> 's \<Rightarrow> 's go) \<Rightarrow> 'a list \<Rightarrow> 's \<Rightarrow> 's go" where
  "gfold f [] s = Ret s"
| "gfold f (x # xs) s = gbind (f x s) (gfold f xs)"

lemma gbind_eq_Ret [simp]: "gbind m f = Ret y \<longleftrightarrow> (\<exists>x. m = Ret x \<and> f x = Ret y)"
  by (cases m) auto

lemma gbind_eq_Fail:
  "gbind m f = Fail e \<longleftrightarrow> m = Fail e \<or> (\<exists>x. m = Ret x \<and> f x = Fail e)"
  by (cases m) auto

lemma gbind_eq_Panic:
  "gbind m f = Panic p \<longleftrightarrow> m = Panic p \<or> (\<exists>x. m = Ret x \<and> f x = Panic p)"
  by (cases m) auto

lemma gwrap_eq_Ret [simp]: "gwrap msg m = Ret y \<longleftrightarrow> m = Ret y"
  by (cases m) auto

lemma gwrap_eq_Panic [simp]: "gwrap msg m = Panic p \<longleftrightarrow> m = Panic p"
  by (cases m) auto

lemma gwrap_Ret [simp]: "gwrap msg (Ret y) = Ret y"
  by simp

lemma gmapM_eq_Ret: "gmapM f xs = Ret ys \<longleftrightarrow> list_all2 (\<lambda>x y. f x = Ret y) xs ys"
  by (induction xs arbitrary: ys) (auto simp: list_all2_Cons1)

lemma gmapM_length: "gmapM f xs = Ret ys \<Longrightarrow> length ys = length xs"
  by (simp add: gmapM_eq_Ret list_all2_lengthD)

lemma gmapM_all_Ret: "(\<And>x. x \<in> set xs \<Longrightarrow> f x = Ret (g x)) \<Longrightarrow> gmapM f xs = Ret (map g xs)"
  by (induction xs) auto

lemma gmapM_set: "gmapM f xs = Ret ys \<Longrightarrow> y \<in> set ys \<longleftrightarrow> (\<exists>x \<in> set xs. f x = Ret y)"
proof (induction xs arbitrary: ys)
  case (Cons x xs)
  then show ?case by auto
qed simp

lemma map_insort_key:
  "(\<And>y. g (f y) = h y) \<Longrightarrow> map f (insort_key h x xs) = insort_key g (f x) (map f xs)"
  by (induction xs) auto

lemma map_sort_key: "(\<And>y. g (f y) = h y) \<Longrightarrow> map f (sort_key h xs) = sort_key g (map f xs)"
  by (induction xs) (simp_all add: map_insort_key [where g = g])

lemma gfold_append:
  "gfold f (xs @ ys) s = gbind (gfold f xs s) (gfold f ys)"
proof (induction xs arbitrary: s)
  case (Cons x xs)
  then show ?case by (cases "f x s") auto
qed simp

lemma gfold_not_Panic: "(\<And>x s p. f x s \<noteq> Panic p) \<Longrightarrow> gfold f xs s \<noteq> Panic p"
  by (induction xs arbitrary: s) (auto simp: gbind_eq_Panic)

lemma gmapM_not_Panic: "(\<And>x. x \<in> set xs \<Longrightarrow> f x \<noteq> Panic p) \<Longrightarrow> gmapM f xs \<noteq> Panic p"
  by (induction xs) (auto simp: gbind_eq_Panic)

lemma gmapM_Ret_ex: "(\<exists>ys. gmapM f xs = Ret ys) \<longleftrightarrow> (\<forall>x \<in> set xs. \<exists>y. f x = Ret y)"
  by (induction xs) auto

lemma gmapM_in:
  assumes "gmapM f xs = Ret ys" and "x \<in> set xs"
  shows "\<exists>y \<in> set ys. f x = Ret y"
  using assms gmapM_Ret_ex [of f xs] gmapM_set [OF assms(1)] by blast

lemma gmapM_distinct:
  assumes "gmapM f xs = Ret ys" and "distinct (map g xs)"
    and "\<And>x y. x \<in> set xs \<Longrightarrow> f x = Ret y \<Longrightarrow> h y = g x"
  shows "distinct (map h ys)"
proof -
  have "map h ys = map g xs"
    using assms(1,3)
  proof (induction xs arbitrary: ys)
    case (Cons x xs)
    then show ?case by auto
  qed simp
  with assms(2) show ?thesis by simp
qed

section \<open>State-passing actions\<close>

text \<open>
  Code that writes to a store or talks to an API takes the state and returns its outcome
  with the state it leaves. An error does not roll the state back: whatever was written
  before it stays written.
\<close>

type_synonym ('s, 'a) act = "'s \<Rightarrow> 'a go \<times> 's"

definition aret :: "'a \<Rightarrow> ('s, 'a) act" where
  "aret x s = (Ret x, s)"

definition afail :: "err \<Rightarrow> ('s, 'a) act" where
  "afail e s = (Fail e, s)"

definition apanic :: "string \<Rightarrow> ('s, 'a) act" where
  "apanic p s = (Panic p, s)"

definition alift :: "'a go \<Rightarrow> ('s, 'a) act" where
  "alift r s = (r, s)"

definition abind :: "('s, 'a) act \<Rightarrow> ('a \<Rightarrow> ('s, 'b) act) \<Rightarrow> ('s, 'b) act" where
  "abind m f s =
     (case m s of
        (Ret x, s') \<Rightarrow> f x s'
      | (Fail e, s') \<Rightarrow> (Fail e, s')
      | (Panic p, s') \<Rightarrow> (Panic p, s'))"

definition awrap :: "string \<Rightarrow> ('s, 'a) act \<Rightarrow> ('s, 'a) act" where
  "awrap msg m s = (case m s of (r, s') \<Rightarrow> (gwrap msg r, s'))"

text \<open>Run a call and hand its error, if any, to the code as a value; a panic goes through.\<close>

definition atry :: "('s, 'a) act \<Rightarrow> ('s, err + 'a) act" where
  "atry m s =
     (case m s of
        (Ret x, s') \<Rightarrow> (Ret (Inr x), s')
      | (Fail e, s') \<Rightarrow> (Ret (Inl e), s')
      | (Panic p, s') \<Rightarrow> (Panic p, s'))"

fun aforeach :: "('x \<Rightarrow> ('s, unit) act) \<Rightarrow> 'x list \<Rightarrow> ('s, unit) act" where
  "aforeach f [] = aret ()"
| "aforeach f (x # xs) = abind (f x) (\<lambda>_. aforeach f xs)"

text \<open>Reading and updating the state.\<close>

definition aget :: "('s \<Rightarrow> 'a) \<Rightarrow> ('s, 'a) act" where
  "aget f s = (Ret (f s), s)"

definition amodify :: "('s \<Rightarrow> 's) \<Rightarrow> ('s, unit) act" where
  "amodify f s = (Ret (), f s)"

text \<open>\<open>fmt.Errorf\<close> with the error printed: the class of the error is lost.\<close>

definition areplace :: "string \<Rightarrow> ('s, 'a) act \<Rightarrow> ('s, 'a) act" where
  "areplace msg m s = (case m s of (Fail e, s') \<Rightarrow> (Fail (Errorf msg), s') | r \<Rightarrow> r)"

text \<open>
  A loop that goes on after an error and collects the errors, as the syncers do with
  \<open>multierror.Append\<close> and \<open>multierr.Append\<close>.
\<close>

fun acollect :: "('x \<Rightarrow> ('s, unit) act) \<Rightarrow> 'x list \<Rightarrow> ('s, err list) act" where
  "acollect f [] = aret []"
| "acollect f (x # xs) =
     abind (atry (f x)) (\<lambda>r. abind (acollect f xs) (\<lambda>es.
       aret (case r of Inl e \<Rightarrow> e # es | Inr _ \<Rightarrow> es)))"

lemma acollect_Cons_Ret:
  "f x s = (Ret (), s1) \<Longrightarrow> acollect f xs s1 = (Ret es, s2) \<Longrightarrow> acollect f (x # xs) s = (Ret es, s2)"
  by (simp add: abind_def atry_def aret_def)

text \<open>\<open>multiErr.ErrorOrNil()\<close>: nil when nothing was appended.\<close>

definition ErrorOrNil :: "err list \<Rightarrow> unit go" where
  "ErrorOrNil es = (if es = [] then Ret () else Fail (MultiErr es))"

named_theorems act_simps \<open>unfolding rules for state-passing actions\<close>

lemmas act_defs [act_simps] = aret_def afail_def apanic_def alift_def aget_def amodify_def

lemma abind_simps [act_simps]:
  "m s = (Ret x, s') \<Longrightarrow> abind m f s = f x s'"
  "m s = (Fail e, s') \<Longrightarrow> abind m f s = (Fail e, s')"
  "m s = (Panic p, s') \<Longrightarrow> abind m f s = (Panic p, s')"
  by (simp_all add: abind_def)

lemma abind_aret [simp]: "abind (aret x) f = f x"
  by (rule ext) (simp add: abind_def aret_def)

lemma abind_eq_Ret:
  "abind m f s = (Ret y, t) \<longleftrightarrow> (\<exists>x s'. m s = (Ret x, s') \<and> f x s' = (Ret y, t))"
  by (auto simp: abind_def split: prod.splits go.splits)

lemma atry_simps [act_simps]:
  "m s = (Ret x, s') \<Longrightarrow> atry m s = (Ret (Inr x), s')"
  "m s = (Fail e, s') \<Longrightarrow> atry m s = (Ret (Inl e), s')"
  "m s = (Panic p, s') \<Longrightarrow> atry m s = (Panic p, s')"
  by (simp_all add: atry_def)

lemma areplace_simps [act_simps]:
  "m s = (Ret x, s') \<Longrightarrow> areplace msg m s = (Ret x, s')"
  "m s = (Fail e, s') \<Longrightarrow> areplace msg m s = (Fail (Errorf msg), s')"
  "m s = (Panic p, s') \<Longrightarrow> areplace msg m s = (Panic p, s')"
  by (simp_all add: areplace_def)

lemma awrap_eq_Ret [simp]: "awrap msg m s = (Ret y, t) \<longleftrightarrow> m s = (Ret y, t)"
  by (auto simp: awrap_def split: prod.splits)

lemma awrap_simps [act_simps]:
  "m s = (Ret x, s') \<Longrightarrow> awrap msg m s = (Ret x, s')"
  "m s = (Fail e, s') \<Longrightarrow> awrap msg m s = (Fail (Wrapf e msg), s')"
  "m s = (Panic p, s') \<Longrightarrow> awrap msg m s = (Panic p, s')"
  by (simp_all add: awrap_def)

text \<open>An action on one part of a state of two independent parts.\<close>

definition on_fst :: "('a, 'x) act \<Rightarrow> ('a \<times> 'b, 'x) act" where
  "on_fst m s = (case m (fst s) of (r, a) \<Rightarrow> (r, (a, snd s)))"

definition on_snd :: "('b, 'x) act \<Rightarrow> ('a \<times> 'b, 'x) act" where
  "on_snd m s = (case m (snd s) of (r, b) \<Rightarrow> (r, (fst s, b)))"

lemma on_fst_eq: "on_fst m s = (r, s') \<longleftrightarrow> m (fst s) = (r, fst s') \<and> snd s' = snd s"
  by (cases s'; cases "m (fst s)") (auto simp: on_fst_def)

lemma on_snd_eq: "on_snd m s = (r, s') \<longleftrightarrow> m (snd s) = (r, snd s') \<and> fst s' = fst s"
  by (cases s'; cases "m (snd s)") (auto simp: on_snd_def)

lemma on_simps [act_simps]:
  "m a = (r, a') \<Longrightarrow> on_fst m (a, b) = (r, (a', b))"
  "m' b = (r, b') \<Longrightarrow> on_snd m' (a, b) = (r, (a, b'))"
  by (simp_all add: on_fst_def on_snd_def)

subsection \<open>Properties every action keeps\<close>

text \<open>
  \<open>keeps P m\<close>: whatever the outcome of \<open>m\<close>, \<open>P\<close> holds afterwards if it held before.
  The rules below let a proof follow the structure of the code.
\<close>

definition keeps :: "('s \<Rightarrow> bool) \<Rightarrow> ('s, 'a) act \<Rightarrow> bool" where
  "keeps P m \<longleftrightarrow> (\<forall>s. P s \<longrightarrow> P (snd (m s)))"

named_theorems keeps_intros \<open>structural rules for \<open>keeps\<close>\<close>

lemma keepsI: "(\<And>s. P s \<Longrightarrow> P (snd (m s))) \<Longrightarrow> keeps P m"
  by (simp add: keeps_def)

lemma keepsD: "keeps P m \<Longrightarrow> P s \<Longrightarrow> m s = (r, s') \<Longrightarrow> P s'"
  by (metis keeps_def snd_conv)

lemma keeps_basic [keeps_intros, simp]:
  "keeps P (aret x)" "keeps P (afail e)" "keeps P (apanic p)" "keeps P (alift r)"
  by (simp_all add: keeps_def act_defs)

lemma keeps_abind [keeps_intros]:
  "keeps P m \<Longrightarrow> (\<And>x. keeps P (f x)) \<Longrightarrow> keeps P (abind m f)"
  by (auto simp: keeps_def abind_def split: prod.splits go.splits)

lemma keeps_awrap [keeps_intros]: "keeps P m \<Longrightarrow> keeps P (awrap msg m)"
  by (auto simp: keeps_def awrap_def split: prod.splits)

lemma keeps_atry [keeps_intros]: "keeps P m \<Longrightarrow> keeps P (atry m)"
  by (auto simp: keeps_def atry_def split: prod.splits go.splits)

lemma keeps_aforeach [keeps_intros]:
  "(\<And>x. x \<in> set xs \<Longrightarrow> keeps P (f x)) \<Longrightarrow> keeps P (aforeach f xs)"
  by (induction xs) (auto intro: keeps_abind)

lemma keeps_acollect [keeps_intros]:
  "(\<And>x. x \<in> set xs \<Longrightarrow> keeps P (f x)) \<Longrightarrow> keeps P (acollect f xs)"
  by (induction xs) (auto intro!: keeps_abind keeps_atry)

lemma keeps_on [keeps_intros]:
  "keeps P m \<Longrightarrow> keeps (\<lambda>s. P (fst s)) (on_fst m)"
  "keeps Q m' \<Longrightarrow> keeps (\<lambda>s. Q (snd s)) (on_snd m')"
  "keeps (\<lambda>s. Q (snd s)) (on_fst m)"
  "keeps (\<lambda>s. P (fst s)) (on_snd m')"
  by (auto simp: keeps_def on_fst_def on_snd_def split: prod.splits)

lemma keeps_if [keeps_intros]: "keeps P m \<Longrightarrow> keeps P m' \<Longrightarrow> keeps P (if b then m else m')"
  by simp

lemma keeps_option [keeps_intros]:
  "keeps P m \<Longrightarrow> (\<And>x. keeps P (f x)) \<Longrightarrow> keeps P (case z of None \<Rightarrow> m | Some x \<Rightarrow> f x)"
  by (cases z) auto

lemma keeps_sum [keeps_intros]:
  "(\<And>e. keeps P (f e)) \<Longrightarrow> (\<And>x. keeps P (g x)) \<Longrightarrow> keeps P (case z of Inl e \<Rightarrow> f e | Inr x \<Rightarrow> g x)"
  by (cases z) auto

end
