(* ===== verification/Go_Strings.thy ===== *)
theory Go_Strings
  imports Go_Prelude
begin

text \<open>
  The functions of Go's \<open>strings\<close>, \<open>strconv\<close> and \<open>fmt\<close> packages that the program calls, on
  byte strings, and Go maps: a map is an association list with distinct keys, and a
  \<open>range\<close> statement over it visits its entries in an order chosen by the run time, which is
  an argument of the definitions that range over a map.
\<close>

section \<open>Strings\<close>

text \<open>\<open>strings.Replace(s, old, new, -1)\<close> for a non-empty \<open>old\<close>.\<close>

function strings_Replace :: "string \<Rightarrow> string \<Rightarrow> string \<Rightarrow> string" where
  "strings_Replace s old new =
     (if s = [] then []
      else if old \<noteq> [] \<and> take (length old) s = old
        then new @ strings_Replace (drop (length old) s) old new
      else hd s # strings_Replace (tl s) old new)"
  by pat_completeness auto
termination
  by (relation "measure (\<lambda>(s, old, new). length s)") (auto simp: neq_Nil_conv)

declare strings_Replace.simps [simp del]

text \<open>\<open>strings.Split(s, sep)\<close> for a non-empty \<open>sep\<close>; \<open>acc\<close> is the piece read so far, reversed.\<close>

function split_from :: "string \<Rightarrow> string \<Rightarrow> string \<Rightarrow> string list" where
  "split_from sep acc s =
     (if s = [] then [rev acc]
      else if sep \<noteq> [] \<and> take (length sep) s = sep
        then rev acc # split_from sep [] (drop (length sep) s)
      else split_from sep (hd s # acc) (tl s))"
  by pat_completeness auto
termination
  by (relation "measure (\<lambda>(sep, acc, s). length s)") (auto simp: neq_Nil_conv)

declare split_from.simps [simp del]

definition strings_Split :: "string \<Rightarrow> string \<Rightarrow> string list" where
  "strings_Split s sep = split_from sep [] s"

fun strings_Join :: "string list \<Rightarrow> string \<Rightarrow> string" where
  "strings_Join [] sep = []"
| "strings_Join [x] sep = x"
| "strings_Join (x # y # xs) sep = x @ sep @ strings_Join (y # xs) sep"

definition strings_HasPrefix :: "string \<Rightarrow> string \<Rightarrow> bool" where
  "strings_HasPrefix s p \<longleftrightarrow> take (length p) s = p"

definition strings_TrimSuffix :: "string \<Rightarrow> string \<Rightarrow> string" where
  "strings_TrimSuffix s suf =
     (if length suf \<le> length s \<and> drop (length s - length suf) s = suf
      then take (length s - length suf) s else s)"

fun strings_Contains :: "string \<Rightarrow> string \<Rightarrow> bool" where
  "strings_Contains [] sub = (sub = [])"
| "strings_Contains (c # s) sub = (take (length sub) (c # s) = sub \<or> strings_Contains s sub)"

text \<open>\<open>strings.ToUpper\<close> on ASCII letters.\<close>

definition char_ToUpper :: "char \<Rightarrow> char" where
  "char_ToUpper c =
     (if 97 \<le> (of_char c :: nat) \<and> (of_char c :: nat) \<le> 122 then char_of ((of_char c :: nat) - 32)
      else c)"

definition strings_ToUpper :: "string \<Rightarrow> string" where
  "strings_ToUpper s = map char_ToUpper s"

definition is_space :: "char \<Rightarrow> bool" where
  "is_space c \<longleftrightarrow> (of_char c :: nat) \<in> {9, 10, 11, 12, 13, 32}"

definition strings_TrimSpace :: "string \<Rightarrow> string" where
  "strings_TrimSpace s = rev (dropWhile is_space (rev (dropWhile is_space s)))"

definition strconv_FormatBool :: "bool \<Rightarrow> string" where
  "strconv_FormatBool b = (if b then ''true'' else ''false'')"

text \<open>Decimal digits of a natural number, as the verb \<open>%d\<close> prints it.\<close>

fun nat_digits :: "nat \<Rightarrow> string" where
  "nat_digits n =
     (if n < 10 then [char_of (48 + n)] else nat_digits (n div 10) @ [char_of (48 + n mod 10)])"

declare nat_digits.simps [simp del]

definition fmt_d :: "int \<Rightarrow> string" where
  "fmt_d i = (if i < 0 then ''-'' @ nat_digits (nat (- i)) else nat_digits (nat i))"

subsection \<open>Replacing\<close>

lemma strings_Replace_Nil [simp]: "strings_Replace [] old new = []"
  by (simp add: strings_Replace.simps)

lemma strings_Replace_single_Cons [simp]:
  "strings_Replace (x # s) [c] new =
     (if x = c then new @ strings_Replace s [c] new else x # strings_Replace s [c] new)"
  by (simp add: strings_Replace.simps [of "x # s"])

lemma strings_Replace_single:
  "strings_Replace s [c] new = concat (map (\<lambda>x. if x = c then new else [x]) s)"
  by (induction s) auto

lemma set_Replace_single:
  "set (strings_Replace s [c] new) = (set s - {c}) \<union> (if c \<in> set s then set new else {})"
  by (induction s) auto

text \<open>A byte neither in \<open>s\<close> nor in \<open>new\<close> does not appear.\<close>

lemma Replace_removes: "c \<notin> set new \<Longrightarrow> c \<notin> set (strings_Replace s [c] new)"
  by (auto simp: set_Replace_single)

lemma Replace_absent: "c \<notin> set s \<Longrightarrow> strings_Replace s [c] new = s"
  by (induction s) auto

subsection \<open>Splitting and joining\<close>

lemma split_from_nonempty [simp]: "split_from sep acc s \<noteq> []"
  by (induction sep acc s rule: split_from.induct) (subst split_from.simps, auto)

lemma strings_Split_nonempty [simp]: "strings_Split s sep \<noteq> []"
  by (simp add: strings_Split_def)

lemma strings_Join_Cons: "xs \<noteq> [] \<Longrightarrow> strings_Join (x # xs) sep = x @ sep @ strings_Join xs sep"
  by (cases xs) auto

lemma Join_split_from: "strings_Join (split_from sep acc s) sep = rev acc @ s"
proof (induction sep acc s rule: split_from.induct)
  case (1 sep acc s)
  consider "s = []" | "s \<noteq> []" "sep \<noteq> [] \<and> take (length sep) s = sep"
    | "s \<noteq> []" "\<not> (sep \<noteq> [] \<and> take (length sep) s = sep)" by blast
  then show ?case
  proof cases
    case 1
    then show ?thesis by (simp add: split_from.simps)
  next
    case 2
    then have "strings_Join (split_from sep acc s) sep = rev acc @ sep @ drop (length sep) s"
      using "1.IH"(1) by (subst split_from.simps) (simp add: strings_Join_Cons)
    moreover have "sep @ drop (length sep) s = s"
      using 2 by (metis append_take_drop_id)
    ultimately show ?thesis by simp
  next
    case 3
    then show ?thesis
      using "1.IH"(2) by (subst split_from.simps) auto
  qed
qed

text \<open>Splitting loses nothing.\<close>

lemma Join_Split: "strings_Join (strings_Split s sep) sep = s"
  by (simp add: strings_Split_def Join_split_from)

lemma split_from_single:
  "split_from [c] acc [] = [rev acc]"
  "split_from [c] acc (x # s) =
     (if x = c then rev acc # split_from [c] [] s else split_from [c] (x # acc) s)"
  by (subst split_from.simps, simp)+

lemma split_from_no_sep: "c \<notin> set s \<Longrightarrow> split_from [c] acc s = [rev acc @ s]"
  by (induction s arbitrary: acc) (auto simp: split_from_single)

lemma split_from_append_sep:
  "c \<notin> set x \<Longrightarrow> split_from [c] acc (x @ c # s) = (rev acc @ x) # split_from [c] [] s"
  by (induction x arbitrary: acc) (auto simp: split_from_single)

lemma Split_no_sep: "c \<notin> set s \<Longrightarrow> strings_Split s [c] = [s]"
  by (simp add: strings_Split_def split_from_no_sep)

lemma Split_append_sep: "c \<notin> set x \<Longrightarrow> strings_Split (x @ c # s) [c] = x # strings_Split s [c]"
  by (simp add: strings_Split_def split_from_append_sep)

text \<open>Joining and splitting again gives the same pieces, if no piece holds the separator.\<close>

lemma Split_Join:
  "xs \<noteq> [] \<Longrightarrow> (\<And>x. x \<in> set xs \<Longrightarrow> c \<notin> set x) \<Longrightarrow> strings_Split (strings_Join xs [c]) [c] = xs"
proof (induction xs "[c]" rule: strings_Join.induct)
  case (3 x y xs)
  then have "strings_Split (strings_Join (y # xs) [c]) [c] = y # xs" by simp
  with 3 show ?case by (simp add: Split_append_sep)
qed (simp_all add: Split_no_sep)

lemma split_from_pieces: "c \<notin> set acc \<Longrightarrow> p \<in> set (split_from [c] acc s) \<Longrightarrow> c \<notin> set p"
proof (induction s arbitrary: acc)
  case (Cons a s)
  show ?case
  proof (cases "a = c")
    case True
    with Cons.prems Cons.IH [of "[]"] show ?thesis by (auto simp: split_from_single)
  next
    case False
    with Cons.prems Cons.IH [of "a # acc"] show ?thesis by (simp add: split_from_single)
  qed
qed (auto simp: split_from_single)

lemma Split_pieces: "p \<in> set (strings_Split s [c]) \<Longrightarrow> c \<notin> set p"
  by (auto simp: strings_Split_def dest: split_from_pieces [rotated])

subsection \<open>Prefixes and suffixes\<close>

lemma HasPrefix_append [simp]: "strings_HasPrefix (p @ s) p"
  by (simp add: strings_HasPrefix_def)

lemma TrimSuffix_append [simp]: "strings_TrimSuffix (s @ suf) suf = s"
  by (simp add: strings_TrimSuffix_def)

lemma set_TrimSuffix: "set (strings_TrimSuffix s suf) \<subseteq> set s"
  by (auto simp: strings_TrimSuffix_def dest: in_set_takeD)

section \<open>Maps\<close>

text \<open>\<open>m[k] = append(m[k], v)\<close> on a map of slices.\<close>

definition map_append :: "'k \<Rightarrow> 'v \<Rightarrow> ('k \<times> 'v list) list \<Rightarrow> ('k \<times> 'v list) list" where
  "map_append k v m =
     AList.update k ((case map_of m k of None \<Rightarrow> [] | Some vs \<Rightarrow> vs) @ [v]) m"

text \<open>\<open>for _, x := range xs { m[key(x)] = append(m[key(x)], x) }\<close>, from an empty map.\<close>

definition group_by :: "('v \<Rightarrow> 'k) \<Rightarrow> 'v list \<Rightarrow> ('k \<times> 'v list) list" where
  "group_by key xs = foldl (\<lambda>m x. map_append (key x) x m) [] xs"

lemma map_of_map_append:
  "map_of (map_append k v m) j =
     (if j = k then Some ((case map_of m k of None \<Rightarrow> [] | Some vs \<Rightarrow> vs) @ [v]) else map_of m j)"
  by (simp add: map_append_def update_conv')

lemma distinct_map_append: "distinct (map fst m) \<Longrightarrow> distinct (map fst (map_append k v m))"
  by (simp add: map_append_def distinct_update)

lemma group_by_Nil [simp]: "group_by key [] = []"
  by (simp add: group_by_def)

lemma group_by_snoc: "group_by key (xs @ [x]) = map_append (key x) x (group_by key xs)"
  by (simp add: group_by_def)

lemma distinct_group_by: "distinct (map fst (group_by key xs))"
  by (induction xs rule: rev_induct) (simp_all add: group_by_snoc distinct_map_append)

lemma map_of_group_by:
  "map_of (group_by key xs) k =
     (if k \<in> key ` set xs then Some (filter (\<lambda>x. key x = k) xs) else None)"
proof (induction xs rule: rev_induct)
  case (snoc x xs)
  have empty: "filter (\<lambda>y. key y = key x) xs = []" if "key x \<notin> key ` set xs"
    using that by (metis (mono_tags, lifting) filter_False image_eqI)
  show ?case
    using snoc empty by (auto simp: group_by_snoc map_of_map_append)
qed simp

lemma keys_group_by: "fst ` set (group_by key xs) = key ` set xs"
proof -
  have "fst ` set (group_by key xs) = dom (map_of (group_by key xs))"
    by (simp add: dom_map_of_conv_image_fst)
  then show ?thesis by (auto simp: map_of_group_by split: if_splits)
qed

lemma in_group_by:
  "(k, ys) \<in> set (group_by key xs) \<longleftrightarrow> k \<in> key ` set xs \<and> ys = filter (\<lambda>x. key x = k) xs"
  using map_of_eq_Some_iff [OF distinct_group_by [of key xs], of k ys]
  by (auto simp: map_of_group_by split: if_splits)

text \<open>Appending pairs that are computed beforehand.\<close>

definition group_pairs :: "('k \<times> 'v) list \<Rightarrow> ('k \<times> 'v list) list" where
  "group_pairs ps = foldl (\<lambda>m (k, v). map_append k v m) [] ps"

lemma group_pairs_Nil [simp]: "group_pairs [] = []"
  by (simp add: group_pairs_def)

lemma group_pairs_snoc: "group_pairs (ps @ [(k, v)]) = map_append k v (group_pairs ps)"
  by (simp add: group_pairs_def)

lemma distinct_group_pairs: "distinct (map fst (group_pairs ps))"
  by (induction ps rule: rev_induct) (auto simp: group_pairs_snoc distinct_map_append)

lemma map_of_group_pairs:
  "map_of (group_pairs ps) k =
     (if k \<in> fst ` set ps then Some (map snd (filter (\<lambda>p. fst p = k) ps)) else None)"
proof (induction ps rule: rev_induct)
  case (snoc p ps)
  obtain j v where p: "p = (j, v)" by (cases p)
  have empty: "filter (\<lambda>q. fst q = j) ps = []" if "j \<notin> fst ` set ps"
    using that by (auto simp: filter_empty_conv)
  show ?case
    using snoc empty by (auto simp: p group_pairs_snoc map_of_map_append)
qed simp

lemma in_group_pairs:
  "(k, vs) \<in> set (group_pairs ps) \<longleftrightarrow>
     k \<in> fst ` set ps \<and> vs = map snd (filter (\<lambda>p. fst p = k) ps)"
  using map_of_eq_Some_iff [OF distinct_group_pairs [of ps], of k vs]
  by (auto simp: map_of_group_pairs split: if_splits)

lemma keys_group_pairs: "fst ` set (group_pairs ps) = fst ` set ps"
proof -
  have "dom (map_of (group_pairs ps)) = fst ` set ps"
    by (auto simp: dom_def map_of_group_pairs)
  then show ?thesis by (simp add: dom_map_of_conv_image_fst)
qed

subsection \<open>Range order\<close>

text \<open>
  The order in which the run time visits the entries of a map: some permutation of them.
\<close>

definition valid_range :: "('a list \<Rightarrow> 'a list) \<Rightarrow> bool" where
  "valid_range r \<longleftrightarrow> (\<forall>xs. mset (r xs) = mset xs)"

lemma valid_range_id [simp]: "valid_range id" "valid_range (\<lambda>xs. xs)" "valid_range rev"
  by (simp_all add: valid_range_def)

lemma valid_range_mset: "valid_range r \<Longrightarrow> mset (r xs) = mset xs"
  by (simp add: valid_range_def)

lemma valid_range_set [simp]: "valid_range r \<Longrightarrow> set (r xs) = set xs"
  by (metis mset_eq_setD valid_range_def)

lemma valid_range_length [simp]: "valid_range r \<Longrightarrow> length (r xs) = length xs"
  by (metis mset_eq_length valid_range_def)

lemma valid_range_distinct [simp]: "valid_range r \<Longrightarrow> distinct (r xs) = distinct xs"
  by (metis mset_eq_imp_distinct_iff valid_range_def)

lemma valid_range_distinct_map:
  "valid_range r \<Longrightarrow> distinct (map f (r xs)) = distinct (map f xs)"
  by (metis mset_eq_imp_distinct_iff mset_map valid_range_def)

text \<open>
  \<open>stringutils.KeysAndValues\<close> of solo-kit: the keys in ascending order, each with its value.
\<close>

definition KeysAndValues :: "(string \<times> string) list \<Rightarrow> string list \<times> string list" where
  "KeysAndValues m =
     (let keys = sort (map fst m)
      in (keys, map (\<lambda>k. case map_of m k of None \<Rightarrow> [] | Some v \<Rightarrow> v) keys))"

lemma sorted_list_of_multiset_unique: "mset xs = mset ys \<Longrightarrow> sort xs = sort ys"
  by (metis sorted_list_of_multiset_mset)

lemma KeysAndValues_permuted:
  assumes "mset m = mset m'" and "distinct (map fst m)"
  shows "KeysAndValues m = KeysAndValues m'"
proof -
  have "mset (map fst m) = mset (map fst m')"
    using assms(1) by (metis mset_map)
  then have keys: "sort (map fst m) = sort (map fst m')"
    by (rule sorted_list_of_multiset_unique)
  have "distinct (map fst m')"
    using assms by (metis mset_eq_imp_distinct_iff mset_map)
  moreover have "set m = set m'"
    using assms(1) by (rule mset_eq_setD)
  ultimately have "map_of m = map_of m'"
    using assms(2) map_of_inject_set by blast
  with keys show ?thesis by (simp add: KeysAndValues_def)
qed

definition ContainsString :: "string \<Rightarrow> string list \<Rightarrow> bool" where
  "ContainsString s xs = (\<exists>s2 \<in> set xs. s2 = s)"

end
