(* ===== verification/Resources.thy ===== *)
theory Resources
  imports Go_Strings
begin

text \<open>
  The resource layer: \<open>core.ResourceRef\<close>, \<open>core.Metadata\<close> and \<open>core.Status\<close> of solo-kit, and
  the operations that the generated code gives every resource list (\<open>Find\<close>, \<open>Sort\<close>,
  \<open>ByNamespace\<close>, \<open>Add\<close>, \<open>Clear\<close>, \<open>List\<close> of \<open>pkg/api/v1/mesh.sk.go\<close> and its siblings, which
  repeat the same code for each type). They are modelled once, over the accessor
  \<open>md\<close> that reads a resource's metadata.
\<close>

section \<open>References, metadata, status\<close>

datatype resource_ref = ResourceRef (ref_Namespace: string) (ref_Name: string)

instantiation resource_ref :: linorder
begin

definition less_eq_resource_ref :: "resource_ref \<Rightarrow> resource_ref \<Rightarrow> bool" where
  "less_eq_resource_ref a b \<longleftrightarrow>
     ref_Namespace a < ref_Namespace b \<or>
     (ref_Namespace a = ref_Namespace b \<and> ref_Name a \<le> ref_Name b)"

definition less_resource_ref :: "resource_ref \<Rightarrow> resource_ref \<Rightarrow> bool" where
  "less_resource_ref a b \<longleftrightarrow>
     (if ref_Namespace a = ref_Namespace b then ref_Name a < ref_Name b
      else ref_Namespace a < ref_Namespace b)"

instance
  by standard
    (auto simp: less_eq_resource_ref_def less_resource_ref_def resource_ref.expand)

end

record metadata =
  meta_Name :: string
  meta_Namespace :: string
  meta_ResourceVersion :: string
  meta_Labels :: "(string \<times> string) list option"
  meta_Annotations :: "(string \<times> string) list option"

definition new_metadata :: "string \<Rightarrow> string \<Rightarrow> metadata" where
  "new_metadata ns name =
     \<lparr>meta_Name = name, meta_Namespace = ns, meta_ResourceVersion = [],
      meta_Labels = None, meta_Annotations = None\<rparr>"

definition Metadata_Ref :: "metadata \<Rightarrow> resource_ref" where
  "Metadata_Ref m = ResourceRef (meta_Namespace m) (meta_Name m)"

definition Metadata_Less :: "metadata \<Rightarrow> metadata \<Rightarrow> bool" where
  "Metadata_Less m m2 =
     (if meta_Namespace m = meta_Namespace m2 then meta_Name m < meta_Name m2
      else meta_Namespace m < meta_Namespace m2)"

lemma Metadata_Less_iff: "Metadata_Less m m2 \<longleftrightarrow> Metadata_Ref m < Metadata_Ref m2"
  by (simp add: Metadata_Less_def Metadata_Ref_def less_resource_ref_def)

text \<open>The nil map and the empty map read the same.\<close>

fun map_entries :: "(string \<times> string) list option \<Rightarrow> (string \<times> string) list" where
  "map_entries None = []"
| "map_entries (Some m) = m"

datatype status_state = Status_Pending | Status_Accepted | Status_Rejected

record status =
  status_State :: status_state
  status_Reason :: string
  status_ReportedBy :: string

definition zero_status :: status where
  "zero_status = \<lparr>status_State = Status_Pending, status_Reason = [], status_ReportedBy = []\<rparr>"

section \<open>Lists of resources\<close>

text \<open>The namespace is optional: the empty namespace matches every resource of that name.\<close>

definition ref_matches :: "string \<Rightarrow> string \<Rightarrow> metadata \<Rightarrow> bool" where
  "ref_matches ns name m \<longleftrightarrow>
     meta_Name m = name \<and> (ns = [] \<or> meta_Namespace m = ns)"

lemma new_metadata_simps [simp]:
  "meta_Name (new_metadata ns n) = n" "meta_Namespace (new_metadata ns n) = ns"
  "meta_ResourceVersion (new_metadata ns n) = []" "meta_Labels (new_metadata ns n) = None"
  "meta_Annotations (new_metadata ns n) = None"
  by (simp_all add: new_metadata_def)

lemma ref_matches_new [simp]:
  "ref_matches ns n (new_metadata ns' n') \<longleftrightarrow> n' = n \<and> (ns = [] \<or> ns' = ns)"
  by (simp add: ref_matches_def)

fun list_Find :: "('r \<Rightarrow> metadata) \<Rightarrow> string \<Rightarrow> string \<Rightarrow> 'r list \<Rightarrow> 'r go" where
  "list_Find md ns name [] = Fail (Errorf ''list did not find %v.%v'')"
| "list_Find md ns name (r # rs) =
     (if ref_matches ns name (md r) then Ret r else list_Find md ns name rs)"

text \<open>\<open>sort.SliceStable\<close> by \<open>Metadata.Less\<close>.\<close>

definition list_Sort :: "('r \<Rightarrow> metadata) \<Rightarrow> 'r list \<Rightarrow> 'r list" where
  "list_Sort md rs = sort_key (\<lambda>r. Metadata_Ref (md r)) rs"

type_synonym 'r by_namespace = "(string \<times> 'r list) list"

definition byNamespace_Add ::
  "('r \<Rightarrow> metadata) \<Rightarrow> 'r list \<Rightarrow> 'r by_namespace \<Rightarrow> 'r by_namespace" where
  "byNamespace_Add md rs m = foldl (\<lambda>m r. map_append (meta_Namespace (md r)) r m) m rs"

definition byNamespace_Clear :: "string \<Rightarrow> 'r by_namespace \<Rightarrow> 'r by_namespace" where
  "byNamespace_Clear ns m = AList.delete ns m"

definition byNamespace_List ::
  "(('r by_namespace \<Rightarrow> 'r by_namespace)) \<Rightarrow> ('r \<Rightarrow> metadata) \<Rightarrow> 'r by_namespace \<Rightarrow> 'r list" where
  "byNamespace_List rng md m = list_Sort md (concat (map snd (rng m)))"

definition list_ByNamespace :: "('r \<Rightarrow> metadata) \<Rightarrow> 'r list \<Rightarrow> 'r by_namespace" where
  "list_ByNamespace md rs = byNamespace_Add md rs []"

text \<open>\<open>m[ns]\<close>: a missing key reads as the nil list.\<close>

definition byNamespace_get :: "'r by_namespace \<Rightarrow> string \<Rightarrow> 'r list" where
  "byNamespace_get m ns = (case map_of m ns of None \<Rightarrow> [] | Some rs \<Rightarrow> rs)"

subsection \<open>Find\<close>

lemma list_Find_find:
  "list_Find md ns name rs =
     (case find (\<lambda>r. ref_matches ns name (md r)) rs of
        None \<Rightarrow> Fail (Errorf ''list did not find %v.%v'') | Some r \<Rightarrow> Ret r)"
  by (induction rs) auto

lemma list_Find_RetD:
  "list_Find md ns name rs = Ret r \<Longrightarrow> r \<in> set rs \<and> ref_matches ns name (md r)"
  by (auto simp: list_Find_find find_Some_iff split: option.splits)

lemma list_Find_not_Panic [simp]: "list_Find md ns name rs \<noteq> Panic p"
  by (induction rs) auto

lemma list_Find_fails:
  "(\<exists>e. list_Find md ns name rs = Fail e) \<longleftrightarrow> (\<forall>r \<in> set rs. \<not> ref_matches ns name (md r))"
  by (induction rs) auto

subsection \<open>Sort\<close>

lemma mset_list_Sort [simp]: "mset (list_Sort md rs) = mset rs"
  by (simp add: list_Sort_def)

lemma length_list_Sort [simp]: "length (list_Sort md rs) = length rs"
  by (simp add: list_Sort_def)

lemma set_list_Sort [simp]: "set (list_Sort md rs) = set rs"
  by (simp add: list_Sort_def)

lemma sorted_list_Sort: "sorted (map (\<lambda>r. Metadata_Ref (md r)) (list_Sort md rs))"
  by (simp add: list_Sort_def)

subsection \<open>Grouping by namespace\<close>

definition byNamespace_inv :: "('r \<Rightarrow> metadata) \<Rightarrow> 'r by_namespace \<Rightarrow> bool" where
  "byNamespace_inv md m \<longleftrightarrow>
     distinct (map fst m) \<and> (\<forall>(ns, rs) \<in> set m. \<forall>r \<in> set rs. meta_Namespace (md r) = ns)"

lemma byNamespace_inv_Nil [simp]: "byNamespace_inv md []"
  by (simp add: byNamespace_inv_def)

lemma byNamespace_inv_iff:
  "byNamespace_inv md m \<longleftrightarrow>
     distinct (map fst m) \<and>
     (\<forall>ns rs. map_of m ns = Some rs \<longrightarrow> (\<forall>r \<in> set rs. meta_Namespace (md r) = ns))"
  unfolding byNamespace_inv_def
  by (intro conj_cong refl) (fastforce simp: map_of_eq_Some_iff)

lemma byNamespace_inv_append:
  "byNamespace_inv md m \<Longrightarrow> byNamespace_inv md (map_append (meta_Namespace (md r)) r m)"
  by (auto simp: byNamespace_inv_iff map_of_map_append distinct_map_append
      split: if_splits option.splits)

lemma byNamespace_inv_Add: "byNamespace_inv md m \<Longrightarrow> byNamespace_inv md (byNamespace_Add md rs m)"
  unfolding byNamespace_Add_def
  by (induction rs arbitrary: m) (auto intro: byNamespace_inv_append)

lemma byNamespace_inv_Clear: "byNamespace_inv md m \<Longrightarrow> byNamespace_inv md (byNamespace_Clear ns m)"
  by (auto simp: byNamespace_inv_iff byNamespace_Clear_def delete_conv' distinct_delete
      split: if_splits)

lemma byNamespace_get_Nil [simp]: "byNamespace_get [] ns = []"
  by (simp add: byNamespace_get_def)

lemma byNamespace_get_append:
  "byNamespace_get (map_append ns r m) k =
     byNamespace_get m k @ (if k = ns then [r] else [])"
  by (auto simp: byNamespace_get_def map_of_map_append split: option.splits)

lemma byNamespace_get_Add:
  "byNamespace_get (byNamespace_Add md rs m) ns =
     byNamespace_get m ns @ filter (\<lambda>r. meta_Namespace (md r) = ns) rs"
  unfolding byNamespace_Add_def
  by (induction rs arbitrary: m) (auto simp: byNamespace_get_append)

lemma byNamespace_get_Clear:
  "byNamespace_get (byNamespace_Clear ns m) k = (if k = ns then [] else byNamespace_get m k)"
  by (simp add: byNamespace_get_def byNamespace_Clear_def delete_conv')

lemma filter_concat_alist:
  assumes "distinct (map fst m)" and "\<And>k ys. (k, ys) \<in> set m \<Longrightarrow> k \<noteq> ns \<Longrightarrow> filter P ys = []"
  shows "filter P (concat (map snd m)) = filter P (byNamespace_get m ns)"
  using assms
proof (induction m)
  case (Cons e m)
  obtain k ys where e: "e = (k, ys)" by (cases e)
  have IH: "filter P (concat (map snd m)) = filter P (byNamespace_get m ns)"
    using Cons by auto
  show ?case
  proof (cases "k = ns")
    case True
    then have "byNamespace_get m ns = []"
      using Cons.prems(1) e by (auto simp: byNamespace_get_def split: option.splits dest: map_of_SomeD
        intro: rev_image_eqI)
    with True IH e show ?thesis by (simp add: byNamespace_get_def)
  next
    case False
    with Cons.prems(2) e have "filter P ys = []" by auto
    with False IH e show ?thesis by (simp add: byNamespace_get_def)
  qed
qed (simp add: byNamespace_get_def)

lemma filter_byNamespace_entries:
  assumes "byNamespace_inv md m"
  shows "filter (\<lambda>r. Metadata_Ref (md r) = ref) (concat (map snd m)) =
         filter (\<lambda>r. Metadata_Ref (md r) = ref) (byNamespace_get m (ref_Namespace ref))"
proof (rule filter_concat_alist)
  show "distinct (map fst m)"
    using assms by (simp add: byNamespace_inv_def)
  fix k ys
  assume "(k, ys) \<in> set m" "k \<noteq> ref_Namespace ref"
  with assms show "filter (\<lambda>r. Metadata_Ref (md r) = ref) ys = []"
    by (auto simp: byNamespace_inv_def filter_empty_conv Metadata_Ref_def)
qed

lemma byNamespace_inv_range:
  "valid_range rng \<Longrightarrow> byNamespace_inv md m \<Longrightarrow> byNamespace_inv md (rng m)"
  by (simp add: byNamespace_inv_def valid_range_distinct_map)

lemma byNamespace_get_range:
  assumes "valid_range rng" and "byNamespace_inv md m"
  shows "byNamespace_get (rng m) = byNamespace_get m"
proof -
  have "map_of (rng m) = map_of m"
    using assms by (intro map_of_inject_set [THEN iffD2])
      (auto simp: byNamespace_inv_def valid_range_distinct_map)
  then show ?thesis by (auto simp: byNamespace_get_def fun_eq_iff)
qed

text \<open>Sorting is stable, so a sorted list is determined by what it holds for each reference.\<close>

lemma sort_key_eqI:
  assumes "mset xs = mset ys" and "\<And>k. filter (\<lambda>x. f x = k) xs = filter (\<lambda>x. f x = k) ys"
  shows "sort_key f xs = sort_key f ys"
proof (rule properties_for_sort_key)
  show "mset (sort_key f ys) = mset xs" using assms(1) by simp
  show "filter (\<lambda>x. f k = f x) (sort_key f ys) = filter (\<lambda>x. f k = f x) xs" for k
    using sort_key_stable [of f "f k" ys] assms(2) [of "f k"] by (simp add: eq_commute [of "f k"])
qed simp

lemma mset_concat_snd: "mset a = mset b \<Longrightarrow> mset (concat (map snd a)) = mset (concat (map snd b))"
  by (metis mset_concat mset_map sum_mset_sum_list)

text \<open>
  \<open>List\<close> ranges over a map and then sorts: its result does not depend on the range order.
\<close>

lemma byNamespace_List_order:
  assumes "byNamespace_inv md m" and "valid_range rng" and "valid_range rng'"
  shows "byNamespace_List rng md m = byNamespace_List rng' md m"
  unfolding byNamespace_List_def list_Sort_def
proof (rule sort_key_eqI)
  show "mset (concat (map snd (rng m))) = mset (concat (map snd (rng' m)))"
    using assms by (intro mset_concat_snd) (simp add: valid_range_mset)
  fix ref
  show "filter (\<lambda>r. Metadata_Ref (md r) = ref) (concat (map snd (rng m))) =
        filter (\<lambda>r. Metadata_Ref (md r) = ref) (concat (map snd (rng' m)))"
    using assms by (simp add: filter_byNamespace_entries byNamespace_inv_range byNamespace_get_range)
qed

lemma map_append_split:
  "distinct (map fst m) \<Longrightarrow>
     mset (concat (map snd (map_append k v m))) = add_mset v (mset (concat (map snd m)))"
  by (induction m) (auto simp: map_append_def split: option.splits)

lemma byNamespace_List_ByNamespace:
  assumes "valid_range rng"
  shows "byNamespace_List rng md (list_ByNamespace md rs) = list_Sort md rs"
proof -
  have inv: "byNamespace_inv md (list_ByNamespace md rs)"
    by (simp add: list_ByNamespace_def byNamespace_inv_Add)
  have "distinct (map fst m) \<Longrightarrow>
      mset (concat (map snd (byNamespace_Add md xs m))) = mset (concat (map snd m)) + mset xs"
    for xs and m :: "'a by_namespace"
    unfolding byNamespace_Add_def
    by (induction xs arbitrary: m)
      (auto simp: map_append_split distinct_map_append)
  then have "mset (concat (map snd (list_ByNamespace md rs))) = mset rs"
    by (simp add: list_ByNamespace_def)
  moreover have "filter (\<lambda>r. Metadata_Ref (md r) = ref) (concat (map snd (list_ByNamespace md rs))) =
      filter (\<lambda>r. Metadata_Ref (md r) = ref) rs" for ref
    using filter_byNamespace_entries [OF inv]
    by (auto simp: list_ByNamespace_def byNamespace_get_Add Metadata_Ref_def intro!: filter_cong)
  ultimately have "list_Sort md (concat (map snd (list_ByNamespace md rs))) = list_Sort md rs"
    unfolding list_Sort_def by (rule sort_key_eqI)
  then show ?thesis
    using byNamespace_List_order [OF inv assms valid_range_id(1)]
    by (simp add: byNamespace_List_def)
qed

end
