(* ===== verification/Resource_Client.thy ===== *)
theory Resource_Client
  imports Resources
begin

text \<open>
  Storage clients. \<open>clients.ResourceClient\<close> of solo-kit is the interface every typed client
  of the program (\<open>MeshClient\<close>, \<open>DestinationRuleClient\<close>, ...) delegates to; it is a record of
  operations here. The locale \<open>resource_client\<close> states what its users rely on, the in-memory
  client of solo-kit satisfies it, and the reconciler (\<open>pkg/api/v1/reconcile\<close> of solo-kit,
  wrapped by the generated \<open>*_reconciler.sk.go\<close>) is verified against the interface alone.
\<close>

section \<open>The Resource interface\<close>

text \<open>
  \<open>GetMetadata\<close>, \<open>SetMetadata\<close>, and \<open>SetStatus(core.Status{})\<close> for an input resource (a
  resource without a status is unchanged by it). \<open>proto.Clone\<close> is the identity on values.
\<close>

record 'r resource_ops =
  GetMetadata :: "'r \<Rightarrow> metadata"
  SetMetadata :: "metadata \<Rightarrow> 'r \<Rightarrow> 'r"
  ClearStatus :: "'r \<Rightarrow> 'r"

abbreviation resource_Ref :: "'r resource_ops \<Rightarrow> 'r \<Rightarrow> resource_ref" where
  "resource_Ref ops r \<equiv> Metadata_Ref (GetMetadata ops r)"

locale resource_type =
  fixes ops :: "'r resource_ops"
  assumes Get_Set [simp]: "GetMetadata ops (SetMetadata ops m r) = m"
    and Set_Get [simp]: "SetMetadata ops (GetMetadata ops r) r = r"
    and Set_Set [simp]: "SetMetadata ops m (SetMetadata ops m' r) = SetMetadata ops m r"
    and Get_Clear [simp]: "GetMetadata ops (ClearStatus ops r) = GetMetadata ops r"

text \<open>Equal but for the resource version, which the store assigns.\<close>

definition but_version :: "'r resource_ops \<Rightarrow> 'r \<Rightarrow> 'r \<Rightarrow> bool" where
  "but_version ops r r' \<longleftrightarrow>
     SetMetadata ops ((GetMetadata ops r)\<lparr>meta_ResourceVersion := []\<rparr>) r =
     SetMetadata ops ((GetMetadata ops r')\<lparr>meta_ResourceVersion := []\<rparr>) r'"

text \<open>\<open>labels.SelectorFromSet(sel).Matches(labels)\<close>: the empty selector matches everything.\<close>

definition selector_Matches :: "(string \<times> string) list \<Rightarrow> metadata \<Rightarrow> bool" where
  "selector_Matches sel m \<longleftrightarrow>
     (\<forall>(k, v) \<in> set sel. map_of (map_entries (meta_Labels m)) k = Some v)"

section \<open>The client interface\<close>

text \<open>
  \<open>Write\<close> takes \<open>OverwriteExisting\<close>, \<open>Delete\<close> takes \<open>IgnoreNotExist\<close>, \<open>List\<close> the selector.
\<close>

record ('s, 'r) client =
  client_Read :: "string \<Rightarrow> string \<Rightarrow> ('s, 'r) act"
  client_Write :: "'r \<Rightarrow> bool \<Rightarrow> ('s, 'r) act"
  client_Delete :: "string \<Rightarrow> string \<Rightarrow> bool \<Rightarrow> ('s, unit) act"
  client_List :: "string \<Rightarrow> (string \<times> string) list \<Rightarrow> ('s, 'r list) act"

definition DefaultNamespaceIfEmpty :: "string \<Rightarrow> string" where
  "DefaultNamespaceIfEmpty ns = (if ns = [] then ''default'' else ns)"

text \<open>
  \<open>resources.ValidateName\<close>: \<open>validation.IsDNS1035Label\<close> (the expression
  \<open>[a-z]([-a-z0-9]*[a-z0-9])?\<close>, at most 63 bytes) and a non-empty name.
\<close>

definition is_lower :: "char \<Rightarrow> bool" where
  "is_lower c \<longleftrightarrow> c \<in> set ''abcdefghijklmnopqrstuvwxyz''"

definition is_digit :: "char \<Rightarrow> bool" where
  "is_digit c \<longleftrightarrow> c \<in> set ''0123456789''"

definition IsDNS1035Label :: "string \<Rightarrow> bool" where
  "IsDNS1035Label s \<longleftrightarrow>
     s \<noteq> [] \<and> length s \<le> 63 \<and> is_lower (hd s) \<and>
     list_all (\<lambda>c. c = CHR ''-'' \<or> is_lower c \<or> is_digit c) s \<and>
     (is_lower (last s) \<or> is_digit (last s))"

definition ValidateName :: "string \<Rightarrow> bool" where
  "ValidateName name \<longleftrightarrow> IsDNS1035Label name \<and> \<not> length name < 1 \<and> \<not> length name > 253"

text \<open>
  What users of a client rely on. \<open>view\<close> reads the stored resource of a reference, \<open>ok\<close> is
  the store's invariant, and \<open>covers ns ref\<close> says that listing namespace \<open>ns\<close> returns
  the resource of reference \<open>ref\<close> (a client that matches namespaces exactly has
  \<open>ref_Namespace ref = ns\<close> here).
\<close>

locale resource_client = resource_type ops for ops :: "'r resource_ops" +
  fixes client :: "('s, 'r) client"
    and view :: "'s \<Rightarrow> resource_ref \<Rightarrow> 'r option"
    and ok :: "'s \<Rightarrow> bool"
    and covers :: "string \<Rightarrow> resource_ref \<Rightarrow> bool"
  assumes view_Ref: "ok s \<Longrightarrow> view s ref = Some r \<Longrightarrow> resource_Ref ops r = ref"
    and view_named: "ok s \<Longrightarrow> view s ref = Some r \<Longrightarrow>
        ref_Namespace ref \<noteq> [] \<and> ValidateName (ref_Name ref)"
    and covers_refl: "covers (ref_Namespace ref) ref"
    and Read_present: "ok s \<Longrightarrow> view s (ResourceRef ns name) = Some r \<Longrightarrow>
        client_Read client ns name s = (Ret r, s)"
    and Read_absent: "ok s \<Longrightarrow> ns \<noteq> [] \<Longrightarrow> ValidateName name \<Longrightarrow>
        view s (ResourceRef ns name) = None \<Longrightarrow>
        client_Read client ns name s = (Fail (NotExistErr ns name), s)"
    and Write_new: "ok s \<Longrightarrow> meta_Namespace (GetMetadata ops r) \<noteq> [] \<Longrightarrow>
        ValidateName (meta_Name (GetMetadata ops r)) \<Longrightarrow> view s (resource_Ref ops r) = None \<Longrightarrow>
        \<exists>r' s'. client_Write client r ow s = (Ret r', s') \<and> ok s' \<and> but_version ops r' r \<and>
          view s' = (view s)(resource_Ref ops r \<mapsto> r')"
    and Write_exists: "ok s \<Longrightarrow> view s (resource_Ref ops r) = Some r0 \<Longrightarrow>
        client_Write client r False s =
          (Fail (ExistErr (meta_Namespace (GetMetadata ops r)) (meta_Name (GetMetadata ops r))), s)"
    and Write_over: "ok s \<Longrightarrow> view s (resource_Ref ops r) = Some r0 \<Longrightarrow>
        meta_ResourceVersion (GetMetadata ops r) = meta_ResourceVersion (GetMetadata ops r0) \<Longrightarrow>
        \<exists>r' s'. client_Write client r True s = (Ret r', s') \<and> ok s' \<and> but_version ops r' r \<and>
          view s' = (view s)(resource_Ref ops r \<mapsto> r')"
    and Write_conflict: "ok s \<Longrightarrow> view s (resource_Ref ops r) = Some r0 \<Longrightarrow>
        meta_ResourceVersion (GetMetadata ops r) \<noteq> meta_ResourceVersion (GetMetadata ops r0) \<Longrightarrow>
        \<exists>e. client_Write client r True s = (Fail e, s)"
    and Delete_present: "ok s \<Longrightarrow> view s (ResourceRef ns name) = Some r \<Longrightarrow>
        \<exists>s'. client_Delete client ns name ignore s = (Ret (), s') \<and> ok s' \<and>
          view s' = (view s)(ResourceRef ns name := None)"
    and Delete_absent: "ok s \<Longrightarrow> ns \<noteq> [] \<Longrightarrow> ValidateName name \<Longrightarrow> view s (ResourceRef ns name) = None \<Longrightarrow>
        client_Delete client ns name ignore s =
          (if ignore then Ret () else Fail (NotExistErr ns name), s)"
    and List_result: "ok s \<Longrightarrow> ns \<noteq> [] \<Longrightarrow>
        \<exists>rs. client_List client ns sel s = (Ret rs, s) \<and>
          set rs = {r. \<exists>ref. view s ref = Some r \<and> covers ns ref \<and>
                      selector_Matches sel (GetMetadata ops r)}"

section \<open>The reconciler\<close>

definition findResource :: "'r resource_ops \<Rightarrow> string \<Rightarrow> string \<Rightarrow> 'r list \<Rightarrow> 'r option" where
  "findResource ops ns name rss =
     find (\<lambda>r. meta_Namespace (GetMetadata ops r) = ns \<and> meta_Name (GetMetadata ops r) = name) rss"

text \<open>
  The transition function decides from the original and the desired resource whether to
  write. The ones of this program also overwrite the original's metadata and status, in the
  list the client returned; the reference (all that is read of the original afterwards) is
  the same, so that effect is not kept in the model.
\<close>

type_synonym 'r transition = "'r \<Rightarrow> 'r \<Rightarrow> bool go"

text \<open>The desired resource as it is written over an original: the original's version, no status.\<close>

definition prepare_update :: "'r resource_ops \<Rightarrow> 'r \<Rightarrow> 'r \<Rightarrow> 'r" where
  "prepare_update ops original desired =
     ClearStatus ops
       (SetMetadata ops
         ((GetMetadata ops desired)
            \<lparr>meta_ResourceVersion := meta_ResourceVersion (GetMetadata ops original)\<rparr>)
         desired)"

definition syncResource ::
  "'r resource_ops \<Rightarrow> ('s, 'r) client \<Rightarrow> 'r \<Rightarrow> 'r list \<Rightarrow> 'r transition option \<Rightarrow> ('s, unit) act"
where
  "syncResource ops rc desired originalResources transition =
     (case findResource ops (meta_Namespace (GetMetadata ops desired))
             (meta_Name (GetMetadata ops desired)) originalResources of
        None \<Rightarrow> abind (client_Write rc desired False) (\<lambda>_. aret ())
      | Some original \<Rightarrow>
          (let desired' = prepare_update ops original desired;
               write = abind (client_Write rc desired' True) (\<lambda>_. aret ())
           in case transition of
                None \<Rightarrow> write
              | Some t \<Rightarrow>
                  abind (alift (t original desired'))
                    (\<lambda>needsUpdate. if \<not> needsUpdate then aret () else write)))"

definition deleteStaleResource ::
  "'r resource_ops \<Rightarrow> ('s, 'r) client \<Rightarrow> 'r \<Rightarrow> ('s, unit) act" where
  "deleteStaleResource ops rc original =
     client_Delete rc (meta_Namespace (GetMetadata ops original))
       (meta_Name (GetMetadata ops original)) True"

definition deleteUnused ::
  "'r resource_ops \<Rightarrow> ('s, 'r) client \<Rightarrow> 'r list \<Rightarrow> 'r \<Rightarrow> ('s, unit) act" where
  "deleteUnused ops rc desiredResources original =
     (if findResource ops (meta_Namespace (GetMetadata ops original))
           (meta_Name (GetMetadata ops original)) desiredResources = None
      then awrap ''deleting stale resource %v'' (deleteStaleResource ops rc original)
      else aret ())"

definition Reconcile ::
  "'r resource_ops \<Rightarrow> ('s, 'r) client \<Rightarrow> string \<Rightarrow> 'r list \<Rightarrow> 'r transition option \<Rightarrow>
   (string \<times> string) list \<Rightarrow> ('s, unit) act" where
  "Reconcile ops rc namespace desiredResources transition selector =
     abind (client_List rc namespace selector) (\<lambda>originalResources.
     abind (aforeach (\<lambda>desired. awrap ''reconciling resource %v''
              (syncResource ops rc desired originalResources transition)) desiredResources) (\<lambda>_.
     aforeach (deleteUnused ops rc desiredResources) originalResources))"

text \<open>
  The resource that reconciling \<open>d\<close> leaves, given what was stored under its reference: a new
  one is written as desired, an existing one is overwritten unless the transition function
  says that no update is needed.
\<close>

definition settled ::
  "'r resource_ops \<Rightarrow> 'r transition option \<Rightarrow> 'r option \<Rightarrow> 'r \<Rightarrow> 'r \<Rightarrow> bool" where
  "settled ops transition before d r \<longleftrightarrow>
     (case before of
        None \<Rightarrow> but_version ops r d
      | Some r0 \<Rightarrow>
          (case transition of
             None \<Rightarrow> but_version ops r (prepare_update ops r0 d)
           | Some t \<Rightarrow>
               (if t r0 (prepare_update ops r0 d) = Ret False then r = r0
                else but_version ops r (prepare_update ops r0 d))))"

definition total_transition :: "'r transition option \<Rightarrow> bool" where
  "total_transition transition \<longleftrightarrow>
     (case transition of None \<Rightarrow> True | Some t \<Rightarrow> \<forall>r d. \<exists>b. t r d = Ret b)"

lemma findResource_eq:
  "findResource ops ns name rss = find (\<lambda>r. resource_Ref ops r = ResourceRef ns name) rss"
  by (simp add: findResource_def Metadata_Ref_def)

lemma ResourceRef_meta [simp]:
  "ResourceRef (meta_Namespace m) (meta_Name m) = Metadata_Ref m"
  by (simp add: Metadata_Ref_def)

context resource_client
begin

lemma prepare_Ref [simp]: "resource_Ref ops (prepare_update ops r0 d) = resource_Ref ops d"
  by (simp add: prepare_update_def Metadata_Ref_def del: ResourceRef_meta)

lemma prepare_version [simp]:
  "meta_ResourceVersion (GetMetadata ops (prepare_update ops r0 d)) =
   meta_ResourceVersion (GetMetadata ops r0)"
  by (simp add: prepare_update_def)

text \<open>One desired resource: its reference ends up settled and no other reference is touched.\<close>

lemma syncResource_settles:
  assumes ok: "ok s"
    and name: "meta_Namespace (GetMetadata ops d) \<noteq> []" "ValidateName (meta_Name (GetMetadata ops d))"
    and found: "findResource ops (meta_Namespace (GetMetadata ops d)) (meta_Name (GetMetadata ops d))
                  originals = view s (resource_Ref ops d)"
    and total: "total_transition transition"
  shows "\<exists>s' r. syncResource ops client d originals transition s = (Ret (), s') \<and> ok s' \<and>
           view s' = (view s)(resource_Ref ops d \<mapsto> r) \<and>
           settled ops transition (view s (resource_Ref ops d)) d r"
proof (cases "view s (resource_Ref ops d)")
  case None
  obtain r' s' where "client_Write client d False s = (Ret r', s')" "ok s'" "but_version ops r' d"
      "view s' = (view s)(resource_Ref ops d \<mapsto> r')"
    using Write_new [OF ok name None, of False] by blast
  then show ?thesis
    using found None by (auto simp: syncResource_def settled_def act_simps)
next
  case (Some r0)
  let ?d = "prepare_update ops r0 d"
  obtain r' s' where w: "client_Write client ?d True s = (Ret r', s')" "ok s'" "but_version ops r' ?d"
      "view s' = (view s)(resource_Ref ops d \<mapsto> r')"
    using Write_over [OF ok, of ?d r0] Some by auto
  show ?thesis
  proof (cases transition)
    case None
    with w found Some show ?thesis by (auto simp: syncResource_def settled_def act_simps)
  next
    case (Some t)
    then obtain b where b: "t r0 ?d = Ret b"
      using total by (auto simp: total_transition_def)
    show ?thesis
    proof (cases b)
      case True
      with w found \<open>view s _ = Some r0\<close> Some b show ?thesis
        by (auto simp: syncResource_def settled_def act_simps abind_def)
    next
      case False
      with found \<open>view s _ = Some r0\<close> Some b ok show ?thesis
        by (intro exI [of _ s] exI [of _ r0])
          (auto simp: syncResource_def settled_def act_simps abind_def)
    qed
  qed
qed

text \<open>The loop over the desired resources.\<close>

lemma sync_all_settles:
  assumes "ok s" and "distinct (map (resource_Ref ops) ds)" and "total_transition transition"
    and "\<forall>d \<in> set ds. meta_Namespace (GetMetadata ops d) \<noteq> [] \<and>
           ValidateName (meta_Name (GetMetadata ops d)) \<and>
           findResource ops (meta_Namespace (GetMetadata ops d)) (meta_Name (GetMetadata ops d))
             originals = view s (resource_Ref ops d)"
  shows "\<exists>s'. aforeach (\<lambda>d. awrap msg (syncResource ops client d originals transition)) ds s =
                (Ret (), s') \<and> ok s' \<and>
           (\<forall>ref. ref \<notin> resource_Ref ops ` set ds \<longrightarrow> view s' ref = view s ref) \<and>
           (\<forall>d \<in> set ds. \<exists>r. view s' (resource_Ref ops d) = Some r \<and>
              settled ops transition (view s (resource_Ref ops d)) d r)"
  using assms
proof (induction ds arbitrary: s)
  case Nil
  then show ?case by (auto simp: aret_def)
next
  case (Cons d ds)
  obtain s1 r where s1: "syncResource ops client d originals transition s = (Ret (), s1)" "ok s1"
      "view s1 = (view s)(resource_Ref ops d \<mapsto> r)"
      "settled ops transition (view s (resource_Ref ops d)) d r"
    using syncResource_settles [OF Cons.prems(1), of d originals transition] Cons.prems(3,4) by auto
  have same: "view s1 (resource_Ref ops x) = view s (resource_Ref ops x)" if "x \<in> set ds" for x
    using Cons.prems(2) s1(3) that by (auto simp: image_iff)
  obtain s' where s': "aforeach (\<lambda>d. awrap msg (syncResource ops client d originals transition)) ds s1 =
                (Ret (), s')" "ok s'"
      "\<forall>ref. ref \<notin> resource_Ref ops ` set ds \<longrightarrow> view s' ref = view s1 ref"
      "\<forall>x \<in> set ds. \<exists>r. view s' (resource_Ref ops x) = Some r \<and>
              settled ops transition (view s1 (resource_Ref ops x)) x r"
    using Cons.IH [OF s1(2)] Cons.prems(2-4) same by auto
  have "view s' (resource_Ref ops d) = Some r"
    using s'(3) s1(3) Cons.prems(2) by (auto simp: image_iff)
  with s1 s' same show ?case
    by (intro exI [of _ s']) (auto simp: act_simps)
qed

text \<open>The loop over the listed originals.\<close>

lemma delete_all_unused:
  assumes "ok s" and "\<forall>r \<in> set os. meta_Namespace (GetMetadata ops r) \<noteq> [] \<and>
      ValidateName (meta_Name (GetMetadata ops r))"
  shows "\<exists>s'. aforeach (deleteUnused ops client desired) os s = (Ret (), s') \<and> ok s' \<and>
      (\<forall>ref. view s' ref =
         (if ref \<in> resource_Ref ops ` set os - resource_Ref ops ` set desired then None
          else view s ref))"
  using assms
proof (induction os arbitrary: s)
  case Nil
  then show ?case by (auto simp: aret_def)
next
  case (Cons r os)
  let ?ref = "resource_Ref ops r"
  have used: "findResource ops (meta_Namespace (GetMetadata ops r)) (meta_Name (GetMetadata ops r)) desired
      = None \<longleftrightarrow> ?ref \<notin> resource_Ref ops ` set desired"
    by (auto simp: findResource_eq find_None_iff image_iff)
  have "\<exists>s1. deleteUnused ops client desired r s = (Ret (), s1) \<and> ok s1 \<and>
      view s1 = (if ?ref \<in> resource_Ref ops ` set desired then view s else (view s)(?ref := None))"
  proof (cases "?ref \<in> resource_Ref ops ` set desired")
    case True
    with used Cons.prems(1) show ?thesis by (auto simp: deleteUnused_def aret_def)
  next
    case False
    show ?thesis
    proof (cases "view s ?ref")
      case None
      with False used Cons.prems Delete_absent [of s "meta_Namespace (GetMetadata ops r)"
          "meta_Name (GetMetadata ops r)" True]
      show ?thesis by (auto simp: deleteUnused_def deleteStaleResource_def awrap_def fun_upd_idem)
    next
      case (Some x)
      with False used Cons.prems Delete_present [of s "meta_Namespace (GetMetadata ops r)"
          "meta_Name (GetMetadata ops r)" x True]
      show ?thesis by (auto simp: deleteUnused_def deleteStaleResource_def awrap_def)
    qed
  qed
  then obtain s1 where s1: "deleteUnused ops client desired r s = (Ret (), s1)" "ok s1"
      "view s1 = (if ?ref \<in> resource_Ref ops ` set desired then view s else (view s)(?ref := None))"
    by blast
  obtain s' where "aforeach (deleteUnused ops client desired) os s1 = (Ret (), s')" "ok s'"
      "\<forall>ref. view s' ref =
         (if ref \<in> resource_Ref ops ` set os - resource_Ref ops ` set desired then None
          else view s1 ref)"
    using Cons.IH [OF s1(2)] Cons.prems(2) by auto
  with s1 show ?case
    by (intro exI [of _ s']) (auto simp: abind_def)
qed

text \<open>
  Reconciling a namespace: if every resource stored under a desired reference is among the
  listed ones, the call succeeds, each desired resource is settled, every other listed
  resource is gone, and nothing else has changed.
\<close>

definition selected :: "(string \<times> string) list \<Rightarrow> 's \<Rightarrow> string \<Rightarrow> resource_ref \<Rightarrow> bool" where
  "selected sel s ns ref \<longleftrightarrow>
     (\<exists>r. view s ref = Some r \<and> covers ns ref \<and>
          selector_Matches sel (GetMetadata ops r))"

lemma list_finds:
  assumes ok: "ok s"
    and rs: "set rs = {r. \<exists>ref. view s ref = Some r \<and> covers ns ref \<and>
                      selector_Matches sel (GetMetadata ops r)}"
    and sel: "view s (resource_Ref ops d) \<noteq> None \<longrightarrow> selected sel s ns (resource_Ref ops d)"
  shows "findResource ops (meta_Namespace (GetMetadata ops d)) (meta_Name (GetMetadata ops d)) rs =
         view s (resource_Ref ops d)"
proof (cases "find (\<lambda>r. resource_Ref ops r = resource_Ref ops d) rs")
  case None
  have "view s (resource_Ref ops d) = None"
  proof (rule ccontr)
    assume "view s (resource_Ref ops d) \<noteq> None"
    then obtain r where "view s (resource_Ref ops d) = Some r" "r \<in> set rs"
      using sel rs by (auto simp: selected_def)
    with None view_Ref [OF ok] show False by (auto simp: find_None_iff)
  qed
  with None show ?thesis by (simp add: findResource_eq)
next
  case (Some r)
  then have "r \<in> set rs" and "resource_Ref ops r = resource_Ref ops d"
    by (auto simp: find_Some_iff)
  with rs view_Ref [OF ok] have "view s (resource_Ref ops d) = Some r" by fastforce
  with Some show ?thesis by (simp add: findResource_eq)
qed

lemma Reconcile_correct:
  assumes ok: "ok s" and ns: "ns \<noteq> []"
    and distinct: "distinct (map (resource_Ref ops) ds)" and total: "total_transition transition"
    and names: "\<And>d. d \<in> set ds \<Longrightarrow>
        meta_Namespace (GetMetadata ops d) \<noteq> [] \<and> ValidateName (meta_Name (GetMetadata ops d))"
    and owned: "\<And>d. d \<in> set ds \<Longrightarrow> view s (resource_Ref ops d) \<noteq> None \<Longrightarrow>
        selected sel s ns (resource_Ref ops d)"
  shows "\<exists>s'. Reconcile ops client ns ds transition sel s = (Ret (), s') \<and> ok s' \<and>
     (\<forall>d \<in> set ds. \<exists>r. view s' (resource_Ref ops d) = Some r \<and>
        settled ops transition (view s (resource_Ref ops d)) d r) \<and>
     (\<forall>ref. ref \<notin> resource_Ref ops ` set ds \<longrightarrow>
        view s' ref = (if selected sel s ns ref then None else view s ref))"
proof -
  obtain rs where rs: "client_List client ns sel s = (Ret rs, s)"
      "set rs = {r. \<exists>ref. view s ref = Some r \<and> covers ns ref \<and>
                      selector_Matches sel (GetMetadata ops r)}"
    using List_result [OF ok ns] by blast
  have found: "findResource ops (meta_Namespace (GetMetadata ops d)) (meta_Name (GetMetadata ops d)) rs =
      view s (resource_Ref ops d)" if "d \<in> set ds" for d
    using list_finds [OF ok rs(2)] owned [OF that] by blast
  obtain s1 where s1: "aforeach (\<lambda>d. awrap ''reconciling resource %v''
        (syncResource ops client d rs transition)) ds s = (Ret (), s1)" "ok s1"
      "\<forall>ref. ref \<notin> resource_Ref ops ` set ds \<longrightarrow> view s1 ref = view s ref"
      "\<forall>d \<in> set ds. \<exists>r. view s1 (resource_Ref ops d) = Some r \<and>
              settled ops transition (view s (resource_Ref ops d)) d r"
    using sync_all_settles [OF ok distinct total, where originals = rs] names found by blast
  have "\<forall>r \<in> set rs. meta_Namespace (GetMetadata ops r) \<noteq> [] \<and>
      ValidateName (meta_Name (GetMetadata ops r))"
    using rs(2) view_named [OF ok] view_Ref [OF ok]
    by (fastforce simp: Metadata_Ref_def simp del: ResourceRef_meta)
  then obtain s2 where s2: "aforeach (deleteUnused ops client ds) rs s1 = (Ret (), s2)" "ok s2"
      "\<forall>ref. view s2 ref =
         (if ref \<in> resource_Ref ops ` set rs - resource_Ref ops ` set ds then None
          else view s1 ref)"
    using delete_all_unused [OF s1(2)] by blast
  have listed: "ref \<in> resource_Ref ops ` set rs \<longleftrightarrow> selected sel s ns ref" for ref
    using rs(2) view_Ref [OF ok] by (force simp: selected_def)
  have "Reconcile ops client ns ds transition sel s = (Ret (), s2)"
    using rs(1) s1(1) s2(1) by (simp add: Reconcile_def act_simps)
  moreover have "\<forall>ref. ref \<notin> resource_Ref ops ` set ds \<longrightarrow>
        view s2 ref = (if selected sel s ns ref then None else view s ref)"
    using s2(3) s1(3) listed by auto
  ultimately show ?thesis
    using s2(2,3) s1(4) by auto
qed

end

end
