(* ===== verification/Memory_Client.thy ===== *)
theory Memory_Client
  imports Resource_Client
begin

text \<open>
  The in-memory resource client of solo-kit
  (\<open>vendor/github.com/solo-io/solo-kit/pkg/api/v1/clients/memory/resource_client.go\<close>): a map
  from \<open>kind;namespace;name\<close> to resources. It is the provider of the client interface here.
  Its \<open>List\<close> selects by key prefix, so listing a namespace also returns the resources of
  every namespace whose name begins with it.
\<close>

type_synonym 'r mem_cache = "(string \<times> 'r) list"

definition mem_Prefix :: "string \<Rightarrow> string \<Rightarrow> string" where
  "mem_Prefix kind ns = kind @ '';'' @ ns"

definition mem_key :: "string \<Rightarrow> string \<Rightarrow> string \<Rightarrow> string" where
  "mem_key kind ns name = mem_Prefix kind ns @ '';'' @ name"

text \<open>\<open>strconv.Atoi\<close>: an optional sign and decimal digits, within 64 bits.\<close>

definition digits_value :: "string \<Rightarrow> int" where
  "digits_value s = foldl (\<lambda>n c. 10 * n + (int (of_char c) - 48)) 0 s"

definition strconv_Atoi :: "string \<Rightarrow> int option" where
  "strconv_Atoi s =
     (let neg = (s \<noteq> [] \<and> hd s = CHR ''-'');
          ds = (if s \<noteq> [] \<and> (hd s = CHR ''-'' \<or> hd s = CHR ''+'') then tl s else s);
          n = (if neg then - digits_value ds else digits_value ds)
      in if ds \<noteq> [] \<and> list_all is_digit ds \<and> - (2 ^ 63) \<le> n \<and> n < 2 ^ 63 then Some n else None)"

definition newOrIncrementResourceVer :: "string \<Rightarrow> string" where
  "newOrIncrementResourceVer resourceVersion =
     (let curr = (case strconv_Atoi resourceVersion of None \<Rightarrow> 1 | Some n \<Rightarrow> n)
      in fmt_d ((curr + 1 + 2 ^ 63) mod 2 ^ 64 - 2 ^ 63))"

definition mem_Read ::
  "string \<Rightarrow> string \<Rightarrow> string \<Rightarrow> ('r mem_cache, 'r) act" where
  "mem_Read kind ns name s =
     (if \<not> ValidateName name
      then (Fail (Wrapf (Errorf ''invalid name'') ''validation error''), s)
      else
        (let namespace = DefaultNamespaceIfEmpty ns
         in case map_of s (mem_key kind namespace name) of
              None \<Rightarrow> (Fail (NotExistErr namespace name), s)
            | Some r \<Rightarrow> (Ret r, s)))"

definition mem_Write ::
  "'r resource_ops \<Rightarrow> string \<Rightarrow> 'r \<Rightarrow> bool \<Rightarrow> ('r mem_cache, 'r) act" where
  "mem_Write ops kind resource overwriteExisting s =
     (if \<not> ValidateName (meta_Name (GetMetadata ops resource))
      then (Fail (Wrapf (Errorf ''invalid name'') ''validation error''), s)
      else
        (let meta = (GetMetadata ops resource)
               \<lparr>meta_Namespace := DefaultNamespaceIfEmpty (meta_Namespace (GetMetadata ops resource))\<rparr>;
             key = mem_key kind (meta_Namespace meta) (meta_Name meta);
             clone = SetMetadata ops
               (meta\<lparr>meta_ResourceVersion := newOrIncrementResourceVer (meta_ResourceVersion meta)\<rparr>)
               resource;
             set = (Ret clone, AList.update key clone s)
         in case fst (mem_Read kind (meta_Namespace meta) (meta_Name meta) s) of
              Ret original \<Rightarrow>
                (if \<not> overwriteExisting
                 then (Fail (ExistErr (meta_Namespace meta) (meta_Name meta)), s)
                 else if meta_ResourceVersion meta \<noteq>
                         meta_ResourceVersion (GetMetadata ops original)
                 then (Fail (ResourceVersionErr (meta_Namespace meta) (meta_Name meta)
                         (meta_ResourceVersion meta)
                         (meta_ResourceVersion (GetMetadata ops original))), s)
                 else set)
            | _ \<Rightarrow> set))"

definition mem_Delete ::
  "string \<Rightarrow> string \<Rightarrow> string \<Rightarrow> bool \<Rightarrow> ('r mem_cache, unit) act" where
  "mem_Delete kind ns name ignoreNotExist s =
     (let namespace = DefaultNamespaceIfEmpty ns;
          key = mem_key kind namespace name
      in if map_of s key = None
         then (if \<not> ignoreNotExist then (Fail (NotExistErr namespace name), s) else (Ret (), s))
         else (Ret (), AList.delete key s))"

text \<open>\<open>rng\<close> is the order in which the cache's \<open>List\<close> visits the store.\<close>

definition mem_List ::
  "('r mem_cache \<Rightarrow> 'r mem_cache) \<Rightarrow> 'r resource_ops \<Rightarrow> string \<Rightarrow> string \<Rightarrow>
   (string \<times> string) list \<Rightarrow> ('r mem_cache, 'r list) act" where
  "mem_List rng ops kind ns selector s =
     (let prefix = mem_Prefix kind (DefaultNamespaceIfEmpty ns);
          cached = map snd (filter (\<lambda>(key, r). strings_HasPrefix key prefix) (rng s));
          matching = filter (\<lambda>r. selector_Matches selector (GetMetadata ops r)) cached
      in (Ret (sort_key (\<lambda>r. meta_Name (GetMetadata ops r)) matching), s))"

definition mem_client ::
  "('r mem_cache \<Rightarrow> 'r mem_cache) \<Rightarrow> 'r resource_ops \<Rightarrow> string \<Rightarrow> ('r mem_cache, 'r) client" where
  "mem_client rng ops kind =
     \<lparr>client_Read = mem_Read kind, client_Write = mem_Write ops kind,
      client_Delete = mem_Delete kind, client_List = mem_List rng ops kind\<rparr>"

section \<open>The store's invariant and its view\<close>

definition mem_ok :: "'r resource_ops \<Rightarrow> string \<Rightarrow> 'r mem_cache \<Rightarrow> bool" where
  "mem_ok ops kind s \<longleftrightarrow>
     distinct (map fst s) \<and>
     (\<forall>(k, r) \<in> set s.
        k = mem_key kind (meta_Namespace (GetMetadata ops r)) (meta_Name (GetMetadata ops r)) \<and>
        meta_Namespace (GetMetadata ops r) \<noteq> [] \<and> ValidateName (meta_Name (GetMetadata ops r)))"

definition mem_view :: "'r resource_ops \<Rightarrow> string \<Rightarrow> 'r mem_cache \<Rightarrow> resource_ref \<Rightarrow> 'r option" where
  "mem_view ops kind s ref =
     (case map_of s (mem_key kind (ref_Namespace ref) (ref_Name ref)) of
        None \<Rightarrow> None
      | Some r \<Rightarrow> (if resource_Ref ops r = ref then Some r else None))"

definition mem_covers :: "string \<Rightarrow> resource_ref \<Rightarrow> bool" where
  "mem_covers ns ref \<longleftrightarrow> strings_HasPrefix (ref_Namespace ref @ '';'' @ ref_Name ref) ns"

lemma sep_not_label_char [simp]: "\<not> is_lower CHR '';''" "\<not> is_digit CHR '';''"
  by (simp_all add: is_lower_def is_digit_def)

lemma ValidateName_no_sep: "ValidateName n \<Longrightarrow> CHR '';'' \<notin> set n"
  by (force simp: ValidateName_def IsDNS1035Label_def list_all_iff)

text \<open>The invariant over the lookup function instead of the list of entries.\<close>

lemma mem_ok_iff:
  "mem_ok ops kind s \<longleftrightarrow>
     distinct (map fst s) \<and>
     (\<forall>k r. map_of s k = Some r \<longrightarrow>
        k = mem_key kind (meta_Namespace (GetMetadata ops r)) (meta_Name (GetMetadata ops r)) \<and>
        meta_Namespace (GetMetadata ops r) \<noteq> [] \<and> ValidateName (meta_Name (GetMetadata ops r)))"
  unfolding mem_ok_def by (intro conj_cong refl) (fastforce simp: map_of_eq_Some_iff)

lemma append_sep_inject:
  assumes "c \<notin> set a" and "c \<notin> set b"
  shows "xs @ c # a = ys @ c # b \<longleftrightarrow> xs = ys \<and> a = b"
  using assms by (auto simp: append_eq_append_conv2 Cons_eq_append_conv append_eq_Cons_conv)

lemma mem_key_inject:
  "ValidateName n \<Longrightarrow> ValidateName n' \<Longrightarrow>
     mem_key kind ns n = mem_key kind ns' n' \<longleftrightarrow> ns = ns' \<and> n = n'"
  using append_sep_inject [of "CHR '';''" n n' "kind @ '';'' @ ns" "kind @ '';'' @ ns'"]
  by (auto simp: mem_key_def mem_Prefix_def dest: ValidateName_no_sep)

lemma mem_entry:
  assumes "mem_ok ops kind s" and "map_of s (mem_key kind ns n) = Some r" and "ValidateName n"
  shows "resource_Ref ops r = ResourceRef ns n"
  using assms mem_key_inject [of n "meta_Name (GetMetadata ops r)" kind ns]
  by (fastforce simp: mem_ok_def Metadata_Ref_def simp del: ResourceRef_meta dest: map_of_SomeD)

lemma mem_view_lookup:
  "mem_ok ops kind s \<Longrightarrow> ValidateName (ref_Name ref) \<Longrightarrow>
     mem_view ops kind s ref = map_of s (mem_key kind (ref_Namespace ref) (ref_Name ref))"
  by (auto simp: mem_view_def dest: mem_entry split: option.splits)

lemma mem_viewD:
  assumes "mem_ok ops kind s" and "mem_view ops kind s ref = Some r"
  shows "resource_Ref ops r = ref" and "ref_Namespace ref \<noteq> []" and "ValidateName (ref_Name ref)"
    and "map_of s (mem_key kind (ref_Namespace ref) (ref_Name ref)) = Some r"
  using assms by (auto simp: mem_view_def mem_ok_def Metadata_Ref_def simp del: ResourceRef_meta
      split: option.splits if_splits dest!: map_of_SomeD)

text \<open>
  A write that stores: the invariant is kept and the view changes at one reference.
\<close>

lemma mem_set:
  assumes ok: "mem_ok ops kind s" and "meta_Namespace (GetMetadata ops r) \<noteq> []"
    and valid: "ValidateName (meta_Name (GetMetadata ops r))"
  shows "mem_ok ops kind (AList.update (mem_key kind (meta_Namespace (GetMetadata ops r))
            (meta_Name (GetMetadata ops r))) r s)" (is "mem_ok ops kind ?s'")
    and "mem_view ops kind (AList.update (mem_key kind (meta_Namespace (GetMetadata ops r))
            (meta_Name (GetMetadata ops r))) r s) =
         (mem_view ops kind s)(resource_Ref ops r \<mapsto> r)"
proof -
  show ok': "mem_ok ops kind ?s'"
    using assms by (auto simp: mem_ok_iff distinct_update update_conv')
  show "mem_view ops kind ?s' = (mem_view ops kind s)(resource_Ref ops r \<mapsto> r)"
  proof
    fix ref
    show "mem_view ops kind ?s' ref = ((mem_view ops kind s)(resource_Ref ops r \<mapsto> r)) ref"
    proof (cases "ValidateName (ref_Name ref)")
      case True
      then show ?thesis
        using ok ok' valid
        by (cases ref) (auto simp: mem_view_lookup update_conv' mem_key_inject Metadata_Ref_def
            simp del: ResourceRef_meta)
    next
      case False
      then have "mem_view ops kind ?s' ref = None" "mem_view ops kind s ref = None"
          "ref \<noteq> resource_Ref ops r"
        using mem_viewD(3) ok ok' valid by (fastforce simp: Metadata_Ref_def simp del: ResourceRef_meta)+
      then show ?thesis by simp
    qed
  qed
qed

lemma mem_unset:
  assumes ok: "mem_ok ops kind s" and valid: "ValidateName n"
  shows "mem_ok ops kind (AList.delete (mem_key kind ns n) s)" (is "mem_ok ops kind ?s'")
    and "mem_view ops kind (AList.delete (mem_key kind ns n) s) =
         (mem_view ops kind s)(ResourceRef ns n := None)"
proof -
  show ok': "mem_ok ops kind ?s'"
    using ok by (auto simp: mem_ok_iff distinct_delete delete_conv')
  show "mem_view ops kind ?s' = (mem_view ops kind s)(ResourceRef ns n := None)"
  proof
    fix ref
    show "mem_view ops kind ?s' ref = ((mem_view ops kind s)(ResourceRef ns n := None)) ref"
    proof (cases "ValidateName (ref_Name ref)")
      case True
      then show ?thesis
        using ok ok' valid by (cases ref) (auto simp: mem_view_lookup delete_conv' mem_key_inject)
    next
      case False
      then have "mem_view ops kind ?s' ref = None" "mem_view ops kind s ref = None"
        using mem_viewD(3) ok ok' by fastforce+
      then show ?thesis by simp
    qed
  qed
qed

section \<open>The in-memory client satisfies the interface\<close>

text \<open>
  One store per resource type: its kind, the order in which the run time ranges over it, and
  the type's \<open>Resource\<close> operations.
\<close>

locale mem_store = resource_type ops for ops :: "'r resource_ops" +
  fixes kind :: string
    and rng :: "'r mem_cache \<Rightarrow> 'r mem_cache"
  assumes rng: "valid_range rng"
begin

lemma mem_Read_view:
  assumes "mem_ok ops kind s" and "ns \<noteq> []" and "ValidateName n"
  shows "mem_Read kind ns n s =
    (case mem_view ops kind s (ResourceRef ns n) of
       None \<Rightarrow> (Fail (NotExistErr ns n), s) | Some r \<Rightarrow> (Ret r, s))"
  using assms by (auto simp: mem_Read_def mem_view_lookup DefaultNamespaceIfEmpty_def split: option.splits)

lemma but_version_clone:
  "but_version ops (SetMetadata ops ((GetMetadata ops r)\<lparr>meta_ResourceVersion := v\<rparr>) r) r"
  by (simp add: but_version_def)

lemma mem_Write_stores:
  assumes ok: "mem_ok ops kind s" and ns: "meta_Namespace (GetMetadata ops r) \<noteq> []"
    and valid: "ValidateName (meta_Name (GetMetadata ops r))"
    and over: "mem_view ops kind s (resource_Ref ops r) = None \<or>
      ow \<and> (\<exists>r0. mem_view ops kind s (resource_Ref ops r) = Some r0 \<and>
        meta_ResourceVersion (GetMetadata ops r) = meta_ResourceVersion (GetMetadata ops r0))"
  shows "\<exists>r' s'. mem_Write ops kind r ow s = (Ret r', s') \<and> mem_ok ops kind s' \<and>
    but_version ops r' r \<and> mem_view ops kind s' = (mem_view ops kind s)(resource_Ref ops r \<mapsto> r')"
proof -
  let ?m = "GetMetadata ops r"
  define r' where "r' = SetMetadata ops
    (?m\<lparr>meta_ResourceVersion := newOrIncrementResourceVer (meta_ResourceVersion ?m)\<rparr>) r"
  let ?s' = "AList.update (mem_key kind (meta_Namespace ?m) (meta_Name ?m)) r' s"
  have meta: "?m\<lparr>meta_Namespace := DefaultNamespaceIfEmpty (meta_Namespace ?m)\<rparr> = ?m"
    using ns by (simp add: DefaultNamespaceIfEmpty_def)
  have stored: "mem_Write ops kind r ow s = (Ret r', ?s')"
    using over valid unfolding mem_Write_def meta Let_def
    by (auto simp: mem_Read_view [OF ok ns valid] r'_def split: option.splits)
  have same: "GetMetadata ops r' =
      ?m\<lparr>meta_ResourceVersion := newOrIncrementResourceVer (meta_ResourceVersion ?m)\<rparr>"
    by (simp add: r'_def)
  have "mem_ok ops kind ?s'"
    using mem_set(1) [OF ok, of r'] ns valid by (simp add: same)
  moreover have "mem_view ops kind ?s' = (mem_view ops kind s)(resource_Ref ops r \<mapsto> r')"
    using mem_set(2) [OF ok, of r'] ns valid
    by (simp add: same Metadata_Ref_def del: ResourceRef_meta)
  ultimately show ?thesis
    using stored but_version_clone by (auto simp: r'_def)
qed

lemma mem_Write_refused:
  assumes ok: "mem_ok ops kind s" and r0: "mem_view ops kind s (resource_Ref ops r) = Some r0"
  shows "mem_Write ops kind r False s =
      (Fail (ExistErr (meta_Namespace (GetMetadata ops r)) (meta_Name (GetMetadata ops r))), s)"
    and "meta_ResourceVersion (GetMetadata ops r) \<noteq> meta_ResourceVersion (GetMetadata ops r0) \<Longrightarrow>
      \<exists>e. mem_Write ops kind r True s = (Fail e, s)"
proof -
  have ns: "meta_Namespace (GetMetadata ops r) \<noteq> []"
    and valid: "ValidateName (meta_Name (GetMetadata ops r))"
    using mem_viewD [OF ok r0] by (auto simp: Metadata_Ref_def simp del: ResourceRef_meta)
  then show "mem_Write ops kind r False s =
      (Fail (ExistErr (meta_Namespace (GetMetadata ops r)) (meta_Name (GetMetadata ops r))), s)"
    and "meta_ResourceVersion (GetMetadata ops r) \<noteq> meta_ResourceVersion (GetMetadata ops r0) \<Longrightarrow>
      \<exists>e. mem_Write ops kind r True s = (Fail e, s)"
    using r0 by (auto simp: mem_Write_def Let_def DefaultNamespaceIfEmpty_def
        mem_Read_view [OF ok ns valid])
qed

lemma mem_List_result:
  assumes ok: "mem_ok ops kind s" and ns: "ns \<noteq> []"
  shows "\<exists>rs. mem_List rng ops kind ns sel s = (Ret rs, s) \<and>
    set rs = {r. \<exists>ref. mem_view ops kind s ref = Some r \<and> mem_covers ns ref \<and>
                selector_Matches sel (GetMetadata ops r)}"
proof -
  have covers: "strings_HasPrefix (mem_key kind ns' n) (mem_Prefix kind ns) =
      mem_covers ns (ResourceRef ns' n)" for ns' n
    by (simp add: strings_HasPrefix_def mem_key_def mem_Prefix_def mem_covers_def)
  have "(\<exists>k. (k, r) \<in> set s \<and> strings_HasPrefix k (mem_Prefix kind ns)) \<longleftrightarrow>
      (\<exists>ref. mem_view ops kind s ref = Some r \<and> mem_covers ns ref)" for r
  proof
    assume "\<exists>k. (k, r) \<in> set s \<and> strings_HasPrefix k (mem_Prefix kind ns)"
    then obtain k where k: "(k, r) \<in> set s" "strings_HasPrefix k (mem_Prefix kind ns)" by blast
    let ?ns = "meta_Namespace (GetMetadata ops r)" and ?n = "meta_Name (GetMetadata ops r)"
    have key: "k = mem_key kind ?ns ?n" "map_of s k = Some r"
      using ok k(1) by (auto simp: mem_ok_def)
    then have "mem_view ops kind s (ResourceRef ?ns ?n) = Some r"
      by (simp add: mem_view_def del: ResourceRef_meta) simp
    moreover have "mem_covers ns (ResourceRef ?ns ?n)"
      using k(2) key(1) covers by blast
    ultimately have "mem_view ops kind s (ResourceRef ?ns ?n) = Some r \<and>
      mem_covers ns (ResourceRef ?ns ?n)" ..
    then show "\<exists>ref. mem_view ops kind s ref = Some r \<and> mem_covers ns ref" by blast
  next
    assume "\<exists>ref. mem_view ops kind s ref = Some r \<and> mem_covers ns ref"
    then obtain ref where "mem_view ops kind s ref = Some r" "mem_covers ns ref" by blast
    then show "\<exists>k. (k, r) \<in> set s \<and> strings_HasPrefix k (mem_Prefix kind ns)"
      using mem_viewD(4) [OF ok] covers [of "ref_Namespace ref" "ref_Name ref"]
      by (auto dest!: map_of_SomeD)
  qed
  then show ?thesis
    using ns by (auto simp: mem_List_def DefaultNamespaceIfEmpty_def valid_range_set [OF rng] image_iff)
qed

end

sublocale mem_store \<subseteq> resource_client ops "mem_client rng ops kind"
    "mem_view ops kind" "mem_ok ops kind" mem_covers
proof (unfold_locales, goal_cases)
  case (1 s ref r)
  then show ?case by (rule mem_viewD)
next
  case (2 s ref r)
  then show ?case by (auto dest: mem_viewD)
next
  case (3 ref)
  show ?case by (simp add: mem_covers_def)
next
  case (4 s ns name r)
  then show ?case
    using mem_viewD(2,3) [OF 4] by (simp add: mem_client_def mem_Read_view)
next
  case (5 s ns name)
  then show ?case by (simp add: mem_client_def mem_Read_view)
next
  case (6 s r ow)
  then show ?case using mem_Write_stores [of s r ow] by (simp add: mem_client_def)
next
  case (7 s r r0)
  then show ?case by (simp add: mem_client_def mem_Write_refused)
next
  case (8 s r r0)
  then have "meta_Namespace (GetMetadata ops r) \<noteq> []" "ValidateName (meta_Name (GetMetadata ops r))"
    using mem_viewD [OF 8(1,2)] by (auto simp: Metadata_Ref_def simp del: ResourceRef_meta)
  with 8 mem_Write_stores [of s r True] show ?case by (simp add: mem_client_def)
next
  case (9 s r r0)
  then show ?case using mem_Write_refused(2) [of s r r0] by (simp add: mem_client_def)
next
  case (10 s ns name r ignore)
  then have "map_of s (mem_key kind ns name) = Some r" "ns \<noteq> []" "ValidateName name"
    using mem_viewD [OF 10] by auto
  then show ?case
    using mem_unset [OF 10(1)] by (simp add: mem_client_def mem_Delete_def DefaultNamespaceIfEmpty_def)
next
  case (11 s ns name ignore)
  then show ?case
    by (simp add: mem_client_def mem_Delete_def DefaultNamespaceIfEmpty_def mem_view_lookup)
next
  case (12 s ns sel)
  then show ?case by (simp add: mem_client_def mem_List_result)
qed

context mem_store
begin

lemma is_client:
  "resource_client ops (mem_client rng ops kind) (mem_view ops kind) (mem_ok ops kind) mem_covers"
  by (rule resource_client_axioms)

end

text \<open>The memory client satisfies the client interface, for every type of resource.\<close>

lemma mem_store_client:
  "resource_type ops \<Longrightarrow> valid_range rng \<Longrightarrow>
     resource_client ops (mem_client rng ops kind) (mem_view ops kind) (mem_ok ops kind) mem_covers"
  by (intro mem_store.is_client mem_store.intro mem_store_axioms.intro)

end
