(* ===== verification/Supergloo_Types.thy ===== *)
theory Supergloo_Types
  imports Resource_Client
begin

text \<open>
  The messages of SuperGloo's API (\<open>pkg/api/v1/*.pb.go\<close>) and of the external APIs it reads
  and writes (\<open>pkg/api/external/gloo/v1\<close>, \<open>istio/networking/v1alpha3\<close>,
  \<open>istio/rbac/v1alpha1\<close>, \<open>istio/encryption/v1\<close>): one record per message, one datatype per
  \<open>oneof\<close>. A pointer that the code tests for nil, or reads without a test, is an \<open>option\<close>.
  Fields that no code of the program reads or writes are left out.
\<close>

section \<open>Meshes and installs\<close>

record istio =
  istio_InstallationNamespace :: string
  istio_WatchNamespaces :: "string list"
  istio_PrometheusConfigmap :: "resource_ref option"

record linkerd2 =
  linkerd2_InstallationNamespace :: string
  linkerd2_WatchNamespaces :: "string list"
  linkerd2_PrometheusConfigmap :: "resource_ref option"

record consul =
  consul_InstallationNamespace :: string
  consul_ServerAddress :: string
  consul_PrometheusConfigmap :: "resource_ref option"

text \<open>The \<open>oneof\<close> holds a wrapper with a pointer, which may be nil.\<close>

datatype mesh_type =
    Mesh_Istio "istio option"
  | Mesh_Linkerd2 "linkerd2 option"
  | Mesh_Consul "consul option"

record encryption =
  enc_TlsEnabled :: bool
  enc_Secret :: "resource_ref option"

record prometheus_spec =
  prom_PodLabels :: "(string \<times> string) list"
  prom_EnableMetrics :: bool

record observability =
  obs_Prometheus :: "prometheus_spec option"

record rule =
  rule_Source :: "resource_ref option"
  rule_Destination :: "resource_ref option"

record policy =
  policy_Rules :: "rule list"

record mesh =
  mesh_Status :: status
  mesh_Metadata :: metadata
  mesh_MeshType :: "mesh_type option"
  mesh_Encryption :: "encryption option"
  mesh_Observability :: "observability option"
  mesh_Policy :: "policy option"

text \<open>\<open>GetIstio\<close>: nil when the mesh is of another type.\<close>

definition mesh_GetIstio :: "mesh \<Rightarrow> istio option" where
  "mesh_GetIstio m = (case mesh_MeshType m of Some (Mesh_Istio i) \<Rightarrow> i | _ \<Rightarrow> None)"

datatype helm_chart_locator_kind = ChartPath string

record install =
  install_Status :: status
  install_Metadata :: metadata
  install_MeshType :: "mesh_type option"
  install_ChartLocator :: "helm_chart_locator_kind option option"
  install_Encryption :: "encryption option"
  install_Enabled :: "bool option"

section \<open>Upstreams and matchers of Gloo\<close>

record kube_upstream =
  kube_ServiceName :: string
  kube_ServiceNamespace :: string
  kube_ServicePort :: "32 word"
  kube_Selector :: "(string \<times> string) list"

record static_host =
  host_Addr :: string
  host_Port :: "32 word"

record consul_upstream =
  cu_ServiceName :: string

datatype upstream_type =
    UpstreamSpec_Kube kube_upstream
  | UpstreamSpec_Static "static_host list"
  | UpstreamSpec_Aws
  | UpstreamSpec_Azure
  | UpstreamSpec_Consul consul_upstream

record upstream_spec =
  us_UpstreamType :: "upstream_type option"

record upstream =
  upstream_UpstreamSpec :: "upstream_spec option"
  upstream_Status :: status
  upstream_Metadata :: metadata

datatype path_specifier =
    Matcher_Prefix string
  | Matcher_Exact string
  | Matcher_Regex string

text \<open>\<open>HeaderMatcher\<close>, and \<open>QueryParameterMatcher\<close>, which has the same three fields.\<close>

record header_matcher =
  hm_Name :: string
  hm_Value :: string
  hm_Regex :: bool

record matcher =
  matcher_PathSpecifier :: "path_specifier option"
  matcher_Headers :: "header_matcher list"
  matcher_QueryParameters :: "header_matcher list"
  matcher_Methods :: "string list"

section \<open>Routing rules\<close>

record duration =
  dur_Seconds :: int
  dur_Nanos :: int

record http_retry =
  retry_Attempts :: int
  retry_PerTryTimeout :: "duration option"

record cors_policy =
  cors_AllowOrigin :: "string list"
  cors_AllowMethods :: "string list"
  cors_AllowHeaders :: "string list"
  cors_ExposeHeaders :: "string list"
  cors_MaxAge :: "duration option"
  cors_AllowCredentials :: "bool option"

datatype delay_type = FixedDelay duration | ExponentialDelay duration

datatype abort_type = HttpStatus int | GrpcStatus string | Http2Error string

record http_fault_injection =
  fault_Delay :: "(int \<times> delay_type option) option"
  fault_Abort :: "(int \<times> abort_type option) option"

record weighted_destination =
  wd_Upstream :: "resource_ref option"
  wd_Weight :: "32 word"

record header_manipulation =
  hman_RemoveResponseHeaders :: "string list"
  hman_AppendResponseHeaders :: "(string \<times> string) list"
  hman_RemoveRequestHeaders :: "string list"
  hman_AppendRequestHeaders :: "(string \<times> string) list"

record routing_rule =
  rr_Status :: status
  rr_Metadata :: metadata
  rr_TargetMesh :: "resource_ref option"
  rr_Sources :: "resource_ref list"
  rr_Destinations :: "resource_ref list"
  rr_RequestMatchers :: "matcher list option"
  rr_TrafficShifting :: "weighted_destination list option"
  rr_FaultInjection :: "http_fault_injection option"
  rr_Timeout :: "duration option"
  rr_Retries :: "http_retry option"
  rr_CorsPolicy :: "cors_policy option"
  rr_Mirror :: "resource_ref option"
  rr_HeaderManipulaition :: "header_manipulation option"

section \<open>Istio networking objects\<close>

datatype string_match =
    StringMatch_Exact string
  | StringMatch_Prefix string
  | StringMatch_Regex string

record http_match_request =
  hmr_Uri :: "string_match option"
  hmr_Method :: "string_match option"
  hmr_Headers :: "(string \<times> string_match) list"
  hmr_SourceLabels :: "(string \<times> string) list"

datatype port_selector = PortSelector_Number "32 word" | PortSelector_Name string

record destination =
  dest_Host :: string
  dest_Subset :: string
  dest_Port :: "port_selector option"

record destination_weight =
  dw_Destination :: destination
  dw_Weight :: "32 word"

record http_route =
  hr_Match :: "http_match_request list"
  hr_Route :: "destination_weight list"
  hr_Timeout :: "duration option"
  hr_Retries :: "http_retry option"
  hr_Fault :: "http_fault_injection option"
  hr_Mirror :: "destination option"
  hr_CorsPolicy :: "cors_policy option"
  hr_AppendHeaders :: "(string \<times> string) list"
  hr_RemoveResponseHeaders :: "string list"

record virtual_service =
  vs_Status :: status
  vs_Metadata :: metadata
  vs_Hosts :: "string list"
  vs_Gateways :: "string list"
  vs_Http :: "http_route list"

datatype tls_mode = TLS_DISABLE | TLS_SIMPLE | TLS_MUTUAL | TLS_ISTIO_MUTUAL

record traffic_policy =
  tp_Tls :: "tls_mode option"

record subset =
  subset_Name :: string
  subset_Labels :: "(string \<times> string) list"

record destination_rule =
  dr_Status :: status
  dr_Metadata :: metadata
  dr_Host :: string
  dr_TrafficPolicy :: "traffic_policy option"
  dr_Subsets :: "subset list"

section \<open>Istio RBAC objects and the root certificate secret\<close>

record access_rule =
  ar_Services :: "string list"
  ar_Methods :: "string list"

record service_role =
  sr_Status :: status
  sr_Metadata :: metadata
  sr_Rules :: "access_rule list"

record role_ref =
  roleref_Kind :: string
  roleref_Name :: string

record service_role_binding =
  srb_Status :: status
  srb_Metadata :: metadata
  srb_Subjects :: "((string \<times> string) list) list"
  srb_RoleRef :: "role_ref option"

datatype rbac_mode = RbacConfig_OFF | RbacConfig_ON | RbacConfig_ON_WITH_INCLUSION | RbacConfig_ON_WITH_EXCLUSION

datatype enforcement_mode = EnforcementMode_ENFORCED | EnforcementMode_PERMISSIVE

record rbac_config =
  rc_Status :: status
  rc_Metadata :: metadata
  rc_Mode :: rbac_mode
  rc_EnforcementMode :: enforcement_mode

record istio_cacerts_secret =
  cacerts_Metadata :: metadata
  cacerts_RootCert :: string
  cacerts_CertChain :: string
  cacerts_CaCert :: string
  cacerts_CaKey :: string

section \<open>The \<open>Resource\<close> operations of the stored types\<close>

definition mesh_ops :: "mesh resource_ops" where
  "mesh_ops = \<lparr>GetMetadata = mesh_Metadata,
     SetMetadata = (\<lambda>m r. r\<lparr>mesh_Metadata := m\<rparr>),
     ClearStatus = (\<lambda>r. r\<lparr>mesh_Status := zero_status\<rparr>)\<rparr>"

definition destination_rule_ops :: "destination_rule resource_ops" where
  "destination_rule_ops = \<lparr>GetMetadata = dr_Metadata,
     SetMetadata = (\<lambda>m r. r\<lparr>dr_Metadata := m\<rparr>),
     ClearStatus = (\<lambda>r. r\<lparr>dr_Status := zero_status\<rparr>)\<rparr>"

definition virtual_service_ops :: "virtual_service resource_ops" where
  "virtual_service_ops = \<lparr>GetMetadata = vs_Metadata,
     SetMetadata = (\<lambda>m r. r\<lparr>vs_Metadata := m\<rparr>),
     ClearStatus = (\<lambda>r. r\<lparr>vs_Status := zero_status\<rparr>)\<rparr>"

definition service_role_ops :: "service_role resource_ops" where
  "service_role_ops = \<lparr>GetMetadata = sr_Metadata,
     SetMetadata = (\<lambda>m r. r\<lparr>sr_Metadata := m\<rparr>),
     ClearStatus = (\<lambda>r. r\<lparr>sr_Status := zero_status\<rparr>)\<rparr>"

definition service_role_binding_ops :: "service_role_binding resource_ops" where
  "service_role_binding_ops = \<lparr>GetMetadata = srb_Metadata,
     SetMetadata = (\<lambda>m r. r\<lparr>srb_Metadata := m\<rparr>),
     ClearStatus = (\<lambda>r. r\<lparr>srb_Status := zero_status\<rparr>)\<rparr>"

definition rbac_config_ops :: "rbac_config resource_ops" where
  "rbac_config_ops = \<lparr>GetMetadata = rc_Metadata,
     SetMetadata = (\<lambda>m r. r\<lparr>rc_Metadata := m\<rparr>),
     ClearStatus = (\<lambda>r. r\<lparr>rc_Status := zero_status\<rparr>)\<rparr>"

definition upstream_ops :: "upstream resource_ops" where
  "upstream_ops = \<lparr>GetMetadata = upstream_Metadata,
     SetMetadata = (\<lambda>m r. r\<lparr>upstream_Metadata := m\<rparr>),
     ClearStatus = (\<lambda>r. r\<lparr>upstream_Status := zero_status\<rparr>)\<rparr>"

definition routing_rule_ops :: "routing_rule resource_ops" where
  "routing_rule_ops = \<lparr>GetMetadata = rr_Metadata,
     SetMetadata = (\<lambda>m r. r\<lparr>rr_Metadata := m\<rparr>),
     ClearStatus = (\<lambda>r. r\<lparr>rr_Status := zero_status\<rparr>)\<rparr>"

text \<open>A root certificate secret has no status.\<close>

definition istio_cacerts_secret_ops :: "istio_cacerts_secret resource_ops" where
  "istio_cacerts_secret_ops = \<lparr>GetMetadata = cacerts_Metadata,
     SetMetadata = (\<lambda>m r. r\<lparr>cacerts_Metadata := m\<rparr>),
     ClearStatus = id\<rparr>"

named_theorems ops_simps \<open>the \<open>Resource\<close> operations unfolded\<close>

lemmas all_ops_defs [ops_simps] =
  mesh_ops_def destination_rule_ops_def virtual_service_ops_def service_role_ops_def
  service_role_binding_ops_def rbac_config_ops_def istio_cacerts_secret_ops_def upstream_ops_def routing_rule_ops_def

interpretation mesh: resource_type mesh_ops
  by unfold_locales (simp_all add: ops_simps)

interpretation destination_rule: resource_type destination_rule_ops
  by unfold_locales (simp_all add: ops_simps)

interpretation virtual_service: resource_type virtual_service_ops
  by unfold_locales (simp_all add: ops_simps)

interpretation service_role: resource_type service_role_ops
  by unfold_locales (simp_all add: ops_simps)

interpretation service_role_binding: resource_type service_role_binding_ops
  by unfold_locales (simp_all add: ops_simps)

interpretation rbac_config: resource_type rbac_config_ops
  by unfold_locales (simp_all add: ops_simps)

interpretation upstream: resource_type upstream_ops
  by unfold_locales (simp_all add: ops_simps)

interpretation routing_rule: resource_type routing_rule_ops
  by unfold_locales (simp_all add: ops_simps)

interpretation istio_cacerts_secret: resource_type istio_cacerts_secret_ops
  by unfold_locales (simp_all add: ops_simps)

end
