(* ===== verification/Translator_Snapshot.thy ===== *)
theory Translator_Snapshot
  imports Supergloo_Types
begin

text \<open>
  The snapshot that the translator's syncers work on and the composition of syncers:
  \<open>pkg/api/v1/translator_snapshot.sk.go\<close> and \<open>TranslatorSyncers.Sync\<close> of
  \<open>translator_event_loop.sk.go\<close>.

  \<open>List\<close> ranges over a map and sorts. Its result is the same for every range order
  (lemma \<open>byNamespace_List_order\<close>), so the insertion order stands for all of them here.
\<close>

record translator_snapshot =
  snap_Meshes :: "mesh by_namespace"
  snap_Routingrules :: "routing_rule by_namespace"
  snap_Upstreams :: "upstream by_namespace"
  snap_Istiocerts :: "istio_cacerts_secret by_namespace"

abbreviation snap_List :: "'r resource_ops \<Rightarrow> 'r by_namespace \<Rightarrow> 'r list" where
  "snap_List ops m \<equiv> byNamespace_List id (GetMetadata ops) m"

text \<open>\<open>byNamespace.List().Clone().ByNamespace()\<close>; cloning a message is the identity on values.\<close>

definition byNamespace_Clone :: "'r resource_ops \<Rightarrow> 'r by_namespace \<Rightarrow> 'r by_namespace" where
  "byNamespace_Clone ops m = list_ByNamespace (GetMetadata ops) (snap_List ops m)"

definition snapshot_Clone :: "translator_snapshot \<Rightarrow> translator_snapshot" where
  "snapshot_Clone s =
     \<lparr>snap_Meshes = byNamespace_Clone mesh_ops (snap_Meshes s),
      snap_Routingrules = byNamespace_Clone routing_rule_ops (snap_Routingrules s),
      snap_Upstreams = byNamespace_Clone upstream_ops (snap_Upstreams s),
      snap_Istiocerts = byNamespace_Clone istio_cacerts_secret_ops (snap_Istiocerts s)\<rparr>"

text \<open>
  The loops over \<open>snapshotForHashing.X.List()\<close> change the resources in place, through the
  pointers that the map holds too: every resource of the map loses its resource version and
  its status.
\<close>

definition clear_volatile :: "'r resource_ops \<Rightarrow> 'r \<Rightarrow> 'r" where
  "clear_volatile ops r =
     ClearStatus ops (SetMetadata ops ((GetMetadata ops r)\<lparr>meta_ResourceVersion := []\<rparr>) r)"

definition clear_all :: "'r resource_ops \<Rightarrow> 'r by_namespace \<Rightarrow> 'r by_namespace" where
  "clear_all ops m = map (\<lambda>(ns, rs). (ns, map (clear_volatile ops) rs)) m"

definition snapshotToHash :: "translator_snapshot \<Rightarrow> translator_snapshot" where
  "snapshotToHash s =
     (let c = snapshot_Clone s
      in \<lparr>snap_Meshes = clear_all mesh_ops (snap_Meshes c),
          snap_Routingrules = clear_all routing_rule_ops (snap_Routingrules c),
          snap_Upstreams = clear_all upstream_ops (snap_Upstreams c),
          snap_Istiocerts = clear_all istio_cacerts_secret_ops (snap_Istiocerts c)\<rparr>)"

text \<open>\<open>hash\<close> is \<open>hashstructure.Hash\<close>.\<close>

definition snapshot_Hash :: "(translator_snapshot \<Rightarrow> 64 word) \<Rightarrow> translator_snapshot \<Rightarrow> 64 word" where
  "snapshot_Hash hash s = hash (snapshotToHash s)"

text \<open>\<open>TranslatorSyncers.Sync\<close>: every syncer runs, whatever the others return.\<close>

type_synonym 's syncer = "translator_snapshot \<Rightarrow> ('s, unit) act"

definition TranslatorSyncers_Sync :: "'s syncer list \<Rightarrow> 's syncer" where
  "TranslatorSyncers_Sync syncers snapshot =
     abind (acollect (\<lambda>syncer. syncer snapshot) syncers) (\<lambda>es. alift (ErrorOrNil es))"

section \<open>Cloning\<close>

lemma filter_list_Sort:
  "filter (\<lambda>r. Metadata_Ref (md r) = ref) (list_Sort md rs) = filter (\<lambda>r. Metadata_Ref (md r) = ref) rs"
  using sort_key_stable [of "\<lambda>r. Metadata_Ref (md r)" ref rs] by (simp add: list_Sort_def eq_commute [of ref])

lemma List_ByNamespace [simp]:
  "byNamespace_List id md (list_ByNamespace md rs) = list_Sort md rs"
  by (rule byNamespace_List_ByNamespace) simp

lemma list_Sort_idem [simp]: "list_Sort md (list_Sort md rs) = list_Sort md rs"
  by (simp add: list_Sort_def sorted_sort_id sort_key_id_if_sorted)

lemma list_Sort_List [simp]: "list_Sort md (byNamespace_List rng md m) = byNamespace_List rng md m"
  by (simp add: byNamespace_List_def)

text \<open>A clone lists the same resources.\<close>

lemma List_Clone [simp]:
  "snap_List ops (byNamespace_Clone ops m) = snap_List ops m"
  by (simp add: byNamespace_Clone_def)

lemma Clone_Clone [simp]: "byNamespace_Clone ops (byNamespace_Clone ops m) = byNamespace_Clone ops m"
  by (simp add: byNamespace_Clone_def)

lemma byNamespace_Clone_cong:
  "snap_List ops m = snap_List ops m' \<Longrightarrow> byNamespace_Clone ops m = byNamespace_Clone ops m'"
  by (simp add: byNamespace_Clone_def)

lemma snapshotToHash_Clone [simp]: "snapshotToHash (snapshot_Clone s) = snapshotToHash s"
  by (simp add: snapshotToHash_def snapshot_Clone_def)

lemma snapshot_Clone_Clone [simp]: "snapshot_Clone (snapshot_Clone s) = snapshot_Clone s"
  by (simp add: snapshot_Clone_def)

section \<open>Running several syncers\<close>

lemma acollect_all_Ret:
  assumes "\<And>x s. x \<in> set xs \<Longrightarrow> P s \<Longrightarrow> \<exists>s'. f x s = (Ret (), s') \<and> P s'" and "P s"
  shows "\<exists>s'. acollect f xs s = (Ret [], s') \<and> P s'"
  using assms
proof (induction xs arbitrary: s)
  case (Cons x xs)
  obtain s1 where "f x s = (Ret (), s1)" "P s1" using Cons.prems by force
  moreover obtain s2 where "acollect f xs s1 = (Ret [], s2)" "P s2"
    using Cons.IH [OF Cons.prems(1) \<open>P s1\<close>] by auto
  ultimately show ?case by (auto simp: act_simps)
qed (auto simp: aret_def)

lemma keeps_Syncers:
  "(\<And>syncer. syncer \<in> set syncers \<Longrightarrow> keeps P (syncer snap)) \<Longrightarrow>
     keeps P (TranslatorSyncers_Sync syncers snap)"
  by (auto simp: TranslatorSyncers_Sync_def intro!: keeps_intros)

text \<open>The syncers run in order on each other's state, past errors; the error is the collection.\<close>

fun run_all :: "'s syncer list \<Rightarrow> translator_snapshot \<Rightarrow> 's \<Rightarrow> err list \<times> 's" where
  "run_all [] snap s = ([], s)"
| "run_all (f # fs) snap s =
     (case f snap s of (r, s1) \<Rightarrow>
        (case run_all fs snap s1 of (es, s2) \<Rightarrow>
           (case r of Fail e \<Rightarrow> (e # es, s2) | _ \<Rightarrow> (es, s2))))"

lemma acollect_run_all:
  assumes "\<And>f s p. f \<in> set fs \<Longrightarrow> fst (f snap s) \<noteq> Panic p"
  shows "acollect (\<lambda>syncer. syncer snap) fs s = (Ret (fst (run_all fs snap s)), snd (run_all fs snap s))"
  using assms
proof (induction fs arbitrary: s)
  case (Cons f fs)
  obtain r s1 where r: "f snap s = (r, s1)" by (cases "f snap s")
  have IH: "acollect (\<lambda>syncer. syncer snap) fs s1 =
      (Ret (fst (run_all fs snap s1)), snd (run_all fs snap s1))"
    using Cons by auto
  show ?case
    using r IH Cons.prems [of f s] by (cases r) (auto simp: abind_def atry_def aret_def split: prod.splits)
qed (simp add: aret_def)

end
