(* ===== verification/Snapshot_Emitter.thy ===== *)
theory Snapshot_Emitter
  imports Translator_Snapshot
begin

text \<open>
  The snapshot emitters and event loops that solo-kit generates. Every
  \<open>*_snapshot_emitter.sk.go\<close> has the same goroutine, over its own snapshot type; every
  \<open>*_event_loop.sk.go\<close> the same loop, over its own syncers. Both are modelled once, over the
  operations of the snapshot: \<open>clone\<close>, \<open>hash\<close> and \<open>upd\<close>, which takes up one delivered list.

  A run is a sequence of events, one per round of the emitter's \<open>select\<close>: the order in which
  channels become ready is not determined, so every sequence of events is possible. The
  channel of snapshots has no buffer and one receiver, the event loop, which takes up the
  snapshots in the order they are sent.
\<close>

section \<open>The emitter\<close>

datatype 'u emitter_event = Tick | ForceEmit | Done | Deliver 'u

record 's emitter =
  em_original :: 's
  em_current :: 's
  em_sent :: "'s list"
  em_closed :: bool

definition emitter_start :: "('s \<Rightarrow> 's) \<Rightarrow> 's \<Rightarrow> 's emitter" where
  "emitter_start clone zero =
     \<lparr>em_original = zero, em_current = clone zero, em_sent = [], em_closed = False\<rparr>"

definition emitter_sync :: "('s \<Rightarrow> 's) \<Rightarrow> ('s \<Rightarrow> 64 word) \<Rightarrow> 's emitter \<Rightarrow> 's emitter" where
  "emitter_sync clone hash e =
     (if hash (em_original e) = hash (em_current e) then e
      else e\<lparr>em_original := clone (em_current e), em_sent := em_sent e @ [clone (em_current e)]\<rparr>)"

text \<open>One round of the loop; after \<open>ctx.Done()\<close> the goroutine has returned.\<close>

definition emitter_step ::
  "('s \<Rightarrow> 's) \<Rightarrow> ('s \<Rightarrow> 64 word) \<Rightarrow> ('u \<Rightarrow> 's \<Rightarrow> 's) \<Rightarrow> 'u emitter_event \<Rightarrow> 's emitter \<Rightarrow> 's emitter" where
  "emitter_step clone hash upd ev e =
     (if em_closed e then e
      else
        (case ev of
           Tick \<Rightarrow> emitter_sync clone hash e
         | Done \<Rightarrow> e\<lparr>em_closed := True\<rparr>
         | ForceEmit \<Rightarrow> e\<lparr>em_sent := em_sent e @ [clone (em_current e)]\<rparr>
         | Deliver u \<Rightarrow> e\<lparr>em_current := upd u (em_current e)\<rparr>))"

text \<open>\<open>Clear(namespace)\<close> and then \<open>Add(list...)\<close>, on one kind of resource.\<close>

definition clear_and_add ::
  "('r \<Rightarrow> metadata) \<Rightarrow> string \<Rightarrow> 'r list \<Rightarrow> 'r by_namespace \<Rightarrow> 'r by_namespace" where
  "clear_and_add md namespace rs m = byNamespace_Add md rs (byNamespace_Clear namespace m)"

text \<open>
  Starting the watches: for each namespace one watch per kind, in order; the first error is
  returned. \<open>watches\<close> gives for each kind its name and its client's \<open>Watch\<close>.
\<close>

definition start_watches :: "(string \<times> (string \<Rightarrow> unit go)) list \<Rightarrow> string list \<Rightarrow> unit go" where
  "start_watches watches watchNamespaces =
     gbind (gmapM (\<lambda>namespace.
         gmapM (\<lambda>(kind, watch). gwrap (''starting '' @ kind @ '' watch'') (watch namespace)) watches)
       watchNamespaces) (\<lambda>_. Ret ())"

section \<open>The event loop\<close>

text \<open>Every received snapshot is synchronised; an error is reported and the loop goes on.\<close>

fun event_loop :: "('p \<Rightarrow> ('s, unit) act) \<Rightarrow> 'p list \<Rightarrow> ('s, err list) act" where
  "event_loop sync [] = aret []"
| "event_loop sync (snapshot # snapshots) =
     abind (atry (sync snapshot)) (\<lambda>r. abind (event_loop sync snapshots) (\<lambda>es.
       aret (case r of Inl e \<Rightarrow> e # es | Inr _ \<Rightarrow> es)))"

text \<open>
  \<open>Run\<close>: the emitter's error, if the watches do not start; otherwise what the loop makes of the
  snapshots sent.
\<close>

definition event_loop_Run ::
  "unit go \<Rightarrow> ('p \<Rightarrow> ('s, unit) act) \<Rightarrow> 'p list \<Rightarrow> ('s, err list) act" where
  "event_loop_Run started sync snapshots =
     abind (alift (gwrap ''starting snapshot watch'' started)) (\<lambda>_. event_loop sync snapshots)"

section \<open>Runs\<close>

text \<open>The states an emitter can reach, with the events that led there.\<close>

inductive emitter_run ::
  "('s \<Rightarrow> 's) \<Rightarrow> ('s \<Rightarrow> 64 word) \<Rightarrow> ('u \<Rightarrow> 's \<Rightarrow> 's) \<Rightarrow> 's \<Rightarrow> 'u emitter_event list \<Rightarrow> 's emitter \<Rightarrow> bool"
  for clone :: "'s \<Rightarrow> 's" and hash :: "'s \<Rightarrow> 64 word" and upd :: "'u \<Rightarrow> 's \<Rightarrow> 's" and zero :: 's where
  start: "emitter_run clone hash upd zero [] (emitter_start clone zero)"
| step: "emitter_run clone hash upd zero es e \<Longrightarrow>
     emitter_run clone hash upd zero (es @ [ev]) (emitter_step clone hash upd ev e)"

inductive_cases emitter_run_Nil: "emitter_run clone hash upd zero [] e"
inductive_cases emitter_run_snoc: "emitter_run clone hash upd zero (es @ [ev]) e"

lemma emitter_run_fold:
  "emitter_run clone hash upd zero es (fold (emitter_step clone hash upd) es (emitter_start clone zero))"
proof (induction es rule: rev_induct)
  case Nil
  then show ?case by (simp add: emitter_run.start)
next
  case (snoc ev es)
  then show ?case using emitter_run.step by fastforce
qed

lemma emitter_run_iff:
  "emitter_run clone hash upd zero es e \<longleftrightarrow>
     e = fold (emitter_step clone hash upd) es (emitter_start clone zero)"
proof
  assume "emitter_run clone hash upd zero es e"
  then show "e = fold (emitter_step clone hash upd) es (emitter_start clone zero)"
    by induction simp_all
qed (simp add: emitter_run_fold)

text \<open>The lists taken up, in order: those delivered before \<open>Done\<close>.\<close>

fun delivered :: "'u emitter_event list \<Rightarrow> 'u list" where
  "delivered [] = []"
| "delivered (ev # es) = (case ev of Done \<Rightarrow> [] | Deliver u \<Rightarrow> u # delivered es | _ \<Rightarrow> delivered es)"

lemma delivered_snoc:
  "delivered (es @ [ev]) =
     delivered es @ (if Done \<in> set es then [] else (case ev of Deliver u \<Rightarrow> [u] | _ \<Rightarrow> []))"
  by (induction es) (auto split: emitter_event.splits)

text \<open>What the generated operations of a snapshot promise.\<close>

locale snapshot_ops =
  fixes clone :: "'s \<Rightarrow> 's" and hash :: "'s \<Rightarrow> 64 word"
  assumes hash_clone [simp]: "hash (clone s) = hash s"
    and clone_clone [simp]: "clone (clone s) = clone s"
begin

lemma run_closed:
  "emitter_run clone hash upd zero es e \<Longrightarrow> em_closed e \<longleftrightarrow> Done \<in> set es"
proof (induction rule: emitter_run.induct)
  case (step es e ev)
  then show ?case
    by (cases ev) (auto simp: emitter_step_def emitter_sync_def)
qed (simp add: emitter_start_def)

text \<open>The current snapshot is what the deliveries make of the empty one.\<close>

lemma run_current:
  "emitter_run clone hash upd zero es e \<Longrightarrow> em_current e = fold upd (delivered es) (clone zero)"
proof (induction rule: emitter_run.induct)
  case (step es e ev)
  then show ?case
    using run_closed [OF step.hyps]
    by (cases ev) (auto simp: emitter_step_def emitter_sync_def delivered_snoc)
qed (simp add: emitter_start_def)

text \<open>Everything sent is a clone, and the last snapshot of a tick is the original.\<close>

lemma run_sent:
  "emitter_run clone hash upd zero es e \<Longrightarrow> p \<in> set (em_sent e) \<Longrightarrow> clone p = p"
proof (induction rule: emitter_run.induct)
  case (step es e ev)
  then show ?case
    by (cases ev) (auto simp: emitter_step_def emitter_sync_def split: if_splits)
qed (simp add: emitter_start_def)

lemma run_original:
  "emitter_run clone hash upd zero es e \<Longrightarrow> em_original e = zero \<or> em_original e \<in> set (em_sent e)"
proof (induction rule: emitter_run.induct)
  case (step es e ev)
  then show ?case
    by (cases ev) (auto simp: emitter_step_def emitter_sync_def)
qed (simp add: emitter_start_def)

text \<open>A tick: nothing is sent if the hash has not changed, else a clone of the current snapshot.\<close>

lemma tick_step:
  assumes "\<not> em_closed e"
  shows "emitter_step clone hash upd Tick e =
     (if hash (em_original e) = hash (em_current e) then e
      else e\<lparr>em_original := clone (em_current e), em_sent := em_sent e @ [clone (em_current e)]\<rparr>)"
  using assms by (simp add: emitter_step_def emitter_sync_def)

lemma tick_settles:
  assumes "\<not> em_closed e"
  shows "hash (em_original (emitter_step clone hash upd Tick e)) = hash (em_current e)"
    and "em_current (emitter_step clone hash upd Tick e) = em_current e"
    and "emitter_step clone hash upd Tick (emitter_step clone hash upd Tick e) =
      emitter_step clone hash upd Tick e"
  using assms by (auto simp: emitter_step_def emitter_sync_def)

text \<open>Without forced emissions, the last snapshot sent is the original.\<close>

lemma run_last_sent:
  "emitter_run clone hash upd zero es e \<Longrightarrow> ForceEmit \<notin> set es \<Longrightarrow>
     (if em_sent e = [] then em_original e = zero else em_original e = last (em_sent e))"
proof (induction rule: emitter_run.induct)
  case (step es e ev)
  then show ?case
    by (cases ev) (auto simp: emitter_step_def emitter_sync_def split: if_splits)
qed (simp add: emitter_start_def)

end

section \<open>What a snapshot holds\<close>

text \<open>
  The list last delivered for a namespace, among deliveries of one kind: pairs of the watched
  namespace and the list.
\<close>

fun last_delivered :: "string \<Rightarrow> (string \<times> 'r list) list \<Rightarrow> 'r list" where
  "last_delivered ns [] = []"
| "last_delivered ns ((k, rs) # us) =
     (if \<exists>rs'. (ns, rs') \<in> set us then last_delivered ns us else if k = ns then rs else [])"

lemma last_delivered_snoc:
  "last_delivered ns (us @ [(k, rs)]) = (if k = ns then rs else last_delivered ns us)"
  by (induction us) (auto split: if_splits)

lemma get_clear_and_add:
  "byNamespace_get (clear_and_add md k rs m) ns =
     (if ns = k then [] else byNamespace_get m ns) @ filter (\<lambda>r. meta_Namespace (md r) = ns) rs"
  by (simp add: clear_and_add_def byNamespace_get_Add byNamespace_get_Clear)

lemma clear_and_add_inv: "byNamespace_inv md m \<Longrightarrow> byNamespace_inv md (clear_and_add md k rs m)"
  by (simp add: clear_and_add_def byNamespace_inv_Add byNamespace_inv_Clear)

text \<open>
  If every list delivered for a namespace holds resources of that namespace only, the map holds
  for each namespace the list delivered last.
\<close>

definition own_namespace :: "('r \<Rightarrow> metadata) \<Rightarrow> (string \<times> 'r list) list \<Rightarrow> bool" where
  "own_namespace md us \<longleftrightarrow> (\<forall>(k, rs) \<in> set us. \<forall>r \<in> set rs. meta_Namespace (md r) = k)"

lemma fold_clear_and_add:
  assumes "own_namespace md us"
  shows "byNamespace_get (fold (\<lambda>(k, rs). clear_and_add md k rs) us []) ns = last_delivered ns us"
  using assms
proof (induction us rule: rev_induct)
  case (snoc u us)
  obtain k rs where u: "u = (k, rs)" by (cases u)
  have "filter (\<lambda>r. meta_Namespace (md r) = ns) rs = (if k = ns then rs else [])"
    using snoc.prems u by (auto simp: own_namespace_def intro!: filter_True filter_False)
  with snoc u show ?case
    by (auto simp: get_clear_and_add last_delivered_snoc own_namespace_def)
qed simp

text \<open>
  A watch on all namespaces delivers lists whose resources are in other namespaces than the
  key of the delivery: they pile up.
\<close>

lemma clear_and_add_foreign:
  assumes "\<forall>r \<in> set rs. meta_Namespace (md r) \<noteq> k" and "ns \<noteq> k"
  shows "byNamespace_get (clear_and_add md k rs (clear_and_add md k rs m)) ns =
     byNamespace_get m ns @ filter (\<lambda>r. meta_Namespace (md r) = ns) rs
       @ filter (\<lambda>r. meta_Namespace (md r) = ns) rs"
  using assms by (simp add: get_clear_and_add)

section \<open>The event loop runs every snapshot\<close>

text \<open>The state that synchronising the snapshots one after the other leaves.\<close>

fun sync_all :: "('p \<Rightarrow> ('s, unit) act) \<Rightarrow> 'p list \<Rightarrow> 's \<Rightarrow> 's" where
  "sync_all sync [] s = s"
| "sync_all sync (p # ps) s = sync_all sync ps (snd (sync p s))"

lemma event_loop_all:
  assumes "\<And>p s x. p \<in> set ps \<Longrightarrow> fst (sync p s) \<noteq> Panic x"
  shows "\<exists>es. event_loop sync ps s = (Ret es, sync_all sync ps s) \<and> length es \<le> length ps"
  using assms
proof (induction ps arbitrary: s)
  case (Cons p ps)
  obtain r s1 where r: "sync p s = (r, s1)" by (cases "sync p s")
  have "\<exists>es. event_loop sync ps s1 = (Ret es, sync_all sync ps s1) \<and> length es \<le> length ps"
    by (rule Cons.IH) (use Cons.prems in auto)
  then obtain es where es: "event_loop sync ps s1 = (Ret es, sync_all sync ps s1)" "length es \<le> length ps"
    by blast
  from Cons.prems [of p s] r have "\<not> (\<exists>x. r = Panic x)" by auto
  with r es show ?case
    by (cases r) (auto simp: abind_def atry_def aret_def)
qed (simp add: aret_def)

lemma sync_all_append: "sync_all sync (ps @ qs) s = sync_all sync qs (sync_all sync ps s)"
  by (induction ps arbitrary: s) simp_all

end
