(* ===== verification/Event_Loops.thy ===== *)
theory Event_Loops
  imports Snapshot_Emitter
begin

text \<open>
  The two emitters and event loops that SuperGloo runs: the translator's
  (\<open>translator_snapshot_emitter.sk.go\<close>, \<open>translator_event_loop.sk.go\<close>) and the installer's
  (\<open>install_snapshot_emitter.sk.go\<close>, \<open>install_snapshot.sk.go\<close>, \<open>install_event_loop.sk.go\<close>).
\<close>

section \<open>The translator\<close>

text \<open>One constructor per channel of the emitter; a delivery carries its watched namespace.\<close>

datatype translator_update =
    MeshList string "mesh list"
  | RoutingRuleList string "routing_rule list"
  | UpstreamList string "upstream list"
  | IstioCacertsSecretList string "istio_cacerts_secret list"

fun translator_apply :: "translator_update \<Rightarrow> translator_snapshot \<Rightarrow> translator_snapshot" where
  "translator_apply (MeshList ns rs) s =
     s\<lparr>snap_Meshes := clear_and_add mesh_Metadata ns rs (snap_Meshes s)\<rparr>"
| "translator_apply (RoutingRuleList ns rs) s =
     s\<lparr>snap_Routingrules := clear_and_add rr_Metadata ns rs (snap_Routingrules s)\<rparr>"
| "translator_apply (UpstreamList ns rs) s =
     s\<lparr>snap_Upstreams := clear_and_add upstream_Metadata ns rs (snap_Upstreams s)\<rparr>"
| "translator_apply (IstioCacertsSecretList ns rs) s =
     s\<lparr>snap_Istiocerts := clear_and_add cacerts_Metadata ns rs (snap_Istiocerts s)\<rparr>"

text \<open>\<open>TranslatorSnapshot{}\<close>: all maps are nil.\<close>

definition zero_translator_snapshot :: translator_snapshot where
  "zero_translator_snapshot =
     \<lparr>snap_Meshes = [], snap_Routingrules = [], snap_Upstreams = [], snap_Istiocerts = []\<rparr>"

definition translator_step ::
  "(translator_snapshot \<Rightarrow> 64 word) \<Rightarrow> translator_update emitter_event \<Rightarrow>
   translator_snapshot emitter \<Rightarrow> translator_snapshot emitter" where
  "translator_step hash = emitter_step snapshot_Clone (snapshot_Hash hash) translator_apply"

definition translator_emitter :: "(translator_snapshot \<Rightarrow> 64 word) \<Rightarrow> translator_update emitter_event list \<Rightarrow>
   translator_snapshot emitter" where
  "translator_emitter hash es =
     fold (translator_step hash) es (emitter_start snapshot_Clone zero_translator_snapshot)"

text \<open>What the four clients do with \<open>Register\<close> and \<open>Watch\<close>.\<close>

record watch_client =
  wc_Register :: "unit go"
  wc_Watch :: "string \<Rightarrow> unit go"

record translator_clients =
  tc_mesh :: watch_client
  tc_routingRule :: watch_client
  tc_upstream :: watch_client
  tc_istioCacertsSecret :: watch_client

definition translatorEmitter_Register :: "translator_clients \<Rightarrow> unit go" where
  "translatorEmitter_Register c =
     gbind (wc_Register (tc_mesh c)) (\<lambda>_. gbind (wc_Register (tc_routingRule c)) (\<lambda>_.
     gbind (wc_Register (tc_upstream c)) (\<lambda>_. gbind (wc_Register (tc_istioCacertsSecret c)) (\<lambda>_. Ret ()))))"

definition translatorEmitter_Snapshots :: "translator_clients \<Rightarrow> string list \<Rightarrow> unit go" where
  "translatorEmitter_Snapshots c watchNamespaces =
     start_watches [(''Mesh'', wc_Watch (tc_mesh c)), (''RoutingRule'', wc_Watch (tc_routingRule c)),
       (''Upstream'', wc_Watch (tc_upstream c)), (''IstioCacertsSecret'', wc_Watch (tc_istioCacertsSecret c))]
       watchNamespaces"

definition translatorEventLoop_Run ::
  "translator_clients \<Rightarrow> (translator_snapshot \<Rightarrow> 64 word) \<Rightarrow> 's syncer \<Rightarrow> string list \<Rightarrow>
   translator_update emitter_event list \<Rightarrow> ('s, err list) act" where
  "translatorEventLoop_Run c hash syncer namespaces es =
     event_loop_Run (translatorEmitter_Snapshots c namespaces) syncer (em_sent (translator_emitter hash es))"

section \<open>The installer\<close>

definition install_ops :: "install resource_ops" where
  "install_ops = \<lparr>GetMetadata = install_Metadata,
     SetMetadata = (\<lambda>m r. r\<lparr>install_Metadata := m\<rparr>),
     ClearStatus = (\<lambda>r. r\<lparr>install_Status := zero_status\<rparr>)\<rparr>"

interpretation install: resource_type install_ops
  by unfold_locales (simp_all add: install_ops_def)

record install_snapshot =
  isnap_Installs :: "install by_namespace"
  isnap_Istiocerts :: "istio_cacerts_secret by_namespace"

definition install_snapshot_Clone :: "install_snapshot \<Rightarrow> install_snapshot" where
  "install_snapshot_Clone s =
     \<lparr>isnap_Installs = byNamespace_Clone install_ops (isnap_Installs s),
      isnap_Istiocerts = byNamespace_Clone istio_cacerts_secret_ops (isnap_Istiocerts s)\<rparr>"

definition install_snapshotToHash :: "install_snapshot \<Rightarrow> install_snapshot" where
  "install_snapshotToHash s =
     (let c = install_snapshot_Clone s
      in \<lparr>isnap_Installs = clear_all install_ops (isnap_Installs c),
          isnap_Istiocerts = clear_all istio_cacerts_secret_ops (isnap_Istiocerts c)\<rparr>)"

definition install_snapshot_Hash :: "(install_snapshot \<Rightarrow> 64 word) \<Rightarrow> install_snapshot \<Rightarrow> 64 word" where
  "install_snapshot_Hash hash s = hash (install_snapshotToHash s)"

datatype install_update =
    InstallList string "install list"
  | InstallSecretList string "istio_cacerts_secret list"

fun install_apply :: "install_update \<Rightarrow> install_snapshot \<Rightarrow> install_snapshot" where
  "install_apply (InstallList ns rs) s =
     s\<lparr>isnap_Installs := clear_and_add install_Metadata ns rs (isnap_Installs s)\<rparr>"
| "install_apply (InstallSecretList ns rs) s =
     s\<lparr>isnap_Istiocerts := clear_and_add cacerts_Metadata ns rs (isnap_Istiocerts s)\<rparr>"

definition zero_install_snapshot :: install_snapshot where
  "zero_install_snapshot = \<lparr>isnap_Installs = [], isnap_Istiocerts = []\<rparr>"

definition install_emitter :: "(install_snapshot \<Rightarrow> 64 word) \<Rightarrow> install_update emitter_event list \<Rightarrow>
   install_snapshot emitter" where
  "install_emitter hash es =
     fold (emitter_step install_snapshot_Clone (install_snapshot_Hash hash) install_apply) es
       (emitter_start install_snapshot_Clone zero_install_snapshot)"

definition installEmitter_Register :: "watch_client \<Rightarrow> watch_client \<Rightarrow> unit go" where
  "installEmitter_Register installs secrets =
     gbind (wc_Register installs) (\<lambda>_. gbind (wc_Register secrets) (\<lambda>_. Ret ()))"

definition installEmitter_Snapshots :: "watch_client \<Rightarrow> watch_client \<Rightarrow> string list \<Rightarrow> unit go" where
  "installEmitter_Snapshots installs secrets watchNamespaces =
     start_watches [(''Install'', wc_Watch installs), (''IstioCacertsSecret'', wc_Watch secrets)] watchNamespaces"

definition InstallSyncers_Sync :: "(install_snapshot \<Rightarrow> ('s, unit) act) list \<Rightarrow> install_snapshot \<Rightarrow> ('s, unit) act" where
  "InstallSyncers_Sync syncers snapshot =
     abind (acollect (\<lambda>syncer. syncer snapshot) syncers) (\<lambda>es. alift (ErrorOrNil es))"

definition installEventLoop_Run ::
  "watch_client \<Rightarrow> watch_client \<Rightarrow> (install_snapshot \<Rightarrow> 64 word) \<Rightarrow> (install_snapshot \<Rightarrow> ('s, unit) act) \<Rightarrow>
   string list \<Rightarrow> install_update emitter_event list \<Rightarrow> ('s, err list) act" where
  "installEventLoop_Run installs secrets hash syncer namespaces es =
     event_loop_Run (installEmitter_Snapshots installs secrets namespaces) syncer
       (em_sent (install_emitter hash es))"

section \<open>The snapshot operations keep their promises\<close>

lemma install_Clone_Clone [simp]: "install_snapshot_Clone (install_snapshot_Clone s) = install_snapshot_Clone s"
  by (simp add: install_snapshot_Clone_def)

lemma install_toHash_Clone [simp]: "install_snapshotToHash (install_snapshot_Clone s) = install_snapshotToHash s"
  by (simp add: install_snapshotToHash_def)

interpretation translator_ops: snapshot_ops snapshot_Clone "snapshot_Hash hash" for hash
  by unfold_locales (simp_all add: snapshot_Hash_def)

interpretation install_snap_ops: snapshot_ops install_snapshot_Clone "install_snapshot_Hash hash" for hash
  by unfold_locales (simp_all add: install_snapshot_Hash_def)

end
