(* ===== verification/Go_Duration.thy ===== *)
theory Go_Duration
  imports Go_Strings
begin

text \<open>
  \<open>time.Duration\<close> of Go's standard library: a signed 64-bit count of nanoseconds, how it prints and
  how it is parsed. Fractions are computed exactly here; Go's floating-point arithmetic
  agrees for fractions of up to nine digits, which is all that printing produces.
\<close>

section \<open>Printing\<close>

definition fmtFrac :: "nat \<Rightarrow> nat \<Rightarrow> string" where
  "fmtFrac v prec =
     (let f = v mod 10 ^ prec; digits = nat_digits f;
          padded = replicate (prec - length digits) CHR ''0'' @ digits
      in if f = 0 then [] else CHR ''.'' # rev (dropWhile (\<lambda>c. c = CHR ''0'') (rev padded)))"

definition micro_sign :: string where
  "micro_sign = [char_of (194 :: nat), char_of (181 :: nat)]"

definition duration_String :: "int \<Rightarrow> string" where
  "duration_String d =
     (let u = nat (abs d);
          body =
            (if u < 10 ^ 9 then
               (if u = 0 then ''0s''
                else if u < 10 ^ 3 then nat_digits u @ ''ns''
                else if u < 10 ^ 6 then nat_digits (u div 10 ^ 3) @ fmtFrac u 3 @ micro_sign @ ''s''
                else nat_digits (u div 10 ^ 6) @ fmtFrac u 6 @ ''ms'')
             else
               (let secs = u div 10 ^ 9; s = nat_digits (secs mod 60) @ fmtFrac u 9 @ ''s''; mins = secs div 60 in
                if mins = 0 then s
                else
                  (let s = nat_digits (mins mod 60) @ ''m'' @ s; hours = mins div 60 in
                   if hours = 0 then s else nat_digits hours @ ''h'' @ s)))
      in if d < 0 then CHR ''-'' # body else body)"

section \<open>Parsing\<close>

definition is_dec :: "char \<Rightarrow> bool" where
  "is_dec c \<longleftrightarrow> 48 \<le> (of_char c :: nat) \<and> (of_char c :: nat) \<le> 57"

definition dec_value :: "char \<Rightarrow> nat" where
  "dec_value c = of_char c - 48"

definition max_int64 :: nat where
  "max_int64 = 2 ^ 63 - 1"

text \<open>\<open>leadingInt\<close> and \<open>leadingFraction\<close>, from the value read so far.\<close>

fun leadingInt :: "nat \<Rightarrow> string \<Rightarrow> (nat \<times> string) option" where
  "leadingInt x [] = Some (x, [])"
| "leadingInt x (c # s) =
     (if \<not> is_dec c then Some (x, c # s)
      else if max_int64 div 10 < x \<or> max_int64 < x * 10 + dec_value c then None
      else leadingInt (x * 10 + dec_value c) s)"

fun leadingFraction :: "nat \<Rightarrow> nat \<Rightarrow> bool \<Rightarrow> string \<Rightarrow> nat \<times> nat \<times> string" where
  "leadingFraction x scale overflow [] = (x, scale, [])"
| "leadingFraction x scale overflow (c # s) =
     (if \<not> is_dec c then (x, scale, c # s)
      else if overflow \<or> max_int64 div 10 < x \<or> max_int64 < x * 10 + dec_value c
        then leadingFraction x scale True s
      else leadingFraction (x * 10 + dec_value c) (scale * 10) False s)"

definition unitMap :: "string \<Rightarrow> nat option" where
  "unitMap u =
     (if u = ''ns'' then Some 1
      else if u = micro_sign @ ''s'' \<or> u = ''us'' \<or> u = [char_of (206 :: nat), char_of (188 :: nat)] @ ''s''
        then Some (10 ^ 3)
      else if u = ''ms'' then Some (10 ^ 6)
      else if u = ''s'' then Some (10 ^ 9)
      else if u = ''m'' then Some (60 * 10 ^ 9)
      else if u = ''h'' then Some (3600 * 10 ^ 9)
      else None)"

text \<open>
  One number and its unit: the nanoseconds and the rest. Every round reads at least one
  character of a unit, so that the length of the text bounds the rounds.
\<close>

definition parse_unit :: "string \<Rightarrow> (nat \<times> string) option" where
  "parse_unit s =
     (if s = [] \<or> \<not> (hd s = CHR ''.'' \<or> is_dec (hd s)) then None
      else
        (case leadingInt 0 s of
           None \<Rightarrow> None
         | Some (v, s1) \<Rightarrow>
             (let pre = (length s1 \<noteq> length s);
                  dot = (s1 \<noteq> [] \<and> hd s1 = CHR ''.'');
                  (f, scale, s2) = (if dot then leadingFraction 0 1 False (tl s1) else (0, 1, s1));
                  post = (dot \<and> length s2 \<noteq> length (tl s1));
                  u = takeWhile (\<lambda>c. c \<noteq> CHR ''.'' \<and> \<not> is_dec c) s2;
                  s3 = drop (length u) s2
              in if \<not> pre \<and> \<not> post \<or> u = [] then None
                 else
                   (case unitMap u of
                      None \<Rightarrow> None
                    | Some unit \<Rightarrow>
                        (if max_int64 div unit < v \<or> max_int64 < v * unit + f * unit div scale then None
                         else Some (v * unit + f * unit div scale, s3))))))"

fun parse_units :: "nat \<Rightarrow> nat \<Rightarrow> string \<Rightarrow> nat option" where
  "parse_units n d [] = Some d"
| "parse_units 0 d (c # s) = None"
| "parse_units (Suc n) d (c # s) =
     (case parse_unit (c # s) of
        None \<Rightarrow> None
      | Some (v, rest) \<Rightarrow> if max_int64 < d + v then None else parse_units n (d + v) rest)"

definition ParseDuration :: "string \<Rightarrow> int go" where
  "ParseDuration s =
     (let sign = (s \<noteq> [] \<and> hd s \<in> {CHR ''-'', CHR ''+''}); neg = (s \<noteq> [] \<and> hd s = CHR ''-'');
          s = (if sign then tl s else s)
      in if s = ''0'' then Ret 0
         else if s = [] then Fail (Errorf ''time: invalid duration '')
         else
           (case parse_units (length s) 0 s of
              None \<Rightarrow> Fail (Errorf ''time: invalid duration '')
            | Some d \<Rightarrow> Ret (if neg then - int d else int d)))"

section \<open>Whole seconds\<close>

lemma digit_char: "n < 10 \<Longrightarrow> is_dec (char_of (48 + n)) \<and> dec_value (char_of (48 + n)) = n"
  by (simp add: is_dec_def dec_value_def)

lemma nat_digits_not_Nil [simp]: "nat_digits n \<noteq> []"
  by (subst nat_digits.simps) simp

lemma is_dec_nat_digits: "c \<in> set (nat_digits n) \<Longrightarrow> is_dec c"
proof (induction n rule: nat_digits.induct)
  case (1 n)
  have "is_dec (char_of (48 + n mod 10))" using digit_char [of "n mod 10"] by simp
  moreover have "n < 10 \<Longrightarrow> is_dec (char_of (48 + n))" using digit_char by blast
  ultimately show ?case
    using 1 by (subst (asm) (2) nat_digits.simps) (auto split: if_splits)
qed

lemma hd_nat_digits: "is_dec (hd (nat_digits n @ s))"
  using is_dec_nat_digits [of "hd (nat_digits n)" n] by simp

lemma hd_nat_digits' [simp]: "is_dec (hd (nat_digits n))"
  using is_dec_nat_digits [of "hd (nat_digits n)" n] by simp

lemma leadingInt_digits: "n \<le> max_int64 \<Longrightarrow> leadingInt 0 (nat_digits n @ r) = leadingInt n r"
proof (induction n arbitrary: r rule: nat_digits.induct)
  case (1 n)
  show ?case
  proof (cases "n < 10")
    case True
    then show ?thesis
      using digit_char [of n] 1(2) by (subst nat_digits.simps) simp
  next
    case False
    let ?c = "char_of (48 + n mod 10)"
    have c: "is_dec ?c" "dec_value ?c = n mod 10" using digit_char [of "n mod 10"] by simp_all
    have "leadingInt 0 (nat_digits n @ r) = leadingInt 0 (nat_digits (n div 10) @ (?c # r))"
      using False by (subst nat_digits.simps) simp
    also have "\<dots> = leadingInt (n div 10) (?c # r)"
      using 1 False by simp
    also have "\<dots> = leadingInt n r"
      using c div_le_mono [OF 1(2), of 10] 1(2) by (simp add: not_less)
    finally show ?thesis .
  qed
qed

text \<open>The text of a number and a unit, followed by nothing or by a digit.\<close>

lemma parse_unit_digits:
  assumes "unitMap u = Some w" and "0 < w" and "n * w \<le> max_int64"
    and "u \<noteq> []" "\<forall>c \<in> set u. c \<noteq> CHR ''.'' \<and> \<not> is_dec c"
    and "rest = [] \<or> is_dec (hd rest)"
  shows "parse_unit (nat_digits n @ u @ rest) = Some (n * w, rest)"
proof -
  have "n \<le> max_int64" using assms(2,3) by (metis dual_order.trans le_add1 mult_le_mono2 nat_mult_1_right Suc_leI One_nat_def)
  then have "leadingInt 0 (nat_digits n @ u @ rest) = leadingInt n (u @ rest)" by (rule leadingInt_digits)
  also have "\<dots> = Some (n, u @ rest)" using assms(4,5) by (cases u) auto
  finally have li: "leadingInt 0 (nat_digits n @ u @ rest) = Some (n, u @ rest)" .
  have hd_u: "hd (u @ rest) \<noteq> CHR ''.''" using assms(4,5) by (cases u) auto
  have tw: "takeWhile (\<lambda>c. c \<noteq> CHR ''.'' \<and> \<not> is_dec c) (u @ rest) = u"
    using assms(5,6) by (cases rest) (auto simp: takeWhile_append1 takeWhile_append2)
  have "n \<le> max_int64 div w" using assms(2,3) by (simp add: less_eq_div_iff_mult_less_eq)
  then show ?thesis
    unfolding parse_unit_def li
    using hd_nat_digits [of n "u @ rest"] assms(1,3,4) hd_u tw
    by (simp add: Let_def not_less)
qed

lemma parse_units_step:
  assumes "parse_unit s = Some (v, rest)" and "d + v \<le> max_int64"
  shows "parse_units (Suc n) d s = parse_units n (d + v) rest"
  using assms by (cases s) (auto simp: parse_unit_def)

lemma unit_chars:
  "unitMap ''s'' = Some (10 ^ 9)" "unitMap ''m'' = Some (60 * 10 ^ 9)" "unitMap ''h'' = Some (3600 * 10 ^ 9)"
  "\<not> is_dec (CHR ''s'')" "\<not> is_dec (CHR ''m'')" "\<not> is_dec (CHR ''h'')"
  by (simp_all add: unitMap_def micro_sign_def is_dec_def)

lemma fmtFrac_whole [simp]: "fmtFrac (s * 1000000000) 9 = []"
  by (simp add: fmtFrac_def)

text \<open>
  A duration of whole seconds prints as hours, minutes and seconds and is read back, in every
  case of the printer.
\<close>

lemma parse_seconds:
  assumes "d + s * 10 ^ 9 \<le> max_int64"
  shows "parse_units (Suc n) d (nat_digits s @ ''s'') = Some (d + s * 10 ^ 9)"
proof -
  have "parse_unit (nat_digits s @ ''s'' @ []) = Some (s * 10 ^ 9, [])"
    by (rule parse_unit_digits [OF unit_chars(1)]) (use assms in \<open>simp_all add: unit_chars\<close>)
  from parse_units_step [OF this, of d n] assms show ?thesis by simp
qed

lemma parse_minutes:
  assumes "d + (m * 60 + s) * 10 ^ 9 \<le> max_int64"
  shows "parse_units (Suc (Suc n)) d (nat_digits m @ ''m'' @ nat_digits s @ ''s'') = Some (d + (m * 60 + s) * 10 ^ 9)"
proof -
  have "parse_unit (nat_digits m @ ''m'' @ (nat_digits s @ ''s'')) = Some (m * (60 * 10 ^ 9), nat_digits s @ ''s'')"
    by (rule parse_unit_digits [OF unit_chars(2)]) (use assms in \<open>simp_all add: unit_chars hd_nat_digits\<close>)
  from parse_units_step [OF this, of d "Suc n"] parse_seconds [of "d + m * (60 * 10 ^ 9)" s n] assms
  show ?thesis by (simp add: algebra_simps)
qed

lemma parse_hours:
  assumes "d + ((h * 60 + m) * 60 + s) * 10 ^ 9 \<le> max_int64"
  shows "parse_units (Suc (Suc (Suc n))) d (nat_digits h @ ''h'' @ nat_digits m @ ''m'' @ nat_digits s @ ''s'') =
    Some (d + ((h * 60 + m) * 60 + s) * 10 ^ 9)"
proof -
  have "parse_unit (nat_digits h @ ''h'' @ (nat_digits m @ ''m'' @ nat_digits s @ ''s'')) =
      Some (h * (3600 * 10 ^ 9), nat_digits m @ ''m'' @ nat_digits s @ ''s'')"
    by (rule parse_unit_digits [OF unit_chars(3)]) (use assms in \<open>simp_all add: unit_chars hd_nat_digits\<close>)
  from parse_units_step [OF this, of d "Suc (Suc n)"] parse_minutes [of "d + h * (3600 * 10 ^ 9)" m s n] assms
  show ?thesis by (simp add: algebra_simps)
qed

definition whole_seconds :: "int \<Rightarrow> bool" where
  "whole_seconds d \<longleftrightarrow> 0 \<le> d \<and> d \<le> int max_int64 \<and> d mod 10 ^ 9 = 0"

lemma length_nat_digits: "\<exists>n. length (nat_digits k) = Suc n"
  by (metis nat_digits_not_Nil length_0_conv not0_implies_Suc)

lemma no_sign:
  "is_dec (hd s) \<Longrightarrow> hd s \<noteq> CHR ''-'' \<and> hd s \<noteq> CHR ''+''"
  by (auto simp: is_dec_def)

lemma ParseDuration_eq:
  assumes "s = nat_digits a @ b" and "s \<noteq> ''0''" and "parse_units (length s) 0 s = Some d"
  shows "ParseDuration s = Ret (int d)"
  using assms hd_nat_digits [of a b] no_sign [of s] by (simp add: ParseDuration_def)

lemma duration_String_seconds:
  assumes "t \<noteq> 0"
  shows "duration_String (int (t * 10 ^ 9)) =
        (if t div 60 = 0 then nat_digits (t mod 60) @ ''s''
         else if t div 60 div 60 = 0 then nat_digits (t div 60 mod 60) @ ''m'' @ nat_digits (t mod 60) @ ''s''
         else nat_digits (t div 60 div 60) @ ''h'' @ nat_digits (t div 60 mod 60) @ ''m'' @ nat_digits (t mod 60) @ ''s'')"
proof -
  have u: "nat (abs (int (t * 10 ^ 9))) = t * 10 ^ 9" by (simp only: abs_of_nat nat_int)
  have ge: "\<not> t * 10 ^ 9 < 10 ^ 9" using assms by simp
  have neg: "\<not> int (t * 10 ^ 9) < 0" by simp
  have secs: "t * 10 ^ 9 div 10 ^ 9 = t" by simp
  have frac: "fmtFrac (t * 10 ^ 9) 9 = []" by (simp add: fmtFrac_def)
  show ?thesis
    unfolding duration_String_def Let_def u secs frac
    using ge neg by (simp only: if_False append_Nil append_assoc)
qed

lemma ParseDuration_String:
  assumes "whole_seconds d"
  shows "ParseDuration (duration_String d) = Ret d"
proof -
  obtain t where d: "d = int (t * 10 ^ 9)"
  proof -
    have "10 ^ 9 dvd d" using assms by (simp add: whole_seconds_def mod_eq_0_iff_dvd)
    then obtain q where q: "d = 10 ^ 9 * q" by (rule dvdE)
    with assms have "0 \<le> q" by (simp add: whole_seconds_def)
    with q have "d = int (nat q * 10 ^ 9)" by simp
    then show ?thesis by (rule that)
  qed
  have max: "t * 10 ^ 9 \<le> max_int64" using assms d by (simp add: whole_seconds_def)
  define h m s where "h = t div 60 div 60" and "m = t div 60 mod 60" and "s = t mod 60"
  have t: "t = (h * 60 + m) * 60 + s" "t div 60 = h * 60 + m"
    unfolding h_def m_def s_def by (simp_all only: div_mult_mod_eq)
  show ?thesis
  proof (cases "t = 0")
    case True
    have "nat_digits 0 = ''0''" by code_simp
    then have str: "duration_String 0 = nat_digits 0 @ ''s''" by (simp add: duration_String_def)
    have "parse_units (length (nat_digits 0 @ ''s'')) 0 (nat_digits 0 @ ''s'') = Some (0 + 0 * 10 ^ 9)"
      using parse_seconds [of 0 0 1] \<open>nat_digits 0 = ''0''\<close> by simp
    from ParseDuration_eq [OF refl _ this] show ?thesis by (simp add: d True str)
  next
    case pos: False
    have str: "duration_String d =
        (if t div 60 = 0 then nat_digits s @ ''s''
         else if h = 0 then nat_digits m @ ''m'' @ nat_digits s @ ''s''
         else nat_digits h @ ''h'' @ nat_digits m @ ''m'' @ nat_digits s @ ''s'')"
      unfolding d h_def m_def s_def using pos by (rule duration_String_seconds)
    show ?thesis
    proof (cases "t div 60 = 0")
      case True
      obtain n where "length (nat_digits s) = Suc n" using length_nat_digits by blast
      with parse_seconds [of 0 s "Suc n"] max True t
      have "parse_units (length (nat_digits s @ ''s'')) 0 (nat_digits s @ ''s'') = Some (t * 10 ^ 9)" by simp
      from ParseDuration_eq [OF refl _ this] str True show ?thesis by (simp add: d)
    next
      case minutes: False
      show ?thesis
      proof (cases "h = 0")
        case True
        let ?s = "nat_digits m @ ''m'' @ nat_digits s @ ''s''"
        obtain n n' where "length (nat_digits m) = Suc n" "length (nat_digits s) = Suc n'" using length_nat_digits by metis
        then have "length ?s = Suc (Suc (Suc (Suc (n + n'))))" by simp
        with parse_minutes [of 0 m s "Suc (Suc (n + n'))"] max True t
        have "parse_units (length ?s) 0 ?s = Some (t * 10 ^ 9)" by simp
        from ParseDuration_eq [OF refl _ this] str True minutes show ?thesis by (simp add: d)
      next
        case False
        let ?s = "nat_digits h @ ''h'' @ nat_digits m @ ''m'' @ nat_digits s @ ''s''"
        obtain n n' n'' where "length (nat_digits h) = Suc n" "length (nat_digits m) = Suc n'" "length (nat_digits s) = Suc n''"
          using length_nat_digits by metis
        then have "length ?s = Suc (Suc (Suc (Suc (Suc (Suc (n + n' + n''))))))" by simp
        with parse_hours [of 0 h m s "Suc (Suc (Suc (n + n' + n'')))"] max t
        have "parse_units (length ?s) 0 ?s = Some (t * 10 ^ 9)" by simp
        from ParseDuration_eq [OF refl _ this] str False minutes show ?thesis by (simp add: d)
      qed
    qed
  qed
qed

end
