(* ===== verification/Go_MD5.thy ===== *)
theory Go_MD5
  imports Go_Strings
begin

text \<open>
  \<open>crypto/md5.Sum\<close> (RFC 1321) and the verb \<open>%x\<close> on bytes. \<open>nameutils.SanitizeName\<close> of solo-kit
  appends half a digest to the names that are too long for Kubernetes.
\<close>

unbundle bit_operations_syntax

definition md5_K :: "32 word list" where
  "md5_K =
    [0xd76aa478, 0xe8c7b756, 0x242070db, 0xc1bdceee, 0xf57c0faf, 0x4787c62a,
     0xa8304613, 0xfd469501, 0x698098d8, 0x8b44f7af, 0xffff5bb1, 0x895cd7be,
     0x6b901122, 0xfd987193, 0xa679438e, 0x49b40821, 0xf61e2562, 0xc040b340,
     0x265e5a51, 0xe9b6c7aa, 0xd62f105d, 0x02441453, 0xd8a1e681, 0xe7d3fbc8,
     0x21e1cde6, 0xc33707d6, 0xf4d50d87, 0x455a14ed, 0xa9e3e905, 0xfcefa3f8,
     0x676f02d9, 0x8d2a4c8a, 0xfffa3942, 0x8771f681, 0x6d9d6122, 0xfde5380c,
     0xa4beea44, 0x4bdecfa9, 0xf6bb4b60, 0xbebfbc70, 0x289b7ec6, 0xeaa127fa,
     0xd4ef3085, 0x04881d05, 0xd9d4d039, 0xe6db99e5, 0x1fa27cf8, 0xc4ac5665,
     0xf4292244, 0x432aff97, 0xab9423a7, 0xfc93a039, 0x655b59c3, 0x8f0ccc92,
     0xffeff47d, 0x85845dd1, 0x6fa87e4f, 0xfe2ce6e0, 0xa3014314, 0x4e0811a1,
     0xf7537e82, 0xbd3af235, 0x2ad7d2bb, 0xeb86d391]"

definition md5_shift :: "nat list" where
  "md5_shift =
     concat (replicate 4 [7, 12, 17, 22]) @ concat (replicate 4 [5, 9, 14, 20]) @
     concat (replicate 4 [4, 11, 16, 23]) @ concat (replicate 4 [6, 10, 15, 21])"

type_synonym md5_state = "32 word \<times> 32 word \<times> 32 word \<times> 32 word"

text \<open>Little-endian bytes of a number.\<close>

fun le_bytes :: "nat \<Rightarrow> nat \<Rightarrow> string" where
  "le_bytes 0 n = []"
| "le_bytes (Suc k) n = char_of (n mod 256) # le_bytes k (n div 256)"

fun le_value :: "string \<Rightarrow> nat" where
  "le_value [] = 0"
| "le_value (c # s) = of_char c + 256 * le_value s"

definition md5_pad :: "string \<Rightarrow> string" where
  "md5_pad s =
     s @ [char_of (128 :: nat)] @ replicate ((119 - length s mod 64) mod 64) (char_of (0 :: nat)) @
     le_bytes 8 (8 * length s)"

definition md5_mix :: "nat \<Rightarrow> md5_state \<Rightarrow> 32 word \<times> nat" where
  "md5_mix i = (\<lambda>(a, b, c, d).
     if i < 16 then ((b AND c) OR (NOT b AND d), i)
     else if i < 32 then ((d AND b) OR (NOT d AND c), (5 * i + 1) mod 16)
     else if i < 48 then (b XOR c XOR d, (3 * i + 5) mod 16)
     else (c XOR (b OR NOT d), 7 * i mod 16))"

definition md5_round :: "32 word list \<Rightarrow> nat \<Rightarrow> md5_state \<Rightarrow> md5_state" where
  "md5_round m i st =
     (case st of (a, b, c, d) \<Rightarrow>
        (case md5_mix i st of (f, g) \<Rightarrow>
           (d, b + word_rotl (md5_shift ! i) (f + a + md5_K ! i + m ! g), b, c)))"

definition md5_block :: "string \<Rightarrow> md5_state \<Rightarrow> md5_state" where
  "md5_block blk st =
     (let m = map (\<lambda>j. word_of_nat (le_value (take 4 (drop (4 * j) blk)))) [0..<16]
      in case foldl (\<lambda>st i. md5_round m i st) st [0..<64] of (a, b, c, d) \<Rightarrow>
         case st of (a0, b0, c0, d0) \<Rightarrow> (a0 + a, b0 + b, c0 + c, d0 + d))"

definition md5_Sum :: "string \<Rightarrow> string" where
  "md5_Sum s =
     (let p = md5_pad s
      in case foldl (\<lambda>st j. md5_block (take 64 (drop (64 * j) p)) st)
                (0x67452301, 0xefcdab89, 0x98badcfe, 0x10325476) [0..<length p div 64] of
         (a, b, c, d) \<Rightarrow> concat (map (\<lambda>w. le_bytes 4 (unat w)) [a, b, c, d]))"

definition hex_digit :: "nat \<Rightarrow> char" where
  "hex_digit n = ''0123456789abcdef'' ! n"

definition fmt_x :: "string \<Rightarrow> string" where
  "fmt_x s = concat (map (\<lambda>c. [hex_digit (of_char c div 16), hex_digit (of_char c mod 16)]) s)"

lemma length_le_bytes [simp]: "length (le_bytes k n) = k"
  by (induction k arbitrary: n) auto

lemma length_md5_Sum [simp]: "length (md5_Sum s) = 16"
  by (simp add: md5_Sum_def Let_def split: prod.splits)

lemma length_fmt_x [simp]: "length (fmt_x s) = 2 * length s"
  by (induction s) (auto simp: fmt_x_def)

lemma hex_digit_in: "n < 16 \<Longrightarrow> hex_digit n \<in> set ''0123456789abcdef''"
  unfolding hex_digit_def by (rule nth_mem) simp

lemma set_fmt_x: "set (fmt_x s) \<subseteq> set ''0123456789abcdef''"
proof -
  have "hex_digit (of_char c div 16) \<in> set ''0123456789abcdef''"
    "hex_digit (of_char c mod 16) \<in> set ''0123456789abcdef''" for c
  proof -
    have "of_char c < (256 :: nat)" by simp
    then show "hex_digit (of_char c div 16) \<in> set ''0123456789abcdef''"
      by (intro hex_digit_in) linarith
    show "hex_digit (of_char c mod 16) \<in> set ''0123456789abcdef''"
      by (intro hex_digit_in) simp
  qed
  then show ?thesis by (simp add: fmt_x_def UN_subset_iff)
qed

end
