(* ===== verification/Istio_Names.thy ===== *)
theory Istio_Names
  imports Go_MD5 Supergloo_Types
begin

text \<open>
  The names, labels and hosts that the Istio translator derives: \<open>sanitizeName\<close>,
  \<open>updateMetadataForWriting\<close>, \<open>subsetName\<close> and the upstream accessors of
  \<open>pkg/translator/istio/mesh_routing_syncer.go\<close>, with \<open>nameutils.SanitizeName\<close> of solo-kit.
\<close>

section \<open>Names\<close>

definition sanitizeName :: "string \<Rightarrow> string" where
  "sanitizeName name0 =
     (let name = strings_Replace name0 ''.'' ''-'';
          name = strings_Replace name ''['' [];
          name = strings_Replace name '']'' [];
          name = strings_Replace name '':'' ''-'';
          name = strings_Replace name '' '' ''-'';
          name = strings_Replace name [CHR 0x0A] []
      in name)"

definition badChars :: "char list" where
  "badChars = [CHR ''.'', CHR ''_'']"

definition nameutils_SanitizeName :: "string \<Rightarrow> string" where
  "nameutils_SanitizeName name0 =
     (let name = map (\<lambda>r. if r \<in> set badChars then CHR ''-'' else r) name0
      in if length name > 63
         then take 46 name @ ''-'' @ fmt_x (take 8 (md5_Sum name))
         else name)"

text \<open>\<open>range\<close> over the selector sets each of its labels; the order does not matter.\<close>

definition set_labels :: "(string \<times> string) list \<Rightarrow> (string \<times> string) list \<Rightarrow> (string \<times> string) list" where
  "set_labels sel labels = foldl (\<lambda>ls (k, v). AList.update k v ls) labels sel"

definition updateMetadataForWriting :: "(string \<times> string) list \<Rightarrow> metadata \<Rightarrow> metadata" where
  "updateMetadataForWriting writeSelector meta =
     meta\<lparr>meta_Name := nameutils_SanitizeName (sanitizeName (meta_Name meta)),
          meta_Annotations :=
            Some (AList.update ''created_by'' ''supergloo'' (map_entries (meta_Annotations meta))),
          meta_Labels :=
            (if meta_Labels meta = None \<and> length writeSelector = 0 then None
             else Some (set_labels writeSelector (map_entries (meta_Labels meta))))\<rparr>"

definition subsetName :: "(string \<times> string) list \<Rightarrow> string" where
  "subsetName labels =
     (case KeysAndValues labels of (keys, values) \<Rightarrow>
        sanitizeName
          (strings_TrimSuffix
            (concat (map (\<lambda>i. keys ! i @ ''-'' @ values ! i @ ''-'') [0..<length keys]))
            ''-''))"

text \<open>The bytes that \<open>sanitizeName\<close> removes or replaces.\<close>

definition unsafe_chars :: "char set" where
  "unsafe_chars = {CHR ''.'', CHR ''['', CHR '']'', CHR '':'', CHR '' '', CHR 0x0A}"

lemma sanitizeName_concat:
  "sanitizeName s =
     concat (map (\<lambda>c. if c \<in> {CHR ''['', CHR '']'', CHR 0x0A} then []
                    else if c \<in> {CHR ''.'', CHR '':'', CHR '' ''} then ''-'' else [c]) s)"
  by (induction s) (auto simp: sanitizeName_def Let_def)

lemma sanitizeName_safe: "set (sanitizeName s) \<inter> unsafe_chars = {}"
  by (auto simp: sanitizeName_concat unsafe_chars_def split: if_splits)

lemma sanitizeName_id: "set s \<inter> unsafe_chars = {} \<Longrightarrow> sanitizeName s = s"
  by (induction s) (auto simp: sanitizeName_concat unsafe_chars_def)

lemma sanitizeName_idem [simp]: "sanitizeName (sanitizeName s) = sanitizeName s"
  by (rule sanitizeName_id [OF sanitizeName_safe])

lemma SanitizeName_length: "length (nameutils_SanitizeName s) \<le> 63"
  by (simp add: nameutils_SanitizeName_def Let_def)

lemma SanitizeName_chars:
  "set (nameutils_SanitizeName s) \<subseteq>
     (set s - {CHR ''.'', CHR ''_''}) \<union> {CHR ''-''} \<union> set ''0123456789abcdef''"
proof -
  let ?name = "map (\<lambda>r. if r \<in> set badChars then CHR ''-'' else r) s"
  have name: "set ?name \<subseteq> (set s - {CHR ''.'', CHR ''_''}) \<union> {CHR ''-''}"
    by (auto simp: badChars_def)
  have "set (nameutils_SanitizeName s) \<subseteq>
      set ?name \<union> {CHR ''-''} \<union> set (fmt_x (take 8 (md5_Sum ?name)))"
    unfolding nameutils_SanitizeName_def Let_def
    by (simp only: if_distrib [of set] set_append split: if_split) (use set_take_subset [of 46 ?name] in auto)
  with name set_fmt_x [of "take 8 (md5_Sum ?name)"] show ?thesis by blast
qed

lemma SanitizeName_short:
  "length s \<le> 63 \<Longrightarrow> set s \<inter> {CHR ''.'', CHR ''_''} = {} \<Longrightarrow> nameutils_SanitizeName s = s"
  by (auto simp: nameutils_SanitizeName_def badChars_def Let_def intro!: map_idI)

lemma SanitizeName_idem: "nameutils_SanitizeName (nameutils_SanitizeName s) = nameutils_SanitizeName s"
  using SanitizeName_chars [of s] by (intro SanitizeName_short SanitizeName_length) auto

lemma map_of_set_labels:
  "distinct (map fst sel) \<Longrightarrow>
     map_of (set_labels sel labels) k = (case map_of sel k of None \<Rightarrow> map_of labels k | Some v \<Rightarrow> Some v)"
proof (induction sel arbitrary: labels)
  case (Cons e sel)
  obtain a b where "e = (a, b)" by (cases e)
  moreover have "map_of sel a = None"
    using Cons.prems calculation by (simp add: map_of_eq_None_iff)
  ultimately show ?case
    using Cons by (auto simp: set_labels_def update_conv' split: option.splits)
qed (simp add: set_labels_def)

text \<open>What is written can be found again with the selector.\<close>

lemma updateMetadata_selected:
  assumes "distinct (map fst sel)"
  shows "selector_Matches sel (updateMetadataForWriting sel m)"
  using assms
  by (cases "sel = []")
    (auto simp: selector_Matches_def updateMetadataForWriting_def map_of_set_labels
      dest: map_of_is_SomeI)

lemma updateMetadata_fields [simp]:
  "meta_Namespace (updateMetadataForWriting sel m) = meta_Namespace m"
  "meta_Name (updateMetadataForWriting sel m) = nameutils_SanitizeName (sanitizeName (meta_Name m))"
  "meta_ResourceVersion (updateMetadataForWriting sel m) = meta_ResourceVersion m"
  by (simp_all add: updateMetadataForWriting_def)

lemma updateMetadata_idem_name:
  "meta_Name (updateMetadataForWriting sel (updateMetadataForWriting sel m)) =
   meta_Name (updateMetadataForWriting sel m)"
proof -
  have "set (nameutils_SanitizeName (sanitizeName s)) \<inter> unsafe_chars = {}" for s
    using SanitizeName_chars [of "sanitizeName s"] sanitizeName_safe [of s]
    by (auto simp: unsafe_chars_def)
  then show ?thesis by (simp add: sanitizeName_id SanitizeName_idem)
qed

lemma subsetName_permuted:
  "mset m = mset m' \<Longrightarrow> distinct (map fst m) \<Longrightarrow> subsetName m = subsetName m'"
  by (simp add: subsetName_def KeysAndValues_permuted [of m m'])

lemma subsetName_safe: "set (subsetName labels) \<inter> unsafe_chars = {}"
  using sanitizeName_safe by (auto simp: subsetName_def split: prod.splits)

section \<open>Upstreams\<close>

text \<open>
  A nil upstream, or one with a nil \<open>UpstreamSpec\<close>, is dereferenced: a panic. The wrappers
  of the \<open>oneof\<close> hold a message.
\<close>

definition upstream_Type :: "upstream \<Rightarrow> upstream_type option go" where
  "upstream_Type us =
     (case upstream_UpstreamSpec us of None \<Rightarrow> nil_deref
      | Some spec \<Rightarrow> Ret (us_UpstreamType spec))"

definition getLabelsForUpstream :: "upstream \<Rightarrow> (string \<times> string) list go" where
  "getLabelsForUpstream us =
     gbind (upstream_Type us) (\<lambda>specType.
       case specType of
         Some (UpstreamSpec_Kube kube) \<Rightarrow> Ret (kube_Selector kube)
       | _ \<Rightarrow> Ret (map_entries (meta_Labels (upstream_Metadata us))))"

definition getHostsForUpstream :: "upstream \<Rightarrow> string list go" where
  "getHostsForUpstream us =
     gbind (upstream_Type us) (\<lambda>specType.
       case specType of
         Some UpstreamSpec_Aws \<Rightarrow> Fail (Errorf ''aws not implemented'')
       | Some UpstreamSpec_Azure \<Rightarrow> Fail (Errorf ''azure not implemented'')
       | Some (UpstreamSpec_Kube kube) \<Rightarrow>
           Ret [kube_ServiceName kube @ ''.'' @ kube_ServiceNamespace kube @ ''.svc.cluster.local'',
                kube_ServiceName kube]
       | Some (UpstreamSpec_Static hosts) \<Rightarrow> Ret (map host_Addr hosts)
       | _ \<Rightarrow> Fail (Errorf ''unsupported upstream type %v''))"

definition getHostForUpstream :: "upstream \<Rightarrow> string go" where
  "getHostForUpstream us =
     gbind (gwrap ''failed to get hosts for upstream'' (getHostsForUpstream us)) (\<lambda>hosts.
       if length hosts < 1 then Fail (Errorf ''failed to get hosts for upstream'')
       else Ret (hosts ! 0))"

definition getPortForUpstream :: "upstream \<Rightarrow> 32 word go" where
  "getPortForUpstream us =
     gbind (upstream_Type us) (\<lambda>specType.
       case specType of
         Some UpstreamSpec_Aws \<Rightarrow> Fail (Errorf ''aws not implemented'')
       | Some UpstreamSpec_Azure \<Rightarrow> Fail (Errorf ''azure not implemented'')
       | Some (UpstreamSpec_Kube kube) \<Rightarrow> Ret (kube_ServicePort kube)
       | Some (UpstreamSpec_Static hosts) \<Rightarrow>
           (case hosts of h # _ \<Rightarrow> Ret (host_Port h)
            | [] \<Rightarrow> Fail (Errorf ''no hosts found on static upstream''))
       | _ \<Rightarrow> Fail (Errorf ''unknown upstream type''))"

lemma host_type:
  "getHostForUpstream us = Ret host \<longleftrightarrow>
     (\<exists>spec. upstream_UpstreamSpec us = Some spec \<and>
       ((\<exists>k. us_UpstreamType spec = Some (UpstreamSpec_Kube k) \<and>
           host = kube_ServiceName k @ ''.'' @ kube_ServiceNamespace k @ ''.svc.cluster.local'') \<or>
        (\<exists>h hs. us_UpstreamType spec = Some (UpstreamSpec_Static (h # hs)) \<and> host = host_Addr h)))"
proof (cases "upstream_UpstreamSpec us")
  case None
  then show ?thesis
    by (simp add: getHostForUpstream_def getHostsForUpstream_def upstream_Type_def nil_deref_def)
next
  case (Some spec)
  have eq: "getHostForUpstream us = gbind (gwrap ''failed to get hosts for upstream''
      (case us_UpstreamType spec of
         Some UpstreamSpec_Aws \<Rightarrow> Fail (Errorf ''aws not implemented'')
       | Some UpstreamSpec_Azure \<Rightarrow> Fail (Errorf ''azure not implemented'')
       | Some (UpstreamSpec_Kube kube) \<Rightarrow>
           Ret [kube_ServiceName kube @ ''.'' @ kube_ServiceNamespace kube @ ''.svc.cluster.local'',
                kube_ServiceName kube]
       | Some (UpstreamSpec_Static hosts) \<Rightarrow> Ret (map host_Addr hosts)
       | _ \<Rightarrow> Fail (Errorf ''unsupported upstream type %v''))) (\<lambda>hosts.
       if length hosts < 1 then Fail (Errorf ''failed to get hosts for upstream'')
       else Ret (hosts ! 0))"
    by (simp add: getHostForUpstream_def getHostsForUpstream_def upstream_Type_def Some)
  show ?thesis
  proof (cases "us_UpstreamType spec")
    case (Some ty)
    show ?thesis
    proof (cases ty)
      case (UpstreamSpec_Static hosts)
      with eq Some \<open>upstream_UpstreamSpec us = Some spec\<close> show ?thesis by (cases hosts) auto
    qed (use eq Some \<open>upstream_UpstreamSpec us = Some spec\<close> in auto)
  qed (use eq Some in auto)
qed

text \<open>An upstream with a host has labels, and a port too.\<close>

lemma host_has_labels:
  "getHostForUpstream us = Ret host \<Longrightarrow> \<exists>labels. getLabelsForUpstream us = Ret labels"
  by (auto simp: host_type getLabelsForUpstream_def upstream_Type_def)

lemma host_has_port:
  "getHostForUpstream us = Ret host \<Longrightarrow> \<exists>port. getPortForUpstream us = Ret port"
  by (auto simp: host_type getPortForUpstream_def upstream_Type_def)

end
