(* ===== verification/Secret_Sync.thy ===== *)
theory Secret_Sync
  imports Translator_Snapshot Memory_Client Istio_Names
begin

text \<open>
  Root certificates: \<open>pkg/secret/secret_syncer.go\<close>, which copies the secret that a mesh or an
  install refers to into Citadel's \<open>cacerts\<close> secret, \<open>EncryptionSyncer\<close> of
  \<open>pkg/translator/istio/encryption_syncer.go\<close>, which runs it for every Istio mesh of a
  snapshot, and \<open>RestartPods\<close> of \<open>pkg/translator/kube/kube_utils.go\<close>.

  The state has two parts: the store of the secret client, and the cluster that the
  Kubernetes API acts on. The two API calls are parameters.
\<close>

record 'k kube_writer =
  kube_Pods_DeleteCollection :: "string \<Rightarrow> (string \<times> string) list \<Rightarrow> ('k, unit) act"
  kube_Secrets_Delete :: "string \<Rightarrow> string \<Rightarrow> ('k, unit) act"

record ('s, 'k) secret_syncer =
  ss_Kube :: "'k kube_writer option"
  ss_SecretClient :: "('s, istio_cacerts_secret) client"
  ss_SecretList :: "istio_cacerts_secret list"
  ss_Preinstall :: bool

definition CustomRootCertificateSecretName :: string where
  "CustomRootCertificateSecretName = ''cacerts''"

definition DefaultRootCertificateSecretName :: string where
  "DefaultRootCertificateSecretName = ''istio.default''"

definition RestartPods :: "'k kube_writer option \<Rightarrow> string \<Rightarrow> (string \<times> string) list \<Rightarrow> ('k, unit) act" where
  "RestartPods kube namespace selector =
     (case kube of
        None \<Rightarrow> afail (Errorf ''kubernetes suppport is currently disabled. see SuperGloo documentation for utilizing pod restarts'')
      | Some k \<Rightarrow> awrap ''restarting pods with selector %v'' (kube_Pods_DeleteCollection k namespace selector))"

definition restartCitadel :: "('s, 'k) secret_syncer \<Rightarrow> string \<Rightarrow> ('k, unit) act" where
  "restartCitadel s installNamespace = RestartPods (ss_Kube s) installNamespace [(''istio'', ''citadel'')]"

definition deleteIstioDefaultSecret :: "('s, 'k) secret_syncer \<Rightarrow> string \<Rightarrow> ('k, unit) act" where
  "deleteIstioDefaultSecret s installNamespace =
     (case ss_Kube s of
        None \<Rightarrow> alift nil_deref
      | Some k \<Rightarrow> kube_Secrets_Delete k installNamespace DefaultRootCertificateSecretName)"

definition validateTlsSecret :: "istio_cacerts_secret \<Rightarrow> unit go" where
  "validateTlsSecret secret =
     (if cacerts_RootCert secret = [] then Fail (Errorf ''Root cert is missing.'')
      else if cacerts_CaKey secret = [] then Fail (Errorf ''Private key is missing.'')
      else Ret ())"

text \<open>
  \<open>istioSecret\<close> takes over the metadata of the existing secret, and with it the same
  annotations map: setting an annotation sets it in both, and panics when the map is nil.
\<close>

definition annotate :: "istio_cacerts_secret \<Rightarrow> istio_cacerts_secret go" where
  "annotate secret =
     (case meta_Annotations (cacerts_Metadata secret) of
        None \<Rightarrow> Panic ''assignment to entry in nil map''
      | Some m \<Rightarrow> Ret (secret\<lparr>cacerts_Metadata := (cacerts_Metadata secret)
          \<lparr>meta_Annotations := Some (AList.update ''created_by'' ''supergloo'' m)\<rparr>\<rparr>))"

definition syncSecret ::
  "('s, 'k) secret_syncer \<Rightarrow> string \<Rightarrow> istio_cacerts_secret \<Rightarrow> istio_cacerts_secret option \<Rightarrow>
   ('s \<times> 'k, unit) act" where
  "syncSecret s installNamespace sourceSecret existingSecret =
     abind (alift (gwrap ''invalid secret %v'' (validateTlsSecret sourceSecret))) (\<lambda>_.
       case existingSecret of
         None \<Rightarrow>
           on_fst (awrap ''creating tool tls secret %v for istio''
             (abind (client_Write (ss_SecretClient s)
                (sourceSecret\<lparr>cacerts_Metadata := new_metadata installNamespace CustomRootCertificateSecretName\<rparr>)
                False) (\<lambda>_. aret ())))
       | Some existing \<Rightarrow>
           abind (alift (annotate existing)) (\<lambda>existing.
             let istioSecret = sourceSecret\<lparr>cacerts_Metadata := cacerts_Metadata existing\<rparr>
             in if istioSecret = existing then aret ()
                else
                  abind (on_fst (awrap ''updating tool tls secret %v for istio''
                     (abind (client_Write (ss_SecretClient s) istioSecret False) (\<lambda>_. aret ())))) (\<lambda>_.
                  if \<not> ss_Preinstall s
                  then
                    abind (on_snd (awrap ''Error restarting citadel'' (restartCitadel s installNamespace))) (\<lambda>_.
                    on_snd (awrap ''Error removing existing default cert''
                      (deleteIstioDefaultSecret s installNamespace)))
                  else aret ())))"

abbreviation find_secret :: "string \<Rightarrow> string \<Rightarrow> istio_cacerts_secret list \<Rightarrow> istio_cacerts_secret go" where
  "find_secret ns name secrets \<equiv> list_Find cacerts_Metadata ns name secrets"

text \<open>The error of the second \<open>Find\<close> is dropped: not found leaves a nil pointer.\<close>

definition SyncSecret ::
  "('s, 'k) secret_syncer \<Rightarrow> string \<Rightarrow> encryption option \<Rightarrow> ('s \<times> 'k, unit) act" where
  "SyncSecret s installNamespace encryption =
     (case encryption of
        None \<Rightarrow> aret ()
      | Some e \<Rightarrow>
          (if \<not> enc_TlsEnabled e then aret ()
           else
             (case enc_Secret e of
                None \<Rightarrow> aret ()
              | Some encryptionSecret \<Rightarrow>
                  abind (alift (gwrap ''Error finding secret referenced in mesh config (%s:%s)''
                    (find_secret (ref_Namespace encryptionSecret) (ref_Name encryptionSecret) (ss_SecretList s))))
                  (\<lambda>sourceSecret.
                    syncSecret s installNamespace sourceSecret
                      (case find_secret installNamespace CustomRootCertificateSecretName (ss_SecretList s) of
                         Ret existing \<Rightarrow> Some existing | _ \<Rightarrow> None)))))"

section \<open>The encryption syncer\<close>

record ('s, 'k) encryption_syncer =
  es_Kube :: "'k kube_writer option"
  es_SecretClient :: "('s, istio_cacerts_secret) client"

definition EncryptionSyncer_syncMesh ::
  "('s, 'k) encryption_syncer \<Rightarrow> translator_snapshot \<Rightarrow> mesh \<Rightarrow> ('s \<times> 'k, unit) act" where
  "EncryptionSyncer_syncMesh s snap mesh =
     (case mesh_GetIstio mesh of
        None \<Rightarrow> aret ()
      | Some istio \<Rightarrow>
          SyncSecret \<lparr>ss_Kube = es_Kube s, ss_SecretClient = es_SecretClient s,
              ss_SecretList = snap_List istio_cacerts_secret_ops (snap_Istiocerts snap),
              ss_Preinstall = False\<rparr>
            (istio_InstallationNamespace istio) (mesh_Encryption mesh))"

definition EncryptionSyncer_Sync :: "('s, 'k) encryption_syncer \<Rightarrow> ('s \<times> 'k) syncer" where
  "EncryptionSyncer_Sync s snap =
     aforeach (EncryptionSyncer_syncMesh s snap) (snap_List mesh_ops (snap_Meshes snap))"

section \<open>Facts\<close>

lemma annotate_Ret:
  "annotate r = Ret r' \<Longrightarrow>
     resource_Ref istio_cacerts_secret_ops r' = resource_Ref istio_cacerts_secret_ops r \<and>
     cacerts_RootCert r' = cacerts_RootCert r \<and> cacerts_CertChain r' = cacerts_CertChain r \<and>
     cacerts_CaCert r' = cacerts_CaCert r \<and> cacerts_CaKey r' = cacerts_CaKey r"
  by (auto simp: annotate_def ops_simps Metadata_Ref_def split: option.splits simp del: ResourceRef_meta)

text \<open>The certificates of two secrets agree.\<close>

definition same_certs :: "istio_cacerts_secret \<Rightarrow> istio_cacerts_secret \<Rightarrow> bool" where
  "same_certs a b \<longleftrightarrow> cacerts_RootCert a = cacerts_RootCert b \<and> cacerts_CertChain a = cacerts_CertChain b \<and>
     cacerts_CaCert a = cacerts_CaCert b \<and> cacerts_CaKey a = cacerts_CaKey b"

lemma with_metadata_eq: "src\<lparr>cacerts_Metadata := cacerts_Metadata e\<rparr> = e \<longleftrightarrow> same_certs src e"
  by (cases src; cases e) (auto simp: same_certs_def)

lemma same_certs_annotate: "annotate e = Ret e' \<Longrightarrow> same_certs src e' = same_certs src e"
  by (auto simp: same_certs_def dest: annotate_Ret)

lemma but_version_certs:
  "but_version istio_cacerts_secret_ops r d \<Longrightarrow> same_certs r d"
  by (cases r; cases d) (simp add: but_version_def ops_simps same_certs_def)

locale secret_store = resource_client istio_cacerts_secret_ops client view ok covers
  for client :: "('s, istio_cacerts_secret) client" and view ok covers
begin

text \<open>An existing secret: nothing is ever written, whether it is up to date or not.\<close>

lemma syncSecret_existing:
  assumes "ok s" and "ss_SecretClient y = client" and "view s (resource_Ref istio_cacerts_secret_ops e) \<noteq> None"
  shows "snd (syncSecret y ns src (Some e) (s, k)) = (s, k)"
    and "fst (syncSecret y ns src (Some e) (s, k)) = Ret () \<longleftrightarrow>
         validateTlsSecret src = Ret () \<and> meta_Annotations (cacerts_Metadata e) \<noteq> None \<and> same_certs src e"
proof -
  obtain r0 where r0: "view s (resource_Ref istio_cacerts_secret_ops e) = Some r0" using assms(3) by auto
  have wr: "client_Write client x False s = (Fail (ExistErr (meta_Namespace (cacerts_Metadata x)) (meta_Name (cacerts_Metadata x))), s)"
    if "resource_Ref istio_cacerts_secret_ops x = resource_Ref istio_cacerts_secret_ops e" for x
    using Write_exists [OF assms(1), of x r0] r0 that by (simp add: ops_simps)
  have "snd (syncSecret y ns src (Some e) (s, k)) = (s, k) \<and>
      (fst (syncSecret y ns src (Some e) (s, k)) = Ret () \<longleftrightarrow>
         validateTlsSecret src = Ret () \<and> meta_Annotations (cacerts_Metadata e) \<noteq> None \<and> same_certs src e)"
  proof (cases "validateTlsSecret src")
    case (Ret u)
    show ?thesis
    proof (cases "meta_Annotations (cacerts_Metadata e)")
      case None
      then have "annotate e = Panic ''assignment to entry in nil map''" by (simp add: annotate_def)
      with Ret None show ?thesis by (simp add: syncSecret_def act_simps)
    next
      case (Some m)
      then obtain e' where e': "annotate e = Ret e'" by (auto simp: annotate_def)
      let ?x = "src\<lparr>cacerts_Metadata := cacerts_Metadata e'\<rparr>"
      have "resource_Ref istio_cacerts_secret_ops ?x = resource_Ref istio_cacerts_secret_ops e"
        using annotate_Ret [OF e'] by (simp add: ops_simps)
      note fails = wr [OF this]
      have eq: "(?x = e') = same_certs src e"
        unfolding with_metadata_eq same_certs_annotate [OF e'] ..
      show ?thesis
        using Ret Some e' assms(2) fails
        by (cases "same_certs src e") (simp_all add: syncSecret_def act_simps Let_def eq)
    qed
  qed (simp_all add: syncSecret_def act_simps)
  then show "snd (syncSecret y ns src (Some e) (s, k)) = (s, k)"
    and "fst (syncSecret y ns src (Some e) (s, k)) = Ret () \<longleftrightarrow>
         validateTlsSecret src = Ret () \<and> meta_Annotations (cacerts_Metadata e) \<noteq> None \<and> same_certs src e"
    by auto
qed

text \<open>No secret yet: a valid one is copied, under Citadel's name.\<close>

lemma syncSecret_new:
  assumes "ok s" and "ss_SecretClient y = client" and "validateTlsSecret src = Ret ()" and "ns \<noteq> []"
    and "view s (ResourceRef ns CustomRootCertificateSecretName) = None"
  shows "\<exists>s' r. syncSecret y ns src None (s, k) = (Ret (), (s', k)) \<and> ok s' \<and> same_certs r src \<and>
     view s' = (view s)(ResourceRef ns CustomRootCertificateSecretName \<mapsto> r)"
proof -
  let ?x = "src\<lparr>cacerts_Metadata := new_metadata ns CustomRootCertificateSecretName\<rparr>"
  have ref: "resource_Ref istio_cacerts_secret_ops ?x = ResourceRef ns CustomRootCertificateSecretName"
    by (simp add: ops_simps Metadata_Ref_def del: ResourceRef_meta)
  have "ValidateName CustomRootCertificateSecretName"
    unfolding CustomRootCertificateSecretName_def by code_simp
  then obtain r s' where w: "client_Write client ?x False s = (Ret r, s')" "ok s'"
      "but_version istio_cacerts_secret_ops r ?x"
      "view s' = (view s)(ResourceRef ns CustomRootCertificateSecretName \<mapsto> r)"
    using Write_new [OF assms(1), of ?x False] assms(4,5) ref by (auto simp: ops_simps)
  have "same_certs r src" using but_version_certs [OF w(3)] by (simp add: same_certs_def)
  with w assms(2,3) show ?thesis by (auto simp: syncSecret_def act_simps)
qed

end

interpretation secret_memory:
  secret_store "mem_client id istio_cacerts_secret_ops ''*v1.IstioCacertsSecret''"
    "mem_view istio_cacerts_secret_ops ''*v1.IstioCacertsSecret''"
    "mem_ok istio_cacerts_secret_ops ''*v1.IstioCacertsSecret''" mem_covers
  by (intro secret_store.intro mem_store_client istio_cacerts_secret.resource_type_axioms) simp

lemma mem_secret_store:
  "valid_range rng \<Longrightarrow> secret_store (mem_client rng istio_cacerts_secret_ops k)
     (mem_view istio_cacerts_secret_ops k) (mem_ok istio_cacerts_secret_ops k) mem_covers"
  by (intro secret_store.intro mem_store_client istio_cacerts_secret.resource_type_axioms)

section \<open>Properties\<close>

definition ex_secret :: "string \<Rightarrow> string \<Rightarrow> string \<Rightarrow> istio_cacerts_secret" where
  "ex_secret ns name root =
     \<lparr>cacerts_Metadata = (new_metadata ns name)\<lparr>meta_Annotations := Some []\<rparr>, cacerts_RootCert = root,
      cacerts_CertChain = [], cacerts_CaCert = ''ca'', cacerts_CaKey = ''key''\<rparr>"

text \<open>
  C12: With mutual TLS enabled and a valid secret referred to, a first sync copies its
  certificates to the secret \<open>cacerts\<close> of the installation namespace and leaves the rest of
  the store and the cluster alone.
\<close>

theorem SyncSecret_creates:
  assumes rng: "valid_range rng" and y: "ss_SecretClient y = mem_client rng istio_cacerts_secret_ops kd"
    and e: "enc_TlsEnabled e" "enc_Secret e = Some ref"
    and src: "find_secret (ref_Namespace ref) (ref_Name ref) (ss_SecretList y) = Ret src"
      "cacerts_RootCert src \<noteq> []" "cacerts_CaKey src \<noteq> []"
    and new: "\<forall>r \<in> set (ss_SecretList y). \<not> ref_matches ns CustomRootCertificateSecretName (cacerts_Metadata r)"
      "mem_view istio_cacerts_secret_ops kd s (ResourceRef ns CustomRootCertificateSecretName) = None"
    and ok: "mem_ok istio_cacerts_secret_ops kd s" "ns \<noteq> []"
  shows "\<exists>s' r. SyncSecret y ns (Some e) (s, k) = (Ret (), (s', k)) \<and> same_certs r src \<and>
     mem_view istio_cacerts_secret_ops kd s' =
       (mem_view istio_cacerts_secret_ops kd s)(ResourceRef ns CustomRootCertificateSecretName \<mapsto> r)"
proof -
  obtain err where "find_secret ns CustomRootCertificateSecretName (ss_SecretList y) = Fail err"
    using new(1) list_Find_fails [of cacerts_Metadata] by blast
  moreover have "validateTlsSecret src = Ret ()" using src(2,3) by (simp add: validateTlsSecret_def)
  ultimately show ?thesis
    using secret_store.syncSecret_new [OF mem_secret_store [OF rng] ok(1) y _ ok(2) new(2), of src k] e src(1)
    by (auto simp: SyncSecret_def act_simps)
qed

theorem SyncSecret_creates_witness:
  "\<exists>s' r. SyncSecret \<lparr>ss_Kube = None, ss_SecretClient = mem_client id istio_cacerts_secret_ops ''s'',
       ss_SecretList = [ex_secret ''ns'' ''mine'' ''root''], ss_Preinstall = True\<rparr> ''sys''
       (Some \<lparr>enc_TlsEnabled = True, enc_Secret = Some (ResourceRef ''ns'' ''mine'')\<rparr>) ([], ()) = (Ret (), (s', ())) \<and>
     mem_view istio_cacerts_secret_ops ''s'' s' (ResourceRef ''sys'' ''cacerts'') = Some r \<and>
     cacerts_CaKey r = ''key''"
proof -
  have empty: "mem_ok istio_cacerts_secret_ops ''s'' []" "mem_view istio_cacerts_secret_ops ''s'' [] ref = None" for ref
    by (simp_all add: mem_ok_def mem_view_def)
  show ?thesis
    using SyncSecret_creates [of id "\<lparr>ss_Kube = None, ss_SecretClient = mem_client id istio_cacerts_secret_ops ''s'',
       ss_SecretList = [ex_secret ''ns'' ''mine'' ''root''], ss_Preinstall = True\<rparr>" "''s''"
       "\<lparr>enc_TlsEnabled = True, enc_Secret = Some (ResourceRef ''ns'' ''mine'')\<rparr>" _
       "ex_secret ''ns'' ''mine'' ''root''" "''sys''" "[]" "()"]
    by (auto simp: empty ex_secret_def CustomRootCertificateSecretName_def ref_matches_def same_certs_def)
qed

text \<open>
  C13: Once the secret \<open>cacerts\<close> exists, no sync changes anything, whatever the mesh asks for:
  the write that should update it is a create, which the client refuses, so new certificates
  are never installed, and Citadel is never restarted nor its default secret deleted. The
  sync succeeds exactly when there is nothing to update.
\<close>

theorem SyncSecret_never_updates:
  assumes rng: "valid_range rng" and y: "ss_SecretClient y = mem_client rng istio_cacerts_secret_ops kd"
    and existing: "find_secret ns CustomRootCertificateSecretName (ss_SecretList y) = Ret old"
      "mem_view istio_cacerts_secret_ops kd s (resource_Ref istio_cacerts_secret_ops old) \<noteq> None"
    and ok: "mem_ok istio_cacerts_secret_ops kd s"
  shows "snd (SyncSecret y ns enc (s, k)) = (s, k) \<and>
     (fst (SyncSecret y ns enc (s, k)) = Ret () \<longleftrightarrow>
        (case enc of Some e \<Rightarrow> enc_TlsEnabled e \<longrightarrow>
           (case enc_Secret e of Some ref \<Rightarrow>
              (\<exists>src. find_secret (ref_Namespace ref) (ref_Name ref) (ss_SecretList y) = Ret src \<and>
                 validateTlsSecret src = Ret () \<and> meta_Annotations (cacerts_Metadata old) \<noteq> None \<and> same_certs src old)
            | None \<Rightarrow> True)
         | None \<Rightarrow> True))"
proof -
  note old = secret_store.syncSecret_existing [OF mem_secret_store [OF rng] ok y existing(2), of ns _ k]
  show ?thesis
  proof (cases enc)
    case (Some e)
    show ?thesis
    proof (cases "enc_TlsEnabled e \<and> enc_Secret e \<noteq> None")
      case True
      then obtain ref where ref: "enc_Secret e = Some ref" "enc_TlsEnabled e" by auto
      show ?thesis
      proof (cases "find_secret (ref_Namespace ref) (ref_Name ref) (ss_SecretList y)")
        case (Ret src)
        then have "SyncSecret y ns enc (s, k) = syncSecret y ns src (Some old) (s, k)"
          using Some ref existing(1) by (simp add: SyncSecret_def act_simps)
        with old [of src] Some ref Ret show ?thesis by simp
      qed (use Some ref in \<open>simp_all add: SyncSecret_def act_simps\<close>)
    qed (use Some in \<open>auto simp: SyncSecret_def aret_def\<close>)
  qed (simp add: SyncSecret_def aret_def)
qed

theorem SyncSecret_never_updates_witness:
  "snd (SyncSecret \<lparr>ss_Kube = None, ss_SecretClient = mem_client id istio_cacerts_secret_ops ''s'',
       ss_SecretList = [ex_secret ''ns'' ''mine'' ''new'', ex_secret ''sys'' ''cacerts'' ''old''],
       ss_Preinstall = False\<rparr> ''sys''
       (Some \<lparr>enc_TlsEnabled = True, enc_Secret = Some (ResourceRef ''ns'' ''mine'')\<rparr>)
       ([(''s;sys;cacerts'', ex_secret ''sys'' ''cacerts'' ''old'')], ())) =
     ([(''s;sys;cacerts'', ex_secret ''sys'' ''cacerts'' ''old'')], ())"
proof -
  have md: "cacerts_Metadata (ex_secret ns n r) = (new_metadata ns n)\<lparr>meta_Annotations := Some []\<rparr>" for ns n r
    by (simp add: ex_secret_def)
  have "ValidateName ''cacerts''" by code_simp
  then have "mem_ok istio_cacerts_secret_ops ''s'' [(''s;sys;cacerts'', ex_secret ''sys'' ''cacerts'' ''old'')]"
    by (simp add: mem_ok_def ops_simps mem_key_def mem_Prefix_def md)
  moreover have "mem_view istio_cacerts_secret_ops ''s'' [(''s;sys;cacerts'', ex_secret ''sys'' ''cacerts'' ''old'')]
      (resource_Ref istio_cacerts_secret_ops (ex_secret ''sys'' ''cacerts'' ''old'')) \<noteq> None"
    by (simp add: mem_view_def ops_simps mem_key_def mem_Prefix_def Metadata_Ref_def md del: ResourceRef_meta)
  ultimately show ?thesis
    by (intro conjunct1 [OF SyncSecret_never_updates
          [where rng = id and kd = "''s''" and old = "ex_secret ''sys'' ''cacerts'' ''old''"]])
      (simp_all add: CustomRootCertificateSecretName_def ref_matches_def md)
qed

end
