(* ===== verification/Prometheus.thy ===== *)
theory Prometheus
  imports Go_Duration Secret_Sync
begin

text \<open>
  Prometheus: the configuration and its conversion from and to the resource
  (\<open>pkg/api/external/prometheus/prometheus_config.go\<close>), the syncer
  (\<open>pkg/translator/shared/prometheus_syncer.go\<close>) and its instances for Istio and Linkerd
  (\<open>prometheus_syncer.go\<close> and \<open>scrape_configs.go\<close> of \<open>pkg/translator/istio\<close> and
  \<open>pkg/translator/linkerd2\<close>).

  JSON texts are modelled by the values they denote: a number of a text is the integer that its
  digits spell. A protobuf \<open>Struct\<close> is a JSON object whose numbers are 64-bit floating-point
  numbers, the nearest ones of the numbers of the text it is read from; when it is printed, each
  number becomes the shortest digits that denote it. Numbers are integers here. Object keys are
  matched exactly as the tags spell them.
\<close>

section \<open>JSON\<close>

datatype json =
    JNull
  | JBool bool
  | JNum int
  | JStr string
  | JArr "json list"
  | JObj "(string \<times> json) list"

text \<open>The nearest 64-bit floating-point number of an integer, ties to even.\<close>

fun bit_length :: "nat \<Rightarrow> nat" where
  "bit_length n = (if n = 0 then 0 else Suc (bit_length (n div 2)))"

declare bit_length.simps [simp del]

definition float64_of_nat :: "nat \<Rightarrow> nat" where
  "float64_of_nat n =
     (if n < 2 ^ 53 then n
      else (let e = bit_length n - 53; q = n div 2 ^ e; r = n mod 2 ^ e
            in (if 2 * r > 2 ^ e \<or> 2 * r = 2 ^ e \<and> odd q then q + 1 else q) * 2 ^ e))"

definition float64_of_int :: "int \<Rightarrow> int" where
  "float64_of_int i = (if i < 0 then - int (float64_of_nat (nat (- i))) else int (float64_of_nat (nat i)))"

text \<open>
  The digits with which \<open>json.Marshal\<close> prints a floating-point number \<open>n\<close>: \<open>strconv\<close>'s
  \<open>roundShortest\<close>. With as few digits as possible, \<open>n\<close> is rounded down or up, whichever denotes
  \<open>n\<close> again, to the nearest if both do; zeros are appended. (From \<open>10 ^ 21\<close> on, the zeros are
  written as an exponent; no integer type of Go can be decoded from either form.)
\<close>

definition shorten :: "nat \<Rightarrow> nat \<Rightarrow> nat option" where
  "shorten n p =
     (let unit = 10 ^ p; q = n div unit; down = q * unit; up = (q + 1) * unit;
          okdown = (float64_of_nat down = n); okup = (float64_of_nat up = n)
      in if okdown \<and> okup
         then Some (if 2 * (n - down) < unit \<or> 2 * (n - down) = unit \<and> even q then down else up)
         else if okdown then Some down else if okup then Some up else None)"

fun shortest :: "nat \<Rightarrow> nat \<Rightarrow> nat" where
  "shortest n 0 = n"
| "shortest n (Suc p) = (case shorten n (Suc p) of Some m \<Rightarrow> m | None \<Rightarrow> shortest n p)"

fun decimal_length :: "nat \<Rightarrow> nat" where
  "decimal_length n = (if n < 10 then 1 else Suc (decimal_length (n div 10)))"

declare decimal_length.simps [simp del]

definition float64_digits :: "nat \<Rightarrow> nat" where
  "float64_digits n = shortest n (decimal_length n)"

definition float64_text :: "int \<Rightarrow> int" where
  "float64_text i = (if i < 0 then - int (float64_digits (nat (- i))) else int (float64_digits (nat i)))"

fun map_numbers :: "(int \<Rightarrow> int) \<Rightarrow> json \<Rightarrow> json" where
  "map_numbers f (JNum i) = JNum (f i)"
| "map_numbers f (JArr xs) = JArr (map (map_numbers f) xs)"
| "map_numbers f (JObj o1) = JObj (map (\<lambda>(k, v). (k, map_numbers f v)) o1)"
| "map_numbers f v = v"

text \<open>\<open>jsonpb.Unmarshal\<close> into a \<open>Struct\<close>: every number becomes a floating-point number.\<close>

definition struct_of_json :: "json \<Rightarrow> json" where
  "struct_of_json = map_numbers float64_of_int"

text \<open>\<open>jsonpb.Marshal\<close> of a \<open>Struct\<close>: every number is printed by \<open>json.Marshal\<close>.\<close>

definition json_of_struct :: "json \<Rightarrow> json" where
  "json_of_struct = map_numbers float64_text"

subsection \<open>Decoding into Go values\<close>

text \<open>
  \<open>json.Unmarshal\<close>: null leaves the zero value, another kind of value is a type error, unknown
  keys are skipped.
\<close>

definition type_error :: err where
  "type_error = Errorf ''json: cannot unmarshal %v into Go value''"

fun dec_string :: "json \<Rightarrow> string go" where
  "dec_string (JStr s) = Ret s"
| "dec_string JNull = Ret []"
| "dec_string _ = Fail type_error"

fun dec_bool :: "json \<Rightarrow> bool go" where
  "dec_bool (JBool b) = Ret b"
| "dec_bool JNull = Ret False"
| "dec_bool _ = Fail type_error"

fun dec_uint64 :: "json \<Rightarrow> nat go" where
  "dec_uint64 (JNum i) = (if 0 \<le> i \<and> i < 2 ^ 64 then Ret (nat i) else Fail type_error)"
| "dec_uint64 JNull = Ret 0"
| "dec_uint64 _ = Fail type_error"

fun dec_list :: "(json \<Rightarrow> 'a go) \<Rightarrow> json \<Rightarrow> 'a list go" where
  "dec_list f (JArr xs) = gmapM f xs"
| "dec_list f JNull = Ret []"
| "dec_list f _ = Fail type_error"

fun dec_pointer :: "(json \<Rightarrow> 'a go) \<Rightarrow> json \<Rightarrow> 'a option go" where
  "dec_pointer f JNull = Ret None"
| "dec_pointer f v = gbind (f v) (\<lambda>x. Ret (Some x))"

fun dec_struct :: "((string \<times> json) list \<Rightarrow> 'a go) \<Rightarrow> json \<Rightarrow> 'a go" where
  "dec_struct f (JObj fields1) = f fields1"
| "dec_struct f JNull = f []"
| "dec_struct f _ = Fail type_error"

text \<open>Into an \<open>interface{}\<close>: any value, with floating-point numbers.\<close>

definition dec_interface :: "json \<Rightarrow> json go" where
  "dec_interface v = Ret (map_numbers float64_of_int v)"

text \<open>A field that is not in the object keeps its zero value.\<close>

definition dec_field :: "(json \<Rightarrow> 'a go) \<Rightarrow> 'a \<Rightarrow> string \<Rightarrow> (string \<times> json) list \<Rightarrow> 'a go" where
  "dec_field f zero name obj = (case map_of obj name of None \<Rightarrow> Ret zero | Some v \<Rightarrow> f v)"

subsection \<open>Encoding\<close>

text \<open>A field with \<open>omitempty\<close> that is empty is left out.\<close>

definition enc_string :: "string \<Rightarrow> string \<Rightarrow> (string \<times> json) list" where
  "enc_string name s = (if s = [] then [] else [(name, JStr s)])"

definition enc_list :: "('a \<Rightarrow> json) \<Rightarrow> string \<Rightarrow> 'a list \<Rightarrow> (string \<times> json) list" where
  "enc_list f name xs = (if xs = [] then [] else [(name, JArr (map f xs))])"

definition enc_pointer :: "('a \<Rightarrow> json) \<Rightarrow> string \<Rightarrow> 'a option \<Rightarrow> (string \<times> json) list" where
  "enc_pointer f name p = (case p of None \<Rightarrow> [] | Some x \<Rightarrow> [(name, f x)])"

section \<open>The configuration\<close>

record relabel_config =
  rl_SourceLabels :: "string list"
  rl_Separator :: string
  rl_Regex :: json
  rl_Modulus :: nat
  rl_TargetLabel :: string
  rl_Replacement :: string
  rl_Action :: string

record kubernetes_sd_config =
  sd_Namespaces :: "string list option"
  sd_Role :: string

record tls_config =
  tls_CaFile :: string
  tls_CertFile :: string
  tls_InsecureSkipVerify :: bool
  tls_KeyFile :: string

record scrape_config =
  sc_JobName :: string
  sc_KubernetesSdConfigs :: "kubernetes_sd_config list"
  sc_RelabelConfigs :: "relabel_config list"
  sc_ScrapeInterval :: string
  sc_MetricRelabelConfigs :: "relabel_config list"
  sc_MetricsPath :: string
  sc_BearerTokenFile :: string
  sc_Scheme :: string
  sc_TLSConfig :: "tls_config option"

text \<open>\<open>Global\<close> has one field, a duration, whose struct is never empty: it is always written.\<close>

record prometheus_config =
  pc_ScrapeInterval :: int
  pc_ScrapeConfigs :: "scrape_config list"

definition zero_relabel :: relabel_config where
  "zero_relabel = \<lparr>rl_SourceLabels = [], rl_Separator = [], rl_Regex = JNull, rl_Modulus = 0, rl_TargetLabel = [],
     rl_Replacement = [], rl_Action = []\<rparr>"

definition zero_scrape_config :: scrape_config where
  "zero_scrape_config = \<lparr>sc_JobName = [], sc_KubernetesSdConfigs = [], sc_RelabelConfigs = [], sc_ScrapeInterval = [],
     sc_MetricRelabelConfigs = [], sc_MetricsPath = [], sc_BearerTokenFile = [], sc_Scheme = [], sc_TLSConfig = None\<rparr>"

subsection \<open>Encoding and decoding it\<close>

definition Duration_MarshalJSON :: "int \<Rightarrow> json" where
  "Duration_MarshalJSON d = JStr (duration_String d)"

text \<open>
  \<open>time.Duration(value)\<close> of a floating-point number that is out of range depends on the machine;
  this is the result on amd64.
\<close>

definition int64_of_float :: "int \<Rightarrow> int" where
  "int64_of_float f = (if - (2 ^ 63) \<le> f \<and> f < 2 ^ 63 then f else - (2 ^ 63))"

fun Duration_UnmarshalJSON :: "json \<Rightarrow> int go" where
  "Duration_UnmarshalJSON (JNum i) = Ret (int64_of_float (float64_of_int i))"
| "Duration_UnmarshalJSON (JStr s) = ParseDuration s"
| "Duration_UnmarshalJSON _ = Fail (Errorf ''invalid duration'')"

definition enc_relabel :: "relabel_config \<Rightarrow> json" where
  "enc_relabel r = JObj
     (enc_list JStr ''source_labels'' (rl_SourceLabels r) @
      enc_string ''separator'' (rl_Separator r) @
      (if rl_Regex r = JNull then [] else [(''regex'', rl_Regex r)]) @
      (if rl_Modulus r = 0 then [] else [(''modulus'', JNum (int (rl_Modulus r)))]) @
      enc_string ''target_label'' (rl_TargetLabel r) @
      enc_string ''replacement'' (rl_Replacement r) @
      enc_string ''action'' (rl_Action r))"

definition dec_relabel :: "json \<Rightarrow> relabel_config go" where
  "dec_relabel = dec_struct (\<lambda>o1.
     gbind (dec_field (dec_list dec_string) [] ''source_labels'' o1) (\<lambda>labels.
     gbind (dec_field dec_string [] ''separator'' o1) (\<lambda>separator.
     gbind (dec_field dec_interface JNull ''regex'' o1) (\<lambda>regex.
     gbind (dec_field dec_uint64 0 ''modulus'' o1) (\<lambda>modulus.
     gbind (dec_field dec_string [] ''target_label'' o1) (\<lambda>target.
     gbind (dec_field dec_string [] ''replacement'' o1) (\<lambda>replacement.
     gbind (dec_field dec_string [] ''action'' o1) (\<lambda>action.
     Ret \<lparr>rl_SourceLabels = labels, rl_Separator = separator, rl_Regex = regex, rl_Modulus = modulus,
       rl_TargetLabel = target, rl_Replacement = replacement, rl_Action = action\<rparr>))))))))"

definition enc_namespaces :: "string list \<Rightarrow> json" where
  "enc_namespaces names = JObj (enc_list JStr ''names'' names)"

definition dec_namespaces :: "json \<Rightarrow> string list go" where
  "dec_namespaces = dec_struct (dec_field (dec_list dec_string) [] ''names'')"

definition enc_sd :: "kubernetes_sd_config \<Rightarrow> json" where
  "enc_sd c = JObj (enc_pointer enc_namespaces ''namespaces'' (sd_Namespaces c) @ enc_string ''role'' (sd_Role c))"

definition dec_sd :: "json \<Rightarrow> kubernetes_sd_config go" where
  "dec_sd = dec_struct (\<lambda>o1.
     gbind (dec_field (dec_pointer dec_namespaces) None ''namespaces'' o1) (\<lambda>namespaces.
     gbind (dec_field dec_string [] ''role'' o1) (\<lambda>role.
     Ret \<lparr>sd_Namespaces = namespaces, sd_Role = role\<rparr>)))"

definition enc_tls :: "tls_config \<Rightarrow> json" where
  "enc_tls c = JObj
     (enc_string ''ca_file'' (tls_CaFile c) @
      enc_string ''cert_file'' (tls_CertFile c) @
      (if tls_InsecureSkipVerify c then [(''insecure_skip_verify'', JBool True)] else []) @
      enc_string ''key_file'' (tls_KeyFile c))"

definition dec_tls :: "json \<Rightarrow> tls_config go" where
  "dec_tls = dec_struct (\<lambda>o1.
     gbind (dec_field dec_string [] ''ca_file'' o1) (\<lambda>ca.
     gbind (dec_field dec_string [] ''cert_file'' o1) (\<lambda>cert.
     gbind (dec_field dec_bool False ''insecure_skip_verify'' o1) (\<lambda>skip.
     gbind (dec_field dec_string [] ''key_file'' o1) (\<lambda>key.
     Ret \<lparr>tls_CaFile = ca, tls_CertFile = cert, tls_InsecureSkipVerify = skip, tls_KeyFile = key\<rparr>)))))"

definition enc_scrape :: "scrape_config \<Rightarrow> json" where
  "enc_scrape c = JObj
     (enc_string ''job_name'' (sc_JobName c) @
      enc_list enc_sd ''kubernetes_sd_configs'' (sc_KubernetesSdConfigs c) @
      enc_list enc_relabel ''relabel_configs'' (sc_RelabelConfigs c) @
      enc_string ''scrape_interval'' (sc_ScrapeInterval c) @
      enc_list enc_relabel ''metric_relabel_configs'' (sc_MetricRelabelConfigs c) @
      enc_string ''metrics_path'' (sc_MetricsPath c) @
      enc_string ''bearer_token_file'' (sc_BearerTokenFile c) @
      enc_string ''scheme'' (sc_Scheme c) @
      enc_pointer enc_tls ''tls_config'' (sc_TLSConfig c))"

definition dec_scrape :: "json \<Rightarrow> scrape_config go" where
  "dec_scrape = dec_struct (\<lambda>o1.
     gbind (dec_field dec_string [] ''job_name'' o1) (\<lambda>job.
     gbind (dec_field (dec_list dec_sd) [] ''kubernetes_sd_configs'' o1) (\<lambda>sds.
     gbind (dec_field (dec_list dec_relabel) [] ''relabel_configs'' o1) (\<lambda>relabels.
     gbind (dec_field dec_string [] ''scrape_interval'' o1) (\<lambda>interval.
     gbind (dec_field (dec_list dec_relabel) [] ''metric_relabel_configs'' o1) (\<lambda>metric_relabels.
     gbind (dec_field dec_string [] ''metrics_path'' o1) (\<lambda>path.
     gbind (dec_field dec_string [] ''bearer_token_file'' o1) (\<lambda>token.
     gbind (dec_field dec_string [] ''scheme'' o1) (\<lambda>scheme.
     gbind (dec_field (dec_pointer dec_tls) None ''tls_config'' o1) (\<lambda>tls.
     Ret \<lparr>sc_JobName = job, sc_KubernetesSdConfigs = sds, sc_RelabelConfigs = relabels, sc_ScrapeInterval = interval,
       sc_MetricRelabelConfigs = metric_relabels, sc_MetricsPath = path, sc_BearerTokenFile = token,
       sc_Scheme = scheme, sc_TLSConfig = tls\<rparr>))))))))))"

definition enc_config :: "prometheus_config \<Rightarrow> (string \<times> json) list" where
  "enc_config c =
     [(''global'', JObj [(''scrape_interval'', Duration_MarshalJSON (pc_ScrapeInterval c))])] @
     enc_list enc_scrape ''scrape_configs'' (pc_ScrapeConfigs c)"

definition dec_config :: "(string \<times> json) list \<Rightarrow> prometheus_config go" where
  "dec_config o1 =
     gbind (dec_field (dec_struct (dec_field Duration_UnmarshalJSON 0 ''scrape_interval'')) 0 ''global'' o1) (\<lambda>interval.
     gbind (dec_field (dec_list dec_scrape) [] ''scrape_configs'' o1) (\<lambda>scrapes.
     Ret \<lparr>pc_ScrapeInterval = interval, pc_ScrapeConfigs = scrapes\<rparr>))"

subsection \<open>The resource\<close>

record prometheus_resource =
  pr_Prometheus :: "(string \<times> json) list option"
  pr_Metadata :: metadata

definition prometheus_ops :: "prometheus_resource resource_ops" where
  "prometheus_ops = \<lparr>GetMetadata = pr_Metadata, SetMetadata = (\<lambda>m r. r\<lparr>pr_Metadata := m\<rparr>), ClearStatus = (\<lambda>r. r)\<rparr>"

interpretation prom_resource: resource_type prometheus_ops
  by unfold_locales (simp_all add: prometheus_ops_def)

definition ConfigFromResource :: "prometheus_resource option \<Rightarrow> prometheus_config option go" where
  "ConfigFromResource cfg =
     (case cfg of
        None \<Rightarrow> Ret None
      | Some cfg \<Rightarrow>
          gbind (gwrap ''failed to marshal proto struct''
            (case pr_Prometheus cfg of None \<Rightarrow> Fail (Errorf ''Marshal called with nil'') 
             | Some s \<Rightarrow> Ret (map (\<lambda>(k, v). (k, json_of_struct v)) s))) (\<lambda>str.
          gbind (gwrap ''failed to unmarshal raw json to prometheus config'' (dec_config str)) (\<lambda>c.
          Ret (Some c))))"

definition ConfigToResource :: "prometheus_config option \<Rightarrow> prometheus_resource option go" where
  "ConfigToResource cfg =
     (case cfg of
        None \<Rightarrow> Ret None
      | Some cfg \<Rightarrow>
          Ret (Some \<lparr>pr_Prometheus = Some (map (\<lambda>(k, v). (k, struct_of_json v)) (enc_config cfg)),
            pr_Metadata = new_metadata [] []\<rparr>))"

section \<open>Adding scrape configurations\<close>

text \<open>Returns the new configuration and whether it changed.\<close>

definition add_scrape_config :: "scrape_config \<Rightarrow> prometheus_config \<times> bool \<Rightarrow> prometheus_config \<times> bool" where
  "add_scrape_config desired st =
     (case st of (cfg, updated) \<Rightarrow>
        if \<exists>sc \<in> set (pc_ScrapeConfigs cfg). sc_JobName sc = sc_JobName desired then (cfg, updated)
        else (cfg\<lparr>pc_ScrapeConfigs := pc_ScrapeConfigs cfg @ [desired]\<rparr>, True))"

definition AddScrapeConfigs :: "scrape_config list \<Rightarrow> prometheus_config \<Rightarrow> prometheus_config \<times> bool" where
  "AddScrapeConfigs scrapeConfigs cfg = fold add_scrape_config scrapeConfigs (cfg, False)"

end
