(* ===== verification/Typed_Clients.thy ===== *)
theory Typed_Clients
  imports Memory_Client Event_Loops Prometheus
begin

text \<open>
  The code that solo-kit generates for every kind of resource: the operations on lists
  (\<open>mesh.sk.go\<close>), the typed client (\<open>mesh_client.sk.go\<close>) and the typed reconciler
  (\<open>mesh_reconciler.sk.go\<close>), and the same three files for ten other kinds. The generator's templates
  are modelled once, over what differs from kind to kind, and each kind is an instance.

  A typed client wraps a client of untyped resources, \<open>resources.Resource\<close>: an interface, whose value
  carries its dynamic type. A type assertion to another type panics.
\<close>

section \<open>Untyped resources\<close>

datatype any_resource =
    R_Mesh mesh
  | R_Install install
  | R_RoutingRule routing_rule
  | R_Upstream upstream
  | R_IstioCacertsSecret istio_cacerts_secret
  | R_DestinationRule destination_rule
  | R_VirtualService virtual_service
  | R_ServiceRole service_role
  | R_ServiceRoleBinding service_role_binding
  | R_RbacConfig rbac_config
  | R_Config prometheus_resource

fun any_Metadata :: "any_resource \<Rightarrow> metadata" where
  "any_Metadata (R_Mesh r) = mesh_Metadata r"
| "any_Metadata (R_Install r) = install_Metadata r"
| "any_Metadata (R_RoutingRule r) = rr_Metadata r"
| "any_Metadata (R_Upstream r) = upstream_Metadata r"
| "any_Metadata (R_IstioCacertsSecret r) = cacerts_Metadata r"
| "any_Metadata (R_DestinationRule r) = dr_Metadata r"
| "any_Metadata (R_VirtualService r) = vs_Metadata r"
| "any_Metadata (R_ServiceRole r) = sr_Metadata r"
| "any_Metadata (R_ServiceRoleBinding r) = srb_Metadata r"
| "any_Metadata (R_RbacConfig r) = rc_Metadata r"
| "any_Metadata (R_Config r) = pr_Metadata r"

fun any_SetMetadata :: "metadata \<Rightarrow> any_resource \<Rightarrow> any_resource" where
  "any_SetMetadata m (R_Mesh r) = R_Mesh (SetMetadata mesh_ops m r)"
| "any_SetMetadata m (R_Install r) = R_Install (SetMetadata install_ops m r)"
| "any_SetMetadata m (R_RoutingRule r) = R_RoutingRule (SetMetadata routing_rule_ops m r)"
| "any_SetMetadata m (R_Upstream r) = R_Upstream (SetMetadata upstream_ops m r)"
| "any_SetMetadata m (R_IstioCacertsSecret r) = R_IstioCacertsSecret (SetMetadata istio_cacerts_secret_ops m r)"
| "any_SetMetadata m (R_DestinationRule r) = R_DestinationRule (SetMetadata destination_rule_ops m r)"
| "any_SetMetadata m (R_VirtualService r) = R_VirtualService (SetMetadata virtual_service_ops m r)"
| "any_SetMetadata m (R_ServiceRole r) = R_ServiceRole (SetMetadata service_role_ops m r)"
| "any_SetMetadata m (R_ServiceRoleBinding r) = R_ServiceRoleBinding (SetMetadata service_role_binding_ops m r)"
| "any_SetMetadata m (R_RbacConfig r) = R_RbacConfig (SetMetadata rbac_config_ops m r)"
| "any_SetMetadata m (R_Config r) = R_Config (SetMetadata prometheus_ops m r)"

fun any_ClearStatus :: "any_resource \<Rightarrow> any_resource" where
  "any_ClearStatus (R_Mesh r) = R_Mesh (ClearStatus mesh_ops r)"
| "any_ClearStatus (R_Install r) = R_Install (ClearStatus install_ops r)"
| "any_ClearStatus (R_RoutingRule r) = R_RoutingRule (ClearStatus routing_rule_ops r)"
| "any_ClearStatus (R_Upstream r) = R_Upstream (ClearStatus upstream_ops r)"
| "any_ClearStatus (R_IstioCacertsSecret r) = R_IstioCacertsSecret (ClearStatus istio_cacerts_secret_ops r)"
| "any_ClearStatus (R_DestinationRule r) = R_DestinationRule (ClearStatus destination_rule_ops r)"
| "any_ClearStatus (R_VirtualService r) = R_VirtualService (ClearStatus virtual_service_ops r)"
| "any_ClearStatus (R_ServiceRole r) = R_ServiceRole (ClearStatus service_role_ops r)"
| "any_ClearStatus (R_ServiceRoleBinding r) = R_ServiceRoleBinding (ClearStatus service_role_binding_ops r)"
| "any_ClearStatus (R_RbacConfig r) = R_RbacConfig (ClearStatus rbac_config_ops r)"
| "any_ClearStatus (R_Config r) = R_Config (ClearStatus prometheus_ops r)"

definition any_ops :: "any_resource resource_ops" where
  "any_ops = \<lparr>GetMetadata = any_Metadata, SetMetadata = any_SetMetadata, ClearStatus = any_ClearStatus\<rparr>"

section \<open>The template of a client\<close>

text \<open>\<open>resource.(*T)\<close>.\<close>

definition type_assert :: "('a \<Rightarrow> 'r option) \<Rightarrow> 'a \<Rightarrow> 'r go" where
  "type_assert cast a = (case cast a of None \<Rightarrow> Panic ''interface conversion'' | Some r \<Rightarrow> Ret r)"

definition convertTo :: "('a \<Rightarrow> 'r option) \<Rightarrow> 'a list \<Rightarrow> 'r list go" where
  "convertTo cast rs = gmapM (type_assert cast) rs"

text \<open>The options are completed with defaults (a context) that the model does not have.\<close>

definition typed_client :: "('r \<Rightarrow> 'a) \<Rightarrow> ('a \<Rightarrow> 'r option) \<Rightarrow> ('s, 'a) client \<Rightarrow> ('s, 'r) client" where
  "typed_client wrap cast rc =
     \<lparr>client_Read = (\<lambda>namespace name. abind (client_Read rc namespace name) (\<lambda>r. alift (type_assert cast r))),
      client_Write = (\<lambda>r overwrite. abind (client_Write rc (wrap r) overwrite) (\<lambda>r. alift (type_assert cast r))),
      client_Delete = client_Delete rc,
      client_List = (\<lambda>namespace selector. abind (client_List rc namespace selector) (\<lambda>rs. alift (convertTo cast rs)))\<rparr>"

text \<open>
  The goroutine of \<open>Watch\<close>: an event is a list from the base client's channel, the zero value that
  this channel delivers once it is closed, or the end of the context. What is sent is a list of lists.
\<close>

datatype 'a watch_event = Received "'a list" | ChannelClosed | ContextDone

fun watch_loop :: "('a \<Rightarrow> 'r option) \<Rightarrow> 'a watch_event list \<Rightarrow> 'r list list go" where
  "watch_loop cast [] = Ret []"
| "watch_loop cast (e # es) =
     (case e of
        Received rs \<Rightarrow> gbind (convertTo cast rs) (\<lambda>l. gbind (watch_loop cast es) (\<lambda>ls. Ret (l # ls)))
      | ChannelClosed \<Rightarrow> gbind (watch_loop cast es) (\<lambda>ls. Ret ([] # ls))
      | ContextDone \<Rightarrow> Ret [])"

text \<open>The base client that a factory makes, and the generated client around it.\<close>

record ('s, 'a) base_client =
  base_Register :: "unit go"
  base_Client :: "('s, 'a) client"
  base_Watch :: "string \<Rightarrow> unit go"

record ('s, 'a, 'r) generated_client =
  gc_BaseClient :: "('s, 'a) base_client"
  gc_Register :: "unit go"
  gc_Client :: "('s, 'r) client"
  gc_Watch :: "string \<Rightarrow> 'a watch_event list \<Rightarrow> 'r list list go"

definition new_client ::
  "string \<Rightarrow> ('r \<Rightarrow> 'a) \<Rightarrow> ('a \<Rightarrow> 'r option) \<Rightarrow> ('s, 'a) base_client go \<Rightarrow> ('s, 'a, 'r) generated_client go" where
  "new_client kind wrap cast rcFactory =
     gbind (gwrap (''creating base '' @ kind @ '' resource client'') rcFactory) (\<lambda>rc.
       Ret \<lparr>gc_BaseClient = rc, gc_Register = base_Register rc,
            gc_Client = typed_client wrap cast (base_Client rc),
            gc_Watch = (\<lambda>namespace es. gbind (base_Watch rc namespace) (\<lambda>_. watch_loop cast es))\<rparr>)"

section \<open>The template of a reconciler\<close>

definition typed_Reconcile ::
  "('r \<Rightarrow> 'a) \<Rightarrow> ('a \<Rightarrow> 'r option) \<Rightarrow> 'a resource_ops \<Rightarrow> ('s, 'a) client \<Rightarrow> string \<Rightarrow> 'r list \<Rightarrow>
   'r transition option \<Rightarrow> (string \<times> string) list \<Rightarrow> ('s, unit) act" where
  "typed_Reconcile wrap cast ops rc namespace desiredResources transition selector =
     Reconcile ops rc namespace (map wrap desiredResources)
       (map_option (\<lambda>t original desired.
          gbind (type_assert cast original) (\<lambda>original. gbind (type_assert cast desired) (\<lambda>desired. t original desired))) transition)
       selector"

section \<open>The template of the list operations\<close>

record ('r, 'a) list_functions =
  lf_New :: "string \<Rightarrow> string \<Rightarrow> 'r"
  lf_Find :: "'r list \<Rightarrow> string \<Rightarrow> string \<Rightarrow> 'r go"
  lf_AsResources :: "'r list \<Rightarrow> 'a list"
  lf_AsInputResources :: "('r list \<Rightarrow> 'a list) option"
  lf_Names :: "'r list \<Rightarrow> string list"
  lf_NamespacesDotNames :: "'r list \<Rightarrow> string list"
  lf_Sort :: "'r list \<Rightarrow> 'r list"
  lf_Clone :: "'r list \<Rightarrow> 'r list"
  lf_ByNamespace :: "'r list \<Rightarrow> 'r by_namespace"
  lf_Add :: "'r by_namespace \<Rightarrow> 'r list \<Rightarrow> 'r by_namespace"
  lf_Clear :: "'r by_namespace \<Rightarrow> string \<Rightarrow> 'r by_namespace"
  lf_List :: "'r by_namespace \<Rightarrow> 'r list"
  lf_CloneMap :: "'r by_namespace \<Rightarrow> 'r by_namespace"

text \<open>The kinds with a status have \<open>AsInputResources\<close>, the same loop as \<open>AsResources\<close>.\<close>

definition list_functions_of :: "bool \<Rightarrow> ('r \<Rightarrow> 'a) \<Rightarrow> 'r resource_ops \<Rightarrow> 'r \<Rightarrow> ('r, 'a) list_functions" where
  "list_functions_of has_status wrap ops zero =
     \<lparr>lf_New = (\<lambda>namespace name. SetMetadata ops (new_metadata namespace name) zero),
      lf_Find = (\<lambda>l namespace name. list_Find (GetMetadata ops) namespace name l),
      lf_AsResources = map wrap,
      lf_AsInputResources = (if has_status then Some (map wrap) else None),
      lf_Names = map (\<lambda>r. meta_Name (GetMetadata ops r)),
      lf_NamespacesDotNames = map (\<lambda>r. meta_Namespace (GetMetadata ops r) @ ''.'' @ meta_Name (GetMetadata ops r)),
      lf_Sort = list_Sort (GetMetadata ops),
      lf_Clone = map (\<lambda>r. r),
      lf_ByNamespace = list_ByNamespace (GetMetadata ops),
      lf_Add = (\<lambda>m rs. byNamespace_Add (GetMetadata ops) rs m),
      lf_Clear = (\<lambda>m namespace. byNamespace_Clear namespace m),
      lf_List = byNamespace_List id (GetMetadata ops),
      lf_CloneMap = byNamespace_Clone ops\<rparr>"

end
