(* ===== verification/Typed_Kinds.thy ===== *)
theory Typed_Kinds
  imports Typed_Clients
begin

text \<open>
  The kinds of resources that the program uses, each an instance of the three templates of
  \<open>Typed_Clients\<close>: its zero value, the functions on its lists, its client and its reconciler. Enums of
  protocol buffers have their first value as zero.
\<close>

definition zero_metadata :: metadata where
  "zero_metadata = new_metadata [] []"

section \<open>Mesh\<close>

fun as_Mesh :: "any_resource \<Rightarrow> mesh option" where
  "as_Mesh (R_Mesh r) = Some r"
| "as_Mesh _ = None"

definition zero_Mesh :: mesh where
  "zero_Mesh =
     \<lparr>mesh_Status = zero_status, mesh_Metadata = zero_metadata, mesh_MeshType = None, mesh_Encryption = None,
     mesh_Observability = None, mesh_Policy = None\<rparr>"

definition MeshList_functions :: "(mesh, any_resource) list_functions" where
  "MeshList_functions = list_functions_of True R_Mesh mesh_ops zero_Mesh"

definition NewMeshClient ::
  "('s, any_resource) base_client go \<Rightarrow> ('s, any_resource, mesh) generated_client go" where
  "NewMeshClient = new_client ''Mesh'' R_Mesh as_Mesh"

definition MeshReconciler_Reconcile ::
  "('s, any_resource) client \<Rightarrow> string \<Rightarrow> mesh list \<Rightarrow> mesh transition option \<Rightarrow>
   (string \<times> string) list \<Rightarrow> ('s, unit) act" where
  "MeshReconciler_Reconcile = typed_Reconcile R_Mesh as_Mesh any_ops"

section \<open>Install\<close>

fun as_Install :: "any_resource \<Rightarrow> install option" where
  "as_Install (R_Install r) = Some r"
| "as_Install _ = None"

definition zero_Install :: install where
  "zero_Install =
     \<lparr>install_Status = zero_status, install_Metadata = zero_metadata, install_MeshType = None, install_ChartLocator = None,
     install_Encryption = None, install_Enabled = None\<rparr>"

definition InstallList_functions :: "(install, any_resource) list_functions" where
  "InstallList_functions = list_functions_of True R_Install install_ops zero_Install"

definition NewInstallClient ::
  "('s, any_resource) base_client go \<Rightarrow> ('s, any_resource, install) generated_client go" where
  "NewInstallClient = new_client ''Install'' R_Install as_Install"

definition InstallReconciler_Reconcile ::
  "('s, any_resource) client \<Rightarrow> string \<Rightarrow> install list \<Rightarrow> install transition option \<Rightarrow>
   (string \<times> string) list \<Rightarrow> ('s, unit) act" where
  "InstallReconciler_Reconcile = typed_Reconcile R_Install as_Install any_ops"

section \<open>RoutingRule\<close>

fun as_RoutingRule :: "any_resource \<Rightarrow> routing_rule option" where
  "as_RoutingRule (R_RoutingRule r) = Some r"
| "as_RoutingRule _ = None"

definition zero_RoutingRule :: routing_rule where
  "zero_RoutingRule =
     \<lparr>rr_Status = zero_status, rr_Metadata = zero_metadata, rr_TargetMesh = None, rr_Sources = [], rr_Destinations = [],
     rr_RequestMatchers = None, rr_TrafficShifting = None, rr_FaultInjection = None, rr_Timeout = None, rr_Retries = None,
     rr_CorsPolicy = None, rr_Mirror = None, rr_HeaderManipulaition = None\<rparr>"

definition RoutingRuleList_functions :: "(routing_rule, any_resource) list_functions" where
  "RoutingRuleList_functions = list_functions_of True R_RoutingRule routing_rule_ops zero_RoutingRule"

definition NewRoutingRuleClient ::
  "('s, any_resource) base_client go \<Rightarrow> ('s, any_resource, routing_rule) generated_client go" where
  "NewRoutingRuleClient = new_client ''RoutingRule'' R_RoutingRule as_RoutingRule"

definition RoutingRuleReconciler_Reconcile ::
  "('s, any_resource) client \<Rightarrow> string \<Rightarrow> routing_rule list \<Rightarrow> routing_rule transition option \<Rightarrow>
   (string \<times> string) list \<Rightarrow> ('s, unit) act" where
  "RoutingRuleReconciler_Reconcile = typed_Reconcile R_RoutingRule as_RoutingRule any_ops"

section \<open>Upstream\<close>

fun as_Upstream :: "any_resource \<Rightarrow> upstream option" where
  "as_Upstream (R_Upstream r) = Some r"
| "as_Upstream _ = None"

definition zero_Upstream :: upstream where
  "zero_Upstream =
     \<lparr>upstream_UpstreamSpec = None, upstream_Status = zero_status, upstream_Metadata = zero_metadata\<rparr>"

definition UpstreamList_functions :: "(upstream, any_resource) list_functions" where
  "UpstreamList_functions = list_functions_of True R_Upstream upstream_ops zero_Upstream"

definition NewUpstreamClient ::
  "('s, any_resource) base_client go \<Rightarrow> ('s, any_resource, upstream) generated_client go" where
  "NewUpstreamClient = new_client ''Upstream'' R_Upstream as_Upstream"

definition UpstreamReconciler_Reconcile ::
  "('s, any_resource) client \<Rightarrow> string \<Rightarrow> upstream list \<Rightarrow> upstream transition option \<Rightarrow>
   (string \<times> string) list \<Rightarrow> ('s, unit) act" where
  "UpstreamReconciler_Reconcile = typed_Reconcile R_Upstream as_Upstream any_ops"

section \<open>IstioCacertsSecret\<close>

fun as_IstioCacertsSecret :: "any_resource \<Rightarrow> istio_cacerts_secret option" where
  "as_IstioCacertsSecret (R_IstioCacertsSecret r) = Some r"
| "as_IstioCacertsSecret _ = None"

definition zero_IstioCacertsSecret :: istio_cacerts_secret where
  "zero_IstioCacertsSecret =
     \<lparr>cacerts_Metadata = zero_metadata, cacerts_RootCert = [], cacerts_CertChain = [], cacerts_CaCert = [], cacerts_CaKey = []\<rparr>"

definition IstioCacertsSecretList_functions :: "(istio_cacerts_secret, any_resource) list_functions" where
  "IstioCacertsSecretList_functions = list_functions_of False R_IstioCacertsSecret istio_cacerts_secret_ops zero_IstioCacertsSecret"

definition NewIstioCacertsSecretClient ::
  "('s, any_resource) base_client go \<Rightarrow> ('s, any_resource, istio_cacerts_secret) generated_client go" where
  "NewIstioCacertsSecretClient = new_client ''IstioCacertsSecret'' R_IstioCacertsSecret as_IstioCacertsSecret"

definition IstioCacertsSecretReconciler_Reconcile ::
  "('s, any_resource) client \<Rightarrow> string \<Rightarrow> istio_cacerts_secret list \<Rightarrow> istio_cacerts_secret transition option \<Rightarrow>
   (string \<times> string) list \<Rightarrow> ('s, unit) act" where
  "IstioCacertsSecretReconciler_Reconcile = typed_Reconcile R_IstioCacertsSecret as_IstioCacertsSecret any_ops"

section \<open>DestinationRule\<close>

fun as_DestinationRule :: "any_resource \<Rightarrow> destination_rule option" where
  "as_DestinationRule (R_DestinationRule r) = Some r"
| "as_DestinationRule _ = None"

definition zero_DestinationRule :: destination_rule where
  "zero_DestinationRule =
     \<lparr>dr_Status = zero_status, dr_Metadata = zero_metadata, dr_Host = [], dr_TrafficPolicy = None, dr_Subsets = []\<rparr>"

definition DestinationRuleList_functions :: "(destination_rule, any_resource) list_functions" where
  "DestinationRuleList_functions = list_functions_of True R_DestinationRule destination_rule_ops zero_DestinationRule"

definition NewDestinationRuleClient ::
  "('s, any_resource) base_client go \<Rightarrow> ('s, any_resource, destination_rule) generated_client go" where
  "NewDestinationRuleClient = new_client ''DestinationRule'' R_DestinationRule as_DestinationRule"

definition DestinationRuleReconciler_Reconcile ::
  "('s, any_resource) client \<Rightarrow> string \<Rightarrow> destination_rule list \<Rightarrow> destination_rule transition option \<Rightarrow>
   (string \<times> string) list \<Rightarrow> ('s, unit) act" where
  "DestinationRuleReconciler_Reconcile = typed_Reconcile R_DestinationRule as_DestinationRule any_ops"

section \<open>VirtualService\<close>

fun as_VirtualService :: "any_resource \<Rightarrow> virtual_service option" where
  "as_VirtualService (R_VirtualService r) = Some r"
| "as_VirtualService _ = None"

definition zero_VirtualService :: virtual_service where
  "zero_VirtualService =
     \<lparr>vs_Status = zero_status, vs_Metadata = zero_metadata, vs_Hosts = [], vs_Gateways = [], vs_Http = []\<rparr>"

definition VirtualServiceList_functions :: "(virtual_service, any_resource) list_functions" where
  "VirtualServiceList_functions = list_functions_of True R_VirtualService virtual_service_ops zero_VirtualService"

definition NewVirtualServiceClient ::
  "('s, any_resource) base_client go \<Rightarrow> ('s, any_resource, virtual_service) generated_client go" where
  "NewVirtualServiceClient = new_client ''VirtualService'' R_VirtualService as_VirtualService"

definition VirtualServiceReconciler_Reconcile ::
  "('s, any_resource) client \<Rightarrow> string \<Rightarrow> virtual_service list \<Rightarrow> virtual_service transition option \<Rightarrow>
   (string \<times> string) list \<Rightarrow> ('s, unit) act" where
  "VirtualServiceReconciler_Reconcile = typed_Reconcile R_VirtualService as_VirtualService any_ops"

section \<open>ServiceRole\<close>

fun as_ServiceRole :: "any_resource \<Rightarrow> service_role option" where
  "as_ServiceRole (R_ServiceRole r) = Some r"
| "as_ServiceRole _ = None"

definition zero_ServiceRole :: service_role where
  "zero_ServiceRole =
     \<lparr>sr_Status = zero_status, sr_Metadata = zero_metadata, sr_Rules = []\<rparr>"

definition ServiceRoleList_functions :: "(service_role, any_resource) list_functions" where
  "ServiceRoleList_functions = list_functions_of True R_ServiceRole service_role_ops zero_ServiceRole"

definition NewServiceRoleClient ::
  "('s, any_resource) base_client go \<Rightarrow> ('s, any_resource, service_role) generated_client go" where
  "NewServiceRoleClient = new_client ''ServiceRole'' R_ServiceRole as_ServiceRole"

definition ServiceRoleReconciler_Reconcile ::
  "('s, any_resource) client \<Rightarrow> string \<Rightarrow> service_role list \<Rightarrow> service_role transition option \<Rightarrow>
   (string \<times> string) list \<Rightarrow> ('s, unit) act" where
  "ServiceRoleReconciler_Reconcile = typed_Reconcile R_ServiceRole as_ServiceRole any_ops"

section \<open>ServiceRoleBinding\<close>

fun as_ServiceRoleBinding :: "any_resource \<Rightarrow> service_role_binding option" where
  "as_ServiceRoleBinding (R_ServiceRoleBinding r) = Some r"
| "as_ServiceRoleBinding _ = None"

definition zero_ServiceRoleBinding :: service_role_binding where
  "zero_ServiceRoleBinding =
     \<lparr>srb_Status = zero_status, srb_Metadata = zero_metadata, srb_Subjects = [], srb_RoleRef = None\<rparr>"

definition ServiceRoleBindingList_functions :: "(service_role_binding, any_resource) list_functions" where
  "ServiceRoleBindingList_functions = list_functions_of True R_ServiceRoleBinding service_role_binding_ops zero_ServiceRoleBinding"

definition NewServiceRoleBindingClient ::
  "('s, any_resource) base_client go \<Rightarrow> ('s, any_resource, service_role_binding) generated_client go" where
  "NewServiceRoleBindingClient = new_client ''ServiceRoleBinding'' R_ServiceRoleBinding as_ServiceRoleBinding"

definition ServiceRoleBindingReconciler_Reconcile ::
  "('s, any_resource) client \<Rightarrow> string \<Rightarrow> service_role_binding list \<Rightarrow> service_role_binding transition option \<Rightarrow>
   (string \<times> string) list \<Rightarrow> ('s, unit) act" where
  "ServiceRoleBindingReconciler_Reconcile = typed_Reconcile R_ServiceRoleBinding as_ServiceRoleBinding any_ops"

section \<open>RbacConfig\<close>

fun as_RbacConfig :: "any_resource \<Rightarrow> rbac_config option" where
  "as_RbacConfig (R_RbacConfig r) = Some r"
| "as_RbacConfig _ = None"

definition zero_RbacConfig :: rbac_config where
  "zero_RbacConfig =
     \<lparr>rc_Status = zero_status, rc_Metadata = zero_metadata, rc_Mode = RbacConfig_OFF, rc_EnforcementMode = EnforcementMode_ENFORCED\<rparr>"

definition RbacConfigList_functions :: "(rbac_config, any_resource) list_functions" where
  "RbacConfigList_functions = list_functions_of True R_RbacConfig rbac_config_ops zero_RbacConfig"

definition NewRbacConfigClient ::
  "('s, any_resource) base_client go \<Rightarrow> ('s, any_resource, rbac_config) generated_client go" where
  "NewRbacConfigClient = new_client ''RbacConfig'' R_RbacConfig as_RbacConfig"

definition RbacConfigReconciler_Reconcile ::
  "('s, any_resource) client \<Rightarrow> string \<Rightarrow> rbac_config list \<Rightarrow> rbac_config transition option \<Rightarrow>
   (string \<times> string) list \<Rightarrow> ('s, unit) act" where
  "RbacConfigReconciler_Reconcile = typed_Reconcile R_RbacConfig as_RbacConfig any_ops"

section \<open>Config\<close>

fun as_Config :: "any_resource \<Rightarrow> prometheus_resource option" where
  "as_Config (R_Config r) = Some r"
| "as_Config _ = None"

definition zero_Config :: prometheus_resource where
  "zero_Config =
     \<lparr>pr_Prometheus = None, pr_Metadata = zero_metadata\<rparr>"

definition ConfigList_functions :: "(prometheus_resource, any_resource) list_functions" where
  "ConfigList_functions = list_functions_of False R_Config prometheus_ops zero_Config"

definition NewConfigClient ::
  "('s, any_resource) base_client go \<Rightarrow> ('s, any_resource, prometheus_resource) generated_client go" where
  "NewConfigClient = new_client ''Config'' R_Config as_Config"

definition ConfigReconciler_Reconcile ::
  "('s, any_resource) client \<Rightarrow> string \<Rightarrow> prometheus_resource list \<Rightarrow> prometheus_resource transition option \<Rightarrow>
   (string \<times> string) list \<Rightarrow> ('s, unit) act" where
  "ConfigReconciler_Reconcile = typed_Reconcile R_Config as_Config any_ops"

end
