(* ===== verification/Typed_Properties.thy ===== *)
theory Typed_Properties
  imports Typed_Kinds
begin

text \<open>
  The generated clients and reconcilers are faithful: a typed client keeps the promises of the client
  it wraps, and a typed reconciler on the untyped client does what the reconciler does on
  the typed one.
\<close>

section \<open>The interface of a kind\<close>

locale typed_kind = resource_type ops for ops :: "'r resource_ops" +
  fixes wrap :: "'r \<Rightarrow> 'a"
    and cast :: "'a \<Rightarrow> 'r option"
    and aops :: "'a resource_ops"
  assumes cast_iff: "cast a = Some r \<longleftrightarrow> a = wrap r"
    and Get_wrap [simp]: "GetMetadata aops (wrap r) = GetMetadata ops r"
    and Set_wrap [simp]: "SetMetadata aops m (wrap r) = wrap (SetMetadata ops m r)"
    and Clear_wrap [simp]: "ClearStatus aops (wrap r) = wrap (ClearStatus ops r)"
begin

lemma cast_wrap [simp]: "cast (wrap r) = Some r"
  by (simp add: cast_iff)

lemma wrap_eq [simp]: "wrap r = wrap r' \<longleftrightarrow> r = r'"
  using cast_iff [of "wrap r" r'] by auto

lemma assert_wrap [simp]: "type_assert cast (wrap r) = Ret r"
  by (simp add: type_assert_def)

lemma convert_map_wrap [simp]: "convertTo cast (map wrap rs) = Ret rs"
  by (induction rs) (simp_all add: convertTo_def)

lemma but_version_wrap [simp]: "but_version aops (wrap r) (wrap r') \<longleftrightarrow> but_version ops r r'"
  by (simp add: but_version_def)

lemma prepare_wrap [simp]: "prepare_update aops (wrap o1) (wrap d) = wrap (prepare_update ops o1 d)"
  by (simp add: prepare_update_def)

lemma castable_map: "(\<forall>a \<in> set as. cast a \<noteq> None) \<longleftrightarrow> (\<exists>rs. as = map wrap rs)"
proof
  assume "\<forall>a \<in> set as. cast a \<noteq> None"
  then have "map (\<lambda>a. wrap (the (cast a))) as = as"
    by (intro map_idI) (metis cast_iff option.exhaust_sel)
  then have "as = map wrap (map (\<lambda>a. the (cast a)) as)" by (simp add: comp_def)
  then show "\<exists>rs. as = map wrap rs" by blast
qed auto

end

section \<open>The eleven kinds\<close>

lemma any_resource_type: "resource_type any_ops"
proof
  show "GetMetadata any_ops (SetMetadata any_ops m r) = m" for m r
    by (cases r) (simp_all add: any_ops_def ops_simps install_ops_def prometheus_ops_def)
  show "SetMetadata any_ops (GetMetadata any_ops r) r = r" for r
    by (cases r) (simp_all add: any_ops_def ops_simps install_ops_def prometheus_ops_def)
  show "SetMetadata any_ops m (SetMetadata any_ops m' r) = SetMetadata any_ops m r" for m m' r
    by (cases r) (simp_all add: any_ops_def ops_simps install_ops_def prometheus_ops_def)
  show "GetMetadata any_ops (ClearStatus any_ops r) = GetMetadata any_ops r" for r
    by (cases r) (simp_all add: any_ops_def ops_simps install_ops_def prometheus_ops_def)
qed

lemmas kind_simps = any_ops_def ops_simps install_ops_def prometheus_ops_def

interpretation mesh_kind: typed_kind mesh_ops R_Mesh as_Mesh any_ops
  by unfold_locales (auto simp: kind_simps elim: as_Mesh.elims)

interpretation install_kind: typed_kind install_ops R_Install as_Install any_ops
  by unfold_locales (auto simp: kind_simps elim: as_Install.elims)

interpretation routing_rule_kind: typed_kind routing_rule_ops R_RoutingRule as_RoutingRule any_ops
  by unfold_locales (auto simp: kind_simps elim: as_RoutingRule.elims)

interpretation upstream_kind: typed_kind upstream_ops R_Upstream as_Upstream any_ops
  by unfold_locales (auto simp: kind_simps elim: as_Upstream.elims)

interpretation istio_cacerts_secret_kind: typed_kind istio_cacerts_secret_ops R_IstioCacertsSecret as_IstioCacertsSecret any_ops
  by unfold_locales (auto simp: kind_simps elim: as_IstioCacertsSecret.elims)

interpretation destination_rule_kind: typed_kind destination_rule_ops R_DestinationRule as_DestinationRule any_ops
  by unfold_locales (auto simp: kind_simps elim: as_DestinationRule.elims)

interpretation virtual_service_kind: typed_kind virtual_service_ops R_VirtualService as_VirtualService any_ops
  by unfold_locales (auto simp: kind_simps elim: as_VirtualService.elims)

interpretation service_role_kind: typed_kind service_role_ops R_ServiceRole as_ServiceRole any_ops
  by unfold_locales (auto simp: kind_simps elim: as_ServiceRole.elims)

interpretation service_role_binding_kind: typed_kind service_role_binding_ops R_ServiceRoleBinding as_ServiceRoleBinding any_ops
  by unfold_locales (auto simp: kind_simps elim: as_ServiceRoleBinding.elims)

interpretation rbac_config_kind: typed_kind rbac_config_ops R_RbacConfig as_RbacConfig any_ops
  by unfold_locales (auto simp: kind_simps elim: as_RbacConfig.elims)

interpretation prometheus_resource_kind: typed_kind prometheus_ops R_Config as_Config any_ops
  by unfold_locales (auto simp: kind_simps elim: as_Config.elims)

section \<open>The typed client keeps the promises of the client\<close>

definition typed_view :: "('a \<Rightarrow> 'r option) \<Rightarrow> ('s \<Rightarrow> resource_ref \<Rightarrow> 'a option) \<Rightarrow> 's \<Rightarrow> resource_ref \<Rightarrow> 'r option" where
  "typed_view cast view s ref = Option.bind (view s ref) cast"

context typed_kind
begin

lemma typed_view_Some: "typed_view cast view s ref = Some r \<longleftrightarrow> view s ref = Some (wrap r)"
  by (cases "view s ref") (auto simp: typed_view_def cast_iff)

lemma typed_view_upd:
  "view s' = (view s)(ref \<mapsto> wrap r) \<Longrightarrow> typed_view cast view s' = (typed_view cast view s)(ref \<mapsto> r)"
  "view s' = (view s)(ref := None) \<Longrightarrow> typed_view cast view s' = (typed_view cast view s)(ref := None)"
  by (auto simp: typed_view_def fun_eq_iff)

end

section \<open>The typed reconciler does what the reconciler does on the typed client\<close>

text \<open>A store that holds one kind only, \<open>P\<close>, and whose client keeps it so.\<close>

locale typed_store = typed_kind ops wrap cast aops
  for ops :: "'r resource_ops" and wrap :: "'r \<Rightarrow> 'a" and cast and aops +
  fixes rc :: "('s, 'a) client" and P :: "'s \<Rightarrow> bool"
  assumes List_kind: "P s \<Longrightarrow> client_List rc ns sel s = (r, s') \<Longrightarrow> P s' \<and> (\<forall>as. r = Ret as \<longrightarrow> (\<forall>a \<in> set as. cast a \<noteq> None))"
    and Write_kind: "P s \<Longrightarrow> client_Write rc (wrap x) ow s = (w, s') \<Longrightarrow> P s' \<and> (\<forall>a. w = Ret a \<longrightarrow> cast a \<noteq> None)"
    and Delete_kind: "P s \<Longrightarrow> client_Delete rc ns n ignore s = (d, s') \<Longrightarrow> P s'"
begin

text \<open>Two actions that do the same from every state of the kind, and stay within it.\<close>

definition same_on :: "('s, 'x) act \<Rightarrow> ('s, 'x) act \<Rightarrow> bool" where
  "same_on m m' \<longleftrightarrow> (\<forall>s. P s \<longrightarrow> m s = m' s \<and> P (snd (m s)))"

lemma same_on_aret [simp]: "same_on (aret x) (aret x)"
  by (simp add: same_on_def aret_def)

lemma same_on_lift_bind: "(\<And>x. r = Ret x \<Longrightarrow> same_on (f x) (f' x)) \<Longrightarrow> same_on (abind (alift r) f) (abind (alift r) f')"
  by (cases r) (auto simp: same_on_def abind_def alift_def)

lemma same_on_wrap: "same_on m m' \<Longrightarrow> same_on (awrap msg m) (awrap msg m')"
  by (auto simp: same_on_def awrap_def split: prod.splits)

lemma same_on_foreach: "(\<And>x. x \<in> set xs \<Longrightarrow> same_on (f (g x)) (f' x)) \<Longrightarrow> same_on (aforeach f (map g xs)) (aforeach f' xs)"
proof (induction xs)
  case (Cons x xs)
  then have "same_on (f (g x)) (f' x)" "same_on (aforeach f (map g xs)) (aforeach f' xs)" by auto
  then show ?case by (auto simp: same_on_def abind_def split: prod.splits go.splits)
qed simp

lemma same_on_write:
  "same_on (abind (client_Write rc (wrap d) ow) (\<lambda>_. aret ())) (abind (client_Write (typed_client wrap cast rc) d ow) (\<lambda>_. aret ()))"
proof (unfold same_on_def, intro allI impI)
  fix s assume "P s"
  obtain r s' where w: "client_Write rc (wrap d) ow s = (r, s')" by fastforce
  from Write_kind [OF \<open>P s\<close> w] w
  show "abind (client_Write rc (wrap d) ow) (\<lambda>_. aret ()) s = abind (client_Write (typed_client wrap cast rc) d ow) (\<lambda>_. aret ()) s \<and>
      P (snd (abind (client_Write rc (wrap d) ow) (\<lambda>_. aret ()) s))"
    by (cases r) (auto simp: typed_client_def abind_def act_defs type_assert_def)
qed

lemma find_wrap: "findResource aops ns name (map wrap rs) = map_option wrap (findResource ops ns name rs)"
  by (induction rs) (simp_all add: findResource_def)

lemma same_on_sync:
  "same_on
     (syncResource aops rc (wrap d) (map wrap os)
       (map_option (\<lambda>t original desired.
          gbind (type_assert cast original) (\<lambda>original. gbind (type_assert cast desired) (\<lambda>desired. t original desired))) transition))
     (syncResource ops (typed_client wrap cast rc) d os transition)"
proof (cases "findResource ops (meta_Namespace (GetMetadata ops d)) (meta_Name (GetMetadata ops d)) os")
  case None
  then show ?thesis by (simp add: syncResource_def find_wrap same_on_write)
next
  case (Some r)
  then show ?thesis
    by (auto simp: syncResource_def find_wrap same_on_write Let_def split: option.split intro!: same_on_lift_bind)
qed

lemma same_on_unused:
  "same_on (deleteUnused aops rc (map wrap ds) (wrap r)) (deleteUnused ops (typed_client wrap cast rc) ds r)"
proof -
  have "same_on (deleteStaleResource aops rc (wrap r)) (deleteStaleResource ops (typed_client wrap cast rc) r)"
    by (auto simp: same_on_def deleteStaleResource_def typed_client_def dest: Delete_kind split: prod.splits)
      (metis Delete_kind prod.collapse)
  from same_on_wrap [OF this] show ?thesis by (auto simp: deleteUnused_def find_wrap)
qed

lemma typed_Reconcile_typed:
  assumes "P s"
  shows "typed_Reconcile wrap cast aops rc ns ds transition sel s = Reconcile ops (typed_client wrap cast rc) ns ds transition sel s"
proof -
  obtain r s' where l: "client_List rc ns sel s = (r, s')" by fastforce
  show ?thesis
  proof (cases r)
    case (Ret as)
    then have "\<forall>a \<in> set as. cast a \<noteq> None" and "P s'" using List_kind [OF assms l] by auto
    then obtain rs where rs: "as = map wrap rs" using castable_map by blast
    let ?sync = "\<lambda>t d. awrap ''reconciling resource %v'' (syncResource aops rc d as t)"
    have "same_on (aforeach (?sync (map_option (\<lambda>t original desired.
            gbind (type_assert cast original) (\<lambda>original. gbind (type_assert cast desired) (\<lambda>desired. t original desired))) transition))
          (map wrap ds))
        (aforeach (\<lambda>d. awrap ''reconciling resource %v'' (syncResource ops (typed_client wrap cast rc) d rs transition)) ds)"
      unfolding rs by (intro same_on_foreach same_on_wrap same_on_sync)
    moreover have "same_on (aforeach (deleteUnused aops rc (map wrap ds)) as)
        (aforeach (deleteUnused ops (typed_client wrap cast rc) ds) rs)"
      unfolding rs by (intro same_on_foreach same_on_unused)
    moreover have "client_List (typed_client wrap cast rc) ns sel s = (Ret rs, s')"
      using l by (simp add: typed_client_def act_simps Ret rs)
    ultimately show ?thesis
      using l \<open>P s'\<close> by (auto simp: typed_Reconcile_def Reconcile_def Ret abind_def same_on_def split: prod.splits go.splits)
  qed (use l in \<open>simp_all add: typed_Reconcile_def Reconcile_def typed_client_def act_simps\<close>)
qed

text \<open>The typed client keeps the promises of the client that it wraps.\<close>

lemma typed_resource_client:
  assumes base: "resource_client aops rc view ok covers"
    and kind: "\<And>s ref a. ok s \<Longrightarrow> P s \<Longrightarrow> view s ref = Some a \<Longrightarrow> cast a \<noteq> None"
  shows "resource_client ops (typed_client wrap cast rc) (typed_view cast view) (\<lambda>s. ok s \<and> P s) covers"
proof unfold_locales
  note B = resource_client.view_Ref [OF base] resource_client.view_named [OF base]
  have None: "view s ref = None" if "ok s \<and> P s" "typed_view cast view s ref = None" for s ref
  proof (cases "view s ref")
    case (Some a)
    with kind [OF _ _ Some] that show ?thesis by (simp add: typed_view_def)
  qed
  have wrapped: "\<exists>r. a = wrap r" if "ok s" "P s" "view s ref = Some a" for s ref a
    using kind [OF that] cast_iff by blast
  {
    fix s ref r assume "ok s \<and> P s" "typed_view cast view s ref = Some r"
    then have v: "ok s" "view s ref = Some (wrap r)" by (auto simp: typed_view_Some)
    show "resource_Ref ops r = ref" using resource_client.view_Ref [OF base v] by simp
    show "ref_Namespace ref \<noteq> [] \<and> ValidateName (ref_Name ref)" by (rule resource_client.view_named [OF base v])
  }
  show "covers (ref_Namespace ref) ref" for ref by (rule resource_client.covers_refl [OF base])
  show "client_Read (typed_client wrap cast rc) ns name s = (Ret r, s)"
    if "ok s \<and> P s" "typed_view cast view s (ResourceRef ns name) = Some r" for s ns name r
    using resource_client.Read_present [OF base that(1) [THEN conjunct1], of ns name "wrap r"] that(2)
    by (simp add: typed_view_Some typed_client_def act_simps)
  show "client_Read (typed_client wrap cast rc) ns name s = (Fail (NotExistErr ns name), s)"
    if "ok s \<and> P s" "ns \<noteq> []" "ValidateName name" "typed_view cast view s (ResourceRef ns name) = None" for s ns name
    using resource_client.Read_absent [OF base that(1) [THEN conjunct1] that(2,3) None [OF that(1,4)]] by (simp add: typed_client_def act_simps)
  have writes: "\<exists>r' s'. client_Write (typed_client wrap cast rc) r ow s = (Ret r', s') \<and> (ok s' \<and> P s') \<and> but_version ops r' r \<and>
      typed_view cast view s' = (typed_view cast view s)(resource_Ref ops r \<mapsto> r')"
    if ok: "ok s \<and> P s" and ex: "\<exists>a s'. client_Write rc (wrap r) ow s = (Ret a, s') \<and> ok s' \<and> but_version aops a (wrap r) \<and>
      view s' = (view s)(resource_Ref ops r \<mapsto> a)" for s r ow
  proof -
    from ex obtain a s' where w: "client_Write rc (wrap r) ow s = (Ret a, s')" "ok s'" "but_version aops a (wrap r)"
        "view s' = (view s)(resource_Ref ops r \<mapsto> a)" by blast
    have "P s'" using Write_kind w(1) ok by blast
    then obtain r' where "a = wrap r'" using wrapped [OF w(2), of "resource_Ref ops r" a] w(4) by auto
    with w have v: "view s' = (view s)(resource_Ref ops r \<mapsto> wrap r')" by simp
    from w \<open>P s'\<close> \<open>a = wrap r'\<close> typed_view_upd(1) [OF v] show ?thesis by (auto simp: typed_client_def act_simps)
  qed
  show "\<exists>r' s'. client_Write (typed_client wrap cast rc) r ow s = (Ret r', s') \<and> (ok s' \<and> P s') \<and> but_version ops r' r \<and>
      typed_view cast view s' = (typed_view cast view s)(resource_Ref ops r \<mapsto> r')"
    if "ok s \<and> P s" "meta_Namespace (GetMetadata ops r) \<noteq> []" "ValidateName (meta_Name (GetMetadata ops r))"
      "typed_view cast view s (resource_Ref ops r) = None" for s r ow
    by (rule writes [OF that(1)]) (use resource_client.Write_new [OF base that(1) [THEN conjunct1], of "wrap r" ow] that(2,3) None [OF that(1,4)] in simp)
  show "client_Write (typed_client wrap cast rc) r False s =
      (Fail (ExistErr (meta_Namespace (GetMetadata ops r)) (meta_Name (GetMetadata ops r))), s)"
    if "ok s \<and> P s" "typed_view cast view s (resource_Ref ops r) = Some r0" for s r r0
    using resource_client.Write_exists [OF base that(1) [THEN conjunct1], of "wrap r" "wrap r0"] that(2)
    by (simp add: typed_view_Some typed_client_def act_simps)
  show "\<exists>r' s'. client_Write (typed_client wrap cast rc) r True s = (Ret r', s') \<and> (ok s' \<and> P s') \<and> but_version ops r' r \<and>
      typed_view cast view s' = (typed_view cast view s)(resource_Ref ops r \<mapsto> r')"
    if "ok s \<and> P s" "typed_view cast view s (resource_Ref ops r) = Some r0"
      "meta_ResourceVersion (GetMetadata ops r) = meta_ResourceVersion (GetMetadata ops r0)" for s r r0
    by (rule writes [OF that(1)]) (use resource_client.Write_over [OF base that(1) [THEN conjunct1], of "wrap r" "wrap r0"] that(2,3) in \<open>simp add: typed_view_Some\<close>)
  show "\<exists>e. client_Write (typed_client wrap cast rc) r True s = (Fail e, s)"
    if "ok s \<and> P s" "typed_view cast view s (resource_Ref ops r) = Some r0"
      "meta_ResourceVersion (GetMetadata ops r) \<noteq> meta_ResourceVersion (GetMetadata ops r0)" for s r r0
    using resource_client.Write_conflict [OF base that(1) [THEN conjunct1], of "wrap r" "wrap r0"] that(2,3)
    by (auto simp: typed_view_Some typed_client_def act_simps)
  show "\<exists>s'. client_Delete (typed_client wrap cast rc) ns name ignore s = (Ret (), s') \<and> (ok s' \<and> P s') \<and>
      typed_view cast view s' = (typed_view cast view s)(ResourceRef ns name := None)"
    if okd: "ok s \<and> P s" "typed_view cast view s (ResourceRef ns name) = Some r" for s ns name r ignore
  proof -
    from okd(2) have "view s (ResourceRef ns name) = Some (wrap r)" by (simp add: typed_view_Some)
    then obtain s' where d: "client_Delete rc ns name ignore s = (Ret (), s')" "ok s'" "view s' = (view s)(ResourceRef ns name := None)"
      using resource_client.Delete_present [OF base okd(1) [THEN conjunct1]] by blast
    from typed_view_upd(2) [OF d(3)] d(1,2) Delete_kind [OF _ d(1)] okd(1) show ?thesis by (simp add: typed_client_def)
  qed
  show "client_Delete (typed_client wrap cast rc) ns name ignore s = (if ignore then Ret () else Fail (NotExistErr ns name), s)"
    if "ok s \<and> P s" "ns \<noteq> []" "ValidateName name" "typed_view cast view s (ResourceRef ns name) = None" for s ns name ignore
    using resource_client.Delete_absent [OF base that(1) [THEN conjunct1] that(2,3) None [OF that(1,4)]] by (simp add: typed_client_def)
  show "\<exists>rs. client_List (typed_client wrap cast rc) ns sel s = (Ret rs, s) \<and>
      set rs = {r. \<exists>ref. typed_view cast view s ref = Some r \<and> covers ns ref \<and> selector_Matches sel (GetMetadata ops r)}"
    if okl: "ok s \<and> P s" "ns \<noteq> []" for s ns sel
  proof -
    obtain as where as: "client_List rc ns sel s = (Ret as, s)"
        "set as = {a. \<exists>ref. view s ref = Some a \<and> covers ns ref \<and> selector_Matches sel (GetMetadata aops a)}"
      using resource_client.List_result [OF base okl(1) [THEN conjunct1] okl(2)] by blast
    then have "\<forall>a \<in> set as. cast a \<noteq> None" using kind okl(1) by auto
    then obtain rs where rs: "as = map wrap rs" using castable_map by blast
    have "set rs = {r. \<exists>ref. typed_view cast view s ref = Some r \<and> covers ns ref \<and> selector_Matches sel (GetMetadata ops r)}"
    proof (intro set_eqI)
      fix r
      have "r \<in> set rs \<longleftrightarrow> wrap r \<in> set as" by (auto simp: rs)
      then show "r \<in> set rs \<longleftrightarrow> r \<in> {r. \<exists>ref. typed_view cast view s ref = Some r \<and> covers ns ref \<and> selector_Matches sel (GetMetadata ops r)}"
        by (simp add: as(2) typed_view_Some)
    qed
    with as(1) show ?thesis by (auto simp: typed_client_def act_simps rs)
  qed
qed

end

section \<open>The in-memory store\<close>

definition only_kind :: "('a \<Rightarrow> 'r option) \<Rightarrow> 'a mem_cache \<Rightarrow> bool" where
  "only_kind cast s \<longleftrightarrow> list_all (\<lambda>(k, a). cast a \<noteq> None) s"

context typed_kind
begin

lemma only_kind_set: "only_kind cast s \<Longrightarrow> (key, a) \<in> set s \<Longrightarrow> \<exists>r. cast a = Some r"
  by (auto simp: only_kind_def list_all_iff)

lemma only_kind_update: "only_kind cast s \<Longrightarrow> cast a \<noteq> None \<Longrightarrow> only_kind cast (AList.update k a s)"
  by (induction s) (auto simp: only_kind_def)

lemma only_kind_delete: "only_kind cast s \<Longrightarrow> only_kind cast (AList.delete k s)"
  by (auto simp: only_kind_def list_all_iff AList.delete_eq)

lemma memory_typed_store: "valid_range rng \<Longrightarrow> typed_store ops wrap cast aops (mem_client rng aops k) (only_kind cast)"
  by unfold_locales
    (auto simp: mem_client_def mem_List_def mem_Write_def mem_Delete_def Let_def only_kind_update only_kind_delete
      only_kind_set valid_range_set split: if_splits go.splits)

end

section \<open>What the type assertions and the watch loop do elsewhere\<close>

context typed_kind
begin

text \<open>A resource of another kind in the base store panics the client, also in a list.\<close>

lemma foreign_kind_panics:
  "client_Read rc ns name s = (Ret a, s') \<Longrightarrow> cast a = None \<Longrightarrow>
     client_Read (typed_client wrap cast rc) ns name s = (Panic ''interface conversion'', s')"
  by (simp add: typed_client_def act_simps type_assert_def)

lemma convert_foreign: "a \<in> set as \<Longrightarrow> cast a = None \<Longrightarrow> convertTo cast as = Panic ''interface conversion''"
  by (induction as) (auto simp: convertTo_def type_assert_def split: option.split)

text \<open>A watch sends every list of the base watch, in order, until the context is done.\<close>

lemma watch_loop_sends:
  "watch_loop cast (map (\<lambda>l. Received (map wrap l)) ls @ ContextDone # es) = Ret ls"
  by (induction ls) simp_all

text \<open>The loop does not look whether the base channel is closed: it goes on sending empty lists.\<close>

lemma watch_loop_closed:
  "watch_loop cast (map (\<lambda>l. Received (map wrap l)) ls @ replicate n ChannelClosed @ ContextDone # es) =
     Ret (ls @ replicate n [])"
proof (induction ls)
  case Nil
  show ?case by (induction n) simp_all
qed simp

end

section \<open>Properties\<close>

lemmas mesh_memory_store = mesh_kind.memory_typed_store

interpretation untyped_memory: mem_store any_ops "''*v1.Mesh''" id
  by (intro mem_store.intro mem_store_axioms.intro any_resource_type) simp

interpretation typed_memory: typed_store mesh_ops R_Mesh as_Mesh any_ops "mem_client id any_ops ''*v1.Mesh''" "only_kind as_Mesh"
  by (rule mesh_memory_store) simp

text \<open>C37: On any store of meshes, behind any client, reconciling with the generated reconciler is
  reconciling on the typed client: it returns the same, an error or a panic included, and leaves the same
  state. The type assertions around the transition function never panic.\<close>
theorem mesh_reconciler_is_typed:
  assumes "typed_store mesh_ops R_Mesh as_Mesh any_ops rc P" and "P s"
  shows "MeshReconciler_Reconcile rc ns ds transition sel s =
    Reconcile mesh_ops (typed_client R_Mesh as_Mesh rc) ns ds transition sel s"
  unfolding MeshReconciler_Reconcile_def using assms by (rule typed_store.typed_Reconcile_typed)

lemma typed_client_of_memory:
  assumes kind: "typed_kind ops wrap cast any_ops" and rng: "valid_range rng"
  shows "resource_client ops (typed_client wrap cast (mem_client rng any_ops k)) (typed_view cast (mem_view any_ops k))
    (\<lambda>s. mem_ok any_ops k s \<and> only_kind cast s) mem_covers"
proof (rule typed_store.typed_resource_client)
  show "typed_store ops wrap cast any_ops (mem_client rng any_ops k) (only_kind cast)"
    by (rule typed_kind.memory_typed_store [OF kind rng])
  show "resource_client any_ops (mem_client rng any_ops k) (mem_view any_ops k) (mem_ok any_ops k) mem_covers"
    by (rule mem_store_client [OF any_resource_type rng])
  show "cast a \<noteq> None" if "only_kind cast s" "mem_view any_ops k s ref = Some a" for s ref a
    using that typed_kind.only_kind_set [OF kind] by (fastforce simp: mem_view_def split: option.splits if_splits dest: map_of_SomeD)
qed

lemma typed_memory_Reconcile:
  assumes kind: "typed_kind ops wrap cast any_ops" and rng: "valid_range rng"
    and s: "mem_ok any_ops k s" "only_kind cast s" and ns: "ns \<noteq> []"
    and ds: "distinct (map (resource_Ref ops) ds)" "total_transition transition"
      "list_all (\<lambda>d. meta_Namespace (GetMetadata ops d) \<noteq> [] \<and> ValidateName (meta_Name (GetMetadata ops d))) ds"
    and owned: "list_all (\<lambda>d. mem_covers ns (resource_Ref ops d)) ds"
  shows "\<exists>s'. typed_Reconcile wrap cast any_ops (mem_client rng any_ops k) ns ds transition [] s = (Ret (), s') \<and>
      mem_ok any_ops k s' \<and> only_kind cast s' \<and>
      list_all (\<lambda>d. \<exists>r. typed_view cast (mem_view any_ops k) s' (resource_Ref ops d) = Some r \<and>
         settled ops transition (typed_view cast (mem_view any_ops k) s (resource_Ref ops d)) d r) ds \<and>
      (\<forall>ref. ref \<notin> resource_Ref ops ` set ds \<longrightarrow> typed_view cast (mem_view any_ops k) s' ref =
         (if mem_covers ns ref then None else typed_view cast (mem_view any_ops k) s ref))"
proof -
  let ?c = "typed_client wrap cast (mem_client rng any_ops k)" and ?v = "typed_view cast (mem_view any_ops k)"
  note C = typed_client_of_memory [OF kind rng, of k]
  have sel: "resource_client.selected ops ?v mem_covers [] s ns ref \<longleftrightarrow> ?v s ref \<noteq> None \<and> mem_covers ns ref" for ref
    by (auto simp: resource_client.selected_def [OF C] selector_Matches_def)
  have "\<exists>s'. Reconcile ops ?c ns ds transition [] s = (Ret (), s') \<and> (mem_ok any_ops k s' \<and> only_kind cast s') \<and>
     (\<forall>d \<in> set ds. \<exists>r. ?v s' (resource_Ref ops d) = Some r \<and> settled ops transition (?v s (resource_Ref ops d)) d r) \<and>
     (\<forall>ref. ref \<notin> resource_Ref ops ` set ds \<longrightarrow>
        ?v s' ref = (if resource_client.selected ops ?v mem_covers [] s ns ref then None else ?v s ref))"
    by (rule resource_client.Reconcile_correct [OF C]) (use assms in \<open>auto simp: sel list_all_iff\<close>)
  then show ?thesis
    using typed_store.typed_Reconcile_typed [OF typed_kind.memory_typed_store [OF kind rng] s(2)]
    by (auto simp: list_all_iff sel)
qed

definition ex_typed_mesh :: mesh where
  "ex_typed_mesh = zero_Mesh\<lparr>mesh_Metadata := new_metadata ''ns'' ''mesh''\<rparr>"

definition ex_untyped_store :: "any_resource mem_cache" where
  "ex_untyped_store = [(''k;ns;old'', R_Mesh (zero_Mesh\<lparr>mesh_Metadata := new_metadata ''ns'' ''old''\<rparr>))]"

lemma ex_untyped_ok: "mem_ok any_ops ''k'' ex_untyped_store" "only_kind as_Mesh ex_untyped_store"
proof -
  have "ValidateName ''old''" by code_simp
  then show "mem_ok any_ops ''k'' ex_untyped_store" "only_kind as_Mesh ex_untyped_store"
    by (simp_all add: mem_ok_def ex_untyped_store_def mem_key_def mem_Prefix_def kind_simps new_metadata_def only_kind_def)
qed

theorem mesh_reconciler_is_typed_witness:
  "MeshReconciler_Reconcile (mem_client id any_ops ''k'') ''ns'' [ex_typed_mesh] None [] ex_untyped_store =
    Reconcile mesh_ops (typed_client R_Mesh as_Mesh (mem_client id any_ops ''k'')) ''ns'' [ex_typed_mesh] None [] ex_untyped_store"
  by (rule mesh_reconciler_is_typed [OF mesh_memory_store ex_untyped_ok(2)]) (rule valid_range_id)

text \<open>Reconciling meshes with the generated reconciler on the in-memory store of untyped resources
  succeeds: every desired mesh is stored under its reference, settled by the transition function, every other
  mesh that the namespace's list covers is gone, no mesh elsewhere changes, and the store still holds meshes only.\<close>
theorem mesh_reconciler_converges:
  assumes "valid_range rng" and "mem_ok any_ops k s" "only_kind as_Mesh s" and "ns \<noteq> []"
    and "distinct (map (resource_Ref mesh_ops) ds)" "total_transition transition"
    and "list_all (\<lambda>d. meta_Namespace (mesh_Metadata d) \<noteq> [] \<and> ValidateName (meta_Name (mesh_Metadata d))) ds"
    and "list_all (\<lambda>d. mem_covers ns (resource_Ref mesh_ops d)) ds"
  shows "\<exists>s'. MeshReconciler_Reconcile (mem_client rng any_ops k) ns ds transition [] s = (Ret (), s') \<and>
      mem_ok any_ops k s' \<and> only_kind as_Mesh s' \<and>
      list_all (\<lambda>d. \<exists>r. typed_view as_Mesh (mem_view any_ops k) s' (resource_Ref mesh_ops d) = Some r \<and>
         settled mesh_ops transition (typed_view as_Mesh (mem_view any_ops k) s (resource_Ref mesh_ops d)) d r) ds \<and>
      (\<forall>ref. ref \<notin> resource_Ref mesh_ops ` set ds \<longrightarrow> typed_view as_Mesh (mem_view any_ops k) s' ref =
         (if mem_covers ns ref then None else typed_view as_Mesh (mem_view any_ops k) s ref))"
  unfolding MeshReconciler_Reconcile_def
  by (rule typed_memory_Reconcile [OF mesh_kind.typed_kind_axioms]) (use assms in \<open>simp_all add: kind_simps\<close>)

theorem mesh_reconciler_converges_witness:
  "\<exists>s' r. MeshReconciler_Reconcile (mem_client id any_ops ''k'') ''ns'' [ex_typed_mesh] None [] ex_untyped_store = (Ret (), s') \<and>
     typed_view as_Mesh (mem_view any_ops ''k'') s' (ResourceRef ''ns'' ''mesh'') = Some r \<and>
     typed_view as_Mesh (mem_view any_ops ''k'') s' (ResourceRef ''ns'' ''old'') = None"
proof -
  have names: "ValidateName ''mesh''" by code_simp
  have ref: "resource_Ref mesh_ops ex_typed_mesh = ResourceRef ''ns'' ''mesh''"
    by (simp add: ex_typed_mesh_def kind_simps new_metadata_def Metadata_Ref_def del: ResourceRef_meta)
  have covers: "mem_covers ''ns'' (ResourceRef ''ns'' ''mesh'')" "mem_covers ''ns'' (ResourceRef ''ns'' ''old'')"
    by (simp_all add: mem_covers_def strings_HasPrefix_def)
  show ?thesis
    using mesh_reconciler_converges [OF valid_range_id(1) ex_untyped_ok, of "''ns''" "[ex_typed_mesh]" None] names covers ref
    by (auto simp: total_transition_def) (auto simp: ex_typed_mesh_def new_metadata_def)
qed

end
