(* ===== verification/Event_Loop_Properties.thy ===== *)
theory Event_Loop_Properties
  imports Event_Loops
begin

text \<open>
  What the translator's emitter and event loop guarantee, over every sequence of events.
\<close>

section \<open>Deliveries by kind\<close>

definition mesh_deliveries :: "translator_update list \<Rightarrow> (string \<times> mesh list) list" where
  "mesh_deliveries us = concat (map (\<lambda>u. case u of MeshList k rs \<Rightarrow> [(k, rs)] | _ \<Rightarrow> []) us)"

definition rule_deliveries :: "translator_update list \<Rightarrow> (string \<times> routing_rule list) list" where
  "rule_deliveries us = concat (map (\<lambda>u. case u of RoutingRuleList k rs \<Rightarrow> [(k, rs)] | _ \<Rightarrow> []) us)"

definition upstream_deliveries :: "translator_update list \<Rightarrow> (string \<times> upstream list) list" where
  "upstream_deliveries us = concat (map (\<lambda>u. case u of UpstreamList k rs \<Rightarrow> [(k, rs)] | _ \<Rightarrow> []) us)"

definition secret_deliveries :: "translator_update list \<Rightarrow> (string \<times> istio_cacerts_secret list) list" where
  "secret_deliveries us = concat (map (\<lambda>u. case u of IstioCacertsSecretList k rs \<Rightarrow> [(k, rs)] | _ \<Rightarrow> []) us)"

lemmas deliveries_defs = mesh_deliveries_def rule_deliveries_def upstream_deliveries_def secret_deliveries_def

lemma fold_translator_apply:
  "snap_Meshes (fold translator_apply us s) =
     fold (\<lambda>(k, rs). clear_and_add mesh_Metadata k rs) (mesh_deliveries us) (snap_Meshes s)"
  "snap_Routingrules (fold translator_apply us s) =
     fold (\<lambda>(k, rs). clear_and_add rr_Metadata k rs) (rule_deliveries us) (snap_Routingrules s)"
  "snap_Upstreams (fold translator_apply us s) =
     fold (\<lambda>(k, rs). clear_and_add upstream_Metadata k rs) (upstream_deliveries us) (snap_Upstreams s)"
  "snap_Istiocerts (fold translator_apply us s) =
     fold (\<lambda>(k, rs). clear_and_add cacerts_Metadata k rs) (secret_deliveries us) (snap_Istiocerts s)"
  by (induction us arbitrary: s; simp add: deliveries_defs split: translator_update.splits)+

lemma Clone_Nil [simp]: "byNamespace_Clone ops [] = []"
  by (simp add: byNamespace_Clone_def byNamespace_List_def list_Sort_def list_ByNamespace_def byNamespace_Add_def)

lemma Clone_zero [simp]: "snapshot_Clone zero_translator_snapshot = zero_translator_snapshot"
  by (simp add: snapshot_Clone_def zero_translator_snapshot_def)

lemma Clone_zero_record [simp]:
  "snapshot_Clone \<lparr>snap_Meshes = [], snap_Routingrules = [], snap_Upstreams = [], snap_Istiocerts = []\<rparr> =
     \<lparr>snap_Meshes = [], snap_Routingrules = [], snap_Upstreams = [], snap_Istiocerts = []\<rparr>"
  using Clone_zero by (simp only: zero_translator_snapshot_def)

abbreviation translator_run ::
  "(translator_snapshot \<Rightarrow> 64 word) \<Rightarrow> translator_update emitter_event list \<Rightarrow> translator_snapshot emitter \<Rightarrow> bool" where
  "translator_run hash es e \<equiv>
     emitter_run snapshot_Clone (snapshot_Hash hash) translator_apply zero_translator_snapshot es e"

text \<open>
  C19: In every state that the translator's emitter can reach, the current snapshot holds for
  each namespace and kind the list that was delivered last for it, provided each
  namespace's watch delivers resources of that namespace only.
\<close>

theorem emitter_holds_last_lists:
  assumes run: "translator_run hash es e"
    and own: "own_namespace mesh_Metadata (mesh_deliveries (delivered es))"
      "own_namespace rr_Metadata (rule_deliveries (delivered es))"
      "own_namespace upstream_Metadata (upstream_deliveries (delivered es))"
      "own_namespace cacerts_Metadata (secret_deliveries (delivered es))"
  shows "byNamespace_get (snap_Meshes (em_current e)) ns = last_delivered ns (mesh_deliveries (delivered es)) \<and>
     byNamespace_get (snap_Routingrules (em_current e)) ns = last_delivered ns (rule_deliveries (delivered es)) \<and>
     byNamespace_get (snap_Upstreams (em_current e)) ns = last_delivered ns (upstream_deliveries (delivered es)) \<and>
     byNamespace_get (snap_Istiocerts (em_current e)) ns = last_delivered ns (secret_deliveries (delivered es))"
proof -
  have "em_current e = fold translator_apply (delivered es) zero_translator_snapshot"
    using translator_ops.run_current [OF run] by simp
  then show ?thesis
    using own by (simp add: fold_translator_apply zero_translator_snapshot_def fold_clear_and_add)
qed

definition ex_em_mesh :: mesh where
  "ex_em_mesh = \<lparr>mesh_Status = zero_status, mesh_Metadata = new_metadata ''ns'' ''m'',
     mesh_MeshType = Some (Mesh_Consul None), mesh_Encryption = None, mesh_Observability = None, mesh_Policy = None\<rparr>"

theorem emitter_holds_last_lists_witness:
  "\<exists>e. translator_run (\<lambda>s. of_nat (length (snap_Meshes s))) [Deliver (MeshList ''ns'' []), Tick, Deliver (MeshList ''ns'' [ex_em_mesh])] e \<and>
     byNamespace_get (snap_Meshes (em_current e)) ''ns'' = [ex_em_mesh]"
proof -
  let ?es = "[Deliver (MeshList ''ns'' []), Tick, Deliver (MeshList ''ns'' [ex_em_mesh])]"
  obtain e where e: "translator_run (\<lambda>s. of_nat (length (snap_Meshes s))) ?es e"
    by (rule that, rule emitter_run_fold)
  have d: "delivered ?es = [MeshList ''ns'' [], MeshList ''ns'' [ex_em_mesh]]" by simp
  show ?thesis
    using e emitter_holds_last_lists [OF e, of "''ns''"]
    by (intro exI [of _ e]) (simp add: d deliveries_defs own_namespace_def ex_em_mesh_def)
qed

section \<open>What a tick sends\<close>

text \<open>
  C20: After a tick, what the emitter has sent is up to date: the last snapshot sent agrees with
  the current one in everything but resource versions and statuses (or nothing was ever
  sent and the current one is empty), unless their hashes collide; and ticking again sends nothing.
\<close>

theorem emitter_tick_up_to_date:
  assumes run: "translator_run hash es e" and running: "\<not> em_closed e" and unforced: "ForceEmit \<notin> set es"
    and e': "e' = translator_step hash Tick e"
    and hash: "snapshot_Hash hash (em_original e) = snapshot_Hash hash (em_current e) \<Longrightarrow>
      snapshotToHash (em_original e) = snapshotToHash (em_current e)"
  shows "snapshotToHash (if em_sent e' = [] then zero_translator_snapshot else last (em_sent e')) =
       snapshotToHash (em_current e) \<and>
     em_current e' = em_current e \<and> translator_step hash Tick e' = e'"
proof -
  have step: "e' = (if snapshot_Hash hash (em_original e) = snapshot_Hash hash (em_current e) then e
      else e\<lparr>em_original := snapshot_Clone (em_current e), em_sent := em_sent e @ [snapshot_Clone (em_current e)]\<rparr>)"
    unfolding e' translator_step_def by (rule translator_ops.tick_step [OF running])
  note last = translator_ops.run_last_sent [OF run unforced]
  have "snapshotToHash (if em_sent e' = [] then zero_translator_snapshot else last (em_sent e')) =
       snapshotToHash (em_current e)"
  proof (cases "snapshot_Hash hash (em_original e) = snapshot_Hash hash (em_current e)")
    case True
    with step have "e' = e" by simp
    with last hash [OF True] show ?thesis by (auto split: if_splits)
  qed (simp add: step)
  moreover have "em_current e' = em_current e" by (simp add: step)
  moreover have "translator_step hash Tick e' = e'"
    unfolding e' translator_step_def by (rule translator_ops.tick_settles(3) [OF running])
  ultimately show ?thesis by blast
qed

theorem emitter_tick_up_to_date_witness:
  "\<exists>e. translator_run (\<lambda>s. of_nat (length (snap_Meshes s))) [Deliver (MeshList ''ns'' [ex_em_mesh])] e \<and>
     snapshotToHash (last (em_sent (translator_step (\<lambda>s. of_nat (length (snap_Meshes s))) Tick e))) =
       snapshotToHash (em_current e)"
proof -
  let ?h = "\<lambda>s. of_nat (length (snap_Meshes s)) :: 64 word"
  let ?es = "[Deliver (MeshList ''ns'' [ex_em_mesh])]"
  define e where "e = fold (emitter_step snapshot_Clone (snapshot_Hash ?h) translator_apply) ?es
      (emitter_start snapshot_Clone zero_translator_snapshot)"
  have run: "translator_run ?h ?es e" unfolding e_def by (rule emitter_run_fold)
  have e: "em_original e = zero_translator_snapshot" "\<not> em_closed e" "em_sent e = []"
      "em_current e = zero_translator_snapshot\<lparr>snap_Meshes := [(''ns'', [ex_em_mesh])]\<rparr>"
    by (simp_all add: e_def emitter_step_def emitter_start_def clear_and_add_def byNamespace_Clear_def
        byNamespace_Add_def map_append_def zero_translator_snapshot_def ex_em_mesh_def)
  have h: "snapshot_Hash ?h (em_original e) = 0" "snapshot_Hash ?h (em_current e) = 1"
    by (simp_all add: e snapshot_Hash_def snapshotToHash_def snapshot_Clone_def zero_translator_snapshot_def
        clear_all_def byNamespace_Clone_def byNamespace_List_def list_Sort_def list_ByNamespace_def
        byNamespace_Add_def map_append_def)
  then have "em_sent (translator_step ?h Tick e) \<noteq> []"
    by (simp add: translator_step_def translator_ops.tick_step e)
  with emitter_tick_up_to_date [OF run e(2) _ refl] h run show ?thesis by auto
qed

section \<open>Changes that are not sent\<close>

lemma mset_eq_filterI:
  assumes "\<And>k. filter (\<lambda>x. f x = k) xs = filter (\<lambda>x. f x = k) ys"
  shows "mset xs = mset ys"
proof (rule multiset_eqI)
  fix x
  show "count (mset xs) x = count (mset ys) x"
    using arg_cong [OF assms [of "f x"], of "\<lambda>zs. count (mset zs) x"] by simp
qed

lemma map_of_clear_all: "map_of (clear_all ops m) k = map_option (map (clear_volatile ops)) (map_of m k)"
  by (induction m) (auto simp: clear_all_def)

lemma clear_all_update:
  "clear_all ops (AList.update k v m) = AList.update k (map (clear_volatile ops) v) (clear_all ops m)"
  by (induction m) (auto simp: clear_all_def)

lemma clear_all_append:
  "clear_all ops (map_append k v m) = map_append k (clear_volatile ops v) (clear_all ops m)"
  by (simp add: map_append_def clear_all_update map_of_clear_all split: option.splits)

context resource_type
begin

lemma clear_volatile_Ref [simp]: "resource_Ref ops (clear_volatile ops r) = resource_Ref ops r"
  by (simp add: clear_volatile_def Metadata_Ref_def del: ResourceRef_meta)

lemma clear_volatile_namespace [simp]:
  "meta_Namespace (GetMetadata ops (clear_volatile ops r)) = meta_Namespace (GetMetadata ops r)"
  by (simp add: clear_volatile_def)

lemma clear_all_Add:
  "clear_all ops (byNamespace_Add (GetMetadata ops) rs m) =
     byNamespace_Add (GetMetadata ops) (map (clear_volatile ops) rs) (clear_all ops m)"
  unfolding byNamespace_Add_def by (induction rs arbitrary: m) (simp_all add: clear_all_append)

text \<open>What is hashed of a map: its list, in order, without versions and statuses.\<close>

lemma clear_all_Clone:
  "clear_all ops (byNamespace_Clone ops m) =
     list_ByNamespace (GetMetadata ops) (map (clear_volatile ops) (snap_List ops m))"
  by (simp add: byNamespace_Clone_def list_ByNamespace_def clear_all_Add) (simp add: clear_all_def)

lemma clear_snap_List:
  assumes "byNamespace_inv (GetMetadata ops) m" and "byNamespace_inv (GetMetadata ops) m'"
    and "\<And>ns. map (clear_volatile ops) (byNamespace_get m ns) = map (clear_volatile ops) (byNamespace_get m' ns)"
  shows "map (clear_volatile ops) (snap_List ops m) = map (clear_volatile ops) (snap_List ops m')"
proof -
  let ?c = "map (clear_volatile ops)" and ?f = "\<lambda>r. resource_Ref ops r"
  have "filter (\<lambda>r. ?f r = k) (?c (concat (map snd m))) = filter (\<lambda>r. ?f r = k) (?c (concat (map snd m')))" for k
  proof -
    have "filter (\<lambda>r. ?f r = k) (?c (concat (map snd x))) = filter (\<lambda>r. ?f r = k) (?c (byNamespace_get x (ref_Namespace k)))"
      if "byNamespace_inv (GetMetadata ops) x" for x
      using filter_byNamespace_entries [OF that, of k] by (simp add: filter_map comp_def)
    with assms show ?thesis by simp
  qed
  then have "sort_key ?f (?c (concat (map snd m))) = sort_key ?f (?c (concat (map snd m')))"
    by (intro sort_key_eqI mset_eq_filterI)
  then show ?thesis
    by (simp add: byNamespace_List_def list_Sort_def map_sort_key [where g = ?f and h = ?f])
qed

lemma clear_and_add_same:
  assumes "byNamespace_inv (GetMetadata ops) m"
    and "\<forall>r \<in> set rs. meta_Namespace (GetMetadata ops r) = ns"
    and "map (clear_volatile ops) rs = map (clear_volatile ops) (byNamespace_get m ns)"
  shows "clear_all ops (byNamespace_Clone ops (clear_and_add (GetMetadata ops) ns rs m)) =
     clear_all ops (byNamespace_Clone ops m)"
proof -
  have "map (clear_volatile ops) (snap_List ops (clear_and_add (GetMetadata ops) ns rs m)) =
      map (clear_volatile ops) (snap_List ops m)"
  proof (rule clear_snap_List)
    fix k
    have "filter (\<lambda>r. meta_Namespace (GetMetadata ops r) = k) rs = (if k = ns then rs else [])"
      using assms(2) by (auto intro!: filter_True filter_False)
    with assms(3) show "map (clear_volatile ops) (byNamespace_get (clear_and_add (GetMetadata ops) ns rs m) k) =
        map (clear_volatile ops) (byNamespace_get m k)"
      by (simp add: get_clear_and_add)
  qed (simp_all add: assms(1) clear_and_add_inv)
  then show ?thesis by (simp only: clear_all_Clone)
qed

end

definition snapshot_inv :: "translator_snapshot \<Rightarrow> bool" where
  "snapshot_inv s \<longleftrightarrow>
     byNamespace_inv mesh_Metadata (snap_Meshes s) \<and> byNamespace_inv rr_Metadata (snap_Routingrules s) \<and>
     byNamespace_inv upstream_Metadata (snap_Upstreams s) \<and> byNamespace_inv cacerts_Metadata (snap_Istiocerts s)"

lemma snapshot_inv_apply: "snapshot_inv s \<Longrightarrow> snapshot_inv (translator_apply u s)"
  by (cases u) (auto simp: snapshot_inv_def clear_and_add_inv)

lemma run_snapshot_inv: "translator_run hash es e \<Longrightarrow> snapshot_inv (em_current e)"
proof (induction rule: emitter_run.induct)
  case start
  then show ?case by (simp add: emitter_start_def) (simp add: snapshot_inv_def zero_translator_snapshot_def)
next
  case (step es e ev)
  then show ?case
    by (cases ev) (auto simp: emitter_step_def emitter_sync_def snapshot_inv_apply)
qed

text \<open>A delivery that differs from what is there in resource versions and statuses only.\<close>

fun volatile_change :: "translator_update \<Rightarrow> translator_snapshot \<Rightarrow> bool" where
  "volatile_change (MeshList ns rs) s \<longleftrightarrow> (\<forall>r \<in> set rs. meta_Namespace (mesh_Metadata r) = ns) \<and>
     map (clear_volatile mesh_ops) rs = map (clear_volatile mesh_ops) (byNamespace_get (snap_Meshes s) ns)"
| "volatile_change (RoutingRuleList ns rs) s \<longleftrightarrow> (\<forall>r \<in> set rs. meta_Namespace (rr_Metadata r) = ns) \<and>
     map (clear_volatile routing_rule_ops) rs =
       map (clear_volatile routing_rule_ops) (byNamespace_get (snap_Routingrules s) ns)"
| "volatile_change (UpstreamList ns rs) s \<longleftrightarrow> (\<forall>r \<in> set rs. meta_Namespace (upstream_Metadata r) = ns) \<and>
     map (clear_volatile upstream_ops) rs = map (clear_volatile upstream_ops) (byNamespace_get (snap_Upstreams s) ns)"
| "volatile_change (IstioCacertsSecretList ns rs) s \<longleftrightarrow> (\<forall>r \<in> set rs. meta_Namespace (cacerts_Metadata r) = ns) \<and>
     map (clear_volatile istio_cacerts_secret_ops) rs =
       map (clear_volatile istio_cacerts_secret_ops) (byNamespace_get (snap_Istiocerts s) ns)"

lemma get_metadata_simps:
  "GetMetadata mesh_ops = mesh_Metadata" "GetMetadata routing_rule_ops = rr_Metadata"
  "GetMetadata upstream_ops = upstream_Metadata" "GetMetadata istio_cacerts_secret_ops = cacerts_Metadata"
  by (simp_all add: ops_simps)

lemma volatile_change_hash:
  assumes "snapshot_inv s" and "volatile_change u s"
  shows "snapshotToHash (translator_apply u s) = snapshotToHash s"
  using assms
  by (cases u)
    (simp_all add: snapshot_inv_def snapshotToHash_def snapshot_Clone_def Let_def
      mesh.clear_and_add_same [unfolded get_metadata_simps] routing_rule.clear_and_add_same [unfolded get_metadata_simps]
      upstream.clear_and_add_same [unfolded get_metadata_simps]
      istio_cacerts_secret.clear_and_add_same [unfolded get_metadata_simps])

text \<open>
  A delivery that changes nothing but resource versions and statuses is not sent: after it,
  a tick of an emitter that was up to date sends no snapshot. (Writing a status does not
  wake the syncers again.)
\<close>

theorem emitter_ignores_status_changes:
  assumes "translator_run hash es e"
    and "snapshot_Hash hash (em_original e) = snapshot_Hash hash (em_current e)"
    and "volatile_change u (em_current e)"
  shows "em_sent (translator_step hash Tick (translator_step hash (Deliver u) e)) = em_sent e"
proof -
  have "snapshotToHash (translator_apply u (em_current e)) = snapshotToHash (em_current e)"
    by (rule volatile_change_hash [OF run_snapshot_inv [OF assms(1)] assms(3)])
  with assms(2) show ?thesis
    by (simp add: translator_step_def emitter_step_def emitter_sync_def snapshot_Hash_def)
qed

theorem emitter_ignores_status_changes_witness:
  "\<exists>e. translator_run (\<lambda>s. of_nat (length (snap_Meshes s))) [Deliver (MeshList ''ns'' [ex_em_mesh]), Tick] e \<and>
     em_sent (translator_step (\<lambda>s. of_nat (length (snap_Meshes s))) Tick
       (translator_step (\<lambda>s. of_nat (length (snap_Meshes s))) (Deliver (MeshList ''ns''
          [ex_em_mesh\<lparr>mesh_Status := \<lparr>status_State = Status_Accepted, status_Reason = [], status_ReportedBy = []\<rparr>\<rparr>])) e))
      = em_sent e"
proof -
  let ?h = "\<lambda>s. of_nat (length (snap_Meshes s)) :: 64 word"
  let ?es = "[Deliver (MeshList ''ns'' [ex_em_mesh]), Tick]"
  define e where "e = fold (emitter_step snapshot_Clone (snapshot_Hash ?h) translator_apply) ?es
      (emitter_start snapshot_Clone zero_translator_snapshot)"
  have run: "translator_run ?h ?es e" unfolding e_def by (rule emitter_run_fold)
  let ?u = "MeshList ''ns'' [ex_em_mesh\<lparr>mesh_Status := \<lparr>status_State = Status_Accepted, status_Reason = [], status_ReportedBy = []\<rparr>\<rparr>]"
  have e: "em_current e = zero_translator_snapshot\<lparr>snap_Meshes := [(''ns'', [ex_em_mesh])]\<rparr>"
    by (simp add: e_def emitter_step_def emitter_sync_def emitter_start_def clear_and_add_def byNamespace_Clear_def
        byNamespace_Add_def map_append_def zero_translator_snapshot_def ex_em_mesh_def)
  have settled: "snapshot_Hash ?h (em_original e) = snapshot_Hash ?h (em_current e)"
    by (simp add: e_def emitter_step_def emitter_sync_def emitter_start_def)
  have "volatile_change ?u (em_current e)"
    by (simp add: e byNamespace_get_def ex_em_mesh_def clear_volatile_def ops_simps)
  with emitter_ignores_status_changes [OF run settled] run show ?thesis by blast
qed

section \<open>Watching all namespaces\<close>

text \<open>
  With a watch on all namespaces (the empty namespace) every delivery adds the resources once
  more: after \<open>k\<close> deliveries of the same list, a namespace holds \<open>k\<close> copies of each of its resources,
  because only the map entry of the empty namespace is cleared.
\<close>

theorem watch_all_namespaces_duplicates:
  assumes "\<forall>m \<in> set ms. meta_Namespace (mesh_Metadata m) = ns" and "ns \<noteq> []"
    and "translator_run hash (replicate k (Deliver (MeshList [] ms))) e"
  shows "byNamespace_get (snap_Meshes (em_current e)) ns = concat (replicate k ms)"
proof -
  have d: "delivered (replicate k (Deliver u)) = replicate k u" for u :: translator_update
    by (induction k) simp_all
  have "byNamespace_get (snap_Meshes (fold translator_apply (replicate j (MeshList [] ms)) s)) ns =
      byNamespace_get (snap_Meshes s) ns @ concat (replicate j ms)" for j s
  proof (induction j arbitrary: s)
    case (Suc j)
    have "byNamespace_get (clear_and_add mesh_Metadata [] ms (snap_Meshes s)) ns = byNamespace_get (snap_Meshes s) ns @ ms"
      using assms(1,2) by (simp add: get_clear_and_add)
    with Suc show ?case by simp
  qed simp
  then show ?thesis
    using translator_ops.run_current [OF assms(3)] by (simp add: d zero_translator_snapshot_def)
qed

theorem watch_all_namespaces_duplicates_witness:
  "\<exists>e. translator_run (\<lambda>s. 0) (replicate 2 (Deliver (MeshList [] [ex_em_mesh]))) e \<and>
     byNamespace_get (snap_Meshes (em_current e)) ''ns'' = [ex_em_mesh, ex_em_mesh]"
proof -
  obtain e where e: "translator_run (\<lambda>s. 0) (replicate 2 (Deliver (MeshList [] [ex_em_mesh]))) e"
    by (rule that, rule emitter_run_fold)
  have "byNamespace_get (snap_Meshes (em_current e)) ''ns'' = concat (replicate 2 [ex_em_mesh])"
    by (rule watch_all_namespaces_duplicates [OF _ _ e]) (simp_all add: ex_em_mesh_def)
  with e show ?thesis by (auto simp: numeral_2_eq_2)
qed

section \<open>The event loop\<close>

lemma start_watches_Ret:
  "start_watches watches nss = Ret () \<longleftrightarrow> (\<forall>ns \<in> set nss. \<forall>(kind, watch) \<in> set watches. watch ns = Ret ())"
proof -
  have "start_watches watches nss = Ret () \<longleftrightarrow>
      (\<forall>ns \<in> set nss. \<exists>ys. gmapM (\<lambda>(kind, watch). gwrap (''starting '' @ kind @ '' watch'') (watch ns)) watches = Ret ys)"
    by (simp add: start_watches_def flip: gmapM_Ret_ex)
  also have "\<dots> \<longleftrightarrow> (\<forall>ns \<in> set nss. \<forall>(kind, watch) \<in> set watches. watch ns = Ret ())"
    unfolding gmapM_Ret_ex by (intro ball_cong refl) (auto split: prod.splits)
  finally show ?thesis .
qed

lemma Syncers_Sync_not_Panic:
  assumes "\<And>f s p. f \<in> set fs \<Longrightarrow> fst (f snap s) \<noteq> Panic p"
  shows "TranslatorSyncers_Sync fs snap s =
     (if fst (run_all fs snap s) = [] then Ret () else Fail (MultiErr (fst (run_all fs snap s))), snd (run_all fs snap s))"
proof -
  have "acollect (\<lambda>syncer. syncer snap) fs s = (Ret (fst (run_all fs snap s)), snd (run_all fs snap s))"
    by (rule acollect_run_all) (rule assms)
  then show ?thesis by (simp add: TranslatorSyncers_Sync_def ErrorOrNil_def abind_def alift_def)
qed

text \<open>
  With its watches started, the translator's event loop hands every snapshot the emitter sends
  to every syncer, in order, whatever errors they return: the state afterwards is that of running
  all syncers on each snapshot in turn. (The syncers must not panic.)
\<close>

theorem event_loop_syncs_every_snapshot:
  assumes "\<forall>ns \<in> set namespaces. wc_Watch (tc_mesh c) ns = Ret () \<and> wc_Watch (tc_routingRule c) ns = Ret () \<and>
      wc_Watch (tc_upstream c) ns = Ret () \<and> wc_Watch (tc_istioCacertsSecret c) ns = Ret ()"
    and "\<And>f snap s p. f \<in> set syncers \<Longrightarrow> fst (f snap s) \<noteq> Panic p"
  shows "\<exists>errs. translatorEventLoop_Run c hash (TranslatorSyncers_Sync syncers) namespaces es s =
     (Ret errs, foldl (\<lambda>s snap. snd (run_all syncers snap s)) s (em_sent (translator_emitter hash es)))"
proof -
  have started: "translatorEmitter_Snapshots c namespaces = Ret ()"
    using assms(1) by (simp add: translatorEmitter_Snapshots_def start_watches_Ret)
  have sync: "TranslatorSyncers_Sync syncers snap s =
     (if fst (run_all syncers snap s) = [] then Ret () else Fail (MultiErr (fst (run_all syncers snap s))),
      snd (run_all syncers snap s))" for snap s
    by (rule Syncers_Sync_not_Panic) (rule assms(2))
  have no_panic: "fst (TranslatorSyncers_Sync syncers p s) \<noteq> Panic x" for p s x
    by (simp add: sync)
  have "sync_all (TranslatorSyncers_Sync syncers) ps s = foldl (\<lambda>s snap. snd (run_all syncers snap s)) s ps" for ps s
    by (induction ps arbitrary: s) (simp_all add: sync)
  moreover obtain errs where "event_loop (TranslatorSyncers_Sync syncers) (em_sent (translator_emitter hash es)) s =
      (Ret errs, sync_all (TranslatorSyncers_Sync syncers) (em_sent (translator_emitter hash es)) s)"
    using event_loop_all [of "em_sent (translator_emitter hash es)" "TranslatorSyncers_Sync syncers" s, OF no_panic]
    by blast
  ultimately show ?thesis
    by (auto simp: translatorEventLoop_Run_def event_loop_Run_def started act_simps)
qed

definition ex_watch_client :: watch_client where
  "ex_watch_client = \<lparr>wc_Register = Ret (), wc_Watch = (\<lambda>ns. Ret ())\<rparr>"

definition ex_counting_syncers :: "nat syncer list" where
  "ex_counting_syncers = [\<lambda>snap n. (Fail (Errorf []), Suc n), \<lambda>snap n. (Ret (), Suc n)]"

theorem event_loop_syncs_every_snapshot_witness:
  "\<exists>errs. translatorEventLoop_Run
       \<lparr>tc_mesh = ex_watch_client, tc_routingRule = ex_watch_client, tc_upstream = ex_watch_client,
        tc_istioCacertsSecret = ex_watch_client\<rparr>
       (\<lambda>s. 0) (TranslatorSyncers_Sync ex_counting_syncers) [''ns''] [ForceEmit, Tick] 0 = (Ret errs, 2)"
proof -
  let ?es = "[ForceEmit, Tick]"
  have sent: "em_sent (translator_emitter (\<lambda>s. 0) ?es) = [zero_translator_snapshot]"
    by (simp add: translator_emitter_def translator_step_def emitter_step_def emitter_sync_def emitter_start_def
        snapshot_Hash_def)
  have "\<exists>errs. translatorEventLoop_Run
       \<lparr>tc_mesh = ex_watch_client, tc_routingRule = ex_watch_client, tc_upstream = ex_watch_client,
        tc_istioCacertsSecret = ex_watch_client\<rparr>
       (\<lambda>s. 0) (TranslatorSyncers_Sync ex_counting_syncers) [''ns''] ?es 0 =
     (Ret errs, foldl (\<lambda>s snap. snd (run_all ex_counting_syncers snap s)) 0 (em_sent (translator_emitter (\<lambda>s. 0) ?es)))"
    by (rule event_loop_syncs_every_snapshot) (auto simp: ex_watch_client_def ex_counting_syncers_def)
  moreover have "foldl (\<lambda>s snap. snd (run_all ex_counting_syncers snap s)) 0 [zero_translator_snapshot] = 2"
    by (simp add: ex_counting_syncers_def)
  ultimately show ?thesis by (simp only: sent)
qed

end
