(* ===== verification/Watch_Pipeline.thy ===== *)
theory Watch_Pipeline
  imports Typed_Properties Event_Loop_Properties
begin

text \<open>
  From a write to the store to the snapshot: the watch of the in-memory client, the generated
  client's watch around it, the goroutine of the emitter that forwards the lists of one namespace, and
  the emitter. The store is shared by the clients of all kinds. The channel of a
  subscription holds one signal, so that writes while one is pending are not signalled again; the theorems
  show that no write is missed.
\<close>

section \<open>The model\<close>

text \<open>\<open>resources.Kind\<close>: the name of the dynamic type.\<close>

fun any_Kind :: "any_resource \<Rightarrow> string" where
  "any_Kind (R_Mesh r) = ''*v1.Mesh''"
| "any_Kind (R_Install r) = ''*v1.Install''"
| "any_Kind (R_RoutingRule r) = ''*v1.RoutingRule''"
| "any_Kind (R_Upstream r) = ''*v1.Upstream''"
| "any_Kind (R_IstioCacertsSecret r) = ''*v1.IstioCacertsSecret''"
| "any_Kind (R_DestinationRule r) = ''*v1alpha3.DestinationRule''"
| "any_Kind (R_VirtualService r) = ''*v1alpha3.VirtualService''"
| "any_Kind (R_ServiceRole r) = ''*v1alpha1.ServiceRole''"
| "any_Kind (R_ServiceRoleBinding r) = ''*v1alpha1.ServiceRoleBinding''"
| "any_Kind (R_RbacConfig r) = ''*v1alpha1.RbacConfig''"
| "any_Kind (R_Config r) = ''*v1.Config''"

definition FilterByKind :: "string \<Rightarrow> any_resource list \<Rightarrow> any_resource list" where
  "FilterByKind kind rs = filter (\<lambda>r. any_Kind r = kind) rs"

text \<open>The list that \<open>updateResourceList\<close> sends; the client's \<open>List\<close> never fails.\<close>

definition updateResourceList ::
  "(any_resource mem_cache \<Rightarrow> any_resource mem_cache) \<Rightarrow> string \<Rightarrow> string \<Rightarrow> (string \<times> string) list \<Rightarrow>
   any_resource mem_cache \<Rightarrow> any_resource list" where
  "updateResourceList rng kind ns selector s =
     (case fst (mem_List rng any_ops kind ns selector s) of Ret l \<Rightarrow> FilterByKind kind l | _ \<Rightarrow> [])"

text \<open>
  The state: the store, whether the goroutine of the watch has sent its first list, the signal in
  the subscription's channel, the lists on their way to the emitter, oldest first, and the emitter. The
  channels have no buffer: each goroutine on the way holds at most one list, the model any number.
\<close>

record pipeline =
  pl_store :: "any_resource mem_cache"
  pl_started :: bool
  pl_signal :: bool
  pl_inflight :: "any_resource list list"
  pl_emitter :: "translator_snapshot emitter"

text \<open>
  What can happen: a write or a deletion through the client of any kind; the first list; the refresh
  timer; the signal; a list that reaches the emitter; another event of the emitter's select.
\<close>

datatype pipeline_event =
    Store_Write any_resource bool
  | Store_Delete string string string bool
  | Start
  | Refresh
  | Notified
  | Forward
  | Emitter "translator_update emitter_event"


text \<open>
  The oldest list on its way goes through the generated client, which converts it, and the goroutine that
  adds the namespace, and is taken up by the emitter.
\<close>

definition forward_list :: "(translator_snapshot \<Rightarrow> 64 word) \<Rightarrow> string \<Rightarrow> pipeline \<Rightarrow> pipeline" where
  [simp]: "forward_list hash ns p =
     (case pl_inflight p of
        [] \<Rightarrow> p
      | l # ls \<Rightarrow>
          (case convertTo as_Mesh l of
             Ret meshes \<Rightarrow> p\<lparr>pl_inflight := ls, pl_emitter := translator_step hash (Deliver (MeshList ns meshes)) (pl_emitter p)\<rparr>
           | _ \<Rightarrow> p))"

fun pipeline_step ::
  "(any_resource mem_cache \<Rightarrow> any_resource mem_cache) \<Rightarrow> (translator_snapshot \<Rightarrow> 64 word) \<Rightarrow> string \<Rightarrow>
   (string \<times> string) list \<Rightarrow> pipeline_event \<Rightarrow> pipeline \<Rightarrow> pipeline" where
  "pipeline_step rng hash ns sel (Store_Write r ow) p =
     (case mem_Write any_ops (any_Kind r) r ow (pl_store p) of
        (Ret _, s) \<Rightarrow> p\<lparr>pl_store := s, pl_signal := True\<rparr>
      | _ \<Rightarrow> p)"
| "pipeline_step rng hash ns sel (Store_Delete kind namespace name ignore) p =
     (if map_of (pl_store p) (mem_key kind (DefaultNamespaceIfEmpty namespace) name) = None then p
      else p\<lparr>pl_store := snd (mem_Delete kind namespace name ignore (pl_store p)), pl_signal := True\<rparr>)"
| "pipeline_step rng hash ns sel Start p =
     (if pl_started p then p
      else p\<lparr>pl_started := True,
             pl_inflight := pl_inflight p @ [updateResourceList rng ''*v1.Mesh'' ns sel (pl_store p)]\<rparr>)"
| "pipeline_step rng hash ns sel Refresh p =
     (if \<not> pl_started p then p
      else p\<lparr>pl_inflight := pl_inflight p @ [updateResourceList rng ''*v1.Mesh'' ns sel (pl_store p)]\<rparr>)"
| "pipeline_step rng hash ns sel Notified p =
     (if \<not> (pl_started p \<and> pl_signal p) then p
      else p\<lparr>pl_signal := False,
             pl_inflight := pl_inflight p @ [updateResourceList rng ''*v1.Mesh'' ns sel (pl_store p)]\<rparr>)"
| "pipeline_step rng hash ns sel Forward p = forward_list hash ns p"
| "pipeline_step rng hash ns sel (Emitter ev) p = p\<lparr>pl_emitter := translator_step hash ev (pl_emitter p)\<rparr>"

definition pipeline_start :: "any_resource mem_cache \<Rightarrow> pipeline" where
  "pipeline_start s =
     \<lparr>pl_store = s, pl_started = False, pl_signal = False, pl_inflight = [],
      pl_emitter = emitter_start snapshot_Clone zero_translator_snapshot\<rparr>"

text \<open>The store of all kinds: every resource is under the key of its kind, namespace and name.\<close>

definition shared_ok :: "any_resource mem_cache \<Rightarrow> bool" where
  "shared_ok s \<longleftrightarrow> distinct (map fst s) \<and>
     list_all (\<lambda>(k, a). k = mem_key (any_Kind a) (meta_Namespace (any_Metadata a)) (meta_Name (any_Metadata a))) s"

text \<open>
  The other watches of the emitter deliver no meshes of the namespace, and the context is not done.
\<close>

fun other_event :: "string \<Rightarrow> translator_update emitter_event \<Rightarrow> bool" where
  "other_event ns (Deliver (MeshList k ms)) \<longleftrightarrow> k \<noteq> ns \<and> list_all (\<lambda>m. meta_Namespace (mesh_Metadata m) \<noteq> ns) ms"
| "other_event ns Done \<longleftrightarrow> False"
| "other_event ns _ \<longleftrightarrow> True"

fun admissible :: "string \<Rightarrow> pipeline_event \<Rightarrow> bool" where
  "admissible ns (Emitter ev) \<longleftrightarrow> other_event ns ev"
| "admissible ns _ \<longleftrightarrow> True"

inductive pipeline_run ::
  "(any_resource mem_cache \<Rightarrow> any_resource mem_cache) \<Rightarrow> (translator_snapshot \<Rightarrow> 64 word) \<Rightarrow> string \<Rightarrow>
   (string \<times> string) list \<Rightarrow> pipeline \<Rightarrow> bool"
  for rng hash ns sel where
  start: "shared_ok s \<Longrightarrow> pipeline_run rng hash ns sel (pipeline_start s)"
| step: "pipeline_run rng hash ns sel p \<Longrightarrow> admissible ns x \<Longrightarrow> pipeline_run rng hash ns sel (pipeline_step rng hash ns sel x p)"

inductive_cases pipeline_runE: "pipeline_run rng hash ns sel p"

section \<open>The lists that are sent\<close>

lemma any_Kind_Mesh: "any_Kind a = ''*v1.Mesh'' \<longleftrightarrow> (\<exists>m. a = R_Mesh m)"
  by (cases a) auto

lemma any_Kind_Set [simp]: "any_Kind (any_SetMetadata m a) = any_Kind a"
  by (cases a) auto

text \<open>The meshes of a store that a watch of the namespace is about.\<close>

definition meshes_in :: "string \<Rightarrow> (string \<times> string) list \<Rightarrow> any_resource mem_cache \<Rightarrow> mesh set" where
  "meshes_in ns sel s =
     {m. (\<exists>k. (k, R_Mesh m) \<in> set s) \<and> meta_Namespace (mesh_Metadata m) = ns \<and> selector_Matches sel (mesh_Metadata m)}"

lemma updateResourceList_meshes:
  "\<exists>ms. updateResourceList rng ''*v1.Mesh'' ns sel s = map R_Mesh ms"
proof -
  have "\<forall>a \<in> set (FilterByKind ''*v1.Mesh'' l). as_Mesh a \<noteq> None" for l
    by (auto simp: FilterByKind_def any_Kind_Mesh)
  then show ?thesis
    using mesh_kind.castable_map by (simp add: updateResourceList_def mem_List_def Let_def)
qed

lemma updateResourceList_set:
  assumes "valid_range rng" and "shared_ok s" and "ns \<noteq> []" and ms: "updateResourceList rng ''*v1.Mesh'' ns sel s = map R_Mesh ms"
  shows "set (filter (\<lambda>m. meta_Namespace (mesh_Metadata m) = ns) ms) = meshes_in ns sel s"
proof -
  have "m \<in> set ms \<longleftrightarrow> R_Mesh m \<in> set (updateResourceList rng ''*v1.Mesh'' ns sel s)" for m
    by (auto simp: ms)
  also have "\<dots> m \<longleftrightarrow> (\<exists>k. (k, R_Mesh m) \<in> set s \<and> strings_HasPrefix k (mem_Prefix ''*v1.Mesh'' ns)) \<and>
      selector_Matches sel (mesh_Metadata m)" for m
    using assms(1,3) by (auto simp: updateResourceList_def mem_List_def Let_def FilterByKind_def DefaultNamespaceIfEmpty_def
      valid_range_set any_ops_def image_iff)
  finally have in_ms: "m \<in> set ms \<longleftrightarrow> (\<exists>k. (k, R_Mesh m) \<in> set s \<and> strings_HasPrefix k (mem_Prefix ''*v1.Mesh'' ns)) \<and>
      selector_Matches sel (mesh_Metadata m)" for m .
  have "k = mem_key ''*v1.Mesh'' (meta_Namespace (mesh_Metadata m)) (meta_Name (mesh_Metadata m))"
    if "(k, R_Mesh m) \<in> set s" for k m
    using assms(2) that by (fastforce simp: shared_ok_def list_all_iff)
  moreover have "strings_HasPrefix (mem_key k ns n) (mem_Prefix k ns)" for k n
    by (simp add: strings_HasPrefix_def mem_key_def)
  ultimately have "meta_Namespace (mesh_Metadata m) = ns \<Longrightarrow> (k, R_Mesh m) \<in> set s \<Longrightarrow>
      strings_HasPrefix k (mem_Prefix ''*v1.Mesh'' ns)" for k m by metis
  then show ?thesis by (auto simp: in_ms meshes_in_def)
qed

section \<open>The invariant\<close>

lemma shared_ok_iff:
  "shared_ok s \<longleftrightarrow> distinct (map fst s) \<and>
     (\<forall>k a. map_of s k = Some a \<longrightarrow> k = mem_key (any_Kind a) (meta_Namespace (any_Metadata a)) (meta_Name (any_Metadata a)))"
  unfolding shared_ok_def list_all_iff by (intro conj_cong refl) (fastforce simp: map_of_eq_Some_iff)

lemma shared_ok_update:
  "shared_ok s \<Longrightarrow> k = mem_key (any_Kind a) (meta_Namespace (any_Metadata a)) (meta_Name (any_Metadata a)) \<Longrightarrow>
     shared_ok (AList.update k a s)"
  by (auto simp: shared_ok_iff distinct_update update_conv')

lemma shared_ok_delete: "shared_ok s \<Longrightarrow> shared_ok (AList.delete k s)"
  by (auto simp: shared_ok_iff distinct_delete delete_conv')

lemma any_Metadata_Set [simp]: "any_Metadata (any_SetMetadata m a) = m"
  using resource_type.Get_Set [OF any_resource_type] by (simp add: any_ops_def)

lemma mem_Write_shared_ok:
  "shared_ok s \<Longrightarrow> mem_Write any_ops (any_Kind a) a ow s = (Ret r, s') \<Longrightarrow> shared_ok s'"
  by (auto simp: mem_Write_def Let_def any_ops_def intro!: shared_ok_update split: if_splits go.splits)

lemma mem_Delete_shared_ok: "shared_ok s \<Longrightarrow> shared_ok (snd (mem_Delete kind ns n ignore s))"
  by (auto simp: mem_Delete_def Let_def shared_ok_delete)

text \<open>What the emitter holds for the namespace once it has taken up everything on its way.\<close>

definition newest :: "string \<Rightarrow> pipeline \<Rightarrow> mesh list" where
  "newest ns p =
     (if pl_inflight p = [] then byNamespace_get (snap_Meshes (em_current (pl_emitter p))) ns
      else filter (\<lambda>m. meta_Namespace (mesh_Metadata m) = ns) (map (\<lambda>a. the (as_Mesh a)) (last (pl_inflight p))))"

definition pipeline_inv ::
  "(any_resource mem_cache \<Rightarrow> any_resource mem_cache) \<Rightarrow> string \<Rightarrow> (string \<times> string) list \<Rightarrow> pipeline \<Rightarrow> bool" where
  "pipeline_inv rng ns sel p \<longleftrightarrow>
     shared_ok (pl_store p) \<and> \<not> em_closed (pl_emitter p) \<and>
     (\<forall>l \<in> set (pl_inflight p). \<exists>ms. l = map R_Mesh ms) \<and>
     (pl_started p \<and> \<not> pl_signal p \<longrightarrow> set (newest ns p) = meshes_in ns sel (pl_store p))"

lemma translator_step_current:
  "\<not> em_closed e \<Longrightarrow> em_current (translator_step hash ev e) =
     (case ev of Deliver u \<Rightarrow> translator_apply u (em_current e) | _ \<Rightarrow> em_current e)"
  "\<not> em_closed e \<Longrightarrow> em_closed (translator_step hash ev e) \<longleftrightarrow> ev = Done"
  by (auto simp: translator_step_def emitter_step_def emitter_sync_def split: emitter_event.split)

lemma other_event_current:
  assumes "other_event ns ev" and "\<not> em_closed e"
  shows "byNamespace_get (snap_Meshes (em_current (translator_step hash ev e))) ns =
      byNamespace_get (snap_Meshes (em_current e)) ns"
proof (cases ev)
  case (Deliver u)
  with assms show ?thesis
    by (cases u) (auto simp: translator_step_current get_clear_and_add list_all_iff intro!: filter_False)
qed (use assms in \<open>simp_all add: translator_step_current\<close>)

text \<open>A list that is taken from the store now makes the newest one right.\<close>

lemma newest_sent:
  assumes "valid_range rng" and "shared_ok s" and "ns \<noteq> []" and q: "pl_inflight q = ls @ [updateResourceList rng ''*v1.Mesh'' ns sel s]"
  shows "set (newest ns q) = meshes_in ns sel s"
proof -
  obtain ms where ms: "updateResourceList rng ''*v1.Mesh'' ns sel s = map R_Mesh ms"
    using updateResourceList_meshes by blast
  show ?thesis
    using updateResourceList_set [OF assms(1-3) ms] by (simp add: newest_def q ms comp_def)
qed

lemma pipeline_inv_step:
  assumes rng: "valid_range rng" and ns: "ns \<noteq> []" and inv: "pipeline_inv rng ns sel p" and x: "admissible ns x"
  shows "pipeline_inv rng ns sel (pipeline_step rng hash ns sel x p)"
proof (cases x)
  case (Store_Write r ow)
  with inv show ?thesis
    by (auto simp: pipeline_inv_def dest: mem_Write_shared_ok split: prod.split go.split)
next
  case (Store_Delete kind namespace name ignore)
  with inv show ?thesis by (simp add: pipeline_inv_def mem_Delete_shared_ok)
next
  case Start
  with inv updateResourceList_meshes show ?thesis
    by (auto simp: pipeline_inv_def newest_sent [OF rng _ ns])
next
  case Refresh
  with inv updateResourceList_meshes show ?thesis
    by (auto simp: pipeline_inv_def newest_sent [OF rng _ ns])
next
  case Notified
  with inv updateResourceList_meshes show ?thesis
    by (auto simp: pipeline_inv_def newest_sent [OF rng _ ns])
next
  case Forward
  show ?thesis
  proof (cases "pl_inflight p")
    case Nil
    with inv Forward show ?thesis by simp
  next
    case (Cons l ls)
    with inv obtain ms where l: "l = map R_Mesh ms" by (auto simp: pipeline_inv_def)
    with Forward Cons have p': "pipeline_step rng hash ns sel x p =
        p\<lparr>pl_inflight := ls, pl_emitter := translator_step hash (Deliver (MeshList ns ms)) (pl_emitter p)\<rparr>" by simp
    have "newest ns (pipeline_step rng hash ns sel x p) = newest ns p"
      using inv Cons l by (auto simp: p' newest_def pipeline_inv_def translator_step_current get_clear_and_add comp_def)
    with inv Cons show ?thesis by (auto simp: pipeline_inv_def p' translator_step_current)
  qed
next
  case (Emitter ev)
  with x have ev: "other_event ns ev" by simp
  then have "ev \<noteq> Done" by auto
  moreover have "newest ns (pipeline_step rng hash ns sel x p) = newest ns p"
    using inv Emitter other_event_current [OF ev, of "pl_emitter p"] by (simp add: pipeline_inv_def newest_def)
  ultimately show ?thesis using inv Emitter by (simp add: pipeline_inv_def translator_step_current)
qed

lemma pipeline_run_inv:
  assumes "pipeline_run rng hash ns sel p" and "valid_range rng" and "ns \<noteq> []"
  shows "pipeline_inv rng ns sel p"
  using assms(1)
proof induction
  case (start s)
  then show ?case by (simp add: pipeline_inv_def pipeline_start_def emitter_start_def)
next
  case (step p x)
  then show ?case using pipeline_inv_step [OF assms(2,3)] by blast
qed

section \<open>No write is missed\<close>

text \<open>Whatever the interleaving of writes to the shared store, refreshes, signals and
  deliveries, once the first list was sent, no signal is pending and no list is on its way, the current snapshot
  holds for the namespace exactly the stored meshes of the namespace that the selector matches. The one place
  in the channel of signals is enough: no write is missed.\<close>
theorem watched_meshes_up_to_date:
  assumes "pipeline_run rng hash ns sel p" and "valid_range rng" and "ns \<noteq> []"
    and "pl_started p" "\<not> pl_signal p" "pl_inflight p = []"
  shows "set (byNamespace_get (snap_Meshes (em_current (pl_emitter p))) ns) = meshes_in ns sel (pl_store p)"
  using pipeline_run_inv [OF assms(1-3)] assms(4-6) by (simp add: pipeline_inv_def newest_def)

lemma run_steps:
  "pipeline_run rng hash ns sel p \<Longrightarrow> list_all (admissible ns) xs \<Longrightarrow>
     pipeline_run rng hash ns sel (fold (pipeline_step rng hash ns sel) xs p)"
  by (induction xs arbitrary: p) (simp_all add: pipeline_run.step)

lemma fold_Forward:
  assumes "\<forall>l \<in> set (pl_inflight p). \<exists>ms. l = map R_Mesh ms" and "length (pl_inflight p) \<le> n"
  shows "pl_inflight (fold (pipeline_step rng hash ns sel) (replicate n Forward) p) = [] \<and>
    pl_store (fold (pipeline_step rng hash ns sel) (replicate n Forward) p) = pl_store p \<and>
    pl_started (fold (pipeline_step rng hash ns sel) (replicate n Forward) p) = pl_started p \<and>
    pl_signal (fold (pipeline_step rng hash ns sel) (replicate n Forward) p) = pl_signal p"
  using assms
proof (induction n arbitrary: p)
  case (Suc n)
  let ?p = "pipeline_step rng hash ns sel Forward p"
  have "(\<forall>l \<in> set (pl_inflight ?p). \<exists>ms. l = map R_Mesh ms) \<and> length (pl_inflight ?p) \<le> n \<and>
      pl_store ?p = pl_store p \<and> pl_started ?p = pl_started p \<and> pl_signal ?p = pl_signal p"
  proof (cases "pl_inflight p")
    case (Cons l ls)
    with Suc.prems obtain ms where "l = map R_Mesh ms" by auto
    with Cons Suc.prems show ?thesis by simp
  qed simp
  with Suc.IH [of ?p] show ?case by simp
qed simp

text \<open>The goroutines run until nothing is left to do, and the timer of the emitter fires.\<close>

definition settle :: "nat \<Rightarrow> pipeline_event list" where
  "settle n = Start # Notified # replicate (n + 2) Forward @ [Emitter Tick]"

lemma settle_started:
  fixes hash :: "translator_snapshot \<Rightarrow> 64 word"
  assumes "pipeline_inv rng ns sel p"
  defines "q \<equiv> fold (pipeline_step rng hash ns sel) [Start, Notified] p"
  shows "pl_started q \<and> \<not> pl_signal q \<and> pl_store q = pl_store p \<and> length (pl_inflight q) \<le> length (pl_inflight p) + 2 \<and>
    (\<forall>l \<in> set (pl_inflight q). \<exists>ms. l = map R_Mesh ms)"
  using assms(1) updateResourceList_meshes by (auto simp: q_def pipeline_inv_def)

text \<open>From every state that the pipeline can reach, running the goroutines until nothing is
  left to do brings the current snapshot up to date with the store, for the namespace that is watched, and
  the next tick sends it, unless it agrees with the last one sent but for versions and statuses.\<close>
theorem pipeline_catches_up:
  assumes "pipeline_run rng hash ns sel p" and "valid_range rng" and "ns \<noteq> []"
  defines "q \<equiv> fold (pipeline_step rng hash ns sel) (settle (length (pl_inflight p))) p"
  shows "pl_store q = pl_store p \<and>
    set (byNamespace_get (snap_Meshes (em_current (pl_emitter q))) ns) = meshes_in ns sel (pl_store p) \<and>
    snapshot_Hash hash (em_original (pl_emitter q)) = snapshot_Hash hash (em_current (pl_emitter q))"
proof -
  let ?step = "pipeline_step rng hash ns sel"
  let ?q1 = "fold ?step [Start, Notified] p"
  let ?q2 = "fold ?step (replicate (length (pl_inflight p) + 2) Forward) ?q1"
  note q1 = settle_started [OF pipeline_run_inv [OF assms(1-3)], of hash]
  have q: "q = ?step (Emitter Tick) ?q2" by (simp add: q_def settle_def)
  have q2: "pl_inflight ?q2 = []" "pl_store ?q2 = pl_store p" "pl_started ?q2" "\<not> pl_signal ?q2"
    using q1 fold_Forward [of ?q1 "length (pl_inflight p) + 2" rng hash ns sel] by auto
  have "pipeline_run rng hash ns sel ?q1" using run_steps [OF assms(1), of "[Start, Notified]"] by simp
  then have run: "pipeline_run rng hash ns sel ?q2" by (rule run_steps) (simp add: list_all_iff)
  note inv = pipeline_run_inv [OF run assms(2,3)]
  have "\<not> em_closed (pl_emitter ?q2)" using inv by (simp add: pipeline_inv_def)
  then have tick: "em_current (pl_emitter q) = em_current (pl_emitter ?q2)"
      "snapshot_Hash hash (em_original (pl_emitter q)) = snapshot_Hash hash (em_current (pl_emitter ?q2))"
    using translator_ops.tick_settles(1,2) [of "pl_emitter ?q2" hash translator_apply] by (simp_all add: q translator_step_def)
  have "set (newest ns ?q2) = meshes_in ns sel (pl_store p)" using inv q2 by (simp add: pipeline_inv_def)
  with q2 tick show ?thesis by (simp add: q newest_def)
qed

definition ex_written :: mesh where
  "ex_written = ex_typed_mesh\<lparr>mesh_Metadata := (new_metadata ''ns'' ''mesh'')\<lparr>meta_ResourceVersion := ''2''\<rparr>\<rparr>"

definition ex_pipeline :: pipeline where
  "ex_pipeline = pipeline_step id (\<lambda>_. 0) ''ns'' [] (Store_Write (R_Mesh ex_typed_mesh) False) (pipeline_start [])"

lemma ex_pipeline_write:
  "mem_Write any_ops ''*v1.Mesh'' (R_Mesh ex_typed_mesh) False [] = (Ret (R_Mesh ex_written), [(''*v1.Mesh;ns;mesh'', R_Mesh ex_written)])"
proof -
  have "ValidateName ''mesh''" "newOrIncrementResourceVer [] = ''2''" by code_simp+
  then show ?thesis
    by (simp add: mem_Write_def mem_Read_def ex_typed_mesh_def ex_written_def kind_simps new_metadata_def Let_def
        DefaultNamespaceIfEmpty_def mem_key_def mem_Prefix_def)
qed

lemma ex_pipeline_facts:
  "pipeline_run id (\<lambda>_. 0) ''ns'' [] ex_pipeline" "pl_store ex_pipeline = [(''*v1.Mesh;ns;mesh'', R_Mesh ex_written)]"
  "pl_inflight ex_pipeline = []" "meshes_in ''ns'' [] (pl_store ex_pipeline) = {ex_written}"
proof -
  have "pipeline_run id (\<lambda>_. 0) ''ns'' [] (pipeline_start [])" by (rule pipeline_run.start) (simp add: shared_ok_def)
  then show "pipeline_run id (\<lambda>_. 0) ''ns'' [] ex_pipeline" unfolding ex_pipeline_def by (rule pipeline_run.step) simp
  show s: "pl_store ex_pipeline = [(''*v1.Mesh;ns;mesh'', R_Mesh ex_written)]" and "pl_inflight ex_pipeline = []"
    by (simp_all add: ex_pipeline_def pipeline_start_def ex_pipeline_write)
  show "meshes_in ''ns'' [] (pl_store ex_pipeline) = {ex_written}"
    by (auto simp: s meshes_in_def selector_Matches_def ex_written_def new_metadata_def)
qed

theorem watched_meshes_up_to_date_witness:
  "\<exists>p. pipeline_run id (\<lambda>_. 0) ''ns'' [] p \<and> set (byNamespace_get (snap_Meshes (em_current (pl_emitter p))) ''ns'') = {ex_written}"
proof -
  let ?step = "pipeline_step id (\<lambda>_. 0) ''ns'' []"
  let ?q = "fold ?step (replicate 2 Forward) (fold ?step [Start, Notified] ex_pipeline)"
  note st = settle_started [OF pipeline_run_inv [OF ex_pipeline_facts(1) valid_range_id(1)], of "\<lambda>_. 0"]
  have q: "pl_inflight ?q = [] \<and> pl_store ?q = pl_store ex_pipeline \<and> pl_started ?q \<and> \<not> pl_signal ?q"
    using st fold_Forward [of "fold ?step [Start, Notified] ex_pipeline" 2] ex_pipeline_facts(3) by auto
  have "pipeline_run id (\<lambda>_. 0) ''ns'' [] (fold ?step [Start, Notified] ex_pipeline)"
    by (rule run_steps [OF ex_pipeline_facts(1)]) simp
  then have run: "pipeline_run id (\<lambda>_. 0) ''ns'' [] ?q" by (rule run_steps) (simp add: numeral_2_eq_2)
  show ?thesis
    using watched_meshes_up_to_date [OF run valid_range_id(1)] q run ex_pipeline_facts(4) by auto
qed

theorem pipeline_catches_up_witness:
  "set (byNamespace_get (snap_Meshes (em_current (pl_emitter
      (fold (pipeline_step id (\<lambda>_. 0) ''ns'' []) (settle 0) ex_pipeline)))) ''ns'') = {ex_written}"
  using pipeline_catches_up [OF ex_pipeline_facts(1) valid_range_id(1)] ex_pipeline_facts(4)
  by (simp add: ex_pipeline_facts(3))

end
