(* ===== verification/Watch_System.thy ===== *)
theory Watch_System
  imports Watch_Pipeline
begin

text \<open>
  All watches of the translator together: \<open>translatorEmitter.Snapshots\<close> starts one per kind (meshes,
  routing rules, upstreams, Istio certificates) and namespace, on the shared in-memory store. Each has a
  subscription of its own and its lists on their way; all deliver to one emitter. The theorems say that the
  snapshot is then exactly what the store holds.

  The in-memory client lists by prefix: a watch of \<open>a\<close> also sees the namespace \<open>ab\<close>. The
  namespaces that resources are written in are assumed to have no watched namespace as a proper prefix.
\<close>

section \<open>The model\<close>

datatype watched_kind = W_Mesh | W_RoutingRule | W_Upstream | W_IstioCacertsSecret

type_synonym watch_id = "watched_kind \<times> string"

fun kind_name :: "watched_kind \<Rightarrow> string" where
  "kind_name W_Mesh = ''*v1.Mesh''"
| "kind_name W_RoutingRule = ''*v1.RoutingRule''"
| "kind_name W_Upstream = ''*v1.Upstream''"
| "kind_name W_IstioCacertsSecret = ''*v1.IstioCacertsSecret''"

text \<open>The list as it reaches the emitter: converted, with its namespace, in the channel of its kind.\<close>

fun namespaced_list :: "watched_kind \<Rightarrow> string \<Rightarrow> any_resource list \<Rightarrow> translator_update go" where
  "namespaced_list W_Mesh ns l = gbind (convertTo as_Mesh l) (\<lambda>rs. Ret (MeshList ns rs))"
| "namespaced_list W_RoutingRule ns l = gbind (convertTo as_RoutingRule l) (\<lambda>rs. Ret (RoutingRuleList ns rs))"
| "namespaced_list W_Upstream ns l = gbind (convertTo as_Upstream l) (\<lambda>rs. Ret (UpstreamList ns rs))"
| "namespaced_list W_IstioCacertsSecret ns l =
     gbind (convertTo as_IstioCacertsSecret l) (\<lambda>rs. Ret (IstioCacertsSecretList ns rs))"

record watch_system =
  sys_store :: "any_resource mem_cache"
  sys_started :: "watch_id \<Rightarrow> bool"
  sys_signal :: "watch_id \<Rightarrow> bool"
  sys_inflight :: "watch_id \<Rightarrow> any_resource list list"
  sys_emitter :: "translator_snapshot emitter"

datatype system_event =
    Sys_Write any_resource bool
  | Sys_Delete string string string bool
  | Sys_Start watch_id
  | Sys_Refresh watch_id
  | Sys_Notified watch_id
  | Sys_Forward watch_id
  | Sys_Tick
  | Sys_ForceEmit

text \<open>The goroutine of a watch takes the list of its kind and namespace from the store and sends it.\<close>

definition send_list ::
  "(any_resource mem_cache \<Rightarrow> any_resource mem_cache) \<Rightarrow> watch_id \<Rightarrow> watch_system \<Rightarrow> watch_system" where
  "send_list rng w s =
     s\<lparr>sys_inflight := (sys_inflight s)
        (w := sys_inflight s w @ [updateResourceList rng (kind_name (fst w)) (snd w) [] (sys_store s)])\<rparr>"

text \<open>The oldest list of a watch reaches the emitter.\<close>

definition forward_watch :: "(translator_snapshot \<Rightarrow> 64 word) \<Rightarrow> watch_id \<Rightarrow> watch_system \<Rightarrow> watch_system" where
  "forward_watch hash w s =
     (case sys_inflight s w of
        [] \<Rightarrow> s
      | l # ls \<Rightarrow>
          (case namespaced_list (fst w) (snd w) l of
             Ret u \<Rightarrow> s\<lparr>sys_inflight := (sys_inflight s)(w := ls),
                       sys_emitter := translator_step hash (Deliver u) (sys_emitter s)\<rparr>
           | _ \<Rightarrow> s))"

text \<open>\<open>signalUpdate\<close> leaves a signal in the channel of every subscription.\<close>

fun system_step ::
  "(any_resource mem_cache \<Rightarrow> any_resource mem_cache) \<Rightarrow> (translator_snapshot \<Rightarrow> 64 word) \<Rightarrow>
   system_event \<Rightarrow> watch_system \<Rightarrow> watch_system" where
  "system_step rng hash (Sys_Write r ow) s =
     (case mem_Write any_ops (any_Kind r) r ow (sys_store s) of
        (Ret _, st) \<Rightarrow> s\<lparr>sys_store := st, sys_signal := (\<lambda>_. True)\<rparr>
      | _ \<Rightarrow> s)"
| "system_step rng hash (Sys_Delete kind namespace name ignore) s =
     (if map_of (sys_store s) (mem_key kind (DefaultNamespaceIfEmpty namespace) name) = None then s
      else s\<lparr>sys_store := snd (mem_Delete kind namespace name ignore (sys_store s)), sys_signal := (\<lambda>_. True)\<rparr>)"
| "system_step rng hash (Sys_Start w) s =
     (if sys_started s w then s else send_list rng w (s\<lparr>sys_started := (sys_started s)(w := True)\<rparr>))"
| "system_step rng hash (Sys_Refresh w) s = (if sys_started s w then send_list rng w s else s)"
| "system_step rng hash (Sys_Notified w) s =
     (if sys_started s w \<and> sys_signal s w then send_list rng w (s\<lparr>sys_signal := (sys_signal s)(w := False)\<rparr>) else s)"
| "system_step rng hash (Sys_Forward w) s = forward_watch hash w s"
| "system_step rng hash Sys_Tick s = s\<lparr>sys_emitter := translator_step hash Tick (sys_emitter s)\<rparr>"
| "system_step rng hash Sys_ForceEmit s = s\<lparr>sys_emitter := translator_step hash ForceEmit (sys_emitter s)\<rparr>"

definition system_start :: "any_resource mem_cache \<Rightarrow> watch_system" where
  "system_start st =
     \<lparr>sys_store = st, sys_started = (\<lambda>_. False), sys_signal = (\<lambda>_. False), sys_inflight = (\<lambda>_. []),
      sys_emitter = emitter_start snapshot_Clone zero_translator_snapshot\<rparr>"

text \<open>Namespaces: none has a watched one as a proper prefix.\<close>

definition apart :: "string list \<Rightarrow> string \<Rightarrow> bool" where
  "apart nss n \<longleftrightarrow> list_all (\<lambda>ns. strings_HasPrefix n ns \<longrightarrow> n = ns) nss"

definition store_apart :: "string list \<Rightarrow> any_resource mem_cache \<Rightarrow> bool" where
  "store_apart nss st \<longleftrightarrow> shared_ok st \<and> list_all (\<lambda>(k, a). apart nss (meta_Namespace (any_Metadata a))) st"

fun allowed :: "string list \<Rightarrow> system_event \<Rightarrow> bool" where
  "allowed nss (Sys_Write r ow) \<longleftrightarrow> apart nss (DefaultNamespaceIfEmpty (meta_Namespace (any_Metadata r)))"
| "allowed nss (Sys_Start w) \<longleftrightarrow> snd w \<in> set nss"
| "allowed nss (Sys_Refresh w) \<longleftrightarrow> snd w \<in> set nss"
| "allowed nss (Sys_Notified w) \<longleftrightarrow> snd w \<in> set nss"
| "allowed nss (Sys_Forward w) \<longleftrightarrow> snd w \<in> set nss"
| "allowed nss _ \<longleftrightarrow> True"

text \<open>The namespaces that are watched: named, different, and apart from each other.\<close>

definition watchable :: "string list \<Rightarrow> bool" where
  "watchable nss \<longleftrightarrow> distinct nss \<and> list_all (\<lambda>ns. ns \<noteq> [] \<and> CHR '';'' \<notin> set ns) nss"

inductive system_run ::
  "(any_resource mem_cache \<Rightarrow> any_resource mem_cache) \<Rightarrow> (translator_snapshot \<Rightarrow> 64 word) \<Rightarrow> string list \<Rightarrow>
   watch_system \<Rightarrow> bool"
  for rng hash nss where
  start: "store_apart nss st \<Longrightarrow> system_run rng hash nss (system_start st)"
| step: "system_run rng hash nss s \<Longrightarrow> allowed nss x \<Longrightarrow> system_run rng hash nss (system_step rng hash x s)"

inductive_cases system_runE: "system_run rng hash nss s"

section \<open>What the store holds\<close>

definition stored_in :: "watched_kind \<Rightarrow> string \<Rightarrow> any_resource mem_cache \<Rightarrow> any_resource list" where
  "stored_in k ns st =
     filter (\<lambda>a. any_Kind a = kind_name k \<and> meta_Namespace (any_Metadata a) = ns) (map snd st)"

lemma HasPrefix_key:
  assumes "CHR '';'' \<notin> set ns"
  shows "strings_HasPrefix (mem_key k n name) (mem_Prefix k ns) \<longleftrightarrow> strings_HasPrefix n ns"
proof -
  have "take (length ns) (n @ CHR '';'' # name) = ns \<longleftrightarrow> take (length ns) n = ns"
  proof (cases "length ns \<le> length n")
    case False
    then have "CHR '';'' \<in> set (take (length ns) (n @ CHR '';'' # name))"
      by (cases "length ns - length n") auto
    with assms have "take (length ns) (n @ CHR '';'' # name) \<noteq> ns" by metis
    moreover have "take (length ns) n \<noteq> ns" using False by auto
    ultimately show ?thesis by blast
  qed simp
  then show ?thesis by (simp add: strings_HasPrefix_def mem_key_def mem_Prefix_def)
qed

lemma watched_key:
  assumes "store_apart nss st" and "(key, a) \<in> set st" and "ns \<in> set nss" and "CHR '';'' \<notin> set ns"
    and "any_Kind a = kind"
  shows "strings_HasPrefix key (mem_Prefix kind ns) \<longleftrightarrow> meta_Namespace (any_Metadata a) = ns"
proof -
  have "key = mem_key kind (meta_Namespace (any_Metadata a)) (meta_Name (any_Metadata a))"
    and "apart nss (meta_Namespace (any_Metadata a))"
    using assms(1,2,5) by (auto simp: store_apart_def shared_ok_def list_all_iff)
  then show ?thesis
    using assms(3) HasPrefix_key [OF assms(4)] by (auto simp: apart_def list_all_iff strings_HasPrefix_def)
qed

lemma mset_updateResourceList:
  assumes "valid_range rng" and st: "store_apart nss st" and ns: "ns \<in> set nss" and "watchable nss"
  shows "mset (updateResourceList rng (kind_name k) ns [] st) = mset (stored_in k ns st)"
proof -
  have ns': "ns \<noteq> []" "CHR '';'' \<notin> set ns" using assms(3,4) by (auto simp: watchable_def list_all_iff)
  let ?P = "\<lambda>(key, a). strings_HasPrefix key (mem_Prefix (kind_name k) ns) \<and> any_Kind a = kind_name k"
  let ?Q = "\<lambda>(key, a). any_Kind a = kind_name k \<and> meta_Namespace (any_Metadata a) = ns"
  have "mset (updateResourceList rng (kind_name k) ns [] st) = image_mset snd (filter_mset ?P (mset (rng st)))"
    using ns'(1) by (simp add: updateResourceList_def mem_List_def Let_def FilterByKind_def DefaultNamespaceIfEmpty_def
        selector_Matches_def filter_mset_image_mset filter_filter_mset case_prod_unfold conj_commute comp_def)
  also have "filter_mset ?P (mset (rng st)) = filter_mset ?Q (mset st)"
    unfolding valid_range_mset [OF assms(1)]
    by (rule filter_mset_cong) (use watched_key [OF st _ ns ns'(2)] in auto)
  also have "image_mset snd \<dots> = mset (stored_in k ns st)"
    by (simp add: stored_in_def filter_mset_image_mset case_prod_unfold comp_def)
  finally show ?thesis .
qed

text \<open>The resources of a list that the watch of a kind and a namespace may send.\<close>

definition of_watch :: "watch_id \<Rightarrow> any_resource list \<Rightarrow> bool" where
  "of_watch w l \<longleftrightarrow> list_all (\<lambda>a. any_Kind a = kind_name (fst w) \<and> meta_Namespace (any_Metadata a) = snd w) l"

lemma of_watch_updateResourceList:
  assumes "valid_range rng" and "store_apart nss st" and "snd w \<in> set nss" and "watchable nss"
  shows "of_watch w (updateResourceList rng (kind_name (fst w)) (snd w) [] st)"
proof -
  have "set (updateResourceList rng (kind_name (fst w)) (snd w) [] st) = set (stored_in (fst w) (snd w) st)"
    using mset_updateResourceList [OF assms, of "fst w"] by (metis set_mset_mset)
  then show ?thesis by (auto simp: of_watch_def list_all_iff stored_in_def)
qed

section \<open>What the snapshot holds\<close>

fun snap_get :: "watched_kind \<Rightarrow> string \<Rightarrow> translator_snapshot \<Rightarrow> any_resource list" where
  "snap_get W_Mesh ns s = map R_Mesh (byNamespace_get (snap_Meshes s) ns)"
| "snap_get W_RoutingRule ns s = map R_RoutingRule (byNamespace_get (snap_Routingrules s) ns)"
| "snap_get W_Upstream ns s = map R_Upstream (byNamespace_get (snap_Upstreams s) ns)"
| "snap_get W_IstioCacertsSecret ns s = map R_IstioCacertsSecret (byNamespace_get (snap_Istiocerts s) ns)"

lemma any_Kind_iff:
  "any_Kind a = ''*v1.RoutingRule'' \<longleftrightarrow> (\<exists>r. a = R_RoutingRule r)"
  "any_Kind a = ''*v1.Upstream'' \<longleftrightarrow> (\<exists>r. a = R_Upstream r)"
  "any_Kind a = ''*v1.IstioCacertsSecret'' \<longleftrightarrow> (\<exists>r. a = R_IstioCacertsSecret r)"
  by (cases a; auto)+

lemma all_wrapped:
  "\<forall>a \<in> set l. \<exists>r. a = f r \<Longrightarrow> \<forall>a \<in> set l. P a \<Longrightarrow> \<exists>rs. l = map f rs \<and> (\<forall>r \<in> set rs. P (f r))"
proof -
  assume l: "\<forall>a \<in> set l. \<exists>r. a = f r" "\<forall>a \<in> set l. P a"
  then obtain rs where "l = map f rs" by (auto simp flip: ex_map_conv)
  with l(2) show ?thesis by auto
qed

lemma of_watch_wrapped:
  assumes l: "of_watch (k, ns) l" and f: "\<And>a. any_Kind a = kind_name k \<Longrightarrow> \<exists>r. a = f r"
    and md: "\<And>r. any_Metadata (f r) = md r"
  shows "\<exists>rs. l = map f rs \<and> (\<forall>r \<in> set rs. meta_Namespace (md r) = ns)"
proof -
  have "\<forall>a \<in> set l. \<exists>r. a = f r" "\<forall>a \<in> set l. meta_Namespace (any_Metadata a) = ns"
    using l f by (auto simp: of_watch_def list_all_iff)
  from all_wrapped [OF this] show ?thesis by (simp add: md)
qed

lemma of_watch_cases:
  "of_watch (W_Mesh, ns) l \<Longrightarrow> \<exists>rs. l = map R_Mesh rs \<and> (\<forall>r \<in> set rs. meta_Namespace (mesh_Metadata r) = ns)"
  "of_watch (W_RoutingRule, ns) l \<Longrightarrow> \<exists>rs. l = map R_RoutingRule rs \<and> (\<forall>r \<in> set rs. meta_Namespace (rr_Metadata r) = ns)"
  "of_watch (W_Upstream, ns) l \<Longrightarrow> \<exists>rs. l = map R_Upstream rs \<and> (\<forall>r \<in> set rs. meta_Namespace (upstream_Metadata r) = ns)"
  "of_watch (W_IstioCacertsSecret, ns) l \<Longrightarrow>
     \<exists>rs. l = map R_IstioCacertsSecret rs \<and> (\<forall>r \<in> set rs. meta_Namespace (cacerts_Metadata r) = ns)"
  by (erule of_watch_wrapped; simp add: any_Kind_Mesh any_Kind_iff)+

lemma filter_own: "\<forall>r \<in> set rs. f r = ns \<Longrightarrow> filter (\<lambda>r. f r = ns') rs = (if ns' = ns then rs else [])"
  by (auto intro!: filter_True filter_False)

text \<open>A list of a watch is delivered, and replaces what the snapshot holds for that watch only.\<close>

definition replaces :: "watched_kind \<Rightarrow> string \<Rightarrow> any_resource list \<Rightarrow> translator_update \<Rightarrow> bool" where
  "replaces k ns l u \<longleftrightarrow>
     (\<forall>s k' ns'. snap_get k' ns' (translator_apply u s) = (if k' = k \<and> ns' = ns then l else snap_get k' ns' s))"

lemma replaces_Mesh:
  assumes own: "\<forall>r \<in> set rs. meta_Namespace (mesh_Metadata r) = ns"
  shows "replaces W_Mesh ns (map R_Mesh rs) (MeshList ns rs)"
  unfolding replaces_def
proof (intro allI)
  show "snap_get k' ns' (translator_apply (MeshList ns rs) s) =
      (if k' = W_Mesh \<and> ns' = ns then map R_Mesh rs else snap_get k' ns' s)" for s k' ns'
    by (cases k') (auto simp: get_clear_and_add filter_own [OF own])
qed

lemma replaces_RoutingRule:
  assumes own: "\<forall>r \<in> set rs. meta_Namespace (rr_Metadata r) = ns"
  shows "replaces W_RoutingRule ns (map R_RoutingRule rs) (RoutingRuleList ns rs)"
  unfolding replaces_def
proof (intro allI)
  show "snap_get k' ns' (translator_apply (RoutingRuleList ns rs) s) =
      (if k' = W_RoutingRule \<and> ns' = ns then map R_RoutingRule rs else snap_get k' ns' s)" for s k' ns'
    by (cases k') (auto simp: get_clear_and_add filter_own [OF own])
qed

lemma replaces_Upstream:
  assumes own: "\<forall>r \<in> set rs. meta_Namespace (upstream_Metadata r) = ns"
  shows "replaces W_Upstream ns (map R_Upstream rs) (UpstreamList ns rs)"
  unfolding replaces_def
proof (intro allI)
  show "snap_get k' ns' (translator_apply (UpstreamList ns rs) s) =
      (if k' = W_Upstream \<and> ns' = ns then map R_Upstream rs else snap_get k' ns' s)" for s k' ns'
    by (cases k') (auto simp: get_clear_and_add filter_own [OF own])
qed

lemma replaces_IstioCacertsSecret:
  assumes own: "\<forall>r \<in> set rs. meta_Namespace (cacerts_Metadata r) = ns"
  shows "replaces W_IstioCacertsSecret ns (map R_IstioCacertsSecret rs) (IstioCacertsSecretList ns rs)"
  unfolding replaces_def
proof (intro allI)
  show "snap_get k' ns' (translator_apply (IstioCacertsSecretList ns rs) s) =
      (if k' = W_IstioCacertsSecret \<and> ns' = ns then map R_IstioCacertsSecret rs else snap_get k' ns' s)" for s k' ns'
    by (cases k') (auto simp: get_clear_and_add filter_own [OF own])
qed

lemma namespaced_list_of_watch:
  assumes "of_watch (k, ns) l"
  shows "\<exists>u. namespaced_list k ns l = Ret u \<and> replaces k ns l u"
proof (cases k)
  case W_Mesh
  obtain rs where l: "l = map R_Mesh rs" "\<forall>r \<in> set rs. meta_Namespace (mesh_Metadata r) = ns"
    using of_watch_cases(1) assms W_Mesh by blast
  show ?thesis
    by (intro exI [of _ "MeshList ns rs"]) (simp add: W_Mesh l(1) replaces_Mesh [OF l(2)])
next
  case W_RoutingRule
  obtain rs where l: "l = map R_RoutingRule rs" "\<forall>r \<in> set rs. meta_Namespace (rr_Metadata r) = ns"
    using of_watch_cases(2) assms W_RoutingRule by blast
  show ?thesis
    by (intro exI [of _ "RoutingRuleList ns rs"]) (simp add: W_RoutingRule l(1) replaces_RoutingRule [OF l(2)])
next
  case W_Upstream
  obtain rs where l: "l = map R_Upstream rs" "\<forall>r \<in> set rs. meta_Namespace (upstream_Metadata r) = ns"
    using of_watch_cases(3) assms W_Upstream by blast
  show ?thesis
    by (intro exI [of _ "UpstreamList ns rs"]) (simp add: W_Upstream l(1) replaces_Upstream [OF l(2)])
next
  case W_IstioCacertsSecret
  obtain rs where l: "l = map R_IstioCacertsSecret rs" "\<forall>r \<in> set rs. meta_Namespace (cacerts_Metadata r) = ns"
    using of_watch_cases(4) assms W_IstioCacertsSecret by blast
  show ?thesis
    by (intro exI [of _ "IstioCacertsSecretList ns rs"]) (simp add: W_IstioCacertsSecret l(1) replaces_IstioCacertsSecret [OF l(2)])
qed

section \<open>The invariant\<close>

lemma store_apart_iff:
  "store_apart nss st \<longleftrightarrow> shared_ok st \<and> (\<forall>k a. map_of st k = Some a \<longrightarrow> apart nss (meta_Namespace (any_Metadata a)))"
  unfolding store_apart_def list_all_iff
  by (rule conj_cong [OF refl]) (fastforce simp: shared_ok_def map_of_eq_Some_iff)

lemma store_apart_update:
  "store_apart nss st \<Longrightarrow> apart nss (meta_Namespace (any_Metadata a)) \<Longrightarrow>
     k = mem_key (any_Kind a) (meta_Namespace (any_Metadata a)) (meta_Name (any_Metadata a)) \<Longrightarrow>
     store_apart nss (AList.update k a st)"
  by (auto simp: store_apart_iff shared_ok_update update_conv')

lemma store_apart_delete: "store_apart nss st \<Longrightarrow> store_apart nss (AList.delete k st)"
  by (auto simp: store_apart_iff shared_ok_delete delete_conv')

lemma mem_Write_apart:
  "store_apart nss st \<Longrightarrow> apart nss (DefaultNamespaceIfEmpty (meta_Namespace (any_Metadata a))) \<Longrightarrow>
     mem_Write any_ops (any_Kind a) a ow st = (Ret r, st') \<Longrightarrow> store_apart nss st'"
  by (auto simp: mem_Write_def Let_def any_ops_def intro!: store_apart_update split: if_splits go.splits)

lemma mem_Delete_apart: "store_apart nss st \<Longrightarrow> store_apart nss (snd (mem_Delete kind ns n ignore st))"
  by (auto simp: mem_Delete_def Let_def store_apart_delete)

text \<open>What the snapshot will hold for a watch once everything on its way has been taken up.\<close>

definition newest_list :: "watch_system \<Rightarrow> watch_id \<Rightarrow> any_resource list" where
  "newest_list s w = last (snap_get (fst w) (snd w) (em_current (sys_emitter s)) # sys_inflight s w)"

definition watch_ok :: "string list \<Rightarrow> watch_system \<Rightarrow> watch_id \<Rightarrow> bool" where
  "watch_ok nss s w \<longleftrightarrow>
     (\<forall>l \<in> set (sys_inflight s w). of_watch w l) \<and>
     (snd w \<in> set nss \<and> sys_started s w \<and> \<not> sys_signal s w \<longrightarrow>
        mset (newest_list s w) = mset (stored_in (fst w) (snd w) (sys_store s)))"

definition system_inv :: "string list \<Rightarrow> watch_system \<Rightarrow> bool" where
  "system_inv nss s \<longleftrightarrow>
     store_apart nss (sys_store s) \<and> \<not> em_closed (sys_emitter s) \<and> snapshot_inv (em_current (sys_emitter s)) \<and>
     (\<forall>k ns. ns \<notin> set nss \<longrightarrow> snap_get k ns (em_current (sys_emitter s)) = []) \<and> All (watch_ok nss s)"

lemma system_invD:
  assumes "system_inv nss s"
  shows "store_apart nss (sys_store s)" "\<not> em_closed (sys_emitter s)" "snapshot_inv (em_current (sys_emitter s))"
    "ns \<notin> set nss \<Longrightarrow> snap_get k ns (em_current (sys_emitter s)) = []" "watch_ok nss s w"
  using assms by (simp_all add: system_inv_def del: split_paired_All)

text \<open>A watch is as before if its own fields, the store and what the emitter holds of it are.\<close>

lemma watch_ok_cong:
  assumes "sys_inflight s' w = sys_inflight s w" "sys_started s' w = sys_started s w" "sys_signal s' w = sys_signal s w"
    "sys_store s' = sys_store s" "snap_get (fst w) (snd w) (em_current (sys_emitter s')) = snap_get (fst w) (snd w) (em_current (sys_emitter s))"
  shows "watch_ok nss s' w = watch_ok nss s w"
  by (simp add: watch_ok_def newest_list_def assms)

lemma watch_ok_signalled: "watch_ok nss s w \<Longrightarrow> watch_ok nss (s\<lparr>sys_store := st, sys_signal := (\<lambda>_. True)\<rparr>) w"
  by (simp add: watch_ok_def)

lemma system_inv_start: "store_apart nss st \<Longrightarrow> system_inv nss (system_start st)"
proof -
  have "snap_get k ns zero_translator_snapshot = []" for k ns
    by (cases k) (simp_all add: zero_translator_snapshot_def)
  moreover have "snapshot_inv zero_translator_snapshot" by (simp add: snapshot_inv_def zero_translator_snapshot_def)
  ultimately show "store_apart nss st \<Longrightarrow> system_inv nss (system_start st)"
    by (simp add: system_inv_def system_start_def emitter_start_def watch_ok_def)
qed

text \<open>Sending a list makes the newest one of the watch right, and changes no other watch.\<close>

lemma system_inv_send:
  assumes "valid_range rng" and "watchable nss" and w: "snd w \<in> set nss"
    and inv: "system_inv nss s"
    and s': "sys_store s' = sys_store s" "sys_emitter s' = sys_emitter s" "sys_inflight s' = sys_inflight s"
      "\<And>v. v \<noteq> w \<Longrightarrow> sys_started s' v = sys_started s v \<and> sys_signal s' v = sys_signal s v"
  shows "system_inv nss (send_list rng w s')"
proof -
  let ?l = "updateResourceList rng (kind_name (fst w)) (snd w) [] (sys_store s)"
  note st = system_invD(1) [OF inv]
  have "of_watch w ?l" by (rule of_watch_updateResourceList [OF assms(1) st w assms(2)])
  moreover have "mset ?l = mset (stored_in (fst w) (snd w) (sys_store s))"
    by (rule mset_updateResourceList [OF assms(1) st w assms(2)])
  ultimately have "watch_ok nss (send_list rng w s') w"
    using system_invD(5) [OF inv, of w] s' by (auto simp: watch_ok_def send_list_def newest_list_def)
  moreover have "watch_ok nss (send_list rng w s') v" if "v \<noteq> w" for v
    using system_invD(5) [OF inv, of v] watch_ok_cong [of "send_list rng w s'" v s] s' that by (simp add: send_list_def)
  ultimately have "watch_ok nss (send_list rng w s') v" for v by (cases "v = w") auto
  with system_invD(1-4) [OF inv] s' show ?thesis by (simp add: system_inv_def send_list_def)
qed

lemma system_inv_forward:
  assumes inv: "system_inv nss s" and w: "snd w \<in> set nss"
  shows "system_inv nss (forward_watch hash w s)"
proof (cases "sys_inflight s w")
  case Nil
  with inv show ?thesis by (simp add: forward_watch_def)
next
  case (Cons l ls)
  have "of_watch (fst w, snd w) l" using system_invD(5) [OF inv, of w] Cons by (simp add: watch_ok_def)
  then obtain u where u: "namespaced_list (fst w) (snd w) l = Ret u" "replaces (fst w) (snd w) l u"
    using namespaced_list_of_watch by blast
  let ?e = "translator_step hash (Deliver u) (sys_emitter s)"
  let ?s = "s\<lparr>sys_inflight := (sys_inflight s)(w := ls), sys_emitter := ?e\<rparr>"
  have s': "forward_watch hash w s = ?s" using Cons u(1) by (simp add: forward_watch_def)
  have e: "em_current ?e = translator_apply u (em_current (sys_emitter s))" "\<not> em_closed ?e"
    using system_invD(2) [OF inv] by (simp_all add: translator_step_current)
  have get: "snap_get k' ns' (em_current ?e) =
      (if k' = fst w \<and> ns' = snd w then l else snap_get k' ns' (em_current (sys_emitter s)))" for k' ns'
    using u(2) by (simp add: e replaces_def)
  have "watch_ok nss ?s v" for v
  proof (cases "v = w")
    case True
    with system_invD(5) [OF inv, of w] Cons show ?thesis by (auto simp: watch_ok_def newest_list_def get)
  next
    case False
    with system_invD(5) [OF inv, of v] watch_ok_cong [of ?s v s] show ?thesis by (auto simp: get prod_eq_iff)
  qed
  moreover have "snap_get k' ns' (em_current ?e) = []" if "ns' \<notin> set nss" for k' ns'
    using that w system_invD(4) [OF inv that] by (auto simp: get)
  moreover have "snapshot_inv (em_current ?e)" using system_invD(3) [OF inv] by (simp add: e snapshot_inv_apply)
  ultimately have "system_inv nss ?s" using system_invD(1) [OF inv] e(2) unfolding system_inv_def by simp
  then show ?thesis by (simp only: s')
qed

lemma system_inv_step:
  assumes "valid_range rng" and "watchable nss" and inv: "system_inv nss s" and x: "allowed nss x"
  shows "system_inv nss (system_step rng hash x s)"
proof (cases x)
  case (Sys_Write r ow)
  obtain o1 st where w: "mem_Write any_ops (any_Kind r) r ow (sys_store s) = (o1, st)" by fastforce
  with Sys_Write x inv show ?thesis
    by (cases o1) (auto simp: system_inv_def watch_ok_signalled dest: mem_Write_apart)
next
  case (Sys_Delete kind namespace name ignore)
  with inv show ?thesis by (simp add: system_inv_def watch_ok_signalled mem_Delete_apart)
next
  case (Sys_Start w)
  with x inv show ?thesis by (auto intro!: system_inv_send [OF assms(1,2) _ inv])
next
  case (Sys_Refresh w)
  with x inv show ?thesis by (auto intro!: system_inv_send [OF assms(1,2) _ inv])
next
  case (Sys_Notified w)
  with x inv show ?thesis by (auto intro!: system_inv_send [OF assms(1,2) _ inv])
next
  case (Sys_Forward w)
  with x inv system_inv_forward show ?thesis by simp
next
  case Sys_Tick
  with inv show ?thesis by (simp add: system_inv_def watch_ok_def newest_list_def translator_step_current)
next
  case Sys_ForceEmit
  with inv show ?thesis by (simp add: system_inv_def watch_ok_def newest_list_def translator_step_current)
qed

lemma system_run_inv:
  assumes "system_run rng hash nss s" and "valid_range rng" and "watchable nss"
  shows "system_inv nss s"
  using assms(1)
proof induction
  case (step s x)
  then show ?case using system_inv_step [OF assms(2,3)] by blast
qed (rule system_inv_start)

section \<open>The snapshot is what the store holds\<close>

text \<open>The resources of a kind that the store holds in the watched namespaces, in the order of lists.\<close>

definition stored_list ::
  "(any_resource \<Rightarrow> 'r option) \<Rightarrow> ('r \<Rightarrow> metadata) \<Rightarrow> string list \<Rightarrow> any_resource mem_cache \<Rightarrow> 'r list" where
  "stored_list unwrap md nss st =
     list_Sort md (filter (\<lambda>r. meta_Namespace (md r) \<in> set nss) (List.map_filter unwrap (map snd st)))"

text \<open>Lists without two resources of one reference are determined by their namespaces' elements.\<close>

lemma mset_eq_at_most_one:
  assumes "mset xs = mset ys" and "length ys \<le> 1"
  shows "xs = ys"
proof (cases ys)
  case (Cons y zs)
  with assms show ?thesis by simp
qed (use assms in simp)

lemma length_filter_distinct: "distinct (map f xs) \<Longrightarrow> length (filter (\<lambda>x. f x = k) xs) \<le> 1"
proof (induction xs)
  case (Cons x xs)
  then have "f x = k \<Longrightarrow> filter (\<lambda>x. f x = k) xs = []" by (auto simp: filter_empty_conv image_iff)
  with Cons show ?case by simp
qed simp

lemma List_eq_stored:
  assumes inv: "byNamespace_inv md m" and rng: "valid_range rng" and dist: "distinct (map (\<lambda>r. Metadata_Ref (md r)) rs)"
    and get: "\<And>ns. mset (byNamespace_get m ns) = (if ns \<in> set nss then mset (filter (\<lambda>r. meta_Namespace (md r) = ns) rs) else {#})"
  shows "byNamespace_List rng md m = list_Sort md (filter (\<lambda>r. meta_Namespace (md r) \<in> set nss) rs)"
proof -
  let ?in = "\<lambda>r. meta_Namespace (md r) \<in> set nss" and ?at = "\<lambda>ref r. Metadata_Ref (md r) = ref"
  have "filter (?at ref) (concat (map snd m)) = filter (?at ref) (filter ?in rs)" for ref
  proof (rule mset_eq_at_most_one)
    let ?ns = "ref_Namespace ref"
    have same: "?at ref r \<Longrightarrow> meta_Namespace (md r) = ?ns" for r
      by (drule arg_cong [of _ _ ref_Namespace]) (simp add: Metadata_Ref_def del: ResourceRef_meta)
    have at: "filter (?at ref) (concat (map snd m)) = filter (?at ref) (byNamespace_get m ?ns)"
      by (rule filter_byNamespace_entries [OF inv])
    show "mset (filter (?at ref) (concat (map snd m))) = mset (filter (?at ref) (filter ?in rs))"
    proof (cases "?ns \<in> set nss")
      case True
      then have "mset (byNamespace_get m ?ns) = mset (filter (\<lambda>r. meta_Namespace (md r) = ?ns) rs)" by (simp add: get)
      then have "mset (filter (?at ref) (byNamespace_get m ?ns)) = mset (filter (?at ref) (filter (\<lambda>r. meta_Namespace (md r) = ?ns) rs))"
        by (simp only: mset_filter)
      also have "filter (?at ref) (filter (\<lambda>r. meta_Namespace (md r) = ?ns) rs) = filter (?at ref) (filter ?in rs)"
        unfolding filter_filter by (rule filter_cong) (use True same in auto)
      finally show ?thesis by (simp only: at)
    next
      case False
      then have "byNamespace_get m ?ns = []" using get [of ?ns] by simp
      moreover have "filter (?at ref) (filter ?in rs) = []" using False same by (auto simp: filter_empty_conv)
      ultimately show ?thesis by (simp add: at)
    qed
    show "length (filter (?at ref) (filter ?in rs)) \<le> 1"
      using length_filter_distinct [OF dist, of ref] length_filter_le [of ?in "filter (?at ref) rs"]
      unfolding filter_filter conj_commute [of "?at ref _"] by linarith
  qed
  then have "list_Sort md (concat (map snd m)) = list_Sort md (filter ?in rs)"
    unfolding list_Sort_def by (intro sort_key_eqI mset_eq_filterI)
  then show ?thesis
    using byNamespace_List_order [OF inv rng valid_range_id(1)] by (simp add: byNamespace_List_def)
qed

text \<open>What the store holds, by namespace and without two resources of one reference.\<close>

lemma stored_wrapped:
  assumes cast: "\<And>a r. unwrap a = Some r \<longleftrightarrow> a = wrap r" and kind: "\<And>a. any_Kind a = kind_name k \<longleftrightarrow> (\<exists>r. a = wrap r)"
    and md: "\<And>r. any_Metadata (wrap r) = md r"
  shows "stored_in k ns st = map wrap (filter (\<lambda>r. meta_Namespace (md r) = ns) (List.map_filter unwrap (map snd st)))"
proof (induction st)
  case Nil
  then show ?case by (simp add: stored_in_def List.map_filter_def)
next
  case (Cons e st)
  show ?case
  proof (cases "unwrap (snd e)")
    case None
    then have "any_Kind (snd e) \<noteq> kind_name k" using cast kind by (metis option.distinct(1))
    with None Cons show ?thesis by (simp add: stored_in_def map_filter_simps)
  next
    case (Some r)
    then have "snd e = wrap r" "any_Kind (wrap r) = kind_name k" using cast kind by auto
    with Some Cons show ?thesis by (simp add: stored_in_def map_filter_simps md)
  qed
qed

lemma stored_distinct:
  assumes cast: "\<And>a r. unwrap a = Some r \<longleftrightarrow> a = wrap r" and kind: "\<And>r. any_Kind (wrap r) = kind_name k"
    and md: "\<And>r. any_Metadata (wrap r) = md r" and st: "shared_ok st"
  shows "distinct (map (\<lambda>r. Metadata_Ref (md r)) (List.map_filter unwrap (map snd st)))"
proof -
  let ?key = "\<lambda>ref. mem_key (kind_name k) (ref_Namespace ref) (ref_Name ref)"
  have key: "?key (Metadata_Ref m) = mem_key (kind_name k) (meta_Namespace m) (meta_Name m)" for m
    by (simp add: Metadata_Ref_def del: ResourceRef_meta)
  have "map (\<lambda>r. ?key (Metadata_Ref (md r))) (List.map_filter unwrap (map snd st)) =
      map fst (filter (\<lambda>e. unwrap (snd e) \<noteq> None) st)"
    using st
  proof (induction st)
    case Nil
    then show ?case by (simp add: List.map_filter_def)
  next
    case (Cons e st)
    have e: "fst e = mem_key (any_Kind (snd e)) (meta_Namespace (any_Metadata (snd e))) (meta_Name (any_Metadata (snd e)))"
      and st: "shared_ok st" using Cons.prems by (auto simp: shared_ok_def split_def)
    show ?case
    proof (cases "unwrap (snd e)")
      case None
      with Cons.IH [OF st] show ?thesis by (simp add: map_filter_simps)
    next
      case (Some r)
      then have "snd e = wrap r" using cast by simp
      with Some Cons.IH [OF st] e show ?thesis by (simp add: map_filter_simps key kind md)
    qed
  qed
  moreover have "distinct (map fst (filter (\<lambda>e. unwrap (snd e) \<noteq> None) st))"
    using st by (auto simp: shared_ok_def intro!: distinct_map_filter)
  ultimately have "distinct (map ?key (map (\<lambda>r. Metadata_Ref (md r)) (List.map_filter unwrap (map snd st))))"
    by (simp add: comp_def)
  then show ?thesis by (simp only: distinct_map)
qed

text \<open>One kind: its list in the snapshot is what the store holds.\<close>

lemma List_up_to_date:
  assumes cast: "\<And>a r. unwrap a = Some r \<longleftrightarrow> a = wrap r" and kind: "\<And>a. any_Kind a = kind_name k \<longleftrightarrow> (\<exists>r. a = wrap r)"
    and md: "\<And>r. any_Metadata (wrap r) = md r" and st: "shared_ok st" and rng: "valid_range rng" and inv: "byNamespace_inv md m"
    and get: "\<And>ns. ns \<in> set nss \<Longrightarrow> mset (map wrap (byNamespace_get m ns)) = mset (stored_in k ns st)"
      "\<And>ns. ns \<notin> set nss \<Longrightarrow> byNamespace_get m ns = []"
  shows "byNamespace_List rng md m = stored_list unwrap md nss st"
  unfolding stored_list_def
proof (rule List_eq_stored [OF inv rng])
  have unwrap: "unwrap (wrap r) = Some r" for r by (simp add: cast)
  show "distinct (map (\<lambda>r. Metadata_Ref (md r)) (List.map_filter unwrap (map snd st)))"
    using stored_distinct [OF cast _ md st] kind by blast
  show "mset (byNamespace_get m ns) = (if ns \<in> set nss
      then mset (filter (\<lambda>r. meta_Namespace (md r) = ns) (List.map_filter unwrap (map snd st))) else {#})" for ns
  proof (cases "ns \<in> set nss")
    case True
    have "image_mset (\<lambda>a. the (unwrap a)) (mset (map wrap xs)) = mset xs" for xs
      by (simp add: unwrap multiset.map_comp comp_def)
    then show ?thesis using get(1) [OF True] True stored_wrapped [OF cast kind md, of ns st] by metis
  qed (simp add: get(2))
qed

text \<open>Nothing is pending: each watch has sent its first list, has no signal and no list on its way.\<close>

definition idle :: "string list \<Rightarrow> watch_system \<Rightarrow> bool" where
  "idle nss s \<longleftrightarrow> (\<forall>w. snd w \<in> set nss \<longrightarrow> sys_started s w \<and> \<not> sys_signal s w \<and> sys_inflight s w = [])"

definition up_to_date :: "string list \<Rightarrow> any_resource mem_cache \<Rightarrow> translator_snapshot \<Rightarrow> bool" where
  "up_to_date nss st snap \<longleftrightarrow>
     snap_List mesh_ops (snap_Meshes snap) = stored_list as_Mesh mesh_Metadata nss st \<and>
     snap_List routing_rule_ops (snap_Routingrules snap) = stored_list as_RoutingRule rr_Metadata nss st \<and>
     snap_List upstream_ops (snap_Upstreams snap) = stored_list as_Upstream upstream_Metadata nss st \<and>
     snap_List istio_cacerts_secret_ops (snap_Istiocerts snap) = stored_list as_IstioCacertsSecret cacerts_Metadata nss st"

lemma unwrap_iff:
  "as_Mesh a = Some m \<longleftrightarrow> a = R_Mesh m" "as_RoutingRule a = Some r \<longleftrightarrow> a = R_RoutingRule r"
  "as_Upstream a = Some u \<longleftrightarrow> a = R_Upstream u" "as_IstioCacertsSecret a = Some c \<longleftrightarrow> a = R_IstioCacertsSecret c"
  by (cases a; simp)+

lemma idle_up_to_date:
  assumes inv: "system_inv nss s" and idle: "idle nss s"
  shows "up_to_date nss (sys_store s) (em_current (sys_emitter s))"
proof -
  let ?snap = "em_current (sys_emitter s)" and ?st = "sys_store s"
  have st: "shared_ok ?st" using system_invD(1) [OF inv] by (simp add: store_apart_def)
  have get: "mset (snap_get k ns ?snap) = mset (stored_in k ns ?st)" if "ns \<in> set nss" for k ns
    using system_invD(5) [OF inv, of "(k, ns)"] idle that by (auto simp: watch_ok_def idle_def newest_list_def)
  have none: "snap_get k ns ?snap = []" if "ns \<notin> set nss" for k ns using system_invD(4) [OF inv that] .
  show ?thesis
    unfolding up_to_date_def get_metadata_simps
    using List_up_to_date [OF unwrap_iff(1), of W_Mesh mesh_Metadata ?st id "snap_Meshes ?snap" nss]
      List_up_to_date [OF unwrap_iff(2), of W_RoutingRule rr_Metadata ?st id "snap_Routingrules ?snap" nss]
      List_up_to_date [OF unwrap_iff(3), of W_Upstream upstream_Metadata ?st id "snap_Upstreams ?snap" nss]
      List_up_to_date [OF unwrap_iff(4), of W_IstioCacertsSecret cacerts_Metadata ?st id "snap_Istiocerts ?snap" nss]
      get [where k = W_Mesh] get [where k = W_RoutingRule] get [where k = W_Upstream] get [where k = W_IstioCacertsSecret]
      none [where k = W_Mesh] none [where k = W_RoutingRule] none [where k = W_Upstream] none [where k = W_IstioCacertsSecret]
      system_invD(3) [OF inv]
    by (simp add: any_Kind_Mesh any_Kind_iff st valid_range_id snapshot_inv_def)
qed

section \<open>Nothing stays pending\<close>

text \<open>What is done for a watch leaves the store and the other watches alone.\<close>

definition only_watch :: "watch_id \<Rightarrow> watch_system \<Rightarrow> watch_system \<Rightarrow> bool" where
  "only_watch w s s' \<longleftrightarrow> sys_store s' = sys_store s \<and>
     em_sent (sys_emitter s') = em_sent (sys_emitter s) \<and> em_original (sys_emitter s') = em_original (sys_emitter s) \<and>
     (\<forall>v. v \<noteq> w \<longrightarrow> sys_started s' v = sys_started s v \<and> sys_signal s' v = sys_signal s v \<and> sys_inflight s' v = sys_inflight s v)"

lemma only_watch_trans: "only_watch w s s' \<Longrightarrow> only_watch w s' s'' \<Longrightarrow> only_watch w s s''"
  by (simp add: only_watch_def del: split_paired_All)

lemma forwarded:
  assumes inv: "system_inv nss s" and w: "snd w \<in> set nss"
  shows "only_watch w s (forward_watch hash w s)" "sys_inflight (forward_watch hash w s) w = tl (sys_inflight s w)"
    "sys_started (forward_watch hash w s) = sys_started s" "sys_signal (forward_watch hash w s) = sys_signal s"
proof -
  have "only_watch w s (forward_watch hash w s) \<and> sys_inflight (forward_watch hash w s) w = tl (sys_inflight s w) \<and>
      sys_started (forward_watch hash w s) = sys_started s \<and> sys_signal (forward_watch hash w s) = sys_signal s"
  proof (cases "sys_inflight s w")
    case Nil
    then show ?thesis by (simp add: forward_watch_def only_watch_def)
  next
    case (Cons l ls)
    have "of_watch (fst w, snd w) l" using system_invD(5) [OF inv, of w] Cons by (simp add: watch_ok_def)
    then obtain u where "namespaced_list (fst w) (snd w) l = Ret u" using namespaced_list_of_watch by blast
    with Cons system_invD(2) [OF inv] show ?thesis
      by (simp add: forward_watch_def only_watch_def translator_step_def emitter_step_def del: split_paired_All)
  qed
  then show "only_watch w s (forward_watch hash w s)" "sys_inflight (forward_watch hash w s) w = tl (sys_inflight s w)"
    "sys_started (forward_watch hash w s) = sys_started s" "sys_signal (forward_watch hash w s) = sys_signal s" by simp_all
qed

lemma all_forwarded:
  assumes w: "snd w \<in> set nss"
  shows "system_inv nss s \<Longrightarrow> q = (forward_watch hash w ^^ n) s \<Longrightarrow>
    system_inv nss q \<and> only_watch w s q \<and> sys_inflight q w = drop n (sys_inflight s w) \<and>
    sys_started q = sys_started s \<and> sys_signal q = sys_signal s"
proof (induction n arbitrary: q)
  case 0
  then show ?case by (simp add: only_watch_def)
next
  case (Suc n)
  let ?q = "(forward_watch hash w ^^ n) s"
  have IH: "system_inv nss ?q" "only_watch w s ?q" "sys_inflight ?q w = drop n (sys_inflight s w)"
      "sys_started ?q = sys_started s" "sys_signal ?q = sys_signal s"
    using Suc.IH [OF Suc.prems(1) refl] by simp_all
  have "q = forward_watch hash w ?q" using Suc.prems(2) by simp
  with IH forwarded [OF IH(1) w, of hash] show ?case
    using system_inv_forward [OF IH(1) w, of hash] only_watch_trans [OF IH(2)] by (simp add: drop_Suc tl_drop)
qed

text \<open>The goroutines of a watch run until nothing is left for them to do.\<close>

definition serve_watch ::
  "(any_resource mem_cache \<Rightarrow> any_resource mem_cache) \<Rightarrow> (translator_snapshot \<Rightarrow> 64 word) \<Rightarrow> nat \<Rightarrow> watch_id \<Rightarrow>
   watch_system \<Rightarrow> watch_system" where
  "serve_watch rng hash n w s =
     fold (system_step rng hash) (Sys_Start w # Sys_Notified w # replicate (n + 2) (Sys_Forward w)) s"

lemma fold_Sys_Forward: "fold (system_step rng hash) (replicate n (Sys_Forward w)) s = (forward_watch hash w ^^ n) s"
  by (induction n arbitrary: s) (simp_all add: funpow_swap1)

lemma sent_only_watch:
  "only_watch w s (system_step rng hash (Sys_Start w) s)" "only_watch w s (system_step rng hash (Sys_Notified w) s)"
  by (simp_all add: only_watch_def send_list_def del: split_paired_All)

lemma served:
  fixes hash :: "translator_snapshot \<Rightarrow> 64 word"
  assumes "valid_range rng" "watchable nss" and w: "snd w \<in> set nss" and inv: "system_inv nss s"
    and n: "length (sys_inflight s w) \<le> n"
  defines "q \<equiv> serve_watch rng hash n w s"
  shows "system_inv nss q" "only_watch w s q" "sys_started q w" "\<not> sys_signal q w" "sys_inflight q w = []"
proof -
  let ?s1 = "system_step rng hash (Sys_Start w) s"
  let ?s2 = "system_step rng hash (Sys_Notified w) ?s1"
  have 1: "system_inv nss ?s1" by (rule system_inv_step [OF assms(1,2) inv]) (simp add: w)
  have 2: "system_inv nss ?s2" by (rule system_inv_step [OF assms(1,2) 1]) (simp add: w)
  have q: "q = (forward_watch hash w ^^ (n + 2)) ?s2"
    unfolding q_def serve_watch_def by (simp only: fold_Cons fold_Sys_Forward comp_def)
  have s2: "only_watch w s ?s2" by (rule only_watch_trans [OF sent_only_watch])
  have w2: "sys_started ?s2 w" "\<not> sys_signal ?s2 w" "length (sys_inflight ?s2 w) \<le> n + 2"
    using n by (simp_all add: send_list_def)
  from all_forwarded [OF w 2 q] only_watch_trans [OF s2] w2
  show "system_inv nss q" "only_watch w s q" "sys_started q w" "\<not> sys_signal q w" "sys_inflight q w = []" by simp_all
qed

definition watches :: "string list \<Rightarrow> watch_id list" where
  "watches nss = List.product [W_Mesh, W_RoutingRule, W_Upstream, W_IstioCacertsSecret] nss"

lemma set_watches: "w \<in> set (watches nss) \<longleftrightarrow> snd w \<in> set nss"
  by (cases w; cases "fst w") (auto simp: watches_def)

text \<open>All watches in turn, and then the timer of the emitter.\<close>

definition settle_system :: "string list \<Rightarrow> watch_system \<Rightarrow> system_event list" where
  "settle_system nss s =
     concat (map (\<lambda>w. Sys_Start w # Sys_Notified w # replicate (length (sys_inflight s w) + 2) (Sys_Forward w)) (watches nss)) @
     [Sys_Tick]"

lemma fold_settle:
  "fold (system_step rng hash) (settle_system nss s) s =
     system_step rng hash Sys_Tick (fold (\<lambda>w. serve_watch rng hash (length (sys_inflight s w)) w) (watches nss) s)"
proof -
  have "fold (system_step rng hash)
      (concat (map (\<lambda>w. Sys_Start w # Sys_Notified w # replicate (n w + 2) (Sys_Forward w)) ws)) s' =
      fold (\<lambda>w. serve_watch rng hash (n w) w) ws s'" for n ws s'
    by (induction ws arbitrary: s') (simp_all add: serve_watch_def)
  then show ?thesis by (simp add: settle_system_def)
qed

definition served_from :: "string list \<Rightarrow> watch_system \<Rightarrow> watch_system \<Rightarrow> bool" where
  "served_from nss s q \<longleftrightarrow> system_inv nss q \<and> sys_store q = sys_store s \<and>
     em_sent (sys_emitter q) = em_sent (sys_emitter s) \<and> em_original (sys_emitter q) = em_original (sys_emitter s) \<and>
     (\<forall>v. length (sys_inflight q v) \<le> length (sys_inflight s v))"

definition watch_idle :: "watch_system \<Rightarrow> watch_id \<Rightarrow> bool" where
  "watch_idle s w \<longleftrightarrow> sys_started s w \<and> \<not> sys_signal s w \<and> sys_inflight s w = []"

lemma serve_step:
  assumes "valid_range rng" "watchable nss" and w: "snd w \<in> set nss" and q: "served_from nss s q"
  shows "served_from nss s (serve_watch rng hash (length (sys_inflight s w)) w q) \<and>
    watch_idle (serve_watch rng hash (length (sys_inflight s w)) w q) w \<and>
    (\<forall>v. watch_idle q v \<longrightarrow> watch_idle (serve_watch rng hash (length (sys_inflight s w)) w q) v)"
proof -
  let ?q = "serve_watch rng hash (length (sys_inflight s w)) w q"
  have "length (sys_inflight q w) \<le> length (sys_inflight s w)" using q unfolding served_from_def by blast
  note served = served [OF assms(1,2) w _ this, of hash]
  have inv: "system_inv nss q" using q by (simp add: served_from_def)
  have only: "only_watch w q ?q" by (rule served [OF inv])
  have idle: "watch_idle ?q w" using served [OF inv] by (simp add: watch_idle_def)
  moreover have "watch_idle q v \<Longrightarrow> watch_idle ?q v" for v
    using idle only by (cases "v = w") (simp_all add: watch_idle_def only_watch_def del: split_paired_All)
  moreover have "length (sys_inflight ?q v) \<le> length (sys_inflight s v)" for v
    using idle only q by (cases "v = w") (simp_all add: watch_idle_def only_watch_def served_from_def del: split_paired_All)
  then have "served_from nss s ?q"
    using served(1) [OF inv] only q unfolding served_from_def only_watch_def by simp
  ultimately show ?thesis by blast
qed

lemma serve_all:
  assumes "valid_range rng" "watchable nss"
  shows "\<forall>w \<in> set ws. snd w \<in> set nss \<Longrightarrow> served_from nss s q \<Longrightarrow>
    served_from nss s (fold (\<lambda>w. serve_watch rng hash (length (sys_inflight s w)) w) ws q) \<and>
    (\<forall>v. v \<in> set ws \<or> watch_idle q v \<longrightarrow> watch_idle (fold (\<lambda>w. serve_watch rng hash (length (sys_inflight s w)) w) ws q) v)"
proof (induction ws arbitrary: q)
  case (Cons w ws)
  let ?q = "serve_watch rng hash (length (sys_inflight s w)) w q"
  have w: "snd w \<in> set nss" using Cons.prems(1) by simp
  note step = serve_step [OF assms w Cons.prems(2), of hash]
  have "\<forall>w \<in> set ws. snd w \<in> set nss" using Cons.prems(1) by simp
  from Cons.IH [OF this conjunct1 [OF step]] step show ?case
    by (simp del: split_paired_All)
qed simp

lemma system_settles:
  fixes hash :: "translator_snapshot \<Rightarrow> 64 word"
  assumes "valid_range rng" "watchable nss" and inv: "system_inv nss s"
  defines "q \<equiv> fold (system_step rng hash) (settle_system nss s) s"
  shows "sys_store q = sys_store s \<and> idle nss q \<and> up_to_date nss (sys_store s) (em_current (sys_emitter q)) \<and>
    (if snapshot_Hash hash (em_original (sys_emitter s)) = snapshot_Hash hash (em_current (sys_emitter q))
     then em_sent (sys_emitter q) = em_sent (sys_emitter s)
     else em_sent (sys_emitter q) = em_sent (sys_emitter s) @ [snapshot_Clone (em_current (sys_emitter q))])"
proof -
  let ?q = "fold (\<lambda>w. serve_watch rng hash (length (sys_inflight s w)) w) (watches nss) s"
  have "served_from nss s s" using inv by (simp add: served_from_def)
  then have 1: "served_from nss s ?q" and "\<forall>v. v \<in> set (watches nss) \<longrightarrow> watch_idle ?q v"
    using serve_all [OF assms(1,2), of "watches nss" s s hash] set_watches by blast+
  then have idle: "idle nss ?q" unfolding idle_def watch_idle_def set_watches by blast
  have inv: "system_inv nss ?q" using 1 by (simp add: served_from_def)
  have q: "q = system_step rng hash Sys_Tick ?q" by (simp add: q_def fold_settle)
  have e: "sys_emitter q = translator_step hash Tick (sys_emitter ?q)" by (simp add: q)
  note tick = translator_ops.tick_step [OF system_invD(2) [OF inv], of hash translator_apply, folded translator_step_def]
  have "idle nss q" using idle by (simp add: q idle_def del: split_paired_All)
  moreover have cur: "em_current (sys_emitter q) = em_current (sys_emitter ?q)" by (simp add: e tick)
  moreover have store: "sys_store q = sys_store ?q" by (simp add: q)
  ultimately show ?thesis
    using idle_up_to_date [OF inv idle] 1 by (simp add: served_from_def e tick)
qed

section \<open>Namespaces with a common prefix\<close>

text \<open>
  Why the namespaces have to be apart: a watch of \<open>ns\<close> also lists a namespace that \<open>ns\<close> is a proper prefix of, and
  each of its lists adds those resources to the snapshot once more, since only \<open>ns\<close> is cleared.
\<close>

lemma prefix_listed:
  assumes "valid_range rng" and "(key, R_Mesh m) \<in> set st" and "key = mem_key ''*v1.Mesh'' (ns @ x) n" and "ns \<noteq> []"
  shows "R_Mesh m \<in> set (updateResourceList rng ''*v1.Mesh'' ns [] st)"
proof -
  have "strings_HasPrefix key (mem_Prefix ''*v1.Mesh'' ns)" by (simp add: assms(3) strings_HasPrefix_def mem_key_def mem_Prefix_def)
  with assms show ?thesis
    by (force simp: updateResourceList_def mem_List_def Let_def FilterByKind_def DefaultNamespaceIfEmpty_def valid_range_set
        selector_Matches_def)
qed

lemma lists_accumulate:
  assumes "k \<noteq> ns"
  shows "byNamespace_get (snap_Meshes ((translator_apply (MeshList ns rs) ^^ n) s)) k =
    byNamespace_get (snap_Meshes s) k @ concat (replicate n (filter (\<lambda>m. meta_Namespace (mesh_Metadata m) = k) rs))"
proof (induction n)
  case (Suc n)
  have "concat (replicate n xs) @ xs = xs @ concat (replicate n xs)" for xs :: "mesh list"
    by (induction n) simp_all
  with Suc assms show ?case by (simp add: get_clear_and_add)
qed simp

text \<open>After \<open>n\<close> lists of the watch of \<open>ns\<close>, the snapshot holds a mesh of the longer namespace \<open>n\<close> times.\<close>

theorem nested_namespaces_accumulate:
  assumes "valid_range rng" and "(key, R_Mesh m) \<in> set st" and "key = mem_key ''*v1.Mesh'' (ns @ x) name"
    and "meta_Namespace (mesh_Metadata m) = ns @ x" and "ns \<noteq> []" "x \<noteq> []"
    and "updateResourceList rng ''*v1.Mesh'' ns [] st = map R_Mesh rs"
  shows "count (mset (byNamespace_get (snap_Meshes ((translator_apply (MeshList ns rs) ^^ n) zero_translator_snapshot)) (ns @ x))) m \<ge> n"
proof -
  let ?own = "filter (\<lambda>m. meta_Namespace (mesh_Metadata m) = ns @ x) rs"
  have "m \<in> set ?own" using prefix_listed [OF assms(1-3,5)] assms(4,7) by auto
  then have "count (mset ?own) m \<ge> 1" by (simp add: count_greater_eq_one_iff del: mset_filter)
  moreover have "count (mset (concat (replicate n xs))) m = n * count (mset xs) m" for xs
    by (induction n) simp_all
  ultimately show ?thesis using assms(6) by (simp add: lists_accumulate zero_translator_snapshot_def del: mset_filter)
qed

end
