(* ===== verification/Istio_Matchers.thy ===== *)
theory Istio_Matchers
  imports Istio_Names
begin

text \<open>
  From the matchers of a routing rule to Istio's \<open>HTTPMatchRequest\<close>s: \<open>createIstioMatcher\<close>
  and \<open>convertMatcher\<close> of \<open>pkg/translator/istio/mesh_routing_syncer.go\<close>. Both sides are given
  the meaning their API documents give them, as predicates on requests, and the translation
  is shown to keep it.
\<close>

section \<open>The translation\<close>

definition convertPath :: "path_specifier \<Rightarrow> string_match" where
  "convertPath path =
     (case path of
        Matcher_Exact s \<Rightarrow> StringMatch_Exact s
      | Matcher_Regex s \<Rightarrow> StringMatch_Regex s
      | Matcher_Prefix s \<Rightarrow> StringMatch_Prefix s)"

definition convertHeader :: "header_matcher \<Rightarrow> string_match" where
  "convertHeader v =
     (if hm_Regex v then StringMatch_Regex (hm_Value v) else StringMatch_Exact (hm_Value v))"

definition convertMatcher :: "(string \<times> string) list \<Rightarrow> matcher \<Rightarrow> http_match_request" where
  "convertMatcher sourceSelector match =
     \<lparr>hmr_Uri = map_option convertPath (matcher_PathSpecifier match),
      hmr_Method =
        (if length (matcher_Methods match) > 0
         then Some (StringMatch_Regex (strings_Join (matcher_Methods match) ''|'')) else None),
      hmr_Headers =
        foldl (\<lambda>headers v. AList.update (hm_Name v) (convertHeader v) headers) []
          (matcher_Headers match),
      hmr_SourceLabels = sourceSelector\<rparr>"

text \<open>\<open>&gloov1.Matcher{PathSpecifier: &gloov1.Matcher_Prefix{Prefix: "/"}}\<close>.\<close>

definition prefix_matcher :: matcher where
  "prefix_matcher =
     \<lparr>matcher_PathSpecifier = Some (Matcher_Prefix ''/''), matcher_Headers = [],
      matcher_QueryParameters = [], matcher_Methods = []\<rparr>"

definition catch_all_match :: http_match_request where
  "catch_all_match =
     \<lparr>hmr_Uri = Some (StringMatch_Prefix ''/''), hmr_Method = None, hmr_Headers = [],
      hmr_SourceLabels = []\<rparr>"

abbreviation find_upstream :: "resource_ref \<Rightarrow> upstream list \<Rightarrow> upstream go" where
  "find_upstream ref upstreams \<equiv>
     list_Find upstream_Metadata (ref_Namespace ref) (ref_Name ref) upstreams"

definition source_labels :: "upstream list \<Rightarrow> resource_ref \<Rightarrow> (string \<times> string) list go" where
  "source_labels upstreams src =
     gbind (gwrap ''invalid source %v'' (find_upstream src upstreams)) getLabelsForUpstream"

definition createIstioMatcher :: "routing_rule \<Rightarrow> upstream list \<Rightarrow> http_match_request list go" where
  "createIstioMatcher rule upstreams =
     gbind (gmapM (source_labels upstreams) (rr_Sources rule)) (\<lambda>sourceLabelSets.
       Ret (case rr_RequestMatchers rule of
              None \<Rightarrow>
                (if length sourceLabelSets = 0 then [catch_all_match]
                 else map (\<lambda>sourceLabels. convertMatcher sourceLabels prefix_matcher) sourceLabelSets)
            | Some requestMatchers \<Rightarrow>
                (if length sourceLabelSets = 0 then map (convertMatcher []) requestMatchers
                 else concat (map (\<lambda>match.
                        map (\<lambda>source. convertMatcher source match) sourceLabelSets)
                      requestMatchers))))"

section \<open>What matchers mean\<close>

text \<open>
  A request as matchers see it. \<open>rx pattern s\<close> says that the whole of \<open>s\<close> matches the
  regular expression \<open>pattern\<close>; it is the proxy's and is a parameter.
\<close>

record request =
  req_Path :: string
  req_Method :: string
  req_Headers :: "(string \<times> string) list"
  req_Query :: "(string \<times> string) list"
  req_SourceLabels :: "(string \<times> string) list"

definition has_labels :: "(string \<times> string) list \<Rightarrow> request \<Rightarrow> bool" where
  "has_labels labels req \<longleftrightarrow>
     (\<forall>(k, v) \<in> set labels. map_of (req_SourceLabels req) k = Some v)"

text \<open>Istio: the conditions of a match are conjoined.\<close>

fun string_matches :: "(string \<Rightarrow> string \<Rightarrow> bool) \<Rightarrow> string_match \<Rightarrow> string \<Rightarrow> bool" where
  "string_matches rx (StringMatch_Exact x) s = (s = x)"
| "string_matches rx (StringMatch_Prefix x) s = strings_HasPrefix s x"
| "string_matches rx (StringMatch_Regex x) s = rx x s"

definition http_matches :: "(string \<Rightarrow> string \<Rightarrow> bool) \<Rightarrow> http_match_request \<Rightarrow> request \<Rightarrow> bool" where
  "http_matches rx m req \<longleftrightarrow>
     (case hmr_Uri m of None \<Rightarrow> True | Some sm \<Rightarrow> string_matches rx sm (req_Path req)) \<and>
     (case hmr_Method m of None \<Rightarrow> True | Some sm \<Rightarrow> string_matches rx sm (req_Method req)) \<and>
     (\<forall>(k, sm) \<in> set (hmr_Headers m).
        case map_of (req_Headers req) k of None \<Rightarrow> False | Some v \<Rightarrow> string_matches rx sm v) \<and>
     has_labels (hmr_SourceLabels m) req"

text \<open>Gloo: a header or query parameter without a value only has to be present.\<close>

definition field_accepts ::
  "(string \<Rightarrow> string \<Rightarrow> bool) \<Rightarrow> header_matcher \<Rightarrow> (string \<times> string) list \<Rightarrow> bool" where
  "field_accepts rx h pairs \<longleftrightarrow>
     (case map_of pairs (hm_Name h) of
        None \<Rightarrow> False
      | Some v \<Rightarrow> (if hm_Value h = [] then True
                  else if hm_Regex h then rx (hm_Value h) v else v = hm_Value h))"

fun path_accepts :: "(string \<Rightarrow> string \<Rightarrow> bool) \<Rightarrow> path_specifier option \<Rightarrow> string \<Rightarrow> bool" where
  "path_accepts rx None p = True"
| "path_accepts rx (Some (Matcher_Prefix x)) p = strings_HasPrefix p x"
| "path_accepts rx (Some (Matcher_Exact x)) p = (p = x)"
| "path_accepts rx (Some (Matcher_Regex x)) p = rx x p"

definition matcher_accepts :: "(string \<Rightarrow> string \<Rightarrow> bool) \<Rightarrow> matcher \<Rightarrow> request \<Rightarrow> bool" where
  "matcher_accepts rx m req \<longleftrightarrow>
     path_accepts rx (matcher_PathSpecifier m) (req_Path req) \<and>
     (matcher_Methods m = [] \<or> req_Method req \<in> set (matcher_Methods m)) \<and>
     (\<forall>h \<in> set (matcher_Headers m). field_accepts rx h (req_Headers req)) \<and>
     (\<forall>q \<in> set (matcher_QueryParameters m). field_accepts rx q (req_Query req))"

text \<open>
  A routing rule: empty sources mean all sources, absent matchers all requests. A source
  upstream stands for the workloads that carry its labels.
\<close>

definition source_accepts :: "upstream list \<Rightarrow> resource_ref \<Rightarrow> request \<Rightarrow> bool" where
  "source_accepts upstreams src req \<longleftrightarrow>
     (case source_labels upstreams src of Ret labels \<Rightarrow> has_labels labels req | _ \<Rightarrow> False)"

definition rule_accepts ::
  "(string \<Rightarrow> string \<Rightarrow> bool) \<Rightarrow> upstream list \<Rightarrow> routing_rule \<Rightarrow> request \<Rightarrow> bool" where
  "rule_accepts rx upstreams rule req \<longleftrightarrow>
     (rr_Sources rule = [] \<or> (\<exists>src \<in> set (rr_Sources rule). source_accepts upstreams src req)) \<and>
     (case rr_RequestMatchers rule of
        None \<Rightarrow> True | Some ms \<Rightarrow> (\<exists>m \<in> set ms. matcher_accepts rx m req))"

text \<open>
  The matchers whose documented meaning the translation can express: no query parameters, one
  condition per header, with a value, and methods that the joined regular expression
  recognises.
\<close>

definition expressible :: "(string \<Rightarrow> string \<Rightarrow> bool) \<Rightarrow> matcher \<Rightarrow> bool" where
  "expressible rx m \<longleftrightarrow>
     matcher_QueryParameters m = [] \<and>
     distinct (map hm_Name (matcher_Headers m)) \<and>
     (\<forall>h \<in> set (matcher_Headers m). hm_Value h \<noteq> [])"

definition rx_alternatives :: "(string \<Rightarrow> string \<Rightarrow> bool) \<Rightarrow> string list \<Rightarrow> bool" where
  "rx_alternatives rx ms \<longleftrightarrow> (\<forall>s. rx (strings_Join ms ''|'') s \<longleftrightarrow> s \<in> set ms)"

section \<open>The translation keeps the meaning\<close>

lemma set_update_foldl:
  assumes "distinct (map key vs)" and "\<And>v. v \<in> set vs \<Longrightarrow> key v \<notin> fst ` set m"
  shows "set (foldl (\<lambda>m v. AList.update (key v) (val v) m) m vs) =
         set m \<union> (\<lambda>v. (key v, val v)) ` set vs"
  using assms
proof (induction vs arbitrary: m)
  case (Cons v vs)
  have new: "set (AList.update (key v) (val v) m) = insert (key v, val v) (set m)"
    using Cons.prems(2) [of v]
    by (induction m) auto
  have "key w \<notin> fst ` set (AList.update (key v) (val v) m)" if "w \<in> set vs" for w
    using Cons.prems(1) Cons.prems(2) [of w] that unfolding new by (auto simp: rev_image_eqI)
  then show ?case
    using Cons new by auto
qed simp

lemma convertPath_matches:
  "string_matches rx (convertPath p) s = path_accepts rx (Some p) s"
  by (cases p) (auto simp: convertPath_def)

lemma convertHeaders_matches:
  assumes "distinct (map hm_Name hs)" and "\<forall>h \<in> set hs. hm_Value h \<noteq> []"
  shows "(\<forall>(k, sm) \<in> set (foldl (\<lambda>headers v. AList.update (hm_Name v) (convertHeader v) headers) [] hs).
        case map_of pairs k of None \<Rightarrow> False | Some v \<Rightarrow> string_matches rx sm v) \<longleftrightarrow>
      (\<forall>h \<in> set hs. field_accepts rx h pairs)"
  using assms
  by (subst set_update_foldl)
    (auto simp: field_accepts_def convertHeader_def split: option.splits)

lemma convertMatcher_matches:
  assumes "expressible rx m" and "matcher_Methods m \<noteq> [] \<Longrightarrow> rx_alternatives rx (matcher_Methods m)"
  shows "http_matches rx (convertMatcher labels m) req \<longleftrightarrow>
         matcher_accepts rx m req \<and> has_labels labels req"
  using assms
  by (cases "matcher_PathSpecifier m")
    (auto simp: http_matches_def convertMatcher_def matcher_accepts_def convertPath_matches
      expressible_def rx_alternatives_def convertHeaders_matches)

lemma createIstioMatcher_meaning:
  assumes "createIstioMatcher rule upstreams = Ret ms"
    and "strings_HasPrefix (req_Path req) ''/''"
    and "\<And>rms m. rr_RequestMatchers rule = Some rms \<Longrightarrow> m \<in> set rms \<Longrightarrow>
           expressible rx m \<and> (matcher_Methods m \<noteq> [] \<longrightarrow> rx_alternatives rx (matcher_Methods m))"
  shows "(\<exists>m \<in> set ms. http_matches rx m req) \<longleftrightarrow> rule_accepts rx upstreams rule req"
proof -
  obtain sets where sets: "gmapM (source_labels upstreams) (rr_Sources rule) = Ret sets"
    and ms: "ms = (case rr_RequestMatchers rule of
              None \<Rightarrow>
                (if length sets = 0 then [catch_all_match]
                 else map (\<lambda>sourceLabels. convertMatcher sourceLabels prefix_matcher) sets)
            | Some requestMatchers \<Rightarrow>
                (if length sets = 0 then map (convertMatcher []) requestMatchers
                 else concat (map (\<lambda>match.
                        map (\<lambda>source. convertMatcher source match) sets)
                      requestMatchers)))"
    using assms(1) by (auto simp: createIstioMatcher_def)
  have empty: "sets = [] \<longleftrightarrow> rr_Sources rule = []"
    using gmapM_length [OF sets] by auto
  have source: "(\<exists>src \<in> set (rr_Sources rule). source_accepts upstreams src req) \<longleftrightarrow>
      (\<exists>labels \<in> set sets. has_labels labels req)"
    using sets
  proof (induction "rr_Sources rule" arbitrary: sets rule)
    case (Cons src srcs)
    then obtain labels sets' where "source_labels upstreams src = Ret labels"
        "gmapM (source_labels upstreams) srcs = Ret sets'" "sets = labels # sets'"
      by (cases "rr_Sources rule") auto
    then show ?case
      using Cons.hyps(1) [of "rr_Sources_update (\<lambda>_. srcs) rule" sets'] Cons.hyps(2) [symmetric]
      by (simp add: source_accepts_def)
  qed auto
  have pm: "http_matches rx (convertMatcher labels prefix_matcher) req \<longleftrightarrow> has_labels labels req" for labels
    using assms(2) convertMatcher_matches [of rx prefix_matcher labels req]
    by (simp add: expressible_def prefix_matcher_def matcher_accepts_def)
  have ca: "http_matches rx catch_all_match req"
    using assms(2) by (simp add: catch_all_match_def http_matches_def has_labels_def)
  have nil: "has_labels [] req" by (simp add: has_labels_def)
  show ?thesis
  proof (cases "rr_RequestMatchers rule")
    case None
    then show ?thesis
      using ms empty source pm ca by (auto simp: rule_accepts_def)
  next
    case (Some rms)
    have conv: "http_matches rx (convertMatcher labels m) req \<longleftrightarrow>
         matcher_accepts rx m req \<and> has_labels labels req" if "m \<in> set rms" for labels m
      using assms(3) [OF Some that] by (intro convertMatcher_matches) auto
    with Some show ?thesis
      using ms empty source nil by (auto simp: rule_accepts_def)
  qed
qed

lemma createIstioMatcher_not_empty:
  "createIstioMatcher rule upstreams = Ret ms \<Longrightarrow> rr_RequestMatchers rule \<noteq> Some [] \<Longrightarrow> ms \<noteq> []"
  by (auto simp: createIstioMatcher_def split: option.splits if_splits)

end
