(* ===== verification/Istio_Rules.thy ===== *)
theory Istio_Rules
  imports Supergloo_Types
begin

text \<open>
  Merging the routing rules that apply to the same requests: \<open>mergeRulesByMatch\<close> of
  \<open>pkg/translator/istio/mesh_routing_syncer.go\<close>. Rules are grouped by a hash of their
  sources, destinations and matchers, and each group becomes one rule.
\<close>

type_synonym match_key = "resource_ref list \<times> resource_ref list \<times> matcher list option"

text \<open>
  What the routing translator takes from outside: \<open>hashstructure.Hash\<close> (its error is ignored)
  and the range orders of its five maps.
\<close>

record routing_env =
  env_Hash :: "match_key \<Rightarrow> 64 word"
  range_labelsByHost ::
    "(string \<times> (string \<times> string) list list) list \<Rightarrow> (string \<times> (string \<times> string) list list) list"
  range_meshesByRule :: "(routing_rule \<times> mesh list) list \<Rightarrow> (routing_rule \<times> mesh list) list"
  range_rulesByMeshByHost ::
    "(string \<times> (mesh \<times> routing_rule list) list) list \<Rightarrow> (string \<times> (mesh \<times> routing_rule list) list) list"
  range_rulesByMesh :: "(mesh \<times> routing_rule list) list \<Rightarrow> (mesh \<times> routing_rule list) list"
  range_rulesByUniqueMatch :: "(64 word \<times> routing_rule list) list \<Rightarrow> (64 word \<times> routing_rule list) list"

definition valid_env :: "routing_env \<Rightarrow> bool" where
  "valid_env env \<longleftrightarrow>
     valid_range (range_labelsByHost env) \<and> valid_range (range_meshesByRule env) \<and>
     valid_range (range_rulesByMeshByHost env) \<and> valid_range (range_rulesByMesh env) \<and>
     valid_range (range_rulesByUniqueMatch env)"

definition uniqueMatch :: "routing_rule \<Rightarrow> match_key" where
  "uniqueMatch rule = (rr_Sources rule, rr_Destinations rule, rr_RequestMatchers rule)"

text \<open>\<open>&v1.RoutingRule{Sources: ..., Destinations: ..., RequestMatchers: ...}\<close>.\<close>

definition new_rule :: "match_key \<Rightarrow> routing_rule" where
  "new_rule = (\<lambda>(sources, destinations, matchers).
     \<lparr>rr_Status = zero_status, rr_Metadata = new_metadata [] [], rr_TargetMesh = None,
      rr_Sources = sources, rr_Destinations = destinations, rr_RequestMatchers = matchers,
      rr_TrafficShifting = None, rr_FaultInjection = None, rr_Timeout = None, rr_Retries = None,
      rr_CorsPolicy = None, rr_Mirror = None, rr_HeaderManipulaition = None\<rparr>)"

text \<open>One of the seven features: it may be set once.\<close>

definition merge_feature :: "string \<Rightarrow> 'a option \<Rightarrow> 'a option \<Rightarrow> 'a option go" where
  "merge_feature msg new merged =
     (if new \<noteq> None
      then (if merged \<noteq> None then Fail (Errorf msg) else Ret new)
      else Ret merged)"

text \<open>The merged rule with its features assigned.\<close>

definition set_features ::
  "routing_rule \<Rightarrow> weighted_destination list option \<Rightarrow> http_fault_injection option \<Rightarrow>
   duration option \<Rightarrow> http_retry option \<Rightarrow> cors_policy option \<Rightarrow> resource_ref option \<Rightarrow>
   header_manipulation option \<Rightarrow> routing_rule" where
  "set_features m ts fi ti re co mi hm =
     m\<lparr>rr_TrafficShifting := ts, rr_FaultInjection := fi, rr_Timeout := ti, rr_Retries := re,
       rr_CorsPolicy := co, rr_Mirror := mi, rr_HeaderManipulaition := hm\<rparr>"

definition merge_rule :: "routing_rule \<Rightarrow> routing_rule \<Rightarrow> routing_rule go" where
  "merge_rule rule merged =
     gbind (merge_feature ''TrafficShifting redefined in for match %v''
              (rr_TrafficShifting rule) (rr_TrafficShifting merged)) (\<lambda>ts.
     gbind (merge_feature ''FaultInjection redefined in for match %v''
              (rr_FaultInjection rule) (rr_FaultInjection merged)) (\<lambda>fi.
     gbind (merge_feature ''Timeout redefined in for match %v''
              (rr_Timeout rule) (rr_Timeout merged)) (\<lambda>ti.
     gbind (merge_feature ''Retries redefined in for match %v''
              (rr_Retries rule) (rr_Retries merged)) (\<lambda>re.
     gbind (merge_feature ''CorsPolicy redefined in for match %v''
              (rr_CorsPolicy rule) (rr_CorsPolicy merged)) (\<lambda>co.
     gbind (merge_feature ''Mirror redefined in for match %v''
              (rr_Mirror rule) (rr_Mirror merged)) (\<lambda>mi.
     gbind (merge_feature ''HeaderManipulaition redefined in for match %v''
              (rr_HeaderManipulaition rule) (rr_HeaderManipulaition merged)) (\<lambda>hm.
     Ret (set_features merged ts fi ti re co mi hm))))))))"

definition merge_group :: "routing_rule list \<Rightarrow> routing_rule go" where
  "merge_group rulesForMatch =
     (case rulesForMatch of
        [] \<Rightarrow> Panic ''index out of range''
      | r # _ \<Rightarrow> gfold merge_rule rulesForMatch (new_rule (uniqueMatch r)))"

definition mergeRulesByMatch :: "routing_env \<Rightarrow> routing_rule list \<Rightarrow> routing_rule list go" where
  "mergeRulesByMatch env rules =
     (let rulesByUniqueMatch = group_by (\<lambda>rule. env_Hash env (uniqueMatch rule)) rules
      in gbind (gmapM (\<lambda>(hash, rulesForMatch). merge_group rulesForMatch)
                  (range_rulesByUniqueMatch env rulesByUniqueMatch)) (\<lambda>mergedRules.
         Ret (list_Sort rr_Metadata mergedRules)))"

section \<open>One feature over a group\<close>

text \<open>The only value among those set, when there is at most one.\<close>

definition once :: "'a option list \<Rightarrow> bool" where
  "once xs \<longleftrightarrow> length (filter (\<lambda>x. x \<noteq> None) xs) \<le> 1"

definition the_set :: "'a option list \<Rightarrow> 'a option" where
  "the_set xs = (case filter (\<lambda>x. x \<noteq> None) xs of [] \<Rightarrow> None | x # _ \<Rightarrow> x)"

lemma merge_feature_all_set:
  "gfold (merge_feature msg) xs (Some v) = Ret y \<longleftrightarrow> (\<forall>x \<in> set xs. x = None) \<and> y = Some v"
  by (induction xs) (auto simp: merge_feature_def)

lemma merge_feature_all:
  "gfold (merge_feature msg) xs None = Ret y \<longleftrightarrow> once xs \<and> y = the_set xs"
proof (induction xs)
  case (Cons x xs)
  then show ?case
  proof (cases x)
    case (Some v)
    have "gfold (merge_feature msg) (x # xs) None = gfold (merge_feature msg) xs (Some v)"
      by (simp add: merge_feature_def Some)
    then show ?thesis
      using Some by (auto simp: merge_feature_all_set once_def the_set_def filter_empty_conv)
  qed (auto simp: merge_feature_def once_def the_set_def)
qed (auto simp: once_def the_set_def)

lemma the_set_Some_iff: "once xs \<Longrightarrow> the_set xs = Some v \<longleftrightarrow> Some v \<in> set xs"
proof (induction xs)
  case (Cons x xs)
  then show ?case
    by (cases x) (auto simp: once_def the_set_def filter_empty_conv)
qed (simp add: the_set_def)

lemma the_set_member:
  assumes "once (map f xs)" and "r \<in> set xs" and "f r \<noteq> None"
  shows "the_set (map f xs) = f r"
proof -
  from assms(3) obtain v where v: "f r = Some v" by auto
  with assms(2) have "Some v \<in> set (map f xs)" by (metis image_eqI list.set_map)
  with v show ?thesis by (simp only: the_set_Some_iff [OF assms(1)])
qed

lemma merge_feature_not_Panic [simp]: "merge_feature msg a b \<noteq> Panic p"
  by (simp add: merge_feature_def)

section \<open>A group\<close>

definition same_features :: "routing_rule list \<Rightarrow> routing_rule \<Rightarrow> bool" where
  "same_features rs m \<longleftrightarrow>
     rr_TrafficShifting m = the_set (map rr_TrafficShifting rs) \<and>
     rr_FaultInjection m = the_set (map rr_FaultInjection rs) \<and>
     rr_Timeout m = the_set (map rr_Timeout rs) \<and>
     rr_Retries m = the_set (map rr_Retries rs) \<and>
     rr_CorsPolicy m = the_set (map rr_CorsPolicy rs) \<and>
     rr_Mirror m = the_set (map rr_Mirror rs) \<and>
     rr_HeaderManipulaition m = the_set (map rr_HeaderManipulaition rs)"

definition no_conflict :: "routing_rule list \<Rightarrow> bool" where
  "no_conflict rs \<longleftrightarrow>
     once (map rr_TrafficShifting rs) \<and> once (map rr_FaultInjection rs) \<and>
     once (map rr_Timeout rs) \<and> once (map rr_Retries rs) \<and> once (map rr_CorsPolicy rs) \<and>
     once (map rr_Mirror rs) \<and> once (map rr_HeaderManipulaition rs)"

lemma set_features_simps [simp]:
  "rr_TrafficShifting (set_features m ts fi ti re co mi hm) = ts"
  "rr_FaultInjection (set_features m ts fi ti re co mi hm) = fi"
  "rr_Timeout (set_features m ts fi ti re co mi hm) = ti"
  "rr_Retries (set_features m ts fi ti re co mi hm) = re"
  "rr_CorsPolicy (set_features m ts fi ti re co mi hm) = co"
  "rr_Mirror (set_features m ts fi ti re co mi hm) = mi"
  "rr_HeaderManipulaition (set_features m ts fi ti re co mi hm) = hm"
  "rr_Metadata (set_features m ts fi ti re co mi hm) = rr_Metadata m"
  "uniqueMatch (set_features m ts fi ti re co mi hm) = uniqueMatch m"
  "set_features (set_features m ts fi ti re co mi hm) ts' fi' ti' re' co' mi' hm' =
   set_features m ts' fi' ti' re' co' mi' hm'"
  by (simp_all add: set_features_def uniqueMatch_def)

lemma set_features_idem [simp]:
  "set_features m (rr_TrafficShifting m) (rr_FaultInjection m) (rr_Timeout m) (rr_Retries m)
     (rr_CorsPolicy m) (rr_Mirror m) (rr_HeaderManipulaition m) = m"
  by (simp add: set_features_def)

text \<open>A feature that a rule of the group sets is the merged rule's.\<close>

lemma same_features_member:
  assumes "same_features rs m" and "no_conflict rs" and "r \<in> set rs"
  shows "rr_TrafficShifting r \<noteq> None \<Longrightarrow> rr_TrafficShifting m = rr_TrafficShifting r"
    and "rr_FaultInjection r \<noteq> None \<Longrightarrow> rr_FaultInjection m = rr_FaultInjection r"
    and "rr_Timeout r \<noteq> None \<Longrightarrow> rr_Timeout m = rr_Timeout r"
    and "rr_Retries r \<noteq> None \<Longrightarrow> rr_Retries m = rr_Retries r"
    and "rr_CorsPolicy r \<noteq> None \<Longrightarrow> rr_CorsPolicy m = rr_CorsPolicy r"
    and "rr_Mirror r \<noteq> None \<Longrightarrow> rr_Mirror m = rr_Mirror r"
    and "rr_HeaderManipulaition r \<noteq> None \<Longrightarrow> rr_HeaderManipulaition m = rr_HeaderManipulaition r"
  using assms(1,2) unfolding same_features_def no_conflict_def
  by (elim conjE; simp only: the_set_member [OF _ assms(3)] not_False_eq_True simp_thms)+

lemma merge_rule_Ret:
  "merge_rule r m0 = Ret m \<longleftrightarrow>
     (\<exists>ts fi ti re co mi hm.
        merge_feature ''TrafficShifting redefined in for match %v''
          (rr_TrafficShifting r) (rr_TrafficShifting m0) = Ret ts \<and>
        merge_feature ''FaultInjection redefined in for match %v''
          (rr_FaultInjection r) (rr_FaultInjection m0) = Ret fi \<and>
        merge_feature ''Timeout redefined in for match %v''
          (rr_Timeout r) (rr_Timeout m0) = Ret ti \<and>
        merge_feature ''Retries redefined in for match %v''
          (rr_Retries r) (rr_Retries m0) = Ret re \<and>
        merge_feature ''CorsPolicy redefined in for match %v''
          (rr_CorsPolicy r) (rr_CorsPolicy m0) = Ret co \<and>
        merge_feature ''Mirror redefined in for match %v''
          (rr_Mirror r) (rr_Mirror m0) = Ret mi \<and>
        merge_feature ''HeaderManipulaition redefined in for match %v''
          (rr_HeaderManipulaition r) (rr_HeaderManipulaition m0) = Ret hm \<and>
        m = set_features m0 ts fi ti re co mi hm)"
  unfolding merge_rule_def gbind_eq_Ret go.inject by (simp add: eq_commute [of m])

lemma merge_rule_fold:
  "gfold merge_rule rs m0 = Ret m \<longleftrightarrow>
     (\<exists>ts fi ti re co mi hm.
        gfold (merge_feature ''TrafficShifting redefined in for match %v'')
          (map rr_TrafficShifting rs) (rr_TrafficShifting m0) = Ret ts \<and>
        gfold (merge_feature ''FaultInjection redefined in for match %v'')
          (map rr_FaultInjection rs) (rr_FaultInjection m0) = Ret fi \<and>
        gfold (merge_feature ''Timeout redefined in for match %v'')
          (map rr_Timeout rs) (rr_Timeout m0) = Ret ti \<and>
        gfold (merge_feature ''Retries redefined in for match %v'')
          (map rr_Retries rs) (rr_Retries m0) = Ret re \<and>
        gfold (merge_feature ''CorsPolicy redefined in for match %v'')
          (map rr_CorsPolicy rs) (rr_CorsPolicy m0) = Ret co \<and>
        gfold (merge_feature ''Mirror redefined in for match %v'')
          (map rr_Mirror rs) (rr_Mirror m0) = Ret mi \<and>
        gfold (merge_feature ''HeaderManipulaition redefined in for match %v'')
          (map rr_HeaderManipulaition rs) (rr_HeaderManipulaition m0) = Ret hm \<and>
        m = set_features m0 ts fi ti re co mi hm)"
proof (induction rs arbitrary: m0)
  case (Cons r rs)
  show ?case
    unfolding gfold.simps list.map gbind_eq_Ret Cons.IH merge_rule_Ret
    apply (rule iffI)
     apply (elim exE conjE, hypsubst, simp (no_asm_use) only: set_features_simps)
     apply (intro exI conjI, assumption+, rule refl)
    apply (elim exE conjE)
    apply (rule exI, rule conjI)
     apply (intro exI conjI, assumption+, rule refl)
    apply (simp (no_asm_use) only: set_features_simps)
    apply (intro exI conjI, assumption+)
    done
qed auto

lemma new_rule_fields [simp]:
  "uniqueMatch (new_rule k) = k" "rr_TrafficShifting (new_rule k) = None"
  "rr_FaultInjection (new_rule k) = None" "rr_Timeout (new_rule k) = None"
  "rr_Retries (new_rule k) = None" "rr_CorsPolicy (new_rule k) = None"
  "rr_Mirror (new_rule k) = None" "rr_HeaderManipulaition (new_rule k) = None"
  "rr_Metadata (new_rule k) = new_metadata [] []"
  by (simp_all add: new_rule_def uniqueMatch_def split: prod.splits)

lemma merge_group_Ret:
  assumes "rs \<noteq> []"
  shows "(\<exists>m. merge_group rs = Ret m) \<longleftrightarrow> no_conflict rs"
    and "merge_group rs = Ret m \<Longrightarrow> same_features rs m \<and> uniqueMatch m = uniqueMatch (hd rs) \<and>
           rr_Metadata m = new_metadata [] []"
proof -
  obtain r rs' where rs: "rs = r # rs'" using assms by (cases rs) auto
  have g: "merge_group rs = gfold merge_rule rs (new_rule (uniqueMatch (hd rs)))"
    by (simp add: merge_group_def rs del: gfold.simps)
  show "(\<exists>m. merge_group rs = Ret m) \<longleftrightarrow> no_conflict rs"
    unfolding g merge_rule_fold by (auto simp: merge_feature_all no_conflict_def)
  show "merge_group rs = Ret m \<Longrightarrow> same_features rs m \<and> uniqueMatch m = uniqueMatch (hd rs) \<and>
           rr_Metadata m = new_metadata [] []"
    unfolding g merge_rule_fold by (auto simp: merge_feature_all same_features_def)
qed

lemma merge_rule_not_Panic [simp]: "merge_rule r m \<noteq> Panic p"
  by (simp add: merge_rule_def gbind_eq_Panic)

lemma merge_group_not_Panic: "rs \<noteq> [] \<Longrightarrow> merge_group rs \<noteq> Panic p"
  by (auto simp: merge_group_def neq_Nil_conv gbind_eq_Panic gfold_not_Panic)

section \<open>All groups\<close>

lemma list_Sort_const:
  "(\<And>r. r \<in> set rs \<Longrightarrow> Metadata_Ref (md r) = k) \<Longrightarrow> list_Sort md rs = rs"
proof -
  assume "\<And>r. r \<in> set rs \<Longrightarrow> Metadata_Ref (md r) = k"
  then have "sorted (map (\<lambda>r. Metadata_Ref (md r)) rs)"
    by (induction rs) auto
  then show ?thesis by (simp add: list_Sort_def sorted_sort_id sort_key_id_if_sorted)
qed

lemma hash_group:
  assumes "inj_on (env_Hash env) (uniqueMatch ` set rules)"
    and "(h, rs) \<in> set (group_by (\<lambda>rule. env_Hash env (uniqueMatch rule)) rules)"
  shows "rs \<noteq> []" and "uniqueMatch (hd rs) \<in> uniqueMatch ` set rules"
    and "rs = filter (\<lambda>r. uniqueMatch r = uniqueMatch (hd rs)) rules"
    and "h = env_Hash env (uniqueMatch (hd rs))"
proof -
  have rs: "rs = filter (\<lambda>x. env_Hash env (uniqueMatch x) = h) rules"
    and h: "h \<in> (\<lambda>rule. env_Hash env (uniqueMatch rule)) ` set rules"
    using assms(2) by (auto simp: in_group_by)
  then show ne: "rs \<noteq> []" by (auto simp: filter_empty_conv)
  then have "hd rs \<in> set rs" by simp
  then have hd: "hd rs \<in> set rules" "env_Hash env (uniqueMatch (hd rs)) = h"
    using rs by auto
  then show "uniqueMatch (hd rs) \<in> uniqueMatch ` set rules" by simp
  show "h = env_Hash env (uniqueMatch (hd rs))" using hd by simp
  show "rs = filter (\<lambda>r. uniqueMatch r = uniqueMatch (hd rs)) rules"
    using rs hd assms(1) by (auto intro!: filter_cong dest: inj_onD)
qed

lemma mergeRulesByMatch_result:
  assumes env: "valid_env env" and inj: "inj_on (env_Hash env) (uniqueMatch ` set rules)"
    and merged: "mergeRulesByMatch env rules = Ret merged"
  shows "distinct (map uniqueMatch merged)"
    and "uniqueMatch ` set merged = uniqueMatch ` set rules"
    and "m \<in> set merged \<Longrightarrow> same_features (filter (\<lambda>r. uniqueMatch r = uniqueMatch m) rules) m"
proof -
  let ?g = "group_by (\<lambda>rule. env_Hash env (uniqueMatch rule)) rules"
  let ?rg = "range_rulesByUniqueMatch env ?g"
  let ?f = "\<lambda>(hash, rulesForMatch). merge_group rulesForMatch"
  have vr: "valid_range (range_rulesByUniqueMatch env)"
    using env by (simp add: valid_env_def)
  obtain ms where ms: "gmapM ?f ?rg = Ret ms" "merged = list_Sort rr_Metadata ms"
    using merged by (auto simp: mergeRulesByMatch_def)
  have each: "m \<in> set ms \<longleftrightarrow> (\<exists>h rs. (h, rs) \<in> set ?g \<and> merge_group rs = Ret m)" for m
    using gmapM_set [OF ms(1), of m] vr by (auto simp del: gbind_eq_Ret) (metis case_prod_conv)+
  have "Metadata_Ref (rr_Metadata m) = Metadata_Ref (new_metadata [] [])" if "m \<in> set ms" for m
    using that each merge_group_Ret(2) hash_group(1) [OF inj] by metis
  then have eq: "merged = ms"
    using ms(2) list_Sort_const by metis
  have "distinct (map (\<lambda>m. env_Hash env (uniqueMatch m)) ms)"
  proof (rule gmapM_distinct [OF ms(1)])
    show "distinct (map fst ?rg)"
      using vr by (simp add: valid_range_distinct_map distinct_group_by)
    show "env_Hash env (uniqueMatch y) = fst x" if "x \<in> set ?rg" "?f x = Ret y" for x y
    proof -
      obtain h rs where x: "x = (h, rs)" by (cases x)
      then have g: "(h, rs) \<in> set ?g" using that(1) vr by simp
      show ?thesis
        using that(2) x hash_group(1,4) [OF inj g] merge_group_Ret(2) [of rs y] by simp
    qed
  qed
  then show "distinct (map uniqueMatch merged)"
    unfolding eq distinct_map inj_on_def by metis
  have key: "\<exists>h. (h, filter (\<lambda>r. uniqueMatch r = uniqueMatch m) rules) \<in> set ?g \<and>
      merge_group (filter (\<lambda>r. uniqueMatch r = uniqueMatch m) rules) = Ret m \<and>
      uniqueMatch m \<in> uniqueMatch ` set rules" if "m \<in> set ms" for m
  proof -
    obtain h rs where g: "(h, rs) \<in> set ?g" "merge_group rs = Ret m" using \<open>m \<in> set ms\<close> each by blast
    then show ?thesis
      using hash_group [OF inj g(1)] merge_group_Ret(2) [of rs m] by auto
  qed
  show "uniqueMatch ` set merged = uniqueMatch ` set rules"
  proof
    show "uniqueMatch ` set merged \<subseteq> uniqueMatch ` set rules"
      using key eq by auto
    show "uniqueMatch ` set rules \<subseteq> uniqueMatch ` set merged"
    proof
      fix k
      assume "k \<in> uniqueMatch ` set rules"
      then obtain r where r: "r \<in> set rules" "k = uniqueMatch r" by blast
      let ?rs = "filter (\<lambda>x. env_Hash env (uniqueMatch x) = env_Hash env k) rules"
      have g: "(env_Hash env k, ?rs) \<in> set ?g"
        using r by (auto simp: in_group_by)
      then have "(env_Hash env k, ?rs) \<in> set ?rg" using vr by simp
      then obtain m where m: "merge_group ?rs = Ret m"
        using ms(1) gmapM_Ret_ex [of ?f ?rg] by fastforce
      then have "m \<in> set ms" using g each by blast
      moreover have "uniqueMatch m = uniqueMatch (hd ?rs)"
        using m merge_group_Ret(2) hash_group(1) [OF inj g] by blast
      moreover have "uniqueMatch (hd ?rs) = k"
        using hash_group(2,4) [OF inj g] r inj by (auto dest: inj_onD)
      ultimately show "k \<in> uniqueMatch ` set merged" using eq by auto
    qed
  qed
  show "same_features (filter (\<lambda>r. uniqueMatch r = uniqueMatch m) rules) m" if "m \<in> set merged"
    using key [of m] that eq hash_group(1) [OF inj] merge_group_Ret(2) [of _ m] by blast
qed

lemma mergeRulesByMatch_succeeds:
  assumes env: "valid_env env" and inj: "inj_on (env_Hash env) (uniqueMatch ` set rules)"
  shows "(\<exists>merged. mergeRulesByMatch env rules = Ret merged) \<longleftrightarrow>
     (\<forall>r \<in> set rules. no_conflict (filter (\<lambda>x. uniqueMatch x = uniqueMatch r) rules))"
proof -
  let ?g = "group_by (\<lambda>rule. env_Hash env (uniqueMatch rule)) rules"
  have "(\<exists>merged. mergeRulesByMatch env rules = Ret merged) \<longleftrightarrow>
      (\<forall>(h, rs) \<in> set ?g. \<exists>m. merge_group rs = Ret m)"
    using env by (auto simp: mergeRulesByMatch_def gmapM_Ret_ex valid_env_def)
  also have "\<dots> \<longleftrightarrow> (\<forall>(h, rs) \<in> set ?g. no_conflict rs)"
    using hash_group(1) [OF inj] merge_group_Ret(1) by blast
  also have "\<dots> \<longleftrightarrow> (\<forall>r \<in> set rules. no_conflict (filter (\<lambda>x. uniqueMatch x = uniqueMatch r) rules))"
  proof -
    have same: "filter (\<lambda>x. env_Hash env (uniqueMatch x) = env_Hash env (uniqueMatch r)) rules =
        filter (\<lambda>x. uniqueMatch x = uniqueMatch r) rules" if "r \<in> set rules" for r
      using that inj by (auto intro!: filter_cong dest: inj_onD)
    show ?thesis
    proof
      assume all: "\<forall>(h, rs) \<in> set ?g. no_conflict rs"
      show "\<forall>r \<in> set rules. no_conflict (filter (\<lambda>x. uniqueMatch x = uniqueMatch r) rules)"
      proof
        fix r
        assume r: "r \<in> set rules"
        then have "(env_Hash env (uniqueMatch r),
            filter (\<lambda>x. env_Hash env (uniqueMatch x) = env_Hash env (uniqueMatch r)) rules) \<in> set ?g"
          by (auto simp: in_group_by)
        with all same [OF r] show "no_conflict (filter (\<lambda>x. uniqueMatch x = uniqueMatch r) rules)"
          by fastforce
      qed
    qed (use same in \<open>auto simp: in_group_by\<close>)
  qed
  finally show ?thesis .
qed

lemma mergeRulesByMatch_not_Panic:
  assumes "valid_env env"
  shows "mergeRulesByMatch env rules \<noteq> Panic p"
proof -
  have "gmapM (\<lambda>(hash, rs). merge_group rs)
      (range_rulesByUniqueMatch env (group_by (\<lambda>rule. env_Hash env (uniqueMatch rule)) rules)) \<noteq> Panic p"
    using assms
    by (intro gmapM_not_Panic)
      (auto simp: valid_env_def in_group_by filter_empty_conv eq_commute [of "[]"]
        intro!: merge_group_not_Panic)
  then show ?thesis by (simp add: mergeRulesByMatch_def gbind_eq_Panic)
qed

end
