(* ===== verification/Istio_Routing.thy ===== *)
theory Istio_Routing
  imports Istio_Matchers Istio_Rules Translator_Snapshot Memory_Client
begin

text \<open>
  The routing translator, \<open>pkg/translator/istio/mesh_routing_syncer.go\<close>: from the meshes,
  upstreams and routing rules of a snapshot to Istio's destination rules and virtual services,
  and the reconciliation of both with the cluster.

  Pointers to meshes are compared and used as map keys. All of them come from \<open>meshes.Find\<close>,
  which returns the first match, so two of them are the same pointer iff they point to equal
  meshes: the model uses the mesh itself. The rules of a snapshot are distinct pointers; the map
  \<open>meshesByRule\<close> is a list of entries here, one per rule.
\<close>

section \<open>The mesh of a rule\<close>

abbreviation find_mesh :: "resource_ref \<Rightarrow> mesh list \<Rightarrow> mesh go" where
  "find_mesh ref meshes \<equiv> list_Find mesh_Metadata (ref_Namespace ref) (ref_Name ref) meshes"

definition getIstioMeshForRule :: "routing_rule \<Rightarrow> mesh list \<Rightarrow> istio option go" where
  "getIstioMeshForRule rule meshes =
     (case rr_TargetMesh rule of
        None \<Rightarrow> Fail (Errorf ''target_mesh required'')
      | Some target \<Rightarrow>
          gbind (gwrap ''finding target mesh %v'' (find_mesh target meshes)) (\<lambda>mesh.
            case mesh_MeshType mesh of
              Some (Mesh_Istio istioMesh) \<Rightarrow>
                (case istioMesh of
                   None \<Rightarrow> Fail (Errorf ''target istio mesh is invalid'')
                 | Some istio \<Rightarrow> Ret (Some istio))
            | _ \<Rightarrow> Ret None))"

definition validateRule :: "routing_rule \<Rightarrow> mesh list \<Rightarrow> unit go" where
  "validateRule rule meshes =
     gbind (getIstioMeshForRule rule meshes) (\<lambda>istioMesh.
       case istioMesh of
         None \<Rightarrow> nil_deref
       | Some istio \<Rightarrow>
           (let validNamespaces = istio_WatchNamespaces istio
            in if length validNamespaces = 0 then Ret ()
               else if \<not> (\<exists>ns \<in> set validNamespaces. ns = meta_Namespace (rr_Metadata rule))
               then Fail (Errorf ''routing rule %v is not in a namespace that belongs to target mesh'')
               else Ret ()))"

section \<open>Destination rules\<close>

definition addMeshForRule :: "mesh list \<Rightarrow> routing_rule \<Rightarrow> mesh list \<Rightarrow> mesh list go" where
  "addMeshForRule meshes rule meshesWithRouteRules =
     (case rr_TargetMesh rule of
        None \<Rightarrow> nil_deref
      | Some target \<Rightarrow>
          gbind (gwrap ''finding target mesh %v'' (find_mesh target meshes)) (\<lambda>mesh.
          gbind (getIstioMeshForRule rule meshes) (\<lambda>_.
            Ret (if \<exists>addedMesh \<in> set meshesWithRouteRules. mesh = addedMesh
                 then meshesWithRouteRules else meshesWithRouteRules @ [mesh]))))"

text \<open>\<open>labelsByHost[host] = append(labelsByHost[host], labels)\<close> for every upstream.\<close>

definition addLabelsByHost ::
  "upstream \<Rightarrow> (string \<times> (string \<times> string) list list) list \<Rightarrow>
   (string \<times> (string \<times> string) list list) list go" where
  "addLabelsByHost us labelsByHost =
     gbind (getLabelsForUpstream us) (\<lambda>labels.
     gbind (gwrap ''getting host for upstream'' (getHostForUpstream us)) (\<lambda>host.
       Ret (map_append host labels labelsByHost)))"

definition mtlsEnabled :: "mesh \<Rightarrow> bool" where
  "mtlsEnabled mesh = (case mesh_Encryption mesh of None \<Rightarrow> False | Some e \<Rightarrow> enc_TlsEnabled e)"

definition subsetForLabels :: "(string \<times> string) list \<Rightarrow> subset" where
  "subsetForLabels labels = \<lparr>subset_Name = subsetName labels, subset_Labels = labels\<rparr>"

definition destinationRuleForHost :: "mesh \<Rightarrow> string \<Rightarrow> (string \<times> string) list list \<Rightarrow> destination_rule" where
  "destinationRuleForHost mesh host labelSets =
     \<lparr>dr_Status = zero_status,
      dr_Metadata = new_metadata (meta_Namespace (mesh_Metadata mesh))
        (meta_Name (mesh_Metadata mesh) @ ''-'' @ host),
      dr_Host = host,
      dr_TrafficPolicy =
        (if mtlsEnabled mesh then Some \<lparr>tp_Tls = Some TLS_ISTIO_MUTUAL\<rparr> else None),
      dr_Subsets = map subsetForLabels labelSets\<rparr>"

definition destinationRulesForUpstreams ::
  "routing_env \<Rightarrow> routing_rule list \<Rightarrow> mesh list \<Rightarrow> upstream list \<Rightarrow> destination_rule list go" where
  "destinationRulesForUpstreams env rules meshes upstreams =
     gbind (gfold (addMeshForRule meshes) rules []) (\<lambda>meshesWithRouteRules.
       if length meshesWithRouteRules = 0 then Ret []
       else
         gbind (gmapM (\<lambda>mesh.
             gbind (gfold addLabelsByHost upstreams []) (\<lambda>labelsByHost.
               Ret (map (\<lambda>(host, labelSets). destinationRuleForHost mesh host labelSets)
                      (range_labelsByHost env labelsByHost))))
           meshesWithRouteRules) (\<lambda>destinationRules.
         Ret (list_Sort dr_Metadata (concat destinationRules))))"

section \<open>Virtual services\<close>

definition upstreamsForRule :: "routing_rule \<Rightarrow> upstream list \<Rightarrow> upstream list go" where
  "upstreamsForRule rule upstreams =
     (if length (rr_Destinations rule) = 0 then Ret upstreams
      else gmapM (\<lambda>dest. gwrap ''invalid destination for rule %v'' (find_upstream dest upstreams))
             (rr_Destinations rule))"

definition createLoadBalancedRoute ::
  "weighted_destination list \<Rightarrow> upstream list \<Rightarrow> destination_weight list go" where
  "createLoadBalancedRoute destinations upstreams =
     gmapM (\<lambda>dest.
       case wd_Upstream dest of
         None \<Rightarrow> nil_deref
       | Some ref \<Rightarrow>
           gbind (gwrap ''invalid destination %v'' (find_upstream ref upstreams)) (\<lambda>upstream.
           gbind (gwrap ''failed to get host for upstream'' (getHostForUpstream upstream)) (\<lambda>host.
           gbind (getLabelsForUpstream upstream) (\<lambda>labels.
           gbind (gwrap ''getting port for upstream'' (getPortForUpstream upstream)) (\<lambda>intPort.
             Ret \<lparr>dw_Destination =
                    \<lparr>dest_Host = host, dest_Subset = subsetName labels,
                     dest_Port = (if intPort > 0 then Some (PortSelector_Number intPort) else None)\<rparr>,
                  dw_Weight = 0\<rparr>))))) destinations"

text \<open>\<open>us, err := upstreams.Find(...)\<close> for the mirror: \<open>err\<close> is not looked at, and \<open>us\<close> is nil then.\<close>

definition mirrorDestination :: "resource_ref \<Rightarrow> upstream list \<Rightarrow> destination go" where
  "mirrorDestination mirror upstreams =
     (case find_upstream mirror upstreams of
        Ret us \<Rightarrow>
          gbind (getLabelsForUpstream us) (\<lambda>labels.
          gbind (gwrap ''getting host for upstream'' (getHostForUpstream us)) (\<lambda>host.
            Ret \<lparr>dest_Host = host, dest_Subset = subsetName labels, dest_Port = None\<rparr>))
      | _ \<Rightarrow> nil_deref)"

definition addHttpFeatures :: "routing_rule \<Rightarrow> http_route \<Rightarrow> upstream list \<Rightarrow> http_route go" where
  "addHttpFeatures rule http upstreams =
     (let http = http\<lparr>hr_Fault := rr_FaultInjection rule, hr_CorsPolicy := rr_CorsPolicy rule,
                     hr_Retries := rr_Retries rule, hr_Timeout := rr_Timeout rule\<rparr>
      in gbind (case rr_Mirror rule of
                  None \<Rightarrow> Ret http
                | Some mirror \<Rightarrow>
                    gbind (mirrorDestination mirror upstreams) (\<lambda>d. Ret (http\<lparr>hr_Mirror := Some d\<rparr>)))
           (\<lambda>http.
         Ret (case rr_HeaderManipulaition rule of
                None \<Rightarrow> http
              | Some hm \<Rightarrow>
                  http\<lparr>hr_AppendHeaders := hman_AppendRequestHeaders hm,
                       hr_RemoveResponseHeaders := hman_RemoveResponseHeaders hm\<rparr>)))"

definition default_route :: "string \<Rightarrow> destination_weight list" where
  "default_route host =
     [\<lparr>dw_Destination = \<lparr>dest_Host = host, dest_Subset = [], dest_Port = None\<rparr>, dw_Weight = 0\<rparr>]"

definition new_http_route :: "http_match_request list \<Rightarrow> destination_weight list \<Rightarrow> http_route" where
  "new_http_route match route =
     \<lparr>hr_Match = match, hr_Route = route, hr_Timeout = None, hr_Retries = None, hr_Fault = None,
      hr_Mirror = None, hr_CorsPolicy = None, hr_AppendHeaders = [], hr_RemoveResponseHeaders = []\<rparr>"

text \<open>The body of the loop over the merged rules.\<close>

definition httpRouteForRule :: "string \<Rightarrow> upstream list \<Rightarrow> routing_rule \<Rightarrow> http_route go" where
  "httpRouteForRule host upstreams rule =
     gbind (gwrap ''creating istio matcher'' (createIstioMatcher rule upstreams)) (\<lambda>match.
     gbind (case rr_TrafficShifting rule of
              Some destinations \<Rightarrow>
                (if length destinations > 0
                 then gwrap ''creating multi destination route''
                        (createLoadBalancedRoute destinations upstreams)
                 else Ret (default_route host))
            | None \<Rightarrow> Ret (default_route host)) (\<lambda>route.
     gwrap ''adding http features to route''
       (addHttpFeatures rule (new_http_route match route) upstreams)))"

definition virtualServiceForHost ::
  "routing_env \<Rightarrow> string \<Rightarrow> routing_rule list \<Rightarrow> mesh \<Rightarrow> upstream list \<Rightarrow> virtual_service go" where
  "virtualServiceForHost env host rules mesh upstreams =
     gbind (gwrap ''route rules incompatible'' (mergeRulesByMatch env rules)) (\<lambda>rules.
     gbind (gmapM (httpRouteForRule host upstreams) rules) (\<lambda>istioRules.
       Ret \<lparr>vs_Status = zero_status,
            vs_Metadata = new_metadata (meta_Namespace (mesh_Metadata mesh))
              (meta_Name (mesh_Metadata mesh) @ ''-'' @ host),
            vs_Hosts = [host], vs_Gateways = [''mesh''], vs_Http = istioRules\<rparr>))"

definition meshEntryForRule :: "mesh list \<Rightarrow> routing_rule \<Rightarrow> (routing_rule \<times> mesh list) go" where
  "meshEntryForRule meshes rule =
     gbind (validateRule rule meshes) (\<lambda>_.
       case rr_TargetMesh rule of
         None \<Rightarrow> nil_deref
       | Some target \<Rightarrow>
           gbind (gwrap ''mesh find fail: should have already been caught'' (find_mesh target meshes))
             (\<lambda>mesh. Ret (rule, [mesh])))"

definition addUniqueHosts :: "upstream list \<Rightarrow> routing_rule \<Rightarrow> string list \<Rightarrow> string list go" where
  "addUniqueHosts upstreams rule hosts =
     gbind (upstreamsForRule rule upstreams) (\<lambda>destUpstreams.
       gfold (\<lambda>us hosts.
           gbind (gwrap ''getting host for upstream'' (getHostForUpstream us)) (\<lambda>host.
             Ret (if \<exists>added \<in> set hosts. host = added then hosts else hosts @ [host])))
         destUpstreams hosts)"

text \<open>\<open>rulesByMeshByHost[host][mesh] = append(rulesByMeshByHost[host][mesh], rule)\<close>.\<close>

definition addRuleForHost ::
  "routing_rule \<Rightarrow> mesh list \<Rightarrow> string \<Rightarrow> (string \<times> (mesh \<times> routing_rule list) list) list \<Rightarrow>
   (string \<times> (mesh \<times> routing_rule list) list) list" where
  "addRuleForHost rule meshList host m =
     AList.update host
       (foldl (\<lambda>byMesh mesh. map_append mesh rule byMesh)
          (case map_of m host of None \<Rightarrow> [] | Some byMesh \<Rightarrow> byMesh) meshList) m"

definition groupRules ::
  "string list \<Rightarrow> (routing_rule \<times> mesh list) list \<Rightarrow> (string \<times> (mesh \<times> routing_rule list) list) list"
where
  "groupRules hosts entries =
     foldl (\<lambda>m (rule, meshList). foldl (\<lambda>m host. addRuleForHost rule meshList host m) m hosts) [] entries"

definition virtualServicesForRules ::
  "routing_env \<Rightarrow> routing_rule list \<Rightarrow> mesh list \<Rightarrow> upstream list \<Rightarrow> virtual_service list go" where
  "virtualServicesForRules env rules meshes upstreams =
     gbind (gmapM (meshEntryForRule meshes) rules) (\<lambda>meshesByRule.
     gbind (gfold (addUniqueHosts upstreams) rules []) (\<lambda>hosts.
     let rulesByMeshByHost = groupRules hosts (range_meshesByRule env meshesByRule)
     in gbind (gmapM (\<lambda>(host, rulesByMesh).
           gmapM (\<lambda>(mesh, rules).
               gwrap ''creating virtual service for rules %v''
                 (virtualServiceForHost env host rules mesh upstreams))
             (range_rulesByMesh env rulesByMesh))
         (range_rulesByMeshByHost env rulesByMeshByHost)) (\<lambda>virtualServices.
       Ret (concat virtualServices))))"

end
