(* ===== verification/Istio_Routing_Facts.thy ===== *)
theory Istio_Routing_Facts
  imports Istio_Routing
begin

text \<open>
  What the routing translator generates: which destination rules with which subsets, which
  virtual services with which routes, and how the two fit together.
\<close>

section \<open>The meshes and hosts that rules name\<close>

definition ruleMeshes :: "routing_rule list \<Rightarrow> mesh list \<Rightarrow> mesh set" where
  "ruleMeshes rules meshes =
     {m. \<exists>r \<in> set rules. \<exists>t. rr_TargetMesh r = Some t \<and> find_mesh t meshes = Ret m}"

definition upstreamHosts :: "upstream list \<Rightarrow> string set" where
  "upstreamHosts upstreams = {h. \<exists>us \<in> set upstreams. getHostForUpstream us = Ret h}"

text \<open>The label sets of the upstreams of a host, in the order of the upstreams.\<close>

definition labelsOf :: "upstream \<Rightarrow> (string \<times> string) list" where
  "labelsOf us = (case getLabelsForUpstream us of Ret ls \<Rightarrow> ls | _ \<Rightarrow> [])"

definition labelsAtHost :: "upstream list \<Rightarrow> string \<Rightarrow> (string \<times> string) list list" where
  "labelsAtHost upstreams h = map labelsOf (filter (\<lambda>us. getHostForUpstream us = Ret h) upstreams)"

lemma addMeshForRule_Ret:
  "addMeshForRule meshes r acc = Ret acc' \<Longrightarrow>
     \<exists>t m. rr_TargetMesh r = Some t \<and> find_mesh t meshes = Ret m \<and>
       acc' = (if m \<in> set acc then acc else acc @ [m])"
  by (auto simp: addMeshForRule_def nil_deref_def split: option.splits if_splits)

lemma addMeshForRule_fold:
  assumes "gfold (addMeshForRule meshes) rules acc = Ret ms"
  shows "(distinct acc \<longrightarrow> distinct ms) \<and> set ms = set acc \<union> ruleMeshes rules meshes"
  using assms
proof (induction rules arbitrary: acc)
  case (Cons r rules)
  then obtain acc' where acc': "addMeshForRule meshes r acc = Ret acc'"
      "gfold (addMeshForRule meshes) rules acc' = Ret ms"
    by auto
  from addMeshForRule_Ret [OF acc'(1)] obtain t m where t: "rr_TargetMesh r = Some t"
      "find_mesh t meshes = Ret m" "acc' = (if m \<in> set acc then acc else acc @ [m])"
    by blast
  have "ruleMeshes (r # rules) meshes = insert m (ruleMeshes rules meshes)"
    using t(1,2) by (auto simp: ruleMeshes_def)
  with Cons.IH [OF acc'(2)] t(3) show ?case by auto
qed (simp add: ruleMeshes_def)

section \<open>Destination rules\<close>

definition hostAndLabels :: "upstream \<Rightarrow> (string \<times> (string \<times> string) list) go" where
  "hostAndLabels us =
     gbind (getLabelsForUpstream us) (\<lambda>labels.
     gbind (gwrap ''getting host for upstream'' (getHostForUpstream us)) (\<lambda>host. Ret (host, labels)))"

lemma addLabelsByHost_eq:
  "addLabelsByHost us m = gbind (hostAndLabels us) (\<lambda>(h, ls). Ret (map_append h ls m))"
  by (cases "getLabelsForUpstream us"; cases "getHostForUpstream us")
    (simp_all add: addLabelsByHost_def hostAndLabels_def)

lemma addLabelsByHost_fold:
  "gfold addLabelsByHost upstreams m =
     gbind (gmapM hostAndLabels upstreams) (\<lambda>ps. Ret (foldl (\<lambda>m (k, v). map_append k v m) m ps))"
proof (induction upstreams arbitrary: m)
  case (Cons us upstreams)
  show ?case
  proof (cases "hostAndLabels us")
    case (Ret p)
    then show ?thesis
      using Cons.IH by (cases "gmapM hostAndLabels upstreams") (auto simp: addLabelsByHost_eq split: prod.splits)
  qed (simp_all add: addLabelsByHost_eq)
qed simp

lemma hostAndLabels_Ret:
  "hostAndLabels us = Ret (h, ls) \<longleftrightarrow> getHostForUpstream us = Ret h \<and> getLabelsForUpstream us = Ret ls"
  by (auto simp: hostAndLabels_def)

lemma hostAndLabels_all:
  "gmapM hostAndLabels upstreams = Ret ps \<Longrightarrow>
     fst ` set ps = upstreamHosts upstreams \<and>
     map snd (filter (\<lambda>p. fst p = h) ps) = labelsAtHost upstreams h"
proof (induction upstreams arbitrary: ps)
  case (Cons us upstreams)
  then obtain k ls ps' where "getHostForUpstream us = Ret k" "getLabelsForUpstream us = Ret ls"
      "gmapM hostAndLabels upstreams = Ret ps'" "ps = (k, ls) # ps'"
    by (auto simp: hostAndLabels_Ret)
  with Cons.IH [of ps'] show ?case
    by (auto simp: upstreamHosts_def labelsAtHost_def labelsOf_def)
qed (simp add: upstreamHosts_def labelsAtHost_def)

lemma labelsByHost_entries:
  assumes "gfold addLabelsByHost upstreams [] = Ret m"
  shows "distinct (map fst m)"
    and "(h, lss) \<in> set m \<longleftrightarrow> h \<in> upstreamHosts upstreams \<and> lss = labelsAtHost upstreams h"
    and "fst ` set m = upstreamHosts upstreams"
proof -
  obtain ps where ps: "gmapM hostAndLabels upstreams = Ret ps" and m: "m = group_pairs ps"
    using assms by (auto simp: addLabelsByHost_fold group_pairs_def)
  show "distinct (map fst m)" by (simp add: m distinct_group_pairs)
  show "(h, lss) \<in> set m \<longleftrightarrow> h \<in> upstreamHosts upstreams \<and> lss = labelsAtHost upstreams h"
    using hostAndLabels_all [OF ps, of h] by (auto simp: m in_group_pairs)
  show "fst ` set m = upstreamHosts upstreams"
    using hostAndLabels_all [OF ps] by (simp add: m keys_group_pairs)
qed

text \<open>The rules of one mesh, from the map of the hosts.\<close>

abbreviation meshDestinationRules ::
  "routing_env \<Rightarrow> mesh \<Rightarrow> (string \<times> (string \<times> string) list list) list \<Rightarrow> destination_rule list" where
  "meshDestinationRules env mesh m \<equiv>
     map (\<lambda>(host, labelSets). destinationRuleForHost mesh host labelSets) (range_labelsByHost env m)"

lemma destinationRules_Ret:
  assumes "destinationRulesForUpstreams env rules meshes upstreams = Ret drs"
  shows "\<exists>ms m. gfold (addMeshForRule meshes) rules [] = Ret ms \<and>
      (ms \<noteq> [] \<longrightarrow> gfold addLabelsByHost upstreams [] = Ret m) \<and>
      drs = list_Sort dr_Metadata (concat (map (\<lambda>mesh. meshDestinationRules env mesh m) ms))"
proof -
  obtain ms where ms: "gfold (addMeshForRule meshes) rules [] = Ret ms"
    using assms by (auto simp: destinationRulesForUpstreams_def)
  show ?thesis
  proof (cases ms)
    case Nil
    with assms ms show ?thesis
      by (auto simp: destinationRulesForUpstreams_def list_Sort_def)
  next
    case (Cons x xs)
    with assms ms obtain m where m: "gfold addLabelsByHost upstreams [] = Ret m"
      by (auto simp: destinationRulesForUpstreams_def)
    have "gmapM (\<lambda>mesh. gbind (gfold addLabelsByHost upstreams []) (\<lambda>labelsByHost.
               Ret (meshDestinationRules env mesh labelsByHost))) ms =
          Ret (map (\<lambda>mesh. meshDestinationRules env mesh m) ms)"
      by (rule gmapM_all_Ret) (simp add: m)
    with assms ms m Cons show ?thesis
      by (auto simp: destinationRulesForUpstreams_def)
  qed
qed

lemma destinationRules_set:
  assumes "destinationRulesForUpstreams env rules meshes upstreams = Ret drs" and "valid_env env"
  shows "set drs =
    {destinationRuleForHost m h (labelsAtHost upstreams h) | m h.
       m \<in> ruleMeshes rules meshes \<and> h \<in> upstreamHosts upstreams}"
proof -
  obtain ms m where ms: "gfold (addMeshForRule meshes) rules [] = Ret ms"
    and m: "ms \<noteq> [] \<longrightarrow> gfold addLabelsByHost upstreams [] = Ret m"
    and drs: "drs = list_Sort dr_Metadata (concat (map (\<lambda>mesh. meshDestinationRules env mesh m) ms))"
    using destinationRules_Ret [OF assms(1)] by blast
  have meshes: "set ms = ruleMeshes rules meshes"
    using addMeshForRule_fold [OF ms] by simp
  show ?thesis
  proof (cases "ms = []")
    case True
    then show ?thesis using drs meshes by auto
  next
    case False
    with m have "gfold addLabelsByHost upstreams [] = Ret m" by simp
    note entries = labelsByHost_entries [OF this]
    have vr: "valid_range (range_labelsByHost env)" using assms(2) by (simp add: valid_env_def)
    have "set drs = (\<Union>mesh \<in> set ms. (\<lambda>(host, ls). destinationRuleForHost mesh host ls) ` set m)"
      using drs vr by simp
    also have "set m = (\<lambda>h. (h, labelsAtHost upstreams h)) ` upstreamHosts upstreams"
      using entries(2) by auto
    finally show ?thesis using meshes by auto
  qed
qed

lemma destinationRules_length:
  assumes "destinationRulesForUpstreams env rules meshes upstreams = Ret drs" and "valid_env env"
  shows "length drs = card (ruleMeshes rules meshes) * card (upstreamHosts upstreams)"
proof -
  obtain ms m where ms: "gfold (addMeshForRule meshes) rules [] = Ret ms"
    and m: "ms \<noteq> [] \<longrightarrow> gfold addLabelsByHost upstreams [] = Ret m"
    and drs: "drs = list_Sort dr_Metadata (concat (map (\<lambda>mesh. meshDestinationRules env mesh m) ms))"
    using destinationRules_Ret [OF assms(1)] by blast
  have vr: "valid_range (range_labelsByHost env)" using assms(2) by (simp add: valid_env_def)
  have cards: "card (ruleMeshes rules meshes) = length ms"
  proof -
    have "distinct ms" and "set ms = ruleMeshes rules meshes"
      using addMeshForRule_fold [OF ms] by simp_all
    then show ?thesis using distinct_card [of ms] by metis
  qed
  have "length drs = length (concat (map (\<lambda>mesh. meshDestinationRules env mesh m) ms))"
    unfolding drs by (rule length_list_Sort)
  also have "\<dots> = length ms * length m"
    using vr by (induction ms) auto
  finally have len: "length drs = length ms * length m" .
  show ?thesis
  proof (cases "ms = []")
    case False
    with m have "gfold addLabelsByHost upstreams [] = Ret m" by simp
    from labelsByHost_entries(1,3) [OF this]
    have "card (upstreamHosts upstreams) = length m"
      by (metis distinct_card length_map list.set_map)
    with cards len show ?thesis by simp
  qed (use cards len in simp)
qed

text \<open>
  The rules of a mesh have different names, so the stable sort leaves no trace of the range
  order.
\<close>

lemma filter_at_most_one:
  assumes "mset xs = mset ys" and "distinct (map f xs)"
  shows "filter (\<lambda>x. f x = k) xs = filter (\<lambda>x. f x = k) ys"
proof -
  have "length (filter (\<lambda>x. f x = k) xs) \<le> 1"
  proof -
    have "distinct (map f (filter (\<lambda>x. f x = k) xs))"
      using assms(2) by (rule distinct_map_filter)
    moreover have "map f (filter (\<lambda>x. f x = k) xs) = replicate (length (filter (\<lambda>x. f x = k) xs)) k"
      by (induction xs) auto
    ultimately show ?thesis
      by (cases "filter (\<lambda>x. f x = k) xs" rule: remdups_adj.cases) auto
  qed
  moreover have "mset (filter (\<lambda>x. f x = k) xs) = mset (filter (\<lambda>x. f x = k) ys)"
    using assms(1) by (simp add: mset_filter)
  moreover have "as = bs" if "length as \<le> 1" "mset as = mset bs" for as bs :: "'a list"
    using that by (cases as) auto
  ultimately show ?thesis by blast
qed

lemma destinationRules_order:
  assumes "valid_env env" and "valid_env env'"
  shows "destinationRulesForUpstreams env rules meshes upstreams =
         destinationRulesForUpstreams env' rules meshes upstreams"
proof -
  have vr: "valid_range (range_labelsByHost env)" "valid_range (range_labelsByHost env')"
    using assms by (auto simp: valid_env_def)
  have names: "distinct (map (\<lambda>r. Metadata_Ref (dr_Metadata r)) (meshDestinationRules env mesh m))"
    if "distinct (map fst m)" for mesh m
  proof -
    let ?ref = "\<lambda>h. ResourceRef (meta_Namespace (mesh_Metadata mesh)) (meta_Name (mesh_Metadata mesh) @ ''-'' @ h)"
    have "map (\<lambda>r. Metadata_Ref (dr_Metadata r)) (meshDestinationRules env mesh m) =
        map ?ref (map fst (range_labelsByHost env m))"
      by (auto simp: destinationRuleForHost_def Metadata_Ref_def new_metadata_def simp del: ResourceRef_meta)
    moreover have "inj ?ref" by (simp add: inj_def)
    moreover have "distinct (map fst (range_labelsByHost env m))"
      using that vr(1) by (simp add: valid_range_distinct_map)
    ultimately show ?thesis by (simp only: distinct_map inj_on_subset [OF _ subset_UNIV])
  qed
  have same: "list_Sort dr_Metadata (concat (map (\<lambda>mesh. meshDestinationRules env mesh m) ms)) =
        list_Sort dr_Metadata (concat (map (\<lambda>mesh. meshDestinationRules env' mesh m) ms))"
    if "distinct (map fst m)" for ms m
    unfolding list_Sort_def
  proof (rule sort_key_eqI)
    have each: "mset (meshDestinationRules env mesh m) = mset (meshDestinationRules env' mesh m)" for mesh
      using vr by (simp add: valid_range_mset)
    then show "mset (concat (map (\<lambda>mesh. meshDestinationRules env mesh m) ms)) =
        mset (concat (map (\<lambda>mesh. meshDestinationRules env' mesh m) ms))"
      by (induction ms) auto
    fix k
    have "filter (\<lambda>r. Metadata_Ref (dr_Metadata r) = k) (meshDestinationRules env mesh m) =
        filter (\<lambda>r. Metadata_Ref (dr_Metadata r) = k) (meshDestinationRules env' mesh m)" for mesh
      by (rule filter_at_most_one [OF each names [OF that]])
    then show "filter (\<lambda>r. Metadata_Ref (dr_Metadata r) = k) (concat (map (\<lambda>mesh. meshDestinationRules env mesh m) ms)) =
        filter (\<lambda>r. Metadata_Ref (dr_Metadata r) = k) (concat (map (\<lambda>mesh. meshDestinationRules env' mesh m) ms))"
      by (induction ms) auto
  qed
  show ?thesis
  proof (cases "gfold addLabelsByHost upstreams []")
    case (Ret m)
    have all: "gmapM (\<lambda>mesh. gbind (gfold addLabelsByHost upstreams []) (\<lambda>labelsByHost.
               Ret (meshDestinationRules e mesh labelsByHost))) ms =
          Ret (map (\<lambda>mesh. meshDestinationRules e mesh m) ms)" for e ms
      by (rule gmapM_all_Ret) (simp add: Ret)
    show ?thesis
      unfolding destinationRulesForUpstreams_def all gbind.simps
        same [OF labelsByHost_entries(1) [OF Ret]] ..
  qed (simp_all only: destinationRulesForUpstreams_def gbind.simps)
qed

section \<open>Virtual services\<close>

subsection \<open>Hosts\<close>

definition ruleHosts :: "routing_rule list \<Rightarrow> upstream list \<Rightarrow> string set" where
  "ruleHosts rules upstreams =
     {h. \<exists>r \<in> set rules. \<exists>dests. upstreamsForRule r upstreams = Ret dests \<and> h \<in> upstreamHosts dests}"

lemma addHosts_fold:
  assumes "gfold (\<lambda>us hosts.
           gbind (gwrap ''getting host for upstream'' (getHostForUpstream us)) (\<lambda>host.
             Ret (if \<exists>added \<in> set hosts. host = added then hosts else hosts @ [host]))) dests acc = Ret hs"
  shows "(distinct acc \<longrightarrow> distinct hs) \<and> set hs = set acc \<union> upstreamHosts dests"
  using assms
proof (induction dests arbitrary: acc)
  case (Cons us dests)
  then obtain h where h: "getHostForUpstream us = Ret h"
    and step: "gfold (\<lambda>us hosts.
           gbind (gwrap ''getting host for upstream'' (getHostForUpstream us)) (\<lambda>host.
             Ret (if \<exists>added \<in> set hosts. host = added then hosts else hosts @ [host]))) dests
           (if h \<in> set acc then acc else acc @ [h]) = Ret hs"
    by auto
  have "upstreamHosts (us # dests) = insert h (upstreamHosts dests)"
    using h by (auto simp: upstreamHosts_def)
  with Cons.IH [OF step] show ?case by auto
qed (simp add: upstreamHosts_def)

lemma addUniqueHosts_fold:
  assumes "gfold (addUniqueHosts upstreams) rules acc = Ret hs"
  shows "(distinct acc \<longrightarrow> distinct hs) \<and> set hs = set acc \<union> ruleHosts rules upstreams"
  using assms
proof (induction rules arbitrary: acc)
  case (Cons r rules)
  then obtain acc' where step: "addUniqueHosts upstreams r acc = Ret acc'"
      "gfold (addUniqueHosts upstreams) rules acc' = Ret hs"
    by auto
  then obtain dests where dests: "upstreamsForRule r upstreams = Ret dests"
    by (auto simp: addUniqueHosts_def)
  have "ruleHosts (r # rules) upstreams = upstreamHosts dests \<union> ruleHosts rules upstreams"
    using dests by (auto simp: ruleHosts_def)
  moreover have "(distinct acc \<longrightarrow> distinct acc') \<and> set acc' = set acc \<union> upstreamHosts dests"
    using step(1) dests by (intro addHosts_fold) (simp add: addUniqueHosts_def)
  ultimately show ?case
    using Cons.IH [OF step(2)] by auto
qed (simp add: ruleHosts_def)

text \<open>The hosts of the rules are hosts of the upstreams.\<close>

lemma upstreamsForRule_subset: "upstreamsForRule r upstreams = Ret dests \<Longrightarrow> set dests \<subseteq> set upstreams"
  by (auto simp: upstreamsForRule_def gmapM_set dest!: list_Find_RetD split: if_splits)

lemma ruleHosts_subset: "ruleHosts rules upstreams \<subseteq> upstreamHosts upstreams"
  using upstreamsForRule_subset by (fastforce simp: ruleHosts_def upstreamHosts_def)

subsection \<open>Grouping the rules\<close>

lemma meshEntryForRule_Ret:
  "meshEntryForRule meshes r = Ret e \<Longrightarrow>
     \<exists>t m. rr_TargetMesh r = Some t \<and> find_mesh t meshes = Ret m \<and> e = (r, [m])"
  by (auto simp: meshEntryForRule_def nil_deref_def split: option.splits)

text \<open>The mesh of each rule, in a range order of \<open>meshesByRule\<close>.\<close>

definition meshOfEntry :: "routing_rule \<times> mesh list \<Rightarrow> mesh \<times> routing_rule" where
  "meshOfEntry = (\<lambda>(r, ms). (hd ms, r))"

lemma addRuleForHost_all:
  assumes "distinct hosts"
  shows "map_of (foldl (\<lambda>m host. addRuleForHost r [mesh] host m) m0 hosts) k =
     (if k \<in> set hosts
      then Some (map_append mesh r (case map_of m0 k of None \<Rightarrow> [] | Some b \<Rightarrow> b)) else map_of m0 k)"
    and "distinct (map fst m0) \<Longrightarrow>
         distinct (map fst (foldl (\<lambda>m host. addRuleForHost r [mesh] host m) m0 hosts))"
  using assms
proof (induction hosts arbitrary: m0)
  case (Cons h hosts)
  {
    case 1
    then show ?case
      using Cons.IH(1) by (auto simp: addRuleForHost_def update_conv')
  next
    case 2
    then show ?case
      using Cons.IH(2) [of "addRuleForHost r [mesh] h m0"]
      by (auto simp: addRuleForHost_def distinct_update)
  }
qed simp_all

lemma groupRules_entries:
  assumes "distinct hosts" and "\<And>e. e \<in> set entries \<Longrightarrow> \<exists>r m. e = (r, [m])"
  shows "distinct (map fst (groupRules hosts entries)) \<and>
    (\<forall>h. map_of (groupRules hosts entries) h =
      (if entries \<noteq> [] \<and> h \<in> set hosts then Some (group_pairs (map meshOfEntry entries)) else None))"
  using assms(2)
proof (induction entries rule: rev_induct)
  case (snoc e entries)
  obtain r m where e: "e = (r, [m])" using snoc.prems [of e] by auto
  have split: "groupRules hosts (entries @ [e]) =
      foldl (\<lambda>m' host. addRuleForHost r [m] host m') (groupRules hosts entries) hosts"
    by (simp add: groupRules_def e)
  have IH: "distinct (map fst (groupRules hosts entries))"
    "map_of (groupRules hosts entries) h =
      (if entries \<noteq> [] \<and> h \<in> set hosts then Some (group_pairs (map meshOfEntry entries)) else None)" for h
    using snoc by auto
  have "distinct (map fst (groupRules hosts (entries @ [e])))"
    unfolding split using IH(1) by (rule addRuleForHost_all(2) [OF assms(1), rotated])
  moreover have "map_of (groupRules hosts (entries @ [e])) h =
      (if h \<in> set hosts then Some (group_pairs (map meshOfEntry (entries @ [e]))) else None)" for h
    unfolding split addRuleForHost_all(1) [OF assms(1)] IH(2)
    by (auto simp: meshOfEntry_def group_pairs_snoc e)
  ultimately show ?case by simp
qed (simp add: groupRules_def)

subsection \<open>The result\<close>

text \<open>The rules of a mesh, in the order in which \<open>meshesByRule\<close> was visited.\<close>

definition rulesForMesh :: "routing_env \<Rightarrow> routing_rule list \<Rightarrow> mesh list \<Rightarrow> mesh \<Rightarrow> routing_rule list" where
  "rulesForMesh env rules meshes m =
     (case gmapM (meshEntryForRule meshes) rules of
        Ret entries \<Rightarrow> map fst (filter (\<lambda>(r, ms). hd ms = m) (range_meshesByRule env entries))
      | _ \<Rightarrow> [])"

lemma entries_facts:
  assumes "gmapM (meshEntryForRule meshes) rules = Ret entries"
  shows "e \<in> set entries \<Longrightarrow> \<exists>r m. e = (r, [m]) \<and> r \<in> set rules"
    and "map fst entries = rules"
    and "(\<lambda>e. hd (snd e)) ` set entries = ruleMeshes rules meshes"
    and "(r, ms) \<in> set entries \<longleftrightarrow> r \<in> set rules \<and>
      (\<exists>t m. rr_TargetMesh r = Some t \<and> find_mesh t meshes = Ret m \<and> ms = [m])"
proof -
  have each: "e \<in> set entries \<longleftrightarrow> (\<exists>r \<in> set rules. meshEntryForRule meshes r = Ret e)" for e
    using gmapM_set [OF assms] by blast
  show "e \<in> set entries \<Longrightarrow> \<exists>r m. e = (r, [m]) \<and> r \<in> set rules"
    using each meshEntryForRule_Ret by blast
  show "map fst entries = rules"
    using assms
  proof (induction rules arbitrary: entries)
    case (Cons r rules)
    then show ?case by (auto dest!: meshEntryForRule_Ret)
  qed simp
  have all: "\<exists>e. meshEntryForRule meshes r = Ret e" if "r \<in> set rules" for r
    using gmapM_Ret_ex [of "meshEntryForRule meshes" rules] assms that by auto
  show entry: "(r, ms) \<in> set entries \<longleftrightarrow> r \<in> set rules \<and>
      (\<exists>t m. rr_TargetMesh r = Some t \<and> find_mesh t meshes = Ret m \<and> ms = [m])" for r ms
  proof
    assume "(r, ms) \<in> set entries"
    then show "r \<in> set rules \<and>
      (\<exists>t m. rr_TargetMesh r = Some t \<and> find_mesh t meshes = Ret m \<and> ms = [m])"
      using each meshEntryForRule_Ret by blast
  next
    assume r: "r \<in> set rules \<and>
      (\<exists>t m. rr_TargetMesh r = Some t \<and> find_mesh t meshes = Ret m \<and> ms = [m])"
    then obtain e where e: "meshEntryForRule meshes r = Ret e" using all by blast
    moreover have "e = (r, ms)"
      using meshEntryForRule_Ret [OF e] r by auto
    ultimately show "(r, ms) \<in> set entries" using each r by blast
  qed
  show "(\<lambda>e. hd (snd e)) ` set entries = ruleMeshes rules meshes"
  proof
    show "(\<lambda>e. hd (snd e)) ` set entries \<subseteq> ruleMeshes rules meshes"
    proof
      fix m
      assume "m \<in> (\<lambda>e. hd (snd e)) ` set entries"
      then obtain r ms where "(r, ms) \<in> set entries" "m = hd ms" by auto
      then obtain u where "r \<in> set rules" "rr_TargetMesh r = Some u" "find_mesh u meshes = Ret m"
        using entry [of r ms] by auto
      then show "m \<in> ruleMeshes rules meshes"
        unfolding ruleMeshes_def by blast
    qed
    show "ruleMeshes rules meshes \<subseteq> (\<lambda>e. hd (snd e)) ` set entries"
    proof
      fix m
      assume "m \<in> ruleMeshes rules meshes"
      then obtain r where "(r, [m]) \<in> set entries"
        unfolding ruleMeshes_def using entry by blast
      then show "m \<in> (\<lambda>e. hd (snd e)) ` set entries"
        by (rule rev_image_eqI) simp
    qed
  qed
qed

lemma mset_rulesForMesh:
  assumes "gmapM (meshEntryForRule meshes) rules = Ret entries" and "valid_env env"
  shows "mset (rulesForMesh env rules meshes m) =
      mset (filter (\<lambda>r. \<exists>t. rr_TargetMesh r = Some t \<and> find_mesh t meshes = Ret m) rules)"
proof -
  have "mset (rulesForMesh env rules meshes m) = mset (map fst (filter (\<lambda>(r, ms). hd ms = m) entries))"
    using assms by (simp add: rulesForMesh_def mset_filter valid_range_mset valid_env_def)
  also have "map fst (filter (\<lambda>(r, ms). hd ms = m) entries) =
      filter (\<lambda>r. \<exists>t. rr_TargetMesh r = Some t \<and> find_mesh t meshes = Ret m) rules"
    using assms(1)
  proof (induction rules arbitrary: entries)
    case (Cons r rules)
    then obtain e entries' where "meshEntryForRule meshes r = Ret e"
        "gmapM (meshEntryForRule meshes) rules = Ret entries'" "entries = e # entries'"
      by auto
    with Cons.IH meshEntryForRule_Ret [of meshes r e] show ?case by auto
  qed simp
  finally show ?thesis .
qed

text \<open>The two loops that create virtual services, and what they range over.\<close>

abbreviation servicesOfHost ::
  "routing_env \<Rightarrow> upstream list \<Rightarrow> string \<times> (mesh \<times> routing_rule list) list \<Rightarrow> virtual_service list go"
where
  "servicesOfHost env upstreams \<equiv> \<lambda>(host, rulesByMesh).
     gmapM (\<lambda>(mesh, rules). gwrap ''creating virtual service for rules %v''
         (virtualServiceForHost env host rules mesh upstreams))
       (range_rulesByMesh env rulesByMesh)"

lemma virtualServices_loops:
  assumes vss: "virtualServicesForRules env rules meshes upstreams = Ret vss" and env: "valid_env env"
  obtains entries byHost g vsss where
    "gmapM (meshEntryForRule meshes) rules = Ret entries"
    and "gmapM (servicesOfHost env upstreams) byHost = Ret vsss" and "vss = concat vsss"
    and "\<And>h b. (h, b) \<in> set byHost \<longleftrightarrow> entries \<noteq> [] \<and> h \<in> ruleHosts rules upstreams \<and> b = g"
    and "\<And>m rs. (m, rs) \<in> set (range_rulesByMesh env g) \<longleftrightarrow>
           m \<in> ruleMeshes rules meshes \<and> rs = rulesForMesh env rules meshes m"
    and "distinct (map fst byHost)" and "distinct (map fst (range_rulesByMesh env g))"
proof -
  have vr: "valid_range (range_meshesByRule env)" "valid_range (range_rulesByMeshByHost env)"
      "valid_range (range_rulesByMesh env)"
    using env by (auto simp: valid_env_def)
  obtain entries hosts vsss where entries: "gmapM (meshEntryForRule meshes) rules = Ret entries"
    and hosts: "gfold (addUniqueHosts upstreams) rules [] = Ret hosts"
    and vsss: "gmapM (servicesOfHost env upstreams) (range_rulesByMeshByHost env
        (groupRules hosts (range_meshesByRule env entries))) = Ret vsss"
    and vss_eq: "vss = concat vsss"
    using vss by (auto simp: virtualServicesForRules_def Let_def)
  let ?entries = "range_meshesByRule env entries"
  let ?g = "group_pairs (map meshOfEntry ?entries)"
  note ef = entries_facts [OF entries]
  have hs: "distinct hosts" "set hosts = ruleHosts rules upstreams"
    using addUniqueHosts_fold [OF hosts] by simp_all
  have single: "\<exists>r m. e = (r, [m])" if "e \<in> set ?entries" for e
    using ef(1) that vr(1) by fastforce
  have grp: "distinct (map fst (groupRules hosts ?entries))"
      "map_of (groupRules hosts ?entries) h =
        (if ?entries \<noteq> [] \<and> h \<in> set hosts then Some ?g else None)" for h
    using groupRules_entries [OF hs(1), of ?entries] single by blast+
  have "map snd (filter (\<lambda>p. fst p = m) (map meshOfEntry ?entries)) = rulesForMesh env rules meshes m" for m
    by (simp add: rulesForMesh_def entries filter_map comp_def meshOfEntry_def case_prod_unfold)
  moreover have "fst ` set (map meshOfEntry ?entries) = ruleMeshes rules meshes"
    using ef(3) vr(1) by (simp add: meshOfEntry_def image_image case_prod_unfold)
  ultimately have g: "(m, rs) \<in> set (range_rulesByMesh env ?g) \<longleftrightarrow>
      m \<in> ruleMeshes rules meshes \<and> rs = rulesForMesh env rules meshes m" for m rs
    using in_group_pairs [of m rs "map meshOfEntry ?entries"] vr(3) by simp
  have "?entries \<noteq> [] \<longleftrightarrow> entries \<noteq> []"
    using valid_range_length [OF vr(1), of entries] by auto
  then have groups: "(h, b) \<in> set (range_rulesByMeshByHost env (groupRules hosts ?entries)) \<longleftrightarrow>
      entries \<noteq> [] \<and> h \<in> ruleHosts rules upstreams \<and> b = ?g" for h b
    using map_of_eq_Some_iff [OF grp(1), of h b] grp(2) [of h] vr(2) hs(2) by (auto split: if_splits)
  have "distinct (map fst (range_rulesByMeshByHost env (groupRules hosts ?entries)))"
      "distinct (map fst (range_rulesByMesh env ?g))"
    using grp(1) vr by (simp_all add: valid_range_distinct_map distinct_group_pairs)
  then show ?thesis
    by (rule that [OF entries vsss vss_eq groups g])
qed

text \<open>The service of a host and a mesh is among those of the host.\<close>

lemma servicesOfHost_set:
  assumes "servicesOfHost env upstreams (h, g) = Ret ys"
    and "\<And>m rs. (m, rs) \<in> set (range_rulesByMesh env g) \<longleftrightarrow> m \<in> M \<and> rs = R m"
  shows "vs \<in> set ys \<longleftrightarrow> (\<exists>m \<in> M. virtualServiceForHost env h (R m) m upstreams = Ret vs)"
    and "m \<in> M \<Longrightarrow> \<exists>vs. virtualServiceForHost env h (R m) m upstreams = Ret vs"
proof -
  let ?f = "\<lambda>(mesh, rules). gwrap ''creating virtual service for rules %v''
         (virtualServiceForHost env h rules mesh upstreams)"
  have ys: "gmapM ?f (range_rulesByMesh env g) = Ret ys"
    using assms(1) by simp
  show "vs \<in> set ys \<longleftrightarrow> (\<exists>m \<in> M. virtualServiceForHost env h (R m) m upstreams = Ret vs)"
    using gmapM_set [OF ys, of vs] assms(2) by fastforce
  show "\<exists>vs. virtualServiceForHost env h (R m) m upstreams = Ret vs" if "m \<in> M"
    using gmapM_in [OF ys, of "(m, R m)"] assms(2) that by fastforce
qed

lemma virtualServices_set:
  assumes vss: "virtualServicesForRules env rules meshes upstreams = Ret vss" and env: "valid_env env"
  shows "vs \<in> set vss \<longleftrightarrow>
      (\<exists>h \<in> ruleHosts rules upstreams. \<exists>m \<in> ruleMeshes rules meshes.
         virtualServiceForHost env h (rulesForMesh env rules meshes m) m upstreams = Ret vs)"
    and "h \<in> ruleHosts rules upstreams \<Longrightarrow> m \<in> ruleMeshes rules meshes \<Longrightarrow>
      \<exists>vs. virtualServiceForHost env h (rulesForMesh env rules meshes m) m upstreams = Ret vs"
    and "mset (rulesForMesh env rules meshes m) =
      mset (filter (\<lambda>r. \<exists>t. rr_TargetMesh r = Some t \<and> find_mesh t meshes = Ret m) rules)"
proof -
  obtain entries byHost g vsss where entries: "gmapM (meshEntryForRule meshes) rules = Ret entries"
    and vsss: "gmapM (servicesOfHost env upstreams) byHost = Ret vsss" and vss_eq: "vss = concat vsss"
    and byHost: "\<And>h b. (h, b) \<in> set byHost \<longleftrightarrow> entries \<noteq> [] \<and> h \<in> ruleHosts rules upstreams \<and> b = g"
    and g: "\<And>m rs. (m, rs) \<in> set (range_rulesByMesh env g) \<longleftrightarrow>
           m \<in> ruleMeshes rules meshes \<and> rs = rulesForMesh env rules meshes m"
  proof (rule virtualServices_loops [OF vss env], goal_cases)
    case (1 entries byHost g vsss)
    then show ?case by (intro that)
  qed
  show "mset (rulesForMesh env rules meshes m) =
      mset (filter (\<lambda>r. \<exists>t. rr_TargetMesh r = Some t \<and> find_mesh t meshes = Ret m) rules)"
    by (rule mset_rulesForMesh [OF entries env])
  have host: "\<exists>ys \<in> set vsss. servicesOfHost env upstreams (h, g) = Ret ys"
    if "h \<in> ruleHosts rules upstreams" "m \<in> ruleMeshes rules meshes" for h m
  proof (rule gmapM_in [OF vsss])
    have "entries \<noteq> []"
      using entries_facts(3) [OF entries] that(2) by force
    then show "(h, g) \<in> set byHost" using byHost that(1) by blast
  qed
  show "\<exists>vs. virtualServiceForHost env h (rulesForMesh env rules meshes m) m upstreams = Ret vs"
    if "h \<in> ruleHosts rules upstreams" "m \<in> ruleMeshes rules meshes"
    using host [OF that] servicesOfHost_set(2) [OF _ g that(2)] by blast
  show "vs \<in> set vss \<longleftrightarrow>
      (\<exists>h \<in> ruleHosts rules upstreams. \<exists>m \<in> ruleMeshes rules meshes.
         virtualServiceForHost env h (rulesForMesh env rules meshes m) m upstreams = Ret vs)"
  proof
    assume "vs \<in> set vss"
    then obtain ys where ys: "ys \<in> set vsss" "vs \<in> set ys" using vss_eq by auto
    then obtain e where e: "e \<in> set byHost" "servicesOfHost env upstreams e = Ret ys"
      using gmapM_set [OF vsss, of ys] by blast
    obtain h b where "e = (h, b)" by (cases e)
    with e byHost have h: "h \<in> ruleHosts rules upstreams" "servicesOfHost env upstreams (h, g) = Ret ys"
      by auto
    from servicesOfHost_set(1) [OF h(2) g, of vs] h(1) ys(2)
    show "\<exists>h \<in> ruleHosts rules upstreams. \<exists>m \<in> ruleMeshes rules meshes.
         virtualServiceForHost env h (rulesForMesh env rules meshes m) m upstreams = Ret vs"
      by blast
  next
    assume "\<exists>h \<in> ruleHosts rules upstreams. \<exists>m \<in> ruleMeshes rules meshes.
         virtualServiceForHost env h (rulesForMesh env rules meshes m) m upstreams = Ret vs"
    then obtain h m where h: "h \<in> ruleHosts rules upstreams" "m \<in> ruleMeshes rules meshes"
        "virtualServiceForHost env h (rulesForMesh env rules meshes m) m upstreams = Ret vs" by blast
    from host [OF h(1,2)] obtain ys where "ys \<in> set vsss" "servicesOfHost env upstreams (h, g) = Ret ys"
      by blast
    with servicesOfHost_set(1) [OF this(2) g, of vs] h vss_eq show "vs \<in> set vss" by auto
  qed
qed

text \<open>There are as many services as pairs of a host and a mesh, and their names tell these apart.\<close>

lemma gmapM_lengths:
  assumes "gmapM f xs = Ret yss" and "\<And>x ys. x \<in> set xs \<Longrightarrow> f x = Ret ys \<Longrightarrow> length ys = n"
  shows "length (concat yss) = length xs * n"
  using assms
proof (induction xs arbitrary: yss)
  case (Cons x xs)
  from Cons.prems(1) obtain ys yss' where y: "f x = Ret ys" "gmapM f xs = Ret yss'" "yss = ys # yss'"
    by auto
  then have "length (concat yss') = length xs * n" by (intro Cons.IH Cons.prems(2)) simp_all
  with y Cons.prems(2) [of x ys] show ?case by simp
qed simp

lemma length_keys:
  assumes "distinct (map fst xs)" and "\<And>k v. (k, v) \<in> set xs \<longleftrightarrow> k \<in> K \<and> v = F k"
  shows "length xs = card K"
proof -
  have "k \<in> fst ` set xs \<longleftrightarrow> k \<in> K" for k
    using assms(2) by (auto intro: rev_image_eqI [of "(k, F k)"])
  then have "set (map fst xs) = K" by auto
  then show ?thesis using distinct_card [OF assms(1)] by simp
qed

lemma virtualServices_length:
  assumes "virtualServicesForRules env rules meshes upstreams = Ret vss" and "valid_env env"
  shows "length vss = card (ruleHosts rules upstreams) * card (ruleMeshes rules meshes)"
  using assms
proof (rule virtualServices_loops, goal_cases)
  case (1 entries byHost g vsss)
  let ?ms = "range_rulesByMesh env g"
  have ms: "length ?ms = card (ruleMeshes rules meshes)"
    by (rule length_keys [OF 1(7,5)])
  have each: "length ys = card (ruleMeshes rules meshes)"
    if "e \<in> set byHost" "servicesOfHost env upstreams e = Ret ys" for e ys
  proof -
    obtain h b where "e = (h, b)" by (cases e)
    with that(1) 1(4) [of h b] have e: "e = (h, g)" by simp
    from that(2) have "length ys = length ?ms"
      unfolding e prod.case by (rule gmapM_length)
    with ms show ?thesis by simp
  qed
  have "length byHost = card (if entries = [] then {} else ruleHosts rules upstreams)"
    by (rule length_keys [OF 1(6), of _ "\<lambda>_. g"]) (simp add: 1(4))
  then have hosts: "length byHost = (if entries = [] then 0 else card (ruleHosts rules upstreams))"
    by simp
  have "entries = [] \<Longrightarrow> ruleMeshes rules meshes = {}"
    using entries_facts(3) [OF 1(1)] by simp
  with gmapM_lengths [OF 1(2) each] hosts 1(3) show ?case by auto
qed

lemma list_Find_namespace:
  "list_Find md [] name rs = Ret r \<Longrightarrow> list_Find md (meta_Namespace (md r)) name rs = Ret r"
proof (induction rs)
  case (Cons x rs)
  then show ?case by (auto simp: ref_matches_def split: if_splits)
qed simp

lemma ruleMeshes_names:
  assumes "m \<in> ruleMeshes rules meshes" and "m' \<in> ruleMeshes rules meshes"
    and "meta_Namespace (mesh_Metadata m) = meta_Namespace (mesh_Metadata m')"
    and "meta_Name (mesh_Metadata m) = meta_Name (mesh_Metadata m')"
  shows "m = m'"
proof -
  have find: "find_mesh (ResourceRef (meta_Namespace (mesh_Metadata m)) (meta_Name (mesh_Metadata m))) meshes = Ret m"
    if m: "m \<in> ruleMeshes rules meshes" for m
  proof -
    obtain t where t: "find_mesh t meshes = Ret m" using m by (auto simp: ruleMeshes_def)
    then have "ref_matches (ref_Namespace t) (ref_Name t) (mesh_Metadata m)"
      by (simp add: list_Find_RetD)
    with t list_Find_namespace [of mesh_Metadata "ref_Name t" meshes m] show ?thesis
      by (auto simp: ref_matches_def)
  qed
  show ?thesis using find [OF assms(1)] find [OF assms(2)] assms(3,4) by simp
qed

lemma virtualServices_distinct:
  assumes vss: "virtualServicesForRules env rules meshes upstreams = Ret vss" and env: "valid_env env"
    and vs: "\<And>h m. h \<in> ruleHosts rules upstreams \<Longrightarrow> m \<in> ruleMeshes rules meshes \<Longrightarrow> \<exists>vs \<in> set vss.
        key vs = (h, meta_Namespace (mesh_Metadata m), meta_Name (mesh_Metadata m) @ ''-'' @ h)"
  shows "distinct (map key vss)"
proof -
  let ?key = "\<lambda>(h, m). (h, meta_Namespace (mesh_Metadata m), meta_Name (mesh_Metadata m) @ ''-'' @ h)"
  let ?P = "ruleHosts rules upstreams \<times> ruleMeshes rules meshes"
  have "inj_on ?key ?P"
    using ruleMeshes_names by (force simp: inj_on_def)
  then have "card ?P = card (?key ` ?P)" by (simp add: card_image)
  also have "\<dots> \<le> card (set (map key vss))"
    by (rule card_mono) (use vs in \<open>force simp: image_iff\<close>)+
  finally have "length (map key vss) \<le> card (set (map key vss))"
    using virtualServices_length [OF vss env] by (simp add: card_cartesian_product)
  then show ?thesis
    using card_length [of "map key vss"] by (intro card_distinct) linarith
qed

section \<open>Routes\<close>

text \<open>The services a route sends requests to, copies included.\<close>

definition routeDestinations :: "http_route \<Rightarrow> destination set" where
  "routeDestinations r = dw_Destination ` set (hr_Route r) \<union> set_option (hr_Mirror r)"

text \<open>A host and subset that an upstream stands for.\<close>

definition upstreamSubset :: "upstream list \<Rightarrow> string \<Rightarrow> string \<Rightarrow> bool" where
  "upstreamSubset upstreams host name \<longleftrightarrow>
     (\<exists>us \<in> set upstreams. getHostForUpstream us = Ret host \<and> name = subsetName (labelsOf us))"

lemma labelsOf_Ret [simp]: "getLabelsForUpstream us = Ret ls \<Longrightarrow> labelsOf us = ls"
  by (simp add: labelsOf_def)

lemma find_upstream_in: "find_upstream ref upstreams = Ret us \<Longrightarrow> us \<in> set upstreams"
  by (simp add: list_Find_RetD)

lemma loadBalanced_subsets:
  assumes "createLoadBalancedRoute dests upstreams = Ret route" and "dw \<in> set route"
  shows "upstreamSubset upstreams (dest_Host (dw_Destination dw)) (dest_Subset (dw_Destination dw))"
    and "dw_Weight dw = 0"
proof -
  obtain d ref us host labels port where
      d: "find_upstream ref upstreams = Ret us" "getHostForUpstream us = Ret host"
      "getLabelsForUpstream us = Ret labels"
      "dw = \<lparr>dw_Destination = \<lparr>dest_Host = host, dest_Subset = subsetName labels, dest_Port = port\<rparr>,
             dw_Weight = 0\<rparr>"
    using gmapM_set [OF assms(1) [unfolded createLoadBalancedRoute_def], of dw] assms(2)
    by (auto simp: nil_deref_def split: option.splits)
  show "upstreamSubset upstreams (dest_Host (dw_Destination dw)) (dest_Subset (dw_Destination dw))"
    unfolding upstreamSubset_def using d(2-4) find_upstream_in [OF d(1)] by (intro bexI [of _ us]) auto
  show "dw_Weight dw = 0" by (simp add: d(4))
qed

lemma mirror_subset:
  assumes "mirrorDestination ref upstreams = Ret d"
  shows "upstreamSubset upstreams (dest_Host d) (dest_Subset d)"
proof -
  obtain us where us: "find_upstream ref upstreams = Ret us"
    using assms by (auto simp: mirrorDestination_def nil_deref_def split: go.splits)
  then obtain host labels where "getHostForUpstream us = Ret host" "getLabelsForUpstream us = Ret labels"
      "d = \<lparr>dest_Host = host, dest_Subset = subsetName labels, dest_Port = None\<rparr>"
    using assms by (auto simp: mirrorDestination_def)
  then show ?thesis
    unfolding upstreamSubset_def using find_upstream_in [OF us] by (intro bexI [of _ us]) auto
qed

text \<open>The features of a rule in its route, and the route's destinations.\<close>

definition routeOfRule :: "upstream list \<Rightarrow> string \<Rightarrow> routing_rule \<Rightarrow> http_route \<Rightarrow> bool" where
  "routeOfRule upstreams host rule r \<longleftrightarrow>
     createIstioMatcher rule upstreams = Ret (hr_Match r) \<and>
     hr_Fault r = rr_FaultInjection rule \<and> hr_CorsPolicy r = rr_CorsPolicy rule \<and>
     hr_Retries r = rr_Retries rule \<and> hr_Timeout r = rr_Timeout rule \<and>
     (case rr_Mirror rule of
        None \<Rightarrow> hr_Mirror r = None
      | Some ref \<Rightarrow> \<exists>d. mirrorDestination ref upstreams = Ret d \<and> hr_Mirror r = Some d) \<and>
     (case rr_HeaderManipulaition rule of
        None \<Rightarrow> hr_AppendHeaders r = [] \<and> hr_RemoveResponseHeaders r = []
      | Some hm \<Rightarrow> hr_AppendHeaders r = hman_AppendRequestHeaders hm \<and>
          hr_RemoveResponseHeaders r = hman_RemoveResponseHeaders hm) \<and>
     (if rr_TrafficShifting rule = None \<or> rr_TrafficShifting rule = Some []
      then hr_Route r = default_route host
      else createLoadBalancedRoute (the (rr_TrafficShifting rule)) upstreams = Ret (hr_Route r))"

lemma addHttpFeatures_fields:
  assumes "addHttpFeatures rule (new_http_route match route) upstreams = Ret r"
  shows "hr_Match r = match \<and> hr_Route r = route \<and>
     hr_Fault r = rr_FaultInjection rule \<and> hr_CorsPolicy r = rr_CorsPolicy rule \<and>
     hr_Retries r = rr_Retries rule \<and> hr_Timeout r = rr_Timeout rule \<and>
     (case rr_Mirror rule of
        None \<Rightarrow> hr_Mirror r = None
      | Some ref \<Rightarrow> \<exists>d. mirrorDestination ref upstreams = Ret d \<and> hr_Mirror r = Some d) \<and>
     (case rr_HeaderManipulaition rule of
        None \<Rightarrow> hr_AppendHeaders r = [] \<and> hr_RemoveResponseHeaders r = []
      | Some hm \<Rightarrow> hr_AppendHeaders r = hman_AppendRequestHeaders hm \<and>
          hr_RemoveResponseHeaders r = hman_RemoveResponseHeaders hm)"
  using assms
  by (cases "rr_Mirror rule"; cases "rr_HeaderManipulaition rule")
    (auto simp: addHttpFeatures_def new_http_route_def Let_def)

lemma httpRouteForRule_fields:
  assumes "httpRouteForRule host upstreams rule = Ret r"
  shows "routeOfRule upstreams host rule r"
proof -
  obtain match route where "createIstioMatcher rule upstreams = Ret match"
    and route: "(case rr_TrafficShifting rule of
              Some destinations \<Rightarrow>
                (if length destinations > 0
                 then gwrap ''creating multi destination route''
                        (createLoadBalancedRoute destinations upstreams)
                 else Ret (default_route host))
            | None \<Rightarrow> Ret (default_route host)) = Ret route"
    and "addHttpFeatures rule (new_http_route match route) upstreams = Ret r"
    using assms by (auto simp: httpRouteForRule_def)
  with addHttpFeatures_fields [of rule match route upstreams r] show ?thesis
    unfolding routeOfRule_def
    by (cases "rr_TrafficShifting rule") (auto split: if_splits)
qed

lemma routeDestinations_subsets:
  assumes "routeOfRule upstreams host rule r" and "d \<in> routeDestinations r" and "dest_Subset d \<noteq> []"
  shows "upstreamSubset upstreams (dest_Host d) (dest_Subset d)"
proof -
  consider dw where "dw \<in> set (hr_Route r)" "d = dw_Destination dw" | "hr_Mirror r = Some d"
    using assms(2) by (auto simp: routeDestinations_def)
  then show ?thesis
  proof cases
    case 1
    with assms(1,3) show ?thesis
      by (auto simp: routeOfRule_def default_route_def split: if_splits intro: loadBalanced_subsets(1))
  next
    case 2
    with assms(1) show ?thesis
      by (auto simp: routeOfRule_def split: option.splits intro: mirror_subset)
  qed
qed

text \<open>
  What a route does for a rule \<open>r\<close> that contributed to it. Weights and two of the four lists of
  a header manipulation have no counterpart: the code leaves them out.
\<close>

definition route_carries :: "upstream list \<Rightarrow> routing_rule \<Rightarrow> http_route \<Rightarrow> bool" where
  "route_carries upstreams r route \<longleftrightarrow>
     (rr_Timeout r \<noteq> None \<longrightarrow> hr_Timeout route = rr_Timeout r) \<and>
     (rr_Retries r \<noteq> None \<longrightarrow> hr_Retries route = rr_Retries r) \<and>
     (rr_CorsPolicy r \<noteq> None \<longrightarrow> hr_CorsPolicy route = rr_CorsPolicy r) \<and>
     (rr_FaultInjection r \<noteq> None \<longrightarrow> hr_Fault route = rr_FaultInjection r) \<and>
     (\<forall>ref. rr_Mirror r = Some ref \<longrightarrow> (\<exists>us host.
        find_upstream ref upstreams = Ret us \<and> getHostForUpstream us = Ret host \<and>
        hr_Mirror route =
          Some \<lparr>dest_Host = host, dest_Subset = subsetName (labelsOf us), dest_Port = None\<rparr>)) \<and>
     (\<forall>hm. rr_HeaderManipulaition r = Some hm \<longrightarrow>
        hr_AppendHeaders route = hman_AppendRequestHeaders hm \<and>
        hr_RemoveResponseHeaders route = hman_RemoveResponseHeaders hm) \<and>
     (\<forall>ds. rr_TrafficShifting r = Some ds \<longrightarrow> ds \<noteq> [] \<longrightarrow>
        list_all2 (\<lambda>d dw. \<exists>ref us host port. wd_Upstream d = Some ref \<and>
            find_upstream ref upstreams = Ret us \<and> getHostForUpstream us = Ret host \<and>
            getPortForUpstream us = Ret port \<and>
            dw = \<lparr>dw_Destination = \<lparr>dest_Host = host, dest_Subset = subsetName (labelsOf us),
                    dest_Port = (if port > 0 then Some (PortSelector_Number port) else None)\<rparr>,
                  dw_Weight = 0\<rparr>) ds (hr_Route route))"

lemma loadBalanced_each:
  assumes "createLoadBalancedRoute ds upstreams = Ret route"
  shows "list_all2 (\<lambda>d dw. \<exists>ref us host port. wd_Upstream d = Some ref \<and>
      find_upstream ref upstreams = Ret us \<and> getHostForUpstream us = Ret host \<and>
      getPortForUpstream us = Ret port \<and>
      dw = \<lparr>dw_Destination = \<lparr>dest_Host = host, dest_Subset = subsetName (labelsOf us),
              dest_Port = (if port > 0 then Some (PortSelector_Number port) else None)\<rparr>,
            dw_Weight = 0\<rparr>) ds route"
  using assms unfolding createLoadBalancedRoute_def gmapM_eq_Ret
  by (rule list_all2_mono) (force simp: nil_deref_def split: option.splits)

lemma mirror_Ret:
  assumes "mirrorDestination ref upstreams = Ret d"
  shows "\<exists>us host. find_upstream ref upstreams = Ret us \<and> getHostForUpstream us = Ret host \<and>
     d = \<lparr>dest_Host = host, dest_Subset = subsetName (labelsOf us), dest_Port = None\<rparr>"
  using assms by (auto simp: mirrorDestination_def nil_deref_def split: go.splits)

lemma routeOfRule_carries:
  assumes route: "routeOfRule upstreams host mr route"
    and group: "same_features rs mr" "no_conflict rs" "r \<in> set rs"
  shows "route_carries upstreams r route"
proof -
  note member = same_features_member [OF group]
  have plain: "hr_Timeout route = rr_Timeout mr" "hr_Retries route = rr_Retries mr"
      "hr_CorsPolicy route = rr_CorsPolicy mr" "hr_Fault route = rr_FaultInjection mr"
    using route by (simp_all add: routeOfRule_def)
  have mirror: "\<exists>d. mirrorDestination ref upstreams = Ret d \<and> hr_Mirror route = Some d"
    if "rr_Mirror r = Some ref" for ref
    using that member(6) route by (simp add: routeOfRule_def)
  have headers: "hr_AppendHeaders route = hman_AppendRequestHeaders hm \<and>
      hr_RemoveResponseHeaders route = hman_RemoveResponseHeaders hm"
    if "rr_HeaderManipulaition r = Some hm" for hm
    using that member(7) route by (simp add: routeOfRule_def)
  have shift: "createLoadBalancedRoute ds upstreams = Ret (hr_Route route)"
    if "rr_TrafficShifting r = Some ds" "ds \<noteq> []" for ds
    using that member(1) route by (simp add: routeOfRule_def)
  show ?thesis
    unfolding route_carries_def using member(2-5) plain mirror headers loadBalanced_each [OF shift]
    by (auto dest!: mirror mirror_Ret)
qed

text \<open>The virtual service of a host: one route for each merged rule.\<close>

lemma virtualServiceForHost_Ret:
  assumes "virtualServiceForHost env host rules mesh upstreams = Ret vs"
  shows "\<exists>merged. mergeRulesByMatch env rules = Ret merged \<and>
      list_all2 (routeOfRule upstreams host) merged (vs_Http vs) \<and>
      vs_Hosts vs = [host] \<and> vs_Gateways vs = [''mesh''] \<and>
      vs_Metadata vs = new_metadata (meta_Namespace (mesh_Metadata mesh))
        (meta_Name (mesh_Metadata mesh) @ ''-'' @ host)"
proof -
  obtain merged routes where "mergeRulesByMatch env rules = Ret merged"
    and routes: "gmapM (httpRouteForRule host upstreams) merged = Ret routes"
    and "vs = \<lparr>vs_Status = zero_status,
            vs_Metadata = new_metadata (meta_Namespace (mesh_Metadata mesh))
              (meta_Name (mesh_Metadata mesh) @ ''-'' @ host),
            vs_Hosts = [host], vs_Gateways = [''mesh''], vs_Http = routes\<rparr>"
    using assms by (auto simp: virtualServiceForHost_def)
  moreover have "list_all2 (routeOfRule upstreams host) merged routes"
    using routes unfolding gmapM_eq_Ret by (rule list_all2_mono) (rule httpRouteForRule_fields)
  ultimately show ?thesis by simp
qed

end
