(* ===== verification/Reconcile_Namespaces.thy ===== *)
theory Reconcile_Namespaces
  imports Resource_Client
begin

text \<open>
  Reconciling several namespaces one after the other, as the syncers of
  \<open>pkg/translator/istio\<close> do: what the loop needs, and what the store holds afterwards, proved
  once against the client interface.
\<close>

section \<open>The loop\<close>

text \<open>
  The loop over the write namespaces; \<open>after\<close> is what it does to the map after each of them.
\<close>

fun reconcile_each ::
  "'r resource_ops \<Rightarrow> ('s, 'r) client \<Rightarrow> string \<Rightarrow> (string \<Rightarrow> 'r by_namespace \<Rightarrow> 'r by_namespace) \<Rightarrow>
   'r transition \<Rightarrow> (string \<times> string) list \<Rightarrow> string list \<Rightarrow> 'r by_namespace \<Rightarrow> ('s, unit) act" where
  "reconcile_each ops rc msg after transition sel [] m = aret ()"
| "reconcile_each ops rc msg after transition sel (ns # nss) m =
     abind (awrap msg (Reconcile ops rc ns (byNamespace_get m ns) (Some transition) sel)) (\<lambda>_.
       reconcile_each ops rc msg after transition sel nss (after ns m))"

section \<open>Contract of the loop\<close>

text \<open>
  What the loop needs of its input: separate write namespaces, one desired resource per
  reference, names that the client accepts, and no resource under a desired reference that
  the selector does not match (it would not be listed, and creating it again would fail).
\<close>

definition writable ::
  "'r resource_ops \<Rightarrow> (string \<Rightarrow> resource_ref \<Rightarrow> bool) \<Rightarrow> (string \<times> string) list \<Rightarrow> string list \<Rightarrow>
   'r list \<Rightarrow> (resource_ref \<Rightarrow> 'r option) \<Rightarrow> bool" where
  "writable ops covers sel nss ds before \<longleftrightarrow>
     distinct nss \<and> [] \<notin> set nss \<and>
     (\<forall>ns ref. ns \<in> set nss \<longrightarrow> ref_Namespace ref \<in> set nss \<longrightarrow> covers ns ref \<longrightarrow> ref_Namespace ref = ns) \<and>
     distinct (map (resource_Ref ops) ds) \<and>
     (\<forall>d \<in> set ds. ValidateName (meta_Name (GetMetadata ops d))) \<and>
     (\<forall>d \<in> set ds. \<forall>r. meta_Namespace (GetMetadata ops d) \<in> set nss \<longrightarrow>
        before (resource_Ref ops d) = Some r \<longrightarrow> selector_Matches sel (GetMetadata ops r))"

text \<open>
  What it achieves: the desired resources of the write namespaces are stored, the other
  resources that the selector matches there are gone, and nothing else has changed.
\<close>

definition converged ::
  "'r resource_ops \<Rightarrow> ('r option \<Rightarrow> 'r \<Rightarrow> 'r \<Rightarrow> bool) \<Rightarrow> (string \<Rightarrow> resource_ref \<Rightarrow> bool) \<Rightarrow>
   (string \<times> string) list \<Rightarrow> string list \<Rightarrow> 'r list \<Rightarrow> (resource_ref \<Rightarrow> 'r option) \<Rightarrow>
   (resource_ref \<Rightarrow> 'r option) \<Rightarrow> bool" where
  "converged ops stored covers sel nss ds before after \<longleftrightarrow>
     (\<forall>d \<in> set ds. meta_Namespace (GetMetadata ops d) \<in> set nss \<longrightarrow>
        (\<exists>r. after (resource_Ref ops d) = Some r \<and> stored (before (resource_Ref ops d)) d r)) \<and>
     (\<forall>ref. ref \<notin> resource_Ref ops ` {d \<in> set ds. meta_Namespace (GetMetadata ops d) \<in> set nss} \<longrightarrow>
        after ref =
          (if \<exists>r ns. before ref = Some r \<and> ns \<in> set nss \<and> covers ns ref \<and>
                selector_Matches sel (GetMetadata ops r)
           then None else before ref))"

context resource_client
begin

definition selected_in :: "(string \<times> string) list \<Rightarrow> 's \<Rightarrow> string list \<Rightarrow> resource_ref \<Rightarrow> bool" where
  "selected_in sel s nss ref \<longleftrightarrow>
     (\<exists>r ns. view s ref = Some r \<and> ns \<in> set nss \<and> covers ns ref \<and> selector_Matches sel (GetMetadata ops r))"

lemma reconcile_each_correct:
  assumes "ok s" and "distinct nss" and "[] \<notin> set nss"
    and "\<And>ns. ns \<in> set nss \<Longrightarrow> byNamespace_get m ns = filter (\<lambda>d. meta_Namespace (GetMetadata ops d) = ns) ds"
    and "\<And>ns m ns'. ns' \<noteq> ns \<Longrightarrow> byNamespace_get (after ns m) ns' = byNamespace_get m ns'"
    and "distinct (map (resource_Ref ops) ds)" and "total_transition (Some transition)"
    and "\<And>d. d \<in> set ds \<Longrightarrow> ValidateName (meta_Name (GetMetadata ops d))"
    and "\<And>ns ref. ns \<in> set nss \<Longrightarrow> ref_Namespace ref \<in> set nss \<Longrightarrow> covers ns ref \<Longrightarrow> ref_Namespace ref = ns"
    and "\<And>d r. d \<in> set ds \<Longrightarrow> meta_Namespace (GetMetadata ops d) \<in> set nss \<Longrightarrow>
        view s (resource_Ref ops d) = Some r \<Longrightarrow> selector_Matches sel (GetMetadata ops r)"
  shows "\<exists>s'. reconcile_each ops client msg after transition sel nss m s = (Ret (), s') \<and> ok s' \<and>
     (\<forall>d \<in> set ds. meta_Namespace (GetMetadata ops d) \<in> set nss \<longrightarrow>
        (\<exists>r. view s' (resource_Ref ops d) = Some r \<and>
          settled ops (Some transition) (view s (resource_Ref ops d)) d r)) \<and>
     (\<forall>ref. ref \<notin> resource_Ref ops ` {d \<in> set ds. meta_Namespace (GetMetadata ops d) \<in> set nss} \<longrightarrow>
        view s' ref = (if selected_in sel s nss ref then None else view s ref))"
  using assms
proof (induction nss arbitrary: s m)
  case Nil
  then show ?case by (auto simp: aret_def selected_in_def)
next
  case (Cons ns nss)
  let ?ds = "filter (\<lambda>d. meta_Namespace (GetMetadata ops d) = ns) ds"
  have get: "byNamespace_get m ns = ?ds" using Cons.prems(4) by simp
  have "\<exists>s'. Reconcile ops client ns ?ds (Some transition) sel s = (Ret (), s') \<and> ok s' \<and>
     (\<forall>d \<in> set ?ds. \<exists>r. view s' (resource_Ref ops d) = Some r \<and>
        settled ops (Some transition) (view s (resource_Ref ops d)) d r) \<and>
     (\<forall>ref. ref \<notin> resource_Ref ops ` set ?ds \<longrightarrow>
        view s' ref = (if selected sel s ns ref then None else view s ref))"
  proof (rule Reconcile_correct [OF Cons.prems(1)])
    show "ns \<noteq> []" using Cons.prems(3) by auto
    show "distinct (map (resource_Ref ops) ?ds)"
      using Cons.prems(6) by (rule distinct_map_filter)
    show "meta_Namespace (GetMetadata ops d) \<noteq> [] \<and> ValidateName (meta_Name (GetMetadata ops d))"
      if "d \<in> set ?ds" for d
      using that Cons.prems(3,8) by auto
    show "selected sel s ns (resource_Ref ops d)" if "d \<in> set ?ds" "view s (resource_Ref ops d) \<noteq> None" for d
      using that Cons.prems(10) [of d] covers_refl [of "resource_Ref ops d"]
      by (auto simp: selected_def Metadata_Ref_def simp del: ResourceRef_meta)
  qed (use Cons.prems in simp)
  then obtain s1 where s1: "Reconcile ops client ns ?ds (Some transition) sel s = (Ret (), s1)" "ok s1"
      "\<forall>d \<in> set ?ds. \<exists>r. view s1 (resource_Ref ops d) = Some r \<and>
        settled ops (Some transition) (view s (resource_Ref ops d)) d r"
      "\<forall>ref. ref \<notin> resource_Ref ops ` set ?ds \<longrightarrow>
        view s1 ref = (if selected sel s ns ref then None else view s ref)"
    by blast
  have refns: "ref_Namespace (resource_Ref ops d) = meta_Namespace (GetMetadata ops d)" for d
    by (simp add: Metadata_Ref_def del: ResourceRef_meta)
  \<comment> \<open>references of the remaining namespaces are untouched\<close>
  have same: "view s1 ref = view s ref" if "ref_Namespace ref \<in> set nss" for ref
  proof -
    have "ref_Namespace ref \<noteq> ns" using that Cons.prems(2) by auto
    moreover from this have "\<not> covers ns ref" using Cons.prems(9) [of ns ref] that by auto
    moreover have "ref \<notin> resource_Ref ops ` set ?ds"
      using \<open>ref_Namespace ref \<noteq> ns\<close> refns by (auto simp del: ResourceRef_meta)
    ultimately show ?thesis using s1(4) by (simp add: selected_def)
  qed
  have m': "byNamespace_get (after ns m) ns' = filter (\<lambda>d. meta_Namespace (GetMetadata ops d) = ns') ds"
    if "ns' \<in> set nss" for ns'
  proof -
    have "ns' \<noteq> ns" using Cons.prems(2) that by auto
    with Cons.prems(4) that show ?thesis by (simp add: Cons.prems(5))
  qed
  have "\<exists>s'. reconcile_each ops client msg after transition sel nss (after ns m) s1 = (Ret (), s') \<and> ok s' \<and>
     (\<forall>d \<in> set ds. meta_Namespace (GetMetadata ops d) \<in> set nss \<longrightarrow>
        (\<exists>r. view s' (resource_Ref ops d) = Some r \<and>
          settled ops (Some transition) (view s1 (resource_Ref ops d)) d r)) \<and>
     (\<forall>ref. ref \<notin> resource_Ref ops ` {d \<in> set ds. meta_Namespace (GetMetadata ops d) \<in> set nss} \<longrightarrow>
        view s' ref = (if selected_in sel s1 nss ref then None else view s1 ref))"
    using Cons.prems(2,3,6-10) m' same refns s1(2)
    by (intro Cons.IH Cons.prems(5)) auto
  then obtain s' where s': "reconcile_each ops client msg after transition sel nss (after ns m) s1 = (Ret (), s')"
      "ok s'"
     "\<forall>d \<in> set ds. meta_Namespace (GetMetadata ops d) \<in> set nss \<longrightarrow>
        (\<exists>r. view s' (resource_Ref ops d) = Some r \<and>
          settled ops (Some transition) (view s1 (resource_Ref ops d)) d r)"
     "\<forall>ref. ref \<notin> resource_Ref ops ` {d \<in> set ds. meta_Namespace (GetMetadata ops d) \<in> set nss} \<longrightarrow>
        view s' ref = (if selected_in sel s1 nss ref then None else view s1 ref)"
    by blast
  have run: "reconcile_each ops client msg after transition sel (ns # nss) m s = (Ret (), s')"
    using s1(1) s'(1) get by (simp add: act_simps)
  have first: "\<exists>r. view s' (resource_Ref ops d) = Some r \<and>
      settled ops (Some transition) (view s (resource_Ref ops d)) d r"
    if d: "d \<in> set ds" "meta_Namespace (GetMetadata ops d) = ns" for d
  proof -
    have out: "resource_Ref ops d \<notin> resource_Ref ops ` {d \<in> set ds. meta_Namespace (GetMetadata ops d) \<in> set nss}"
      using Cons.prems(2) d refns by (metis (mono_tags, lifting) distinct.simps(2) imageE mem_Collect_eq)
    moreover have "\<not> selected_in sel s1 nss (resource_Ref ops d)"
      using Cons.prems(2) Cons.prems(9) [of _ "resource_Ref ops d"] d refns
      by (auto simp: selected_in_def)
    ultimately have "view s' (resource_Ref ops d) = view s1 (resource_Ref ops d)" using s'(4) by auto
    then show ?thesis using s1(3) d by auto
  qed
  have rest: "view s' ref = (if selected_in sel s (ns # nss) ref then None else view s ref)"
    if "ref \<notin> resource_Ref ops ` {d \<in> set ds. meta_Namespace (GetMetadata ops d) \<in> set (ns # nss)}" for ref
  proof -
    have "view s1 ref = (if selected sel s ns ref then None else view s ref)"
      using s1(4) that by auto
    moreover have "view s' ref = (if selected_in sel s1 nss ref then None else view s1 ref)"
      using s'(4) that by auto
    moreover have "selected_in sel s (ns # nss) ref \<longleftrightarrow> selected sel s ns ref \<or> selected_in sel s nss ref"
      by (auto simp: selected_in_def selected_def)
    moreover have "selected_in sel s1 nss ref \<longleftrightarrow> view s1 ref \<noteq> None \<and> selected_in sel s nss ref"
      using calculation(1) by (auto simp: selected_in_def)
    moreover have "selected_in sel s nss ref \<Longrightarrow> view s ref \<noteq> None"
      by (auto simp: selected_in_def)
    ultimately show ?thesis by (cases "view s1 ref") (simp_all split: if_splits)
  qed
  have all: "\<exists>r. view s' (resource_Ref ops d) = Some r \<and>
      settled ops (Some transition) (view s (resource_Ref ops d)) d r"
    if d: "d \<in> set ds" "meta_Namespace (GetMetadata ops d) \<in> set (ns # nss)" for d
  proof (cases "meta_Namespace (GetMetadata ops d) = ns")
    case False
    with d have "meta_Namespace (GetMetadata ops d) \<in> set nss" by simp
    with s'(3) d(1) same [of "resource_Ref ops d"] refns [of d] show ?thesis by metis
  qed (use d first in simp)
  show ?case
    using run s'(2) all rest by blast
qed

lemma reconcile_each_converges:
  assumes "ok s" and "writable ops covers sel nss ds (view s)"
    and "\<And>ns. ns \<in> set nss \<Longrightarrow> byNamespace_get m ns = filter (\<lambda>d. meta_Namespace (GetMetadata ops d) = ns) ds"
    and "\<And>ns m ns'. ns' \<noteq> ns \<Longrightarrow> byNamespace_get (after ns m) ns' = byNamespace_get m ns'"
    and "total_transition (Some transition)"
  shows "\<exists>s'. reconcile_each ops client msg after transition sel nss m s = (Ret (), s') \<and> ok s' \<and>
     converged ops (settled ops (Some transition)) covers sel nss ds (view s) (view s')"
  using reconcile_each_correct [of s nss m ds after transition sel msg] assms
  unfolding writable_def converged_def selected_in_def by blast

end

lemma converged_stored:
  "converged ops stored covers sel nss ds before after \<Longrightarrow> d \<in> set ds \<Longrightarrow>
     meta_Namespace (GetMetadata ops d) \<in> set nss \<Longrightarrow> resource_Ref ops d = ref \<Longrightarrow>
     \<exists>r. after ref = Some r \<and> stored (before ref) d r"
  unfolding converged_def by blast

lemma converged_mono:
  assumes "converged ops stored covers sel nss ds before after"
    and "\<And>b d r. stored b d r \<Longrightarrow> stored' b d r"
  shows "converged ops stored' covers sel nss ds before after"
  using assms unfolding converged_def by blast

subsection \<open>The loop without the map\<close>

lemma reconcile_each_foreach:
  assumes "reconcile_each ops rc msg (\<lambda>ns m. m) transition sel nss m s = (Ret (), s')"
  shows "aforeach (\<lambda>ns. Reconcile ops rc ns (byNamespace_get m ns) (Some transition) sel) nss s = (Ret (), s')"
  using assms by (induction nss arbitrary: s) (auto simp: abind_eq_Ret)

lemma aforeach_cong: "(\<And>x. x \<in> set xs \<Longrightarrow> f x = g x) \<Longrightarrow> aforeach f xs = aforeach g xs"
  by (induction xs) auto

context resource_client
begin

lemma foreach_Reconcile_converges:
  assumes "ok s" and "writable ops covers sel nss ds (view s)" and "total_transition (Some transition)"
  shows "\<exists>s'. aforeach (\<lambda>ns. Reconcile ops client ns
            (filter (\<lambda>d. meta_Namespace (GetMetadata ops d) = ns) ds) (Some transition) sel) nss s = (Ret (), s') \<and>
     ok s' \<and> converged ops (settled ops (Some transition)) covers sel nss ds (view s) (view s')"
proof -
  let ?m = "byNamespace_Add (GetMetadata ops) ds []"
  have get: "byNamespace_get ?m ns = filter (\<lambda>d. meta_Namespace (GetMetadata ops d) = ns) ds" for ns
    by (simp add: byNamespace_get_Add)
  from reconcile_each_converges [OF assms(1,2) get refl assms(3)] obtain s' where
    "reconcile_each ops client [] (\<lambda>ns m. m) transition sel nss ?m s = (Ret (), s')" "ok s'"
    "converged ops (settled ops (Some transition)) covers sel nss ds (view s) (view s')"
    by blast
  with reconcile_each_foreach [of ops client "[]" transition sel nss ?m s s'] get show ?thesis by auto
qed

end

text \<open>Two loops over independent stores, run alternately.\<close>

lemma aforeach_two_stores:
  assumes "aforeach f xs a = (Ret (), a')" and "aforeach g xs b = (Ret (), b')"
  shows "aforeach (\<lambda>x. abind (on_fst (f x)) (\<lambda>_. on_snd (g x))) xs (a, b) = (Ret (), (a', b'))"
  using assms
proof (induction xs arbitrary: a b)
  case (Cons x xs)
  then obtain a1 b1 where "f x a = (Ret (), a1)" "aforeach f xs a1 = (Ret (), a')"
      "g x b = (Ret (), b1)" "aforeach g xs b1 = (Ret (), b')"
    by (auto simp: abind_eq_Ret)
  with Cons.IH [of a1 b1] show ?case by (simp add: act_simps)
qed (simp add: aret_def)

end
