(* ===== verification/Istio_Routing_Sync.thy ===== *)
theory Istio_Routing_Sync
  imports Istio_Routing_Facts Reconcile_Namespaces Memory_Client
begin

text \<open>
  \<open>MeshRoutingSyncer\<close> of \<open>pkg/translator/istio/mesh_routing_syncer.go\<close>: \<open>NewMeshRoutingSyncer\<close>,
  \<open>Sync\<close>, \<open>writeIstioCrds\<close> and the transition functions. The destination rules and the
  virtual services are stored by two clients, whose stores are the two parts of the state.
\<close>

section \<open>The syncer\<close>

record ('a, 'b) mesh_routing_syncer =
  mrs_writeNamespaces :: "string list"
  mrs_writeSelector :: "(string \<times> string) list"
  mrs_destinationRules :: "('a, destination_rule) client"
  mrs_virtualServices :: "('b, virtual_service) client"

definition NewMeshRoutingSyncer ::
  "string list \<Rightarrow> (string \<times> string) list option \<Rightarrow> ('a, destination_rule) client \<Rightarrow>
   ('b, virtual_service) client \<Rightarrow> ('a, 'b) mesh_routing_syncer" where
  "NewMeshRoutingSyncer writeNamespaces writeSelector drClient vsClient =
     \<lparr>mrs_writeNamespaces = writeNamespaces,
      mrs_writeSelector =
        (case writeSelector of None \<Rightarrow> [(''reconciler.solo.io'', ''supergloo.istio.routing'')]
         | Some sel \<Rightarrow> sel),
      mrs_destinationRules = drClient, mrs_virtualServices = vsClient\<rparr>"

text \<open>
  \<open>proto.Equal\<close> compares maps as maps. The maps of a message are put in the order of their
  keys to compare two messages.
\<close>

definition sorted_map :: "(string \<times> 'v) list \<Rightarrow> (string \<times> 'v) list" where
  "sorted_map m = sort_key fst m"

definition normal_dr :: "destination_rule \<Rightarrow> destination_rule" where
  "normal_dr r = r\<lparr>dr_Subsets :=
     map (\<lambda>s. s\<lparr>subset_Labels := sorted_map (subset_Labels s)\<rparr>) (dr_Subsets r)\<rparr>"

definition normal_route :: "http_route \<Rightarrow> http_route" where
  "normal_route r = r\<lparr>hr_AppendHeaders := sorted_map (hr_AppendHeaders r),
     hr_Match := map (\<lambda>m. m\<lparr>hmr_Headers := sorted_map (hmr_Headers m),
                            hmr_SourceLabels := sorted_map (hmr_SourceLabels m)\<rparr>) (hr_Match r)\<rparr>"

definition normal_vs :: "virtual_service \<Rightarrow> virtual_service" where
  "normal_vs r = r\<lparr>vs_Http := map normal_route (vs_Http r)\<rparr>"

definition preserveDestinationRule :: "destination_rule transition" where
  "preserveDestinationRule original desired =
     (let original = original\<lparr>dr_Metadata := dr_Metadata desired, dr_Status := dr_Status desired\<rparr>
      in Ret (normal_dr original \<noteq> normal_dr desired))"

definition preserveVirtualService :: "virtual_service transition" where
  "preserveVirtualService original desired =
     (let original = original\<lparr>vs_Metadata := vs_Metadata desired, vs_Status := vs_Status desired\<rparr>
      in Ret (normal_vs original \<noteq> normal_vs desired))"

text \<open>
  The second loop deletes from \<open>drByNamespace\<close>, which is not read any more. What is left in
  either map becomes an error that is local to its branch and is not returned.
\<close>

definition writeIstioCrds ::
  "('a, 'b) mesh_routing_syncer \<Rightarrow> destination_rule list \<Rightarrow> virtual_service list \<Rightarrow> ('a \<times> 'b, unit) act"
where
  "writeIstioCrds s destinationRules virtualServices =
     abind (on_fst (reconcile_each destination_rule_ops (mrs_destinationRules s)
         ''reconciling destination rules'' byNamespace_Clear preserveDestinationRule
         (mrs_writeSelector s) (mrs_writeNamespaces s)
         (byNamespace_Add dr_Metadata destinationRules []))) (\<lambda>_.
     on_snd (reconcile_each virtual_service_ops (mrs_virtualServices s)
         ''reconciling virtual services'' (\<lambda>ns m. m) preserveVirtualService
         (mrs_writeSelector s) (mrs_writeNamespaces s)
         (byNamespace_Add vs_Metadata virtualServices [])))"

definition dr_for_writing :: "(string \<times> string) list \<Rightarrow> destination_rule \<Rightarrow> destination_rule" where
  "dr_for_writing sel r = r\<lparr>dr_Metadata := updateMetadataForWriting sel (dr_Metadata r)\<rparr>"

definition vs_for_writing :: "(string \<times> string) list \<Rightarrow> virtual_service \<Rightarrow> virtual_service" where
  "vs_for_writing sel r = r\<lparr>vs_Metadata := updateMetadataForWriting sel (vs_Metadata r)\<rparr>"

definition MeshRoutingSyncer_Sync ::
  "routing_env \<Rightarrow> ('a, 'b) mesh_routing_syncer \<Rightarrow> ('a \<times> 'b) syncer" where
  "MeshRoutingSyncer_Sync env s snap =
     (let meshes = snap_List mesh_ops (snap_Meshes snap);
          upstreams = snap_List upstream_ops (snap_Upstreams snap);
          rules = snap_List routing_rule_ops (snap_Routingrules snap)
      in abind (alift (gwrap ''creating subsets from snapshot''
           (destinationRulesForUpstreams env rules meshes upstreams))) (\<lambda>destinationRules.
         abind (alift (gwrap ''creating virtual services from snapshot''
           (virtualServicesForRules env rules meshes upstreams))) (\<lambda>virtualServices.
         writeIstioCrds s
           (map (dr_for_writing (mrs_writeSelector s)) destinationRules)
           (map (vs_for_writing (mrs_writeSelector s)) virtualServices))))"

section \<open>What is stored\<close>

text \<open>Two resources with the same specification: they differ in metadata and status at most.\<close>

definition same_dr :: "destination_rule \<Rightarrow> destination_rule \<Rightarrow> bool" where
  "same_dr r d \<longleftrightarrow>
     normal_dr (r\<lparr>dr_Metadata := dr_Metadata d, dr_Status := dr_Status d\<rparr>) = normal_dr d"

definition same_vs :: "virtual_service \<Rightarrow> virtual_service \<Rightarrow> bool" where
  "same_vs r d \<longleftrightarrow>
     normal_vs (r\<lparr>vs_Metadata := vs_Metadata d, vs_Status := vs_Status d\<rparr>) = normal_vs d"

lemma but_version_dr:
  "but_version destination_rule_ops r d \<Longrightarrow>
     dr_Host r = dr_Host d \<and> dr_TrafficPolicy r = dr_TrafficPolicy d \<and> dr_Subsets r = dr_Subsets d"
  by (cases r; cases d) (simp add: but_version_def ops_simps)

lemma but_version_vs:
  "but_version virtual_service_ops r d \<Longrightarrow>
     vs_Hosts r = vs_Hosts d \<and> vs_Gateways r = vs_Gateways d \<and> vs_Http r = vs_Http d"
  by (cases r; cases d) (simp add: but_version_def ops_simps)

lemma same_dr_fields:
  "dr_Host r = dr_Host d \<Longrightarrow> dr_TrafficPolicy r = dr_TrafficPolicy d \<Longrightarrow> dr_Subsets r = dr_Subsets d \<Longrightarrow>
     same_dr r d"
  by (cases r; cases d) (simp add: same_dr_def)

lemma same_vs_fields:
  "vs_Hosts r = vs_Hosts d \<Longrightarrow> vs_Gateways r = vs_Gateways d \<Longrightarrow> vs_Http r = vs_Http d \<Longrightarrow> same_vs r d"
  by (cases r; cases d) (simp add: same_vs_def)

lemma preserve_total:
  "total_transition (Some preserveDestinationRule)" "total_transition (Some preserveVirtualService)"
  by (simp_all add: total_transition_def preserveDestinationRule_def preserveVirtualService_def Let_def)

lemma settled_same_dr:
  assumes "settled destination_rule_ops (Some preserveDestinationRule) before d r"
  shows "same_dr r d"
proof (cases before)
  case None
  with assms but_version_dr [of r d] show ?thesis by (simp add: settled_def same_dr_fields)
next
  case (Some r0)
  let ?d = "prepare_update destination_rule_ops r0 d"
  have d: "dr_Host ?d = dr_Host d" "dr_TrafficPolicy ?d = dr_TrafficPolicy d" "dr_Subsets ?d = dr_Subsets d"
    by (simp_all add: prepare_update_def ops_simps)
  show ?thesis
  proof (cases "preserveDestinationRule r0 ?d = Ret False")
    case True
    with assms Some have "r = r0" by (simp add: settled_def)
    with True d show ?thesis
      by (cases r0; cases d)
        (simp add: preserveDestinationRule_def same_dr_def normal_dr_def Let_def prepare_update_def ops_simps)
  next
    case False
    with assms Some but_version_dr [of r ?d] d show ?thesis by (simp add: settled_def same_dr_fields)
  qed
qed

lemma settled_same_vs:
  assumes "settled virtual_service_ops (Some preserveVirtualService) before d r"
  shows "same_vs r d"
proof (cases before)
  case None
  with assms but_version_vs [of r d] show ?thesis by (simp add: settled_def same_vs_fields)
next
  case (Some r0)
  let ?d = "prepare_update virtual_service_ops r0 d"
  have d: "vs_Hosts ?d = vs_Hosts d" "vs_Gateways ?d = vs_Gateways d" "vs_Http ?d = vs_Http d"
    by (simp_all add: prepare_update_def ops_simps)
  show ?thesis
  proof (cases "preserveVirtualService r0 ?d = Ret False")
    case True
    with assms Some have "r = r0" by (simp add: settled_def)
    with True d show ?thesis
      by (cases r0; cases d)
        (simp add: preserveVirtualService_def same_vs_def normal_vs_def Let_def prepare_update_def ops_simps)
  next
    case False
    with assms Some but_version_vs [of r ?d] d show ?thesis by (simp add: settled_def same_vs_fields)
  qed
qed

section \<open>Both stores\<close>

locale routing_stores =
  dr: resource_client destination_rule_ops drc drv drok drcov +
  vs: resource_client virtual_service_ops vsc vsv vsok vscov
  for drc :: "('a, destination_rule) client" and drv drok drcov
    and vsc :: "('b, virtual_service) client" and vsv vsok vscov
begin

lemma writeIstioCrds_converges:
  assumes s: "s = \<lparr>mrs_writeNamespaces = nss, mrs_writeSelector = sel,
                   mrs_destinationRules = drc, mrs_virtualServices = vsc\<rparr>"
    and ok: "drok a" "vsok b"
    and dr: "writable destination_rule_ops drcov sel nss drs (drv a)"
    and vs: "writable virtual_service_ops vscov sel nss vss (vsv b)"
  shows "\<exists>a' b'. writeIstioCrds s drs vss (a, b) = (Ret (), (a', b')) \<and> drok a' \<and> vsok b' \<and>
     converged destination_rule_ops (\<lambda>_ d r. same_dr r d) drcov sel nss drs (drv a) (drv a') \<and>
     converged virtual_service_ops (\<lambda>_ d r. same_vs r d) vscov sel nss vss (vsv b) (vsv b')"
proof -
  have md: "GetMetadata destination_rule_ops = dr_Metadata" "GetMetadata virtual_service_ops = vs_Metadata"
    by (simp_all add: ops_simps)
  obtain a' where a': "reconcile_each destination_rule_ops drc ''reconciling destination rules''
      byNamespace_Clear preserveDestinationRule sel nss (byNamespace_Add dr_Metadata drs []) a = (Ret (), a')"
      "drok a'" "converged destination_rule_ops (settled destination_rule_ops (Some preserveDestinationRule))
        drcov sel nss drs (drv a) (drv a')"
    using dr.reconcile_each_converges [OF ok(1) dr, of "byNamespace_Add dr_Metadata drs []"
        byNamespace_Clear preserveDestinationRule] preserve_total(1)
    by (auto simp: byNamespace_get_Add byNamespace_get_Clear md)
  obtain b' where b': "reconcile_each virtual_service_ops vsc ''reconciling virtual services''
      (\<lambda>ns m. m) preserveVirtualService sel nss (byNamespace_Add vs_Metadata vss []) b = (Ret (), b')"
      "vsok b'" "converged virtual_service_ops (settled virtual_service_ops (Some preserveVirtualService))
        vscov sel nss vss (vsv b) (vsv b')"
    using vs.reconcile_each_converges [OF ok(2) vs, of "byNamespace_Add vs_Metadata vss []"
        "\<lambda>ns m. m" preserveVirtualService] preserve_total(2)
    by (auto simp: byNamespace_get_Add md)
  have "writeIstioCrds s drs vss (a, b) = (Ret (), (a', b'))"
    using a'(1) b'(1) by (simp add: writeIstioCrds_def s act_simps)
  moreover have "converged destination_rule_ops (\<lambda>_ d r. same_dr r d) drcov sel nss drs (drv a) (drv a')"
    using a'(3) by (rule converged_mono) (rule settled_same_dr)
  moreover have "converged virtual_service_ops (\<lambda>_ d r. same_vs r d) vscov sel nss vss (vsv b) (vsv b')"
    using b'(3) by (rule converged_mono) (rule settled_same_vs)
  ultimately show ?thesis using a'(2) b'(2) by blast
qed

end

lemma mem_routing_stores:
  assumes "valid_range r1" and "valid_range r2"
  shows "routing_stores (mem_client r1 destination_rule_ops k1) (mem_view destination_rule_ops k1)
     (mem_ok destination_rule_ops k1) mem_covers (mem_client r2 virtual_service_ops k2)
     (mem_view virtual_service_ops k2) (mem_ok virtual_service_ops k2) mem_covers"
  using assms by (intro routing_stores.intro mem_store_client destination_rule.resource_type_axioms
      virtual_service.resource_type_axioms)

interpretation routing_memory:
  routing_stores "mem_client id destination_rule_ops ''*v1alpha3.DestinationRule''"
    "mem_view destination_rule_ops ''*v1alpha3.DestinationRule''"
    "mem_ok destination_rule_ops ''*v1alpha3.DestinationRule''" mem_covers
    "mem_client id virtual_service_ops ''*v1alpha3.VirtualService''"
    "mem_view virtual_service_ops ''*v1alpha3.VirtualService''"
    "mem_ok virtual_service_ops ''*v1alpha3.VirtualService''" mem_covers
  by (rule mem_routing_stores) simp_all

end
