(* ===== verification/Istio_Policy.thy ===== *)
theory Istio_Policy
  imports Istio_Matchers Translator_Snapshot Reconcile_Namespaces Memory_Client
begin

text \<open>
  The policy translator for Istio, \<open>pkg/translator/istio/policy_syncer.go\<close>: from a mesh's
  policy to service roles and service role bindings, and their reconciliation in every
  namespace of the cluster together with the cluster-wide RBAC configuration.

  The syncer reads namespaces, services and pods from the Kubernetes API. What these calls
  return is a parameter: a record of functions, which may fail.
\<close>

section \<open>What the syncer uses\<close>

record kube_reader =
  kube_Namespaces_List :: "string list go"
  kube_Services_Get :: "string \<Rightarrow> string \<Rightarrow> (string \<times> string) list go"
  kube_Pods_List :: "string \<Rightarrow> (string \<times> string) list \<Rightarrow> string list go"

text \<open>
  \<open>Services(ns).Get(name)\<close> gives the service's selector, \<open>Pods(ns).List\<close> with a label
  selector and limit 1 the service account names of the pods found. The three reconcilers
  write through clients whose stores make up the state.
\<close>

record ('c, 'b, 'r) policy_syncer =
  ps_WriteSelector :: "(string \<times> string) list"
  ps_WriteNamespace :: string
  ps_serviceRoleBindings :: "('b, service_role_binding) client"
  ps_serviceRoles :: "('r, service_role) client"
  ps_rbacConfigs :: "('c, rbac_config) client"
  ps_kubeClient :: kube_reader

type_synonym ('c, 'b, 'r) policy_state = "'c \<times> 'b \<times> 'r"

text \<open>
  \<open>NewPolicySyncer\<close>: each client is created and registered, the first error is returned.
  The write selector is not set and stays nil.
\<close>

definition NewPolicySyncer ::
  "string \<Rightarrow> ('b, service_role_binding) client go \<Rightarrow> unit go \<Rightarrow> ('r, service_role) client go \<Rightarrow> unit go \<Rightarrow>
   ('c, rbac_config) client go \<Rightarrow> unit go \<Rightarrow> kube_reader go \<Rightarrow> ('c, 'b, 'r) policy_syncer go" where
  "NewPolicySyncer writens srbClient srbRegister srClient srRegister rcClient rcRegister kube =
     gbind srbClient (\<lambda>srb. gbind srbRegister (\<lambda>_.
     gbind srClient (\<lambda>sr. gbind srRegister (\<lambda>_.
     gbind rcClient (\<lambda>rc. gbind rcRegister (\<lambda>_.
     gbind kube (\<lambda>kubeClient.
       Ret \<lparr>ps_WriteSelector = [], ps_WriteNamespace = writens, ps_serviceRoleBindings = srb,
            ps_serviceRoles = sr, ps_rbacConfigs = rc, ps_kubeClient = kubeClient\<rparr>)))))))"

section \<open>Conversion\<close>

text \<open>
  \<open>ResourceRef.String\<close>, the compact text format of protocol buffers: the fields that are not
  empty, in order, quoted.
\<close>

definition text_escape :: "char \<Rightarrow> string" where
  "text_escape c =
     (let n = (of_char c :: nat)
      in if c = CHR 0x0A then [CHR 0x5C, CHR ''n'']
         else if c = CHR 0x0D then [CHR 0x5C, CHR ''r'']
         else if c = CHR 0x09 then [CHR 0x5C, CHR ''t'']
         else if c = CHR 0x22 then [CHR 0x5C, CHR 0x22]
         else if c = CHR 0x5C then [CHR 0x5C, CHR 0x5C]
         else if 32 \<le> n \<and> n < 127 then [c]
         else [CHR 0x5C, char_of (48 + n div 64), char_of (48 + n div 8 mod 8), char_of (48 + n mod 8)])"

definition text_field :: "string \<Rightarrow> string \<Rightarrow> string" where
  "text_field name v =
     (if v = [] then [] else name @ '':'' @ [CHR 0x22] @ concat (map text_escape v) @ [CHR 0x22] @ '' '')"

definition ResourceRef_String :: "resource_ref \<Rightarrow> string" where
  "ResourceRef_String ref = text_field ''name'' (ref_Name ref) @ text_field ''namespace'' (ref_Namespace ref)"

definition getkube :: "upstream by_namespace \<Rightarrow> resource_ref \<Rightarrow> kube_upstream option go" where
  "getkube upstreams ref =
     (case find_upstream ref (snap_List upstream_ops upstreams) of
        Ret upstream \<Rightarrow>
          gbind (upstream_Type upstream) (\<lambda>t.
            Ret (case t of Some (UpstreamSpec_Kube kube) \<Rightarrow> Some kube | _ \<Rightarrow> None))
      | _ \<Rightarrow> Ret None)"

definition getsvcaccount :: "kube_reader \<Rightarrow> kube_upstream \<Rightarrow> resource_ref option" where
  "getsvcaccount kube k =
     (case kube_Services_Get kube (kube_ServiceNamespace k) (kube_ServiceName k) of
        Ret selector \<Rightarrow>
          (case kube_Pods_List kube (kube_ServiceNamespace k) selector of
             Ret pods \<Rightarrow>
               (if length pods = 0 then None
                else Some (ResourceRef (kube_ServiceNamespace k) (pods ! 0)))
           | _ \<Rightarrow> None)
      | _ \<Rightarrow> None)"

definition svcname :: "resource_ref \<Rightarrow> string" where
  "svcname s = ref_Name s @ ''.'' @ ref_Namespace s @ ''.svc.cluster.local''"

definition principalame :: "resource_ref \<Rightarrow> string" where
  "principalame s = ''cluster.local/ns/'' @ ref_Namespace s @ ''/sa/'' @ ref_Name s"

text \<open>
  The rules with a source and a destination, by destination. The second loop sorts each group
  by its sources' strings, in descending order, and dereferences the destination of every
  rule of the policy. Rules of a group with the same source are equal, so the
  instability of \<open>sort.Slice\<close> does not show.
\<close>

definition rulesByDestination :: "policy \<Rightarrow> (resource_ref \<times> resource_ref list) list" where
  "rulesByDestination p =
     group_pairs (concat (map (\<lambda>rule.
       case (rule_Source rule, rule_Destination rule) of
         (Some src, Some dest) \<Rightarrow> [(dest, src)] | _ \<Rightarrow> []) (policy_Rules p)))"

definition sortSources :: "resource_ref list \<Rightarrow> resource_ref list" where
  "sortSources srcs = rev (sort_key ResourceRef_String srcs)"

definition subjectForSource ::
  "kube_reader \<Rightarrow> upstream by_namespace \<Rightarrow> resource_ref \<Rightarrow> (string \<times> string) list list go" where
  "subjectForSource kube upstreams src =
     gbind (getkube upstreams src) (\<lambda>sourceupstream.
       case sourceupstream of
         None \<Rightarrow> Ret []
       | Some k \<Rightarrow>
           (case getsvcaccount kube k of
              None \<Rightarrow> Ret []
            | Some sa \<Rightarrow> Ret [[(''source.principal'', principalame sa)]]))"

text \<open>The body of the loop over the destinations.\<close>

definition roleForDestination ::
  "kube_reader \<Rightarrow> upstream by_namespace \<Rightarrow> resource_ref \<times> resource_ref list \<Rightarrow>
   (service_role \<times> service_role_binding) list go" where
  "roleForDestination kube upstreams = (\<lambda>(dest, srcs).
     gbind (getkube upstreams dest) (\<lambda>destupstream.
       case destupstream of
         None \<Rightarrow> Ret []
       | Some k \<Rightarrow>
           (let destref = ResourceRef (kube_ServiceNamespace k) (kube_ServiceName k);
                ns = kube_ServiceNamespace k;
                name = ''access-'' @ ref_Namespace dest @ ''-'' @ ref_Name dest;
                sr = \<lparr>sr_Status = zero_status, sr_Metadata = new_metadata ns name,
                      sr_Rules = [\<lparr>ar_Services = [svcname destref], ar_Methods = [''*'']\<rparr>]\<rparr>
            in gbind (gmapM (subjectForSource kube upstreams) srcs) (\<lambda>subjects.
                 Ret [(sr, \<lparr>srb_Status = zero_status,
                      srb_Metadata = new_metadata ns (''bind-'' @ ref_Namespace dest @ ''-'' @ ref_Name dest),
                      srb_Subjects = concat subjects,
                      srb_RoleRef = Some \<lparr>roleref_Kind = ''ServiceRole'', roleref_Name = name\<rparr>\<rparr>)]))))"

text \<open>\<open>rng\<close> is the range order of \<open>rulesByDest\<close>.\<close>

definition toIstio ::
  "((resource_ref \<times> resource_ref list) list \<Rightarrow> (resource_ref \<times> resource_ref list) list) \<Rightarrow>
   kube_reader \<Rightarrow> upstream by_namespace \<Rightarrow> policy \<Rightarrow> (service_role list \<times> service_role_binding list) go"
where
  "toIstio rng kube upstreams p =
     (if \<exists>rule \<in> set (policy_Rules p). rule_Destination rule = None then nil_deref
      else
        gbind (gmapM (roleForDestination kube upstreams)
            (rng (map (\<lambda>(dest, srcs). (dest, sortSources srcs)) (rulesByDestination p)))) (\<lambda>pairs.
          Ret (map fst (concat pairs), map snd (concat pairs))))"

section \<open>The syncer\<close>

definition globalConfig :: "string \<Rightarrow> rbac_config" where
  "globalConfig writeNamespace =
     \<lparr>rc_Status = zero_status, rc_Metadata = new_metadata writeNamespace ''default'',
      rc_Mode = RbacConfig_ON, rc_EnforcementMode = EnforcementMode_ENFORCED\<rparr>"

definition policy_updateMetadata :: "(string \<times> string) list \<Rightarrow> metadata \<Rightarrow> metadata" where
  "policy_updateMetadata sel meta =
     meta\<lparr>meta_Annotations :=
            Some (AList.update ''created_by'' ''supergloo'' (map_entries (meta_Annotations meta))),
          meta_Labels :=
            (if meta_Labels meta = None \<and> length sel = 0 then None
             else Some (set_labels sel (map_entries (meta_Labels meta))))\<rparr>"

definition update_resource :: "'r resource_ops \<Rightarrow> (string \<times> string) list \<Rightarrow> 'r \<Rightarrow> 'r" where
  "update_resource ops sel r = SetMetadata ops (policy_updateMetadata sel (GetMetadata ops r)) r"

text \<open>\<open>proto.Equal\<close> on the maps of a binding's subjects.\<close>

definition normal_srb :: "service_role_binding \<Rightarrow> service_role_binding" where
  "normal_srb r = r\<lparr>srb_Subjects := map (sort_key fst) (srb_Subjects r)\<rparr>"

definition preserveServiceRoleBinding :: "service_role_binding transition" where
  "preserveServiceRoleBinding original desired =
     (let original = original\<lparr>srb_Metadata := srb_Metadata desired, srb_Status := srb_Status desired\<rparr>
      in Ret (normal_srb original \<noteq> normal_srb desired))"

definition preserveServiceRole :: "service_role transition" where
  "preserveServiceRole original desired =
     (let original = original\<lparr>sr_Metadata := sr_Metadata desired, sr_Status := sr_Status desired\<rparr>
      in Ret (original \<noteq> desired))"

definition preserveRbacConfig :: "rbac_config transition" where
  "preserveRbacConfig original desired =
     (let original = original\<lparr>rc_Metadata := rc_Metadata desired, rc_Status := rc_Status desired\<rparr>
      in Ret (original \<noteq> desired))"

text \<open>The loop over all namespaces: bindings first, then roles, in each of them.\<close>

definition reconcileRoles ::
  "('c, 'b, 'r) policy_syncer \<Rightarrow> service_role list \<Rightarrow> service_role_binding list \<Rightarrow> string list \<Rightarrow>
   ('b \<times> 'r, unit) act" where
  "reconcileRoles s roles bindings namespaces =
     aforeach (\<lambda>ns.
       abind (on_fst (Reconcile service_role_binding_ops (ps_serviceRoleBindings s) ns
           (filter (\<lambda>srb. meta_Namespace (srb_Metadata srb) = ns) bindings)
           (Some preserveServiceRoleBinding) (ps_WriteSelector s))) (\<lambda>_.
       on_snd (Reconcile service_role_ops (ps_serviceRoles s) ns
           (filter (\<lambda>sr. meta_Namespace (sr_Metadata sr) = ns) roles)
           (Some preserveServiceRole) (ps_WriteSelector s)))) namespaces"

definition removePolicy :: "('c, 'b, 'r) policy_syncer \<Rightarrow> (('c, 'b, 'r) policy_state, unit) act" where
  "removePolicy s =
     abind (on_fst (Reconcile rbac_config_ops (ps_rbacConfigs s) (ps_WriteNamespace s) []
         (Some preserveRbacConfig) (ps_WriteSelector s))) (\<lambda>_.
     abind (alift (kube_Namespaces_List (ps_kubeClient s))) (\<lambda>namespaces.
     on_snd (reconcileRoles s [] [] namespaces)))"

definition syncPolicy ::
  "((resource_ref \<times> resource_ref list) list \<Rightarrow> (resource_ref \<times> resource_ref list) list) \<Rightarrow>
   ('c, 'b, 'r) policy_syncer \<Rightarrow> upstream by_namespace \<Rightarrow> policy \<Rightarrow> (('c, 'b, 'r) policy_state, unit) act"
where
  "syncPolicy rng s upstreams p =
     abind (alift (toIstio rng (ps_kubeClient s) upstreams p)) (\<lambda>(serviceRoles, serviceRolesBindings).
     let rcfg = update_resource rbac_config_ops (ps_WriteSelector s) (globalConfig (ps_WriteNamespace s));
         serviceRoles = map (update_resource service_role_ops (ps_WriteSelector s)) serviceRoles;
         serviceRolesBindings =
           map (update_resource service_role_binding_ops (ps_WriteSelector s)) serviceRolesBindings
     in abind (alift (kube_Namespaces_List (ps_kubeClient s))) (\<lambda>namespaces.
        abind (on_snd (reconcileRoles s serviceRoles serviceRolesBindings namespaces)) (\<lambda>_.
        on_fst (Reconcile rbac_config_ops (ps_rbacConfigs s) (ps_WriteNamespace s) [rcfg]
           (Some preserveRbacConfig) (ps_WriteSelector s)))))"

text \<open>One mesh of the loop in \<open>Sync\<close>: a mesh of another kind is skipped.\<close>

definition syncMeshPolicy ::
  "((resource_ref \<times> resource_ref list) list \<Rightarrow> (resource_ref \<times> resource_ref list) list) \<Rightarrow>
   ('c, 'b, 'r) policy_syncer \<Rightarrow> upstream by_namespace \<Rightarrow> mesh \<Rightarrow> (('c, 'b, 'r) policy_state, unit) act"
where
  "syncMeshPolicy rng s upstreams mesh =
     (case mesh_MeshType mesh of
        Some (Mesh_Istio _) \<Rightarrow>
          (case mesh_Policy mesh of
             None \<Rightarrow> removePolicy s
           | Some policy \<Rightarrow> syncPolicy rng s upstreams policy)
      | _ \<Rightarrow> aret ())"

definition PolicySyncer_Sync ::
  "((resource_ref \<times> resource_ref list) list \<Rightarrow> (resource_ref \<times> resource_ref list) list) \<Rightarrow>
   ('c, 'b, 'r) policy_syncer \<Rightarrow> ('c, 'b, 'r) policy_state syncer" where
  "PolicySyncer_Sync rng s snap =
     abind (acollect (syncMeshPolicy rng s (snap_Upstreams snap)) (snap_List mesh_ops (snap_Meshes snap)))
       (\<lambda>es. alift (ErrorOrNil es))"

end
