(* ===== verification/Consul_Sync.thy ===== *)
theory Consul_Sync
  imports Translator_Snapshot Istio_Names
begin

text \<open>
  The translators for Consul: \<open>ConsulSyncer\<close>, which hands the certificate authority of a mesh
  to Consul Connect (\<open>pkg/translator/consul/encryption_syncer.go\<close>), and \<open>PolicySyncer\<close>,
  which turns a mesh's policy into intentions (\<open>pkg/translator/consul/policy_syncer.go\<close>).

  The client of \<open>github.com/hashicorp/consul/api\<close> is a parameter: a record of the calls the
  code makes, acting on a state \<open>'c\<close>. What its documentation says of these calls is a
  hypothesis of the properties that need it.
\<close>

section \<open>The client\<close>

text \<open>A configuration value is an \<open>interface{}\<close>: a string, or something that is not one.\<close>

datatype config_value = ConfigString string | ConfigOther nat

record ca_config =
  ca_Provider :: string
  ca_Config :: "(string \<times> config_value) list"

datatype intention_action = IntentionAllow | IntentionDeny

record intention =
  int_ID :: string
  int_Action :: intention_action
  int_Meta :: "(string \<times> string) list option"
  int_SourceName :: string
  int_DestinationName :: string

record 'c consul_client =
  consul_CAGetConfig :: "('c, ca_config) act"
  consul_CASetConfig :: "ca_config \<Rightarrow> ('c, unit) act"
  consul_Intentions :: "('c, intention list) act"
  consul_IntentionCreate :: "intention \<Rightarrow> ('c, string) act"
  consul_IntentionDelete :: "string \<Rightarrow> ('c, unit) act"

section \<open>The certificate authority\<close>

definition consul_validateTlsSecret :: "istio_cacerts_secret \<Rightarrow> unit go" where
  "consul_validateTlsSecret secret =
     (if cacerts_CaCert secret = [] then Fail (Errorf ''Ca cert is missing.'')
      else if cacerts_CaKey secret = [] then Fail (Errorf ''Private key is missing.'')
      else if cacerts_RootCert secret \<noteq> [] \<and> cacerts_RootCert secret \<noteq> cacerts_CaCert secret
      then Fail (Errorf ''If root cert is provided it must equal ca cert currently'')
      else if cacerts_CertChain secret \<noteq> []
      then Fail (Errorf ''Updating the root with a cert chain is not supported'')
      else Ret ())"

definition getConsulInnerConfigMap :: "istio_cacerts_secret \<Rightarrow> (string \<times> config_value) list" where
  "getConsulInnerConfigMap secret =
     [(''LeafCertTTL'', ConfigString ''72h''), (''PrivateKey'', ConfigString (cacerts_CaCert secret)),
      (''RootCert'', ConfigString (cacerts_RootCert secret)), (''RotationPeriod'', ConfigString ''2160h'')]"

definition getConsulConfigMap :: "istio_cacerts_secret \<Rightarrow> ca_config" where
  "getConsulConfigMap secret =
     \<lparr>ca_Provider = ''consul'', ca_Config = getConsulInnerConfigMap secret\<rparr>"

text \<open>A missing key reads as nil, which differs from every string.\<close>

definition shouldUpdateCurrentCert :: "'c consul_client \<Rightarrow> istio_cacerts_secret \<Rightarrow> ('c, bool) act" where
  "shouldUpdateCurrentCert client secret s =
     (case consul_CAGetConfig client s of
        (Ret currentConfig, s') \<Rightarrow>
          (let currentRoot = map_of (ca_Config currentConfig) ''RootCert''
           in (Ret (currentRoot \<noteq> Some (ConfigString (cacerts_CaCert secret))), s'))
      | (Fail e, s') \<Rightarrow> (Fail (Errorf ''Error getting current root certificate: %v''), s')
      | (Panic p, s') \<Rightarrow> (Panic p, s'))"

text \<open>\<open>NewClient\<close> is a parameter: it makes the client of an address, or fails.\<close>

definition consul_syncSecret ::
  "(string \<Rightarrow> 'c consul_client go) \<Rightarrow> istio_cacerts_secret \<Rightarrow> int \<Rightarrow> ('c, unit) act" where
  "consul_syncSecret NewClient secret port =
     abind (areplace ''error creating consul client %v'' (alift (NewClient (''127.0.0.1:'' @ fmt_d port)))) (\<lambda>client.
     abind (alift (consul_validateTlsSecret secret)) (\<lambda>_.
     abind (shouldUpdateCurrentCert client secret) (\<lambda>shouldUpdate.
       if \<not> shouldUpdate then aret ()
       else areplace ''Error updating consul root certificate %v.''
              (consul_CASetConfig client (getConsulConfigMap secret)))))"

text \<open>One mesh of the loop in \<open>ConsulSyncer.Sync\<close>.\<close>

definition consul_syncMesh ::
  "(string \<Rightarrow> 'c consul_client go) \<Rightarrow> int \<Rightarrow> istio_cacerts_secret list \<Rightarrow> mesh \<Rightarrow> ('c, unit) act" where
  "consul_syncMesh NewClient LocalPort secrets mesh =
     (case mesh_MeshType mesh of
        Some (Mesh_Consul _) \<Rightarrow>
          (case mesh_Encryption mesh of
             None \<Rightarrow> aret ()
           | Some encryption \<Rightarrow>
               (case enc_Secret encryption of
                  None \<Rightarrow> aret ()
                | Some encryptionSecret \<Rightarrow>
                    abind (alift (list_Find cacerts_Metadata (ref_Namespace encryptionSecret)
                        (ref_Name encryptionSecret) secrets)) (\<lambda>secret.
                      consul_syncSecret NewClient secret (if LocalPort \<le> 0 then 8500 else LocalPort))))
      | _ \<Rightarrow> aret ())"

definition ConsulSyncer_Sync :: "(string \<Rightarrow> 'c consul_client go) \<Rightarrow> int \<Rightarrow> 'c syncer" where
  "ConsulSyncer_Sync NewClient LocalPort snap =
     aforeach (consul_syncMesh NewClient LocalPort
         (snap_List istio_cacerts_secret_ops (snap_Istiocerts snap)))
       (snap_List mesh_ops (snap_Meshes snap))"

section \<open>Intentions\<close>

definition metadataName :: string where
  "metadataName = ''supergloo.name''"

text \<open>\<open>upstreams[ref.Namespace].Find(ref.Namespace, ref.Name)\<close>.\<close>

definition consul_get :: "upstream by_namespace \<Rightarrow> resource_ref \<Rightarrow> consul_upstream go" where
  "consul_get upstreams ref =
     gbind (list_Find upstream_Metadata (ref_Namespace ref) (ref_Name ref)
         (byNamespace_get upstreams (ref_Namespace ref))) (\<lambda>up.
     gbind (upstream_Type up) (\<lambda>t.
       case t of Some (UpstreamSpec_Consul c) \<Rightarrow> Ret c | _ \<Rightarrow> Fail (Errorf ''not consul upstream'')))"

text \<open>\<open>Sprintf\<close> without arguments: the name is the format string.\<close>

definition intentionName :: string where
  "intentionName = ''consuleSource.ServiceName-consuleDestination.ServiceName''"

definition desiredIntention :: "upstream by_namespace \<Rightarrow> rule \<Rightarrow> intention list go" where
  "desiredIntention upstreams rule =
     (case (rule_Source rule, rule_Destination rule) of
        (Some src, Some dest) \<Rightarrow>
          gbind (consul_get upstreams src) (\<lambda>consuleSource.
          gbind (consul_get upstreams dest) (\<lambda>consuleDestination.
            Ret [\<lparr>int_ID = [], int_Action = IntentionAllow,
                  int_Meta = Some [(metadataName, intentionName)],
                  int_SourceName = cu_ServiceName consuleSource,
                  int_DestinationName = cu_ServiceName consuleDestination\<rparr>]))
      | _ \<Rightarrow> Ret [])"

definition int_Name :: "intention \<Rightarrow> string" where
  "int_Name i = (case map_of (map_entries (int_Meta i)) metadataName of None \<Rightarrow> [] | Some n \<Rightarrow> n)"

fun remove_first :: "('a \<Rightarrow> bool) \<Rightarrow> 'a list \<Rightarrow> 'a list" where
  "remove_first P [] = []"
| "remove_first P (x # xs) = (if P x then xs else x # remove_first P xs)"

text \<open>The loop labelled \<open>Outloop\<close>: the desired intentions that are left, and those to remove.\<close>

fun planIntentions :: "intention list \<Rightarrow> intention list \<Rightarrow> intention list \<times> intention list" where
  "planIntentions desired [] = (desired, [])"
| "planIntentions desired (intention # intentions) =
     (if int_Meta intention = None \<or> length (int_Name intention) = 0
      then planIntentions desired intentions
      else if \<exists>d \<in> set desired. int_Name intention = int_Name d
      then planIntentions (remove_first (\<lambda>d. int_Name intention = int_Name d) desired) intentions
      else (case planIntentions desired intentions of (add, remove) \<Rightarrow> (add, intention # remove)))"

definition consul_syncPolicy ::
  "'c consul_client go \<Rightarrow> upstream by_namespace \<Rightarrow> policy \<Rightarrow> ('c, unit) act" where
  "consul_syncPolicy NewClient upstreams p =
     abind (alift NewClient) (\<lambda>client.
     abind (alift (gmapM (desiredIntention upstreams) (policy_Rules p))) (\<lambda>desired.
     abind (consul_Intentions client) (\<lambda>intentions.
       (case planIntentions (concat desired) intentions of
          (add, remove) \<Rightarrow>
            abind (acollect (\<lambda>i. abind (consul_IntentionCreate client i) (\<lambda>_. aret ())) add) (\<lambda>es.
            abind (acollect (\<lambda>i. consul_IntentionDelete client (int_ID i)) remove) (\<lambda>es'.
              alift (ErrorOrNil (es @ es'))))))))"

definition consul_policyForMesh ::
  "'c consul_client go \<Rightarrow> upstream by_namespace \<Rightarrow> mesh \<Rightarrow> ('c, unit) act" where
  "consul_policyForMesh NewClient upstreams mesh =
     (case mesh_MeshType mesh of
        Some (Mesh_Consul _) \<Rightarrow>
          (case mesh_Policy mesh of
             None \<Rightarrow> aret ()
           | Some policy \<Rightarrow> consul_syncPolicy NewClient upstreams policy)
      | _ \<Rightarrow> aret ())"

definition ConsulPolicySyncer_Sync :: "'c consul_client go \<Rightarrow> 'c syncer" where
  "ConsulPolicySyncer_Sync NewClient snap =
     aforeach (consul_policyForMesh NewClient (snap_Upstreams snap)) (snap_List mesh_ops (snap_Meshes snap))"

end
