(* ===== verification/Prometheus_Sync.thy ===== *)
theory Prometheus_Sync
  imports Prometheus
begin

text \<open>
  The Prometheus syncer (\<open>pkg/translator/shared/prometheus_syncer.go\<close>) and its instances for
  Istio and Linkerd. The state has two parts: the store of the configuration client and the
  cluster.

  The scrape configurations are the values that the YAML texts of \<open>scrape_configs.go\<close> denote;
  parsing them when the program starts is not modelled.
\<close>

section \<open>The syncer\<close>

record ('p, 'k) prometheus_syncer =
  ps_Kube :: "'k kube_writer option"
  ps_PrometheusClient :: "('p, prometheus_resource) client"
  ps_DesiredScrapeConfigs :: "scrape_config list"
  ps_GetConfigMap :: "mesh \<Rightarrow> resource_ref option go"

definition getPrometheusConfig ::
  "('p, 'k) prometheus_syncer \<Rightarrow> resource_ref \<Rightarrow> ('p, prometheus_config option) act" where
  "getPrometheusConfig s ref =
     abind (awrap ''reading prometheus config from %v''
       (client_Read (ps_PrometheusClient s) (ref_Namespace ref) (ref_Name ref))) (\<lambda>cfg.
     awrap ''parsing prometheus config from %v'' (alift (ConfigFromResource (Some cfg))))"

definition writePrometheusConfig ::
  "('p, 'k) prometheus_syncer \<Rightarrow> resource_ref \<Rightarrow> prometheus_config \<Rightarrow> ('p, unit) act" where
  "writePrometheusConfig s ref cfg =
     abind (awrap ''fetching prometheus config from %v for update''
       (client_Read (ps_PrometheusClient s) (ref_Namespace ref) (ref_Name ref))) (\<lambda>originalCfg.
     abind (awrap ''converting prometheus config to resource %v'' (alift (ConfigToResource (Some cfg)))) (\<lambda>desiredCfg.
     case desiredCfg of
       None \<Rightarrow> alift nil_deref
     | Some desired \<Rightarrow>
         abind (awrap ''updating prometheus configmap''
           (client_Write (ps_PrometheusClient s) (desired\<lparr>pr_Metadata := pr_Metadata originalCfg\<rparr>) True)) (\<lambda>_.
         aret ())))"

definition prometheus_syncMesh ::
  "('p, 'k) prometheus_syncer \<Rightarrow> mesh \<Rightarrow> ('p \<times> 'k, unit) act" where
  "prometheus_syncMesh s mesh =
     (case mesh_Observability mesh of
        None \<Rightarrow> aret ()
      | Some obs \<Rightarrow>
          (case obs_Prometheus obs of
             None \<Rightarrow> aret ()
           | Some prom \<Rightarrow>
               if \<not> prom_EnableMetrics prom then aret ()
               else
                 abind (alift (ps_GetConfigMap s mesh)) (\<lambda>configMap.
                 case configMap of
                   None \<Rightarrow> aret ()
                 | Some configMap \<Rightarrow>
                     abind (awrap ''retrieving existing prometheus config''
                       (on_fst (getPrometheusConfig s configMap))) (\<lambda>prometheusConfig.
                     case prometheusConfig of
                       None \<Rightarrow> alift nil_deref
                     | Some cfg \<Rightarrow>
                         (case AddScrapeConfigs (ps_DesiredScrapeConfigs s) cfg of
                            (cfg', changed) \<Rightarrow>
                              if \<not> changed then aret ()
                              else
                                abind (awrap ''writing prometheus config''
                                  (on_fst (writePrometheusConfig s configMap cfg'))) (\<lambda>_.
                                if length (prom_PodLabels prom) < 1 then aret ()
                                else
                                  awrap ''restarting prometheus pods''
                                    (on_snd (RestartPods (ps_Kube s) (ref_Namespace configMap)
                                       (prom_PodLabels prom)))))))))"

definition PrometheusSyncer_Sync :: "('p, 'k) prometheus_syncer \<Rightarrow> ('p \<times> 'k) syncer" where
  "PrometheusSyncer_Sync s snap =
     abind (acollect (\<lambda>mesh. awrap ''syncing mesh %v failed'' (prometheus_syncMesh s mesh))
       (snap_List mesh_ops (snap_Meshes snap))) (\<lambda>errs. alift (ErrorOrNil errs))"

section \<open>Istio\<close>

definition keep_source :: "string list \<Rightarrow> string \<Rightarrow> relabel_config" where
  "keep_source labels regex =
     zero_relabel\<lparr>rl_SourceLabels := labels, rl_Action := ''keep'', rl_Regex := JStr regex\<rparr>"

definition replace_into :: "string \<Rightarrow> string \<Rightarrow> relabel_config" where
  "replace_into label target =
     zero_relabel\<lparr>rl_SourceLabels := [label], rl_Action := ''replace'', rl_TargetLabel := target\<rparr>"

definition drop_source :: "string \<Rightarrow> string \<Rightarrow> relabel_config" where
  "drop_source label regex =
     zero_relabel\<lparr>rl_SourceLabels := [label], rl_Regex := JStr regex, rl_Action := ''drop''\<rparr>"

definition on_labels :: "string \<Rightarrow> string \<Rightarrow> relabel_config" where
  "on_labels action regex = zero_relabel\<lparr>rl_Action := action, rl_Regex := JStr regex\<rparr>"

text \<open>A job that scrapes the endpoints of a service of the control plane.\<close>

definition istio_job :: "string \<Rightarrow> string \<Rightarrow> scrape_config" where
  "istio_job job regex =
     zero_scrape_config
       \<lparr>sc_JobName := job, sc_ScrapeInterval := ''5s'',
        sc_KubernetesSdConfigs := [\<lparr>sd_Namespaces = Some [''istio-system''], sd_Role = ''endpoints''\<rparr>],
        sc_RelabelConfigs :=
          [keep_source [''__meta_kubernetes_service_name'', ''__meta_kubernetes_endpoint_port_name''] regex]\<rparr>"

definition IstioScrapeConfigs :: "scrape_config list" where
  "IstioScrapeConfigs =
     [istio_job ''istio-mesh'' ''istio-telemetry;prometheus'',
      zero_scrape_config
        \<lparr>sc_JobName := ''envoy-stats'', sc_MetricsPath := ''/stats/prometheus'',
         sc_KubernetesSdConfigs := [\<lparr>sd_Namespaces = None, sd_Role = ''pod''\<rparr>],
         sc_RelabelConfigs :=
           [keep_source [''__meta_kubernetes_pod_container_port_name''] ''.*-envoy-prom'',
            zero_relabel
              \<lparr>rl_SourceLabels := [''__address__'', ''__meta_kubernetes_pod_annotation_prometheus_io_port''],
               rl_Action := ''replace'',
               rl_Regex := JStr (''([^:]+)(?::'' @ [CHR 0x5C] @ ''d+)?;('' @ [CHR 0x5C] @ ''d+)''),
               rl_Replacement := ''$1:15090'', rl_TargetLabel := ''__address__''\<rparr>,
            on_labels ''labelmap'' ''__meta_kubernetes_pod_label_(.+)'',
            replace_into ''__meta_kubernetes_namespace'' ''namespace'',
            replace_into ''__meta_kubernetes_pod_name'' ''pod_name''],
         sc_MetricRelabelConfigs :=
           [drop_source ''cluster_name'' ''(outbound|inbound|prometheus_stats).*'',
            drop_source ''tcp_prefix'' ''(outbound|inbound|prometheus_stats).*'',
            drop_source ''listener_address'' ''(.+)'',
            drop_source ''http_conn_manager_listener_prefix'' ''(.+)'',
            drop_source ''http_conn_manager_prefix'' ''(.+)'',
            drop_source ''__name__'' ''envoy_tls.*'',
            drop_source ''__name__'' ''envoy_tcp_downstream.*'',
            drop_source ''__name__'' ''envoy_http_(stats|admin).*'',
            drop_source ''__name__'' ''envoy_cluster_(lb|retry|bind|internal|max|original).*'']\<rparr>,
      istio_job ''istio-policy'' ''istio-policy;http-monitoring'',
      istio_job ''istio-telemetry'' ''istio-telemetry;http-monitoring'',
      istio_job ''pilot'' ''istio-pilot;http-monitoring'',
      istio_job ''galley'' ''istio-galley;http-monitoring'']"

definition istio_NewPrometheusSyncer ::
  "'k kube_writer option \<Rightarrow> ('p, prometheus_resource) client \<Rightarrow> ('p, 'k) prometheus_syncer" where
  "istio_NewPrometheusSyncer kube prometheusClient =
     \<lparr>ps_Kube = kube, ps_PrometheusClient = prometheusClient, ps_DesiredScrapeConfigs = IstioScrapeConfigs,
      ps_GetConfigMap = (\<lambda>mesh.
        case mesh_MeshType mesh of
          Some (Mesh_Istio istioMesh) \<Rightarrow>
            (case istioMesh of None \<Rightarrow> nil_deref | Some i \<Rightarrow> Ret (istio_PrometheusConfigmap i))
        | _ \<Rightarrow> Ret None)\<rparr>"

section \<open>Linkerd\<close>

definition LinkerdScrapeConfigs :: "scrape_config list" where
  "LinkerdScrapeConfigs =
     [zero_scrape_config
        \<lparr>sc_JobName := ''linkerd-controller'',
         sc_KubernetesSdConfigs := [\<lparr>sd_Namespaces = Some [''{{.Namespace}}''], sd_Role = ''pod''\<rparr>],
         sc_RelabelConfigs :=
           [keep_source [''__meta_kubernetes_pod_label_linkerd_io_control_plane_component'',
              ''__meta_kubernetes_pod_container_port_name''] ''(.*);admin-http$'',
            replace_into ''__meta_kubernetes_pod_container_name'' ''component'']\<rparr>,
      zero_scrape_config
        \<lparr>sc_JobName := ''linkerd-proxy'',
         sc_KubernetesSdConfigs := [\<lparr>sd_Namespaces = None, sd_Role = ''pod''\<rparr>],
         sc_RelabelConfigs :=
           [keep_source [''__meta_kubernetes_pod_container_name'', ''__meta_kubernetes_pod_container_port_name'',
              ''__meta_kubernetes_pod_label_linkerd_io_control_plane_ns'']
              ''^linkerd-proxy;linkerd-metrics;{{.Namespace}}$'',
            replace_into ''__meta_kubernetes_namespace'' ''namespace'',
            replace_into ''__meta_kubernetes_pod_name'' ''pod'',
            replace_into ''__meta_kubernetes_pod_label_linkerd_io_proxy_job'' ''k8s_job'',
            on_labels ''labelmap'' ''__meta_kubernetes_pod_label_linkerd_io_proxy_(.+)'',
            on_labels ''labeldrop'' ''__meta_kubernetes_pod_label_linkerd_io_proxy_(.+)'',
            on_labels ''labelmap'' ''__meta_kubernetes_pod_label_linkerd_io_(.+)'']\<rparr>]"

definition linkerd2_NewPrometheusSyncer ::
  "'k kube_writer option \<Rightarrow> ('p, prometheus_resource) client \<Rightarrow> ('p, 'k) prometheus_syncer" where
  "linkerd2_NewPrometheusSyncer kube prometheusClient =
     \<lparr>ps_Kube = kube, ps_PrometheusClient = prometheusClient, ps_DesiredScrapeConfigs = LinkerdScrapeConfigs,
      ps_GetConfigMap = (\<lambda>mesh.
        case mesh_MeshType mesh of
          Some (Mesh_Linkerd2 linkerdMesh) \<Rightarrow>
            (case linkerdMesh of None \<Rightarrow> nil_deref | Some l \<Rightarrow> Ret (linkerd2_PrometheusConfigmap l))
        | _ \<Rightarrow> Ret None)\<rparr>"

end
