(* ===== verification/Helm.thy ===== *)
theory Helm
  imports Go_Strings
begin

text \<open>
  The Helm client: \<open>pkg/install/helm/helm.go\<close>. The package keeps two global variables, the
  settings and the tunnel to Tiller, and finds charts in the file system.

  The state has two parts: the globals (with every tunnel ever made, since a tunnel is a
  pointer whose stop channel may be closed once only), and the world outside. The network,
  Tiller, the Kubernetes API and the file system are parameters, in \<open>helm_env\<close>.
\<close>

section \<open>Paths\<close>

text \<open>\<open>filepath.Clean\<close>, \<open>filepath.Join\<close> and \<open>filepath.IsAbs\<close> for Unix paths.\<close>

definition filepath_IsAbs :: "string \<Rightarrow> bool" where
  "filepath_IsAbs p \<longleftrightarrow> strings_HasPrefix p ''/''"

fun clean_step :: "bool \<Rightarrow> string \<Rightarrow> string list \<Rightarrow> string list" where
  "clean_step rooted elem acc =
     (if elem = [] \<or> elem = ''.'' then acc
      else if elem = ''..'' then
        (if acc \<noteq> [] \<and> hd acc \<noteq> ''..'' then tl acc else if rooted then acc else elem # acc)
      else elem # acc)"

definition filepath_Clean :: "string \<Rightarrow> string" where
  "filepath_Clean p =
     (let rooted = filepath_IsAbs p;
          path = strings_Join (rev (fold (clean_step rooted) (strings_Split p ''/'') [])) ''/''
      in if rooted then CHR ''/'' # path else if path = [] then ''.'' else path)"

definition filepath_Join :: "string list \<Rightarrow> string" where
  "filepath_Join elems =
     (let es = filter (\<lambda>e. e \<noteq> []) elems in if es = [] then [] else filepath_Clean (strings_Join es ''/''))"

section \<open>State and environment\<close>

text \<open>\<open>helm_env.EnvSettings\<close>, and the two package variables.\<close>

record helm_settings =
  hs_Home :: string
  hs_TillerHost :: string
  hs_KubeContext :: string
  hs_KubeConfig :: string
  hs_Debug :: bool
  hs_TillerNamespace :: string
  hs_TillerConnectionTimeout :: int

record tunnel =
  tun_Local :: int
  tun_Closed :: bool

record helm_state =
  helm_Settings :: helm_settings
  helm_tillerTunnel :: "nat option"
  helm_Tunnels :: "tunnel list"

text \<open>\<open>helm.NewClient\<close> with the host and the timeout.\<close>

record helm_client =
  hc_Host :: string
  hc_ConnectTimeout :: int

text \<open>
  \<open>he_ForwardPort\<close> gives the tunnel's local port (0 before one is found) with its error.
  \<open>he_Stat\<close> tells whether a path is a directory.
\<close>

record 'k helm_env =
  he_DefaultHelmHome :: string
  he_ExpandEnv :: "string \<Rightarrow> string"
  he_LookupIP :: "string \<Rightarrow> ('k, unit) act"
  he_ClientConfig :: "string \<Rightarrow> string \<Rightarrow> ('k, unit) act"
  he_NewForConfig :: "('k, unit) act"
  he_GetTillerPodName :: "string \<Rightarrow> ('k, string) act"
  he_ForwardPort :: "string \<Rightarrow> string \<Rightarrow> ('k, int \<times> err option) act"
  he_PingTiller :: "helm_client \<Rightarrow> ('k, unit) act"
  he_InstallRelease :: "helm_client \<Rightarrow> string \<Rightarrow> string \<Rightarrow> string \<Rightarrow> string \<Rightarrow> ('k, string) act"
  he_DeleteRelease :: "helm_client \<Rightarrow> string \<Rightarrow> bool \<Rightarrow> ('k, unit) act"
  he_Stat :: "string \<Rightarrow> ('k, bool) act"
  he_IsNotExist :: "err \<Rightarrow> bool"
  he_Getwd :: "('k, string) act"
  he_MkdirAll :: "string \<Rightarrow> ('k, unit) act"
  he_VerifyChart :: "string \<Rightarrow> string \<Rightarrow> ('k, unit) act"
  he_FindChart :: "string list \<Rightarrow> ('k, string) act"
  he_DownloadTo :: "helm_settings \<Rightarrow> string list \<Rightarrow> bool \<Rightarrow> string \<Rightarrow> string \<Rightarrow> string \<Rightarrow> ('k, string) act"

text \<open>An action on the globals and the world.\<close>

type_synonym ('k, 'a) helm_act = "(helm_state \<times> 'k, 'a) act"

definition getSettings :: "('k, helm_settings) helm_act" where
  "getSettings = on_fst (aget helm_Settings)"

definition setTillerHost :: "string \<Rightarrow> ('k, unit) helm_act" where
  "setTillerHost host =
     on_fst (amodify (\<lambda>h. h\<lparr>helm_Settings := (helm_Settings h)\<lparr>hs_TillerHost := host\<rparr>\<rparr>))"

section \<open>The connection to Tiller\<close>

text \<open>
  \<open>EnvSettings.AddFlags\<close> of Helm: declaring a flag sets its variable to the flag's default.
\<close>

definition AddFlags :: "'k helm_env \<Rightarrow> ('k, unit) helm_act" where
  "AddFlags env =
     on_fst (amodify (\<lambda>h. h\<lparr>helm_Settings :=
       \<lparr>hs_Home = he_DefaultHelmHome env, hs_TillerHost = [], hs_KubeContext = [], hs_KubeConfig = [],
        hs_Debug = False, hs_TillerNamespace = ''kube-system'', hs_TillerConnectionTimeout = 300\<rparr>\<rparr>))"

definition setupTillerHost :: "'k helm_env \<Rightarrow> ('k, unit) helm_act" where
  "setupTillerHost env =
     (let tiller = ''tiller-deploy.kube-system.svc.cluster.local'' in
      abind (atry (on_snd (he_LookupIP env tiller))) (\<lambda>err.
        case err of Inr _ \<Rightarrow> setTillerHost (tiller @ '':44134'') | Inl _ \<Rightarrow> aret ()))"

definition configForContext :: "'k helm_env \<Rightarrow> string \<Rightarrow> string \<Rightarrow> ('k, unit) act" where
  "configForContext env context kubeconfig =
     areplace ''could not get Kubernetes config for context %q: %s'' (he_ClientConfig env context kubeconfig)"

definition getKubeClient :: "'k helm_env \<Rightarrow> string \<Rightarrow> string \<Rightarrow> ('k, unit) act" where
  "getKubeClient env context kubeconfig =
     abind (configForContext env context kubeconfig) (\<lambda>_.
       areplace ''could not get Kubernetes client: %s'' (he_NewForConfig env))"

text \<open>
  \<open>portforwarder.New\<close> returns the tunnel also when forwarding its port fails, and no tunnel
  when there is no pod of Tiller.
\<close>

definition portforwarder_New :: "'k helm_env \<Rightarrow> string \<Rightarrow> ('k, nat option \<times> err option) helm_act" where
  "portforwarder_New env namespace =
     abind (atry (on_snd (he_GetTillerPodName env namespace))) (\<lambda>pod.
       case pod of
         Inl e \<Rightarrow> aret (None, Some e)
       | Inr podName \<Rightarrow>
           abind (on_snd (he_ForwardPort env namespace podName)) (\<lambda>(local, err).
           abind (on_fst (aget (\<lambda>h. length (helm_Tunnels h)))) (\<lambda>t.
           abind (on_fst (amodify (\<lambda>h. h\<lparr>helm_Tunnels := helm_Tunnels h @
             [\<lparr>tun_Local = local, tun_Closed = False\<rparr>]\<rparr>))) (\<lambda>_.
           aret (Some t, err)))))"

definition setupConnection :: "'k helm_env \<Rightarrow> ('k, unit) helm_act" where
  "setupConnection env =
     abind (AddFlags env) (\<lambda>_.
     abind (setupTillerHost env) (\<lambda>_.
     abind getSettings (\<lambda>settings.
       if hs_TillerHost settings = [] then
         abind (on_snd (getKubeClient env (hs_KubeContext settings) (hs_KubeConfig settings))) (\<lambda>_.
         abind (portforwarder_New env (hs_TillerNamespace settings)) (\<lambda>(t, err).
         abind (on_fst (amodify (\<lambda>h. h\<lparr>helm_tillerTunnel := t\<rparr>))) (\<lambda>_.
         case err of
           Some e \<Rightarrow> afail e
         | None \<Rightarrow>
             abind (on_fst (aget (\<lambda>h. case t of None \<Rightarrow> 0 | Some i \<Rightarrow> tun_Local (helm_Tunnels h ! i)))) (\<lambda>local.
             setTillerHost (''127.0.0.1:'' @ fmt_d local)))))
       else aret ())))"

definition GetHelmClient :: "'k helm_env \<Rightarrow> ('k, helm_client) helm_act" where
  "GetHelmClient env =
     abind (setupConnection env) (\<lambda>_.
     abind getSettings (\<lambda>settings.
     let helmClient = \<lparr>hc_Host = hs_TillerHost settings, hc_ConnectTimeout = hs_TillerConnectionTimeout settings\<rparr> in
     abind (on_snd (he_PingTiller env helmClient)) (\<lambda>_.
     aret helmClient)))"

text \<open>\<open>Tunnel.Close\<close> closes the stop channel, which panics the second time.\<close>

definition Teardown :: "('k, unit) helm_act" where
  "Teardown = on_fst (\<lambda>h.
     case helm_tillerTunnel h of
       None \<Rightarrow> (Ret (), h)
     | Some i \<Rightarrow>
         (if tun_Closed (helm_Tunnels h ! i) then (Panic ''close of closed channel'', h)
          else (Ret (), h\<lparr>helm_Tunnels := (helm_Tunnels h)[i := (helm_Tunnels h ! i)\<lparr>tun_Closed := True\<rparr>]\<rparr>)))"

section \<open>Charts\<close>

text \<open>\<open>helmpath.Home\<close> and \<open>filepath.Abs\<close>.\<close>

definition Home_Repository :: "'k helm_env \<Rightarrow> helm_settings \<Rightarrow> string" where
  "Home_Repository env settings = filepath_Join [he_ExpandEnv env (hs_Home settings), ''repository'']"

definition Home_Archive :: "'k helm_env \<Rightarrow> helm_settings \<Rightarrow> string" where
  "Home_Archive env settings = filepath_Join [he_ExpandEnv env (hs_Home settings), ''cache'', ''archive'']"

definition filepath_Abs :: "'k helm_env \<Rightarrow> string \<Rightarrow> ('k, string) act" where
  "filepath_Abs env path =
     (if filepath_IsAbs path then aret (filepath_Clean path)
      else abind (he_Getwd env) (\<lambda>wd. aret (filepath_Join [wd, path])))"

text \<open>
  The three steps of \<open>locateChartPath\<close>: a path that exists, a chart of the local repository,
  and a download. The settings do not change while a chart is located.
\<close>

definition existingChart :: "'k helm_env \<Rightarrow> string \<Rightarrow> bool \<Rightarrow> string \<Rightarrow> bool \<Rightarrow> ('k, string) act" where
  "existingChart env name verify keyring isDir =
     abind (filepath_Abs env name) (\<lambda>abs.
       if verify then
         (if isDir then afail (Errorf ''cannot verify a directory'')
          else abind (he_VerifyChart env abs keyring) (\<lambda>_. aret abs))
       else aret abs)"

definition downloadChart ::
  "'k helm_env \<Rightarrow> helm_settings \<Rightarrow> string \<Rightarrow> string \<Rightarrow> string \<Rightarrow> string \<Rightarrow> string \<Rightarrow> bool \<Rightarrow> string \<Rightarrow>
   string \<Rightarrow> string \<Rightarrow> string \<Rightarrow> ('k, string) act" where
  "downloadChart env settings repoURL username password name version verify keyring certFile keyFile caFile =
     abind (if repoURL \<noteq> []
            then he_FindChart env [repoURL, username, password, name, version, certFile, keyFile, caFile]
            else aret name) (\<lambda>name.
     let archive = Home_Archive env settings in
     abind (abind (atry (he_Stat env archive)) (\<lambda>stat.
       case stat of
         Inl e \<Rightarrow> (if he_IsNotExist env e then abind (atry (he_MkdirAll env archive)) (\<lambda>_. aret ()) else aret ())
       | Inr _ \<Rightarrow> aret ())) (\<lambda>_.
     abind (atry (he_DownloadTo env settings [keyring, username, password] verify name version archive)) (\<lambda>r.
       case r of
         Inr filename \<Rightarrow> filepath_Abs env filename
       | Inl e \<Rightarrow>
           if hs_Debug settings then afail e
           else afail (Errorf ''failed to download %q (hint: running `helm repo update` may help)''))))"

definition locateChartPath ::
  "'k helm_env \<Rightarrow> helm_settings \<Rightarrow> string \<Rightarrow> string \<Rightarrow> string \<Rightarrow> string \<Rightarrow> string \<Rightarrow> bool \<Rightarrow> string \<Rightarrow>
   string \<Rightarrow> string \<Rightarrow> string \<Rightarrow> ('k, string) act" where
  "locateChartPath env settings repoURL username password name version verify keyring certFile keyFile caFile =
     (let name = strings_TrimSpace name; version = strings_TrimSpace version in
      abind (atry (he_Stat env name)) (\<lambda>fi.
        case fi of
          Inr isDir \<Rightarrow> existingChart env name verify keyring isDir
        | Inl _ \<Rightarrow>
            if filepath_IsAbs name \<or> strings_HasPrefix name ''.'' then afail (Errorf ''path %q not found'')
            else
              (let crepo = filepath_Join [Home_Repository env settings, name] in
               abind (atry (he_Stat env crepo)) (\<lambda>st.
                 case st of
                   Inr _ \<Rightarrow> filepath_Abs env crepo
                 | Inl _ \<Rightarrow>
                     downloadChart env settings repoURL username password name version verify keyring
                       certFile keyFile caFile))))"

definition LocateChartPathDefault :: "'k helm_env \<Rightarrow> string \<Rightarrow> ('k, string) helm_act" where
  "LocateChartPathDefault env name =
     abind getSettings (\<lambda>settings.
       on_snd (locateChartPath env settings [] [] [] name [] False [] [] [] []))"

definition LocateChartRepoReleaseDefault :: "'k helm_env \<Rightarrow> string \<Rightarrow> string \<Rightarrow> ('k, string) helm_act" where
  "LocateChartRepoReleaseDefault env repoUrl release =
     abind getSettings (\<lambda>settings.
       on_snd (locateChartPath env settings repoUrl [] [] release [] False [] [] [] []))"

end
