(* ===== verification/Kube_Manifest.thy ===== *)
theory Kube_Manifest
  imports Go_Strings
begin

text \<open>
  Kubernetes manifests: parsing (\<open>pkg/install/shared/parse_kube_manifest.go\<close>), creating,
  updating and deleting the parsed objects (\<open>install_kube_manifest.go\<close>) and custom resource
  definitions (\<open>crd.go\<close>).

  The YAML library and the Kubernetes clients are parameters. A Kubernetes object is its Go
  type, the metadata the code reads and writes, and a body the code passes on.
\<close>

section \<open>Objects\<close>

text \<open>The Go types the code switches over; \<open>K_Other\<close> is any other type.\<close>

datatype kube_type =
    K_Namespace | K_ConfigMap | K_ServiceAccount | K_Service | K_Pod
  | K_ClusterRole | K_ClusterRoleBinding | K_Job
  | K_Deployment | K_DaemonSet | K_ExtDeployment | K_ExtDaemonSet
  | K_CustomResourceDefinition | K_MutatingWebhookConfiguration | K_HorizontalPodAutoscaler
  | K_Other string

record kube_object =
  ko_Type :: kube_type
  ko_Name :: string
  ko_Namespace :: string
  ko_ResourceVersion :: string
  ko_Body :: string

section \<open>Parsing\<close>

text \<open>
  The YAML library: an untyped value (nil for an empty document), the type metadata, the object of
  a type, and the text of an untyped value.
\<close>

datatype yaml_value =
    YMap "(string \<times> yaml_value) list"
  | YSeq "yaml_value list"
  | YScalar string

type_synonym untyped_object = "(string \<times> yaml_value) list"

record type_meta =
  tm_Kind :: string
  tm_APIVersion :: string

record yaml_lib =
  yl_Untyped :: "string \<Rightarrow> untyped_object option go"
  yl_TypeMeta :: "string \<Rightarrow> type_meta go"
  yl_Object :: "kube_type \<Rightarrow> string \<Rightarrow> kube_object go"
  yl_Marshal :: "yaml_value \<Rightarrow> string go"

text \<open>The switch over the kind.\<close>

definition typeOfKind :: "type_meta \<Rightarrow> kube_type option" where
  "typeOfKind tm =
     (let kind = tm_Kind tm in
      if kind = ''Namespace'' then Some K_Namespace
      else if kind = ''ServiceAccount'' then Some K_ServiceAccount
      else if kind = ''ClusterRole'' then Some K_ClusterRole
      else if kind = ''ClusterRoleBinding'' then Some K_ClusterRoleBinding
      else if kind = ''Job'' then Some K_Job
      else if kind = ''ConfigMap'' then Some K_ConfigMap
      else if kind = ''Service'' then Some K_Service
      else if kind = ''Pod'' then Some K_Pod
      else if kind = ''Deployment''
        then Some (if tm_APIVersion tm = ''extensions/v1beta1'' then K_ExtDeployment else K_Deployment)
      else if kind = ''DaemonSet''
        then Some (if tm_APIVersion tm = ''extensions/v1beta1'' then K_ExtDaemonSet else K_DaemonSet)
      else if kind = ''CustomResourceDefinition'' then Some K_CustomResourceDefinition
      else if kind = ''MutatingWebhookConfiguration'' then Some K_MutatingWebhookConfiguration
      else if kind = ''HorizontalPodAutoscaler'' then Some K_HorizontalPodAutoscaler
      else None)"

text \<open>
  Options of outcomes: \<open>None\<close> when the fuel runs out. A \<open>List\<close> object marshals its items and
  converts the text of each, which may be a list again.
\<close>

fun omapM :: "('a \<Rightarrow> 'b go option) \<Rightarrow> 'a list \<Rightarrow> 'b list go option" where
  "omapM f [] = Some (Ret [])"
| "omapM f (x # xs) =
     (case f x of
        None \<Rightarrow> None
      | Some (Ret y) \<Rightarrow> map_option (\<lambda>r. gbind r (\<lambda>ys. Ret (y # ys))) (omapM f xs)
      | Some (Fail e) \<Rightarrow> Some (Fail e)
      | Some (Panic p) \<Rightarrow> Some (Panic p))"

text \<open>The body of the loop over the items.\<close>

definition convertListItem ::
  "yaml_lib \<Rightarrow> (string \<Rightarrow> kube_object list go option) \<Rightarrow> yaml_value \<Rightarrow> kube_object list go option" where
  "convertListItem lib convert item =
     (case gwrap ''marshalling item yaml'' (yl_Marshal lib item) of
        Ret itemYaml \<Rightarrow> map_option (gwrap ''converting resource in list'') (convert itemYaml)
      | Fail e \<Rightarrow> Some (Fail e)
      | Panic p \<Rightarrow> Some (Panic p))"

definition convertUntypedList ::
  "yaml_lib \<Rightarrow> (string \<Rightarrow> kube_object list go option) \<Rightarrow> untyped_object \<Rightarrow> kube_object list go option" where
  "convertUntypedList lib convert untyped =
     (case map_of untyped ''items'' of
        None \<Rightarrow> Some (Fail (Errorf ''list object missing items''))
      | Some (YSeq items) \<Rightarrow>
          map_option (\<lambda>r. gbind r (\<lambda>objs. Ret (concat objs)))
            (omapM (convertListItem lib convert) items)
      | Some _ \<Rightarrow> Some (Fail (Errorf ''items must be an array'')))"

fun convertYamlToResource :: "nat \<Rightarrow> yaml_lib \<Rightarrow> string \<Rightarrow> kube_object list go option" where
  "convertYamlToResource 0 lib objectYaml = None"
| "convertYamlToResource (Suc n) lib objectYaml =
     (case gwrap ''unmarshalling %v'' (yl_Untyped lib objectYaml) of
        Fail e \<Rightarrow> Some (Fail e)
      | Panic p \<Rightarrow> Some (Panic p)
      | Ret None \<Rightarrow> Some (Ret [])
      | Ret (Some untyped) \<Rightarrow>
          (case gwrap ''parsing raw yaml as %+v'' (yl_TypeMeta lib objectYaml) of
             Fail e \<Rightarrow> Some (Fail e)
           | Panic p \<Rightarrow> Some (Panic p)
           | Ret typeMeta \<Rightarrow>
               (if tm_Kind typeMeta = ''List''
                then convertUntypedList lib (convertYamlToResource n lib) untyped
                else
                  Some (case typeOfKind typeMeta of
                          None \<Rightarrow> Fail (Errorf ''unsupported kind %v'')
                        | Some t \<Rightarrow>
                            gbind (gwrap ''parsing raw yaml as %+v'' (yl_Object lib t objectYaml))
                              (\<lambda>obj. Ret [obj])))))"

definition parseobjectYaml :: "nat \<Rightarrow> yaml_lib \<Rightarrow> string \<Rightarrow> kube_object list go option" where
  "parseobjectYaml fuel lib objectYaml =
     map_option (gwrap ''unsupported object type: %v'') (convertYamlToResource fuel lib objectYaml)"

definition ParseKubeManifest :: "nat \<Rightarrow> yaml_lib \<Rightarrow> string \<Rightarrow> kube_object list go option" where
  "ParseKubeManifest fuel lib manifest =
     map_option (\<lambda>r. gbind r (\<lambda>objs. Ret (concat objs)))
       (omapM (parseobjectYaml fuel lib) (strings_Split manifest ''---''))"

section \<open>The Kubernetes API\<close>

text \<open>
  The clients of the typed API: the type's client, for a namespaced type in the given namespace.
\<close>

record 'k kube_api =
  ka_Create :: "kube_type \<Rightarrow> string option \<Rightarrow> kube_object \<Rightarrow> ('k, unit) act"
  ka_Get :: "kube_type \<Rightarrow> string option \<Rightarrow> string \<Rightarrow> ('k, kube_object) act"
  ka_Update :: "kube_type \<Rightarrow> string option \<Rightarrow> kube_object \<Rightarrow> ('k, unit) act"
  ka_Delete :: "kube_type \<Rightarrow> string option \<Rightarrow> string \<Rightarrow> ('k, unit) act"

record 'k kube_installer =
  ki_api :: "'k kube_api"
  ki_namespace :: string

definition NewKubeInstaller :: "'k kube_api \<Rightarrow> string \<Rightarrow> 'k kube_installer" where
  "NewKubeInstaller api namespace = \<lparr>ki_api = api, ki_namespace = namespace\<rparr>"

text \<open>All the types have a \<open>GetNamespace\<close>, from their embedded object metadata.\<close>

definition installNamespaceFor :: "'k kube_installer \<Rightarrow> kube_object \<Rightarrow> string" where
  "installNamespaceFor k obj = (if ki_namespace k = [] then ko_Namespace obj else ki_namespace k)"

definition no_implementation :: "('k, unit) act" where
  "no_implementation = afail (Errorf ''no implementation for type %v'')"

definition kubeInstaller_Create :: "'k kube_installer \<Rightarrow> kube_object \<Rightarrow> ('k, unit) act" where
  "kubeInstaller_Create k obj =
     (let namespace = Some (installNamespaceFor k obj); create = ka_Create (ki_api k) in
      case ko_Type obj of
        K_Namespace \<Rightarrow> create K_Namespace None obj
      | K_ConfigMap \<Rightarrow> create K_ConfigMap namespace obj
      | K_ServiceAccount \<Rightarrow> create K_ServiceAccount namespace obj
      | K_Service \<Rightarrow> create K_Service namespace obj
      | K_Pod \<Rightarrow> create K_Pod namespace obj
      | K_ClusterRole \<Rightarrow> create K_ClusterRole None obj
      | K_ClusterRoleBinding \<Rightarrow> create K_ClusterRoleBinding None obj
      | K_Job \<Rightarrow> create K_Job namespace obj
      | K_Deployment \<Rightarrow> create K_Deployment namespace obj
      | K_DaemonSet \<Rightarrow> create K_DaemonSet namespace obj
      | K_ExtDeployment \<Rightarrow> create K_ExtDeployment namespace obj
      | K_ExtDaemonSet \<Rightarrow> create K_ExtDaemonSet namespace obj
      | K_CustomResourceDefinition \<Rightarrow> create K_CustomResourceDefinition None obj
      | K_MutatingWebhookConfiguration \<Rightarrow> create K_MutatingWebhookConfiguration None obj
      | K_HorizontalPodAutoscaler \<Rightarrow> create K_HorizontalPodAutoscaler namespace obj
      | K_Other _ \<Rightarrow> no_implementation)"

text \<open>One case of \<open>Update\<close>: the stored object's resource version is taken over.\<close>

definition get_and_update ::
  "'k kube_installer \<Rightarrow> kube_object \<Rightarrow> kube_type \<Rightarrow> string option \<Rightarrow> ('k, unit) act" where
  "get_and_update k obj t namespace =
     abind (ka_Get (ki_api k) t namespace (ko_Name obj)) (\<lambda>obj2.
       ka_Update (ki_api k) t namespace (obj\<lparr>ko_ResourceVersion := ko_ResourceVersion obj2\<rparr>))"

definition kubeInstaller_Update :: "'k kube_installer \<Rightarrow> kube_object \<Rightarrow> ('k, unit) act" where
  "kubeInstaller_Update k obj =
     (let namespace = Some (installNamespaceFor k obj); update = get_and_update k obj in
      case ko_Type obj of
        K_Namespace \<Rightarrow> update K_Namespace None
      | K_ConfigMap \<Rightarrow> update K_ConfigMap namespace
      | K_ServiceAccount \<Rightarrow> update K_ServiceAccount namespace
      | K_Service \<Rightarrow> update K_Service namespace
      | K_Pod \<Rightarrow> update K_Pod namespace
      | K_ClusterRole \<Rightarrow> update K_ClusterRole None
      | K_ClusterRoleBinding \<Rightarrow> update K_ClusterRoleBinding None
      | K_Job \<Rightarrow> update K_Job namespace
      | K_Deployment \<Rightarrow> update K_Deployment namespace
      | K_DaemonSet \<Rightarrow> update K_DaemonSet namespace
      | K_CustomResourceDefinition \<Rightarrow> update K_CustomResourceDefinition None
      | K_MutatingWebhookConfiguration \<Rightarrow> update K_MutatingWebhookConfiguration None
      | K_HorizontalPodAutoscaler \<Rightarrow> update K_HorizontalPodAutoscaler namespace
      | _ \<Rightarrow> no_implementation)"

definition kubeInstaller_Delete :: "'k kube_installer \<Rightarrow> kube_object \<Rightarrow> ('k, unit) act" where
  "kubeInstaller_Delete k obj =
     (let namespace = Some (installNamespaceFor k obj);
          del = (\<lambda>t ns. ka_Delete (ki_api k) t ns (ko_Name obj)) in
      case ko_Type obj of
        K_Namespace \<Rightarrow> del K_Namespace None
      | K_ConfigMap \<Rightarrow> del K_ConfigMap namespace
      | K_ServiceAccount \<Rightarrow> del K_ServiceAccount namespace
      | K_Service \<Rightarrow> del K_Service namespace
      | K_Pod \<Rightarrow> del K_Pod namespace
      | K_ClusterRole \<Rightarrow> del K_ClusterRole None
      | K_ClusterRoleBinding \<Rightarrow> del K_ClusterRoleBinding None
      | K_Job \<Rightarrow> del K_Job namespace
      | K_Deployment \<Rightarrow> del K_Deployment namespace
      | K_DaemonSet \<Rightarrow> del K_DaemonSet namespace
      | K_CustomResourceDefinition \<Rightarrow> del K_CustomResourceDefinition None
      | K_MutatingWebhookConfiguration \<Rightarrow> del K_MutatingWebhookConfiguration None
      | K_HorizontalPodAutoscaler \<Rightarrow> del K_HorizontalPodAutoscaler namespace
      | _ \<Rightarrow> no_implementation)"

section \<open>Custom resource definitions\<close>

text \<open>
  The error for an object that is no definition wraps the nil error of the call before: it
  is nil too, and so is the list that is returned with it.
\<close>

definition CrdsFromManifest :: "nat \<Rightarrow> yaml_lib \<Rightarrow> string \<Rightarrow> kube_object list go option" where
  "CrdsFromManifest fuel lib crdManifestYaml =
     map_option (\<lambda>r. gbind r (\<lambda>objs.
         if \<exists>obj \<in> set objs. ko_Type obj \<noteq> K_CustomResourceDefinition
         then go_return [] (errors_Wrapf None ''internal error: crd manifest must only contain CustomResourceDefinitions'')
         else Ret objs))
       (ParseKubeManifest fuel lib crdManifestYaml)"

fun is_AlreadyExists :: "err \<Rightarrow> bool" where
  "is_AlreadyExists (KubeAlreadyExists n) = True"
| "is_AlreadyExists _ = False"

fun is_NotFound :: "err \<Rightarrow> bool" where
  "is_NotFound (KubeNotFound n) = True"
| "is_NotFound _ = False"

text \<open>Run a call; an error that \<open>ok\<close> accepts counts as success.\<close>

definition atolerate :: "(err \<Rightarrow> bool) \<Rightarrow> ('k, unit) act \<Rightarrow> ('k, unit) act" where
  "atolerate ok m s = (case m s of (Fail e, s') \<Rightarrow> (if ok e then Ret () else Fail e, s') | r \<Rightarrow> r)"

definition CreateCrds :: "'k kube_api \<Rightarrow> kube_object list \<Rightarrow> ('k, unit) act" where
  "CreateCrds api crds =
     aforeach (\<lambda>crd. awrap ''failed to create crd: %v''
       (atolerate is_AlreadyExists (ka_Create api K_CustomResourceDefinition None crd))) crds"

definition DeleteCrds :: "'k kube_api \<Rightarrow> string list \<Rightarrow> ('k, unit) act" where
  "DeleteCrds api crdNames =
     aforeach (\<lambda>name. awrap ''failed to delete crd: %v''
       (atolerate is_NotFound (ka_Delete api K_CustomResourceDefinition None name))) crdNames"

end
