(* ===== verification/Mesh_Installers.thy ===== *)
theory Mesh_Installers
  imports Helm Kube_Manifest Secret_Sync
begin

text \<open>
  The interface \<open>MeshInstaller\<close> of \<open>pkg/install/install_syncer.go\<close> and its three
  implementations: \<open>pkg/install/consul/consul_installer.go\<close>,
  \<open>pkg/install/linkerd2/linkerd2_installer.go\<close> and \<open>pkg/install/istio/istio_installer.go\<close>.

  An installer acts on the secret store, the Helm globals and the cluster. The text of the
  Istio definitions (\<open>istio_crds.go\<close>, data) and the Kubernetes clients are parameters.
\<close>

type_synonym ('s, 'k) install_world = "'s \<times> (helm_state \<times> 'k)"

record ('s, 'k) mesh_installer =
  mi_GetDefaultNamespace :: string
  mi_GetCrbName :: string
  mi_GetOverridesYaml :: "install \<Rightarrow> string"
  mi_DoPreHelmInstall :: "string \<Rightarrow> install \<Rightarrow> (('s, 'k) install_world, unit) act"
  mi_DoPostHelmInstall :: "install \<Rightarrow> string \<Rightarrow> (('s, 'k) install_world, unit) act"

abbreviation at_kube :: "('k, 'a) act \<Rightarrow> (('s, 'k) install_world, 'a) act" where
  "at_kube m \<equiv> on_snd (on_snd m)"

abbreviation at_helm :: "('k, 'a) helm_act \<Rightarrow> (('s, 'k) install_world, 'a) act" where
  "at_helm m \<equiv> on_snd m"

text \<open>A text of several lines.\<close>

definition text_lines :: "string list \<Rightarrow> string" where
  "text_lines ls = concat (map (\<lambda>l. l @ [CHR 10]) ls)"

section \<open>Consul\<close>

definition consul_overridesYaml :: string where
  "consul_overridesYaml = text_lines [
    '''',
    ''global:'',
    ''  # Change this to specify a version of consul.'',
    ''  # soloio/consul:latest was just published to provide a 1.4 container'',
    ''  # consul:1.3.0 is the latest container on docker hub from consul'',
    ''  image: \"soloio/consul:latest\"'',
    ''  imageK8S: \"hashicorp/consul-k8s:0.2.1\"'',
    '''',
    ''server:'',
    ''  replicas: 1'',
    ''  bootstrapExpect: 1'',
    ''  connect: @@MTLS_ENABLED@@'',
    ''  disruptionBudget:'',
    ''    enabled: false'',
    ''    maxUnavailable: null'',
    '''',
    ''client:'',
    ''  enabled: true'',
    ''  grpc: true'',
    '''',
    ''connectInject:'',
    ''  enabled: @@MTLS_ENABLED@@'']"

definition consul_getOverrides :: "encryption option \<Rightarrow> string" where
  "consul_getOverrides encryption =
     (let strBool = (case encryption of None \<Rightarrow> ''false'' | Some e \<Rightarrow> strconv_FormatBool (enc_TlsEnabled e))
      in strings_Replace consul_overridesYaml ''@@MTLS_ENABLED@@'' strBool)"

definition ConsulInstaller :: "('s, 'k) mesh_installer" where
  "ConsulInstaller =
     \<lparr>mi_GetDefaultNamespace = ''consul'',
      mi_GetCrbName = ''consul-crb'',
      mi_GetOverridesYaml = (\<lambda>install. consul_getOverrides (install_Encryption install)),
      mi_DoPreHelmInstall = (\<lambda>installNamespace install. aret ()),
      mi_DoPostHelmInstall = (\<lambda>install releaseName. aret ())\<rparr>"

section \<open>Linkerd\<close>

definition Linkerd2Installer :: "('s, 'k) mesh_installer" where
  "Linkerd2Installer =
     \<lparr>mi_GetDefaultNamespace = ''linkerd'',
      mi_GetCrbName = [],
      mi_GetOverridesYaml = (\<lambda>install. []),
      mi_DoPreHelmInstall = (\<lambda>installNamespace install. aret ()),
      mi_DoPostHelmInstall = (\<lambda>install releaseName. aret ())\<rparr>"

section \<open>Istio\<close>

text \<open>The security context constraints of OpenShift.\<close>

record security_constraints =
  scc_Name :: string
  scc_Users :: "string list"

record 'k security_client =
  sc_Get :: "string \<Rightarrow> ('k, security_constraints) act"
  sc_Update :: "security_constraints \<Rightarrow> ('k, unit) act"

record ('s, 'k) istio_installer =
  ii_apiExts :: "'k kube_api"
  ii_securityClient :: "'k security_client option"
  ii_crds :: "kube_object list"
  ii_secretSyncer :: "('s, helm_state \<times> 'k) secret_syncer option"

text \<open>The recursion depth of the parser is \<open>fuel\<close>; running out of it is a panic of its own.\<close>

definition fueled :: "'a go option \<Rightarrow> 'a go" where
  "fueled r = (case r of None \<Rightarrow> Panic ''out of fuel'' | Some x \<Rightarrow> x)"

definition NewIstioInstaller ::
  "nat \<Rightarrow> yaml_lib \<Rightarrow> string \<Rightarrow> 'k kube_api \<Rightarrow> 'k security_client option \<Rightarrow>
   ('s, helm_state \<times> 'k) secret_syncer option \<Rightarrow> ('s, 'k) istio_installer go" where
  "NewIstioInstaller fuel lib istioCrdYaml apiExts securityClient secretSyncer =
     gbind (fueled (CrdsFromManifest fuel lib istioCrdYaml)) (\<lambda>crds.
       Ret \<lparr>ii_apiExts = apiExts, ii_securityClient = securityClient, ii_crds = crds,
            ii_secretSyncer = secretSyncer\<rparr>)"

definition istio_overridesYaml :: string where
  "istio_overridesYaml = text_lines [
    ''#overrides'',
    ''global:'',
    ''  mtls:'',
    ''    enabled: @@MTLS_ENABLED@@'',
    ''  crds: false'',
    ''  controlPlaneSecurityEnabled: true'',
    ''security:'',
    ''  selfSigned: @@SELF_SIGNED@@'',
    ''  enabled: true'',
    '''']"

definition istio_getOverrides :: "encryption option \<Rightarrow> string" where
  "istio_getOverrides encryption =
     (let (mtlsEnabled, selfSigned) =
        (case encryption of
           None \<Rightarrow> (False, True)
         | Some e \<Rightarrow>
             (if enc_TlsEnabled e then (True, if enc_Secret e \<noteq> None then False else True) else (False, True)));
          selfSignedString = strconv_FormatBool selfSigned;
          tlsEnabledString = strconv_FormatBool mtlsEnabled;
          overridesWithMtlsFlag = strings_Replace istio_overridesYaml ''@@MTLS_ENABLED@@'' tlsEnabledString
      in strings_Replace overridesWithMtlsFlag ''@@SELF_SIGNED@@'' selfSignedString)"

text \<open>A nil syncer is an error only for an install with a secret; otherwise its method panics.\<close>

definition IstioInstaller_syncSecret ::
  "('s, 'k) istio_installer \<Rightarrow> string \<Rightarrow> install \<Rightarrow> (('s, 'k) install_world, unit) act" where
  "IstioInstaller_syncSecret c installNamespace install =
     (case ii_secretSyncer c of
        None \<Rightarrow>
          (case install_Encryption install of
             Some e \<Rightarrow> (if enc_Secret e \<noteq> None then afail (Errorf ''Invalid setup'') else alift nil_deref)
           | None \<Rightarrow> alift nil_deref)
      | Some s \<Rightarrow> SyncSecret s installNamespace (install_Encryption install))"

definition AddSccToUsers :: "'k security_client \<Rightarrow> string list \<Rightarrow> ('k, unit) act" where
  "AddSccToUsers client users =
     abind (sc_Get client ''anyuid'') (\<lambda>anyuid.
       sc_Update client (anyuid\<lparr>scc_Users := scc_Users anyuid @ users\<rparr>))"

definition istio_service_accounts :: "string list" where
  "istio_service_accounts =
     [''default'',
      ''istio-ingress-service-account'',
      ''prometheus'',
      ''istio-egressgateway-service-account'',
      ''istio-citadel-service-account'',
      ''istio-ingressgateway-service-account'',
      ''istio-cleanup-old-ca-service-account'',
      ''istio-mixer-post-install-account'',
      ''istio-mixer-service-account'',
      ''istio-pilot-service-account'',
      ''istio-sidecar-injector-service-account'',
      ''istio-galley-service-account'']"

definition IstioInstaller_DoPreHelmInstall ::
  "('s, 'k) istio_installer \<Rightarrow> string \<Rightarrow> install \<Rightarrow> (('s, 'k) install_world, unit) act" where
  "IstioInstaller_DoPreHelmInstall c installNamespace install =
     abind (awrap ''creating istio crds'' (at_kube (CreateCrds (ii_apiExts c) (ii_crds c)))) (\<lambda>_.
     abind (awrap ''syncing secret'' (IstioInstaller_syncSecret c installNamespace install)) (\<lambda>_.
     case ii_securityClient c of
       None \<Rightarrow> aret ()
     | Some client \<Rightarrow> at_kube (AddSccToUsers client istio_service_accounts)))"

definition IstioInstaller :: "('s, 'k) istio_installer \<Rightarrow> ('s, 'k) mesh_installer" where
  "IstioInstaller c =
     \<lparr>mi_GetDefaultNamespace = ''istio-system'',
      mi_GetCrbName = ''istio-crb'',
      mi_GetOverridesYaml = (\<lambda>install. istio_getOverrides (install_Encryption install)),
      mi_DoPreHelmInstall = IstioInstaller_DoPreHelmInstall c,
      mi_DoPostHelmInstall = (\<lambda>install releaseName. aret ())\<rparr>"

section \<open>What the install syncer relies on\<close>

text \<open>
  A default namespace, no steps after the Helm install, and steps before it that leave the Helm
  globals alone.
\<close>

locale mesh_installer_spec =
  fixes installer :: "('s, 'k) mesh_installer"
  assumes default_namespace: "mi_GetDefaultNamespace installer \<noteq> []"
    and no_post_install: "mi_DoPostHelmInstall installer install releaseName = aret ()"
    and pre_install_keeps_helm:
      "fst (snd (snd (mi_DoPreHelmInstall installer ns install w))) = fst (snd w)"

interpretation consul_installer: mesh_installer_spec "ConsulInstaller :: ('s, 'k) mesh_installer"
  by unfold_locales (simp_all add: ConsulInstaller_def aret_def)

interpretation linkerd2_installer: mesh_installer_spec "Linkerd2Installer :: ('s, 'k) mesh_installer"
  by unfold_locales (simp_all add: Linkerd2Installer_def aret_def)

text \<open>The secret syncer that the install syncer makes: before an install nothing is restarted.\<close>

definition preinstall_syncer ::
  "'c kube_writer option \<Rightarrow> ('s, istio_cacerts_secret) client \<Rightarrow> istio_cacerts_secret list \<Rightarrow>
   ('s, 'c) secret_syncer" where
  "preinstall_syncer kube secretClient secretList =
     \<lparr>ss_Kube = kube, ss_SecretClient = secretClient, ss_SecretList = secretList, ss_Preinstall = True\<rparr>"

lemma keeps_on_fst_snd: "keeps (\<lambda>w. snd w = c) (on_fst m)"
  by (simp add: keeps_def on_fst_def split: prod.splits)

lemma keeps_let: "keeps P (f x) \<Longrightarrow> keeps P (let y = x in f y)"
  by simp

lemma keeps_fst_at_kube: "keeps (\<lambda>w. fst (snd w) = h) (at_kube m)"
  by (simp add: keeps_def on_snd_def split: prod.splits)

lemma keeps_stronger: "(\<And>c. keeps (\<lambda>w. snd w = c) m) \<Longrightarrow> keeps (\<lambda>w. fst (snd w) = h) m"
  by (simp add: keeps_def)

lemma preinstall_keeps_world: "keeps (\<lambda>w. snd w = c) (SyncSecret (preinstall_syncer kube client secrets) ns enc)"
  unfolding SyncSecret_def syncSecret_def preinstall_syncer_def secret_syncer.select_convs simp_thms if_False
  by (intro keeps_intros keeps_on_fst_snd keeps_let | simp)+

lemma Istio_pre_keeps_helm:
  "keeps (\<lambda>w. fst (snd w) = h) (IstioInstaller_DoPreHelmInstall
     \<lparr>ii_apiExts = api, ii_securityClient = sec, ii_crds = crds,
      ii_secretSyncer = Some (preinstall_syncer kube client secrets)\<rparr> ns install)"
  unfolding IstioInstaller_DoPreHelmInstall_def IstioInstaller_syncSecret_def istio_installer.select_convs
    option.case
  by (intro keeps_abind keeps_awrap keeps_option keeps_basic keeps_fst_at_kube
      keeps_stronger [OF preinstall_keeps_world])

interpretation istio_installer: mesh_installer_spec
  "IstioInstaller \<lparr>ii_apiExts = api, ii_securityClient = sec, ii_crds = crds,
      ii_secretSyncer = Some (preinstall_syncer kube client secrets)\<rparr>"
  for api sec crds kube client secrets
proof (unfold_locales, goal_cases)
  case (3 ns install w)
  show ?case
    using Istio_pre_keeps_helm [of "fst (snd w)" api sec crds kube client secrets ns install, unfolded keeps_def]
    by (cases w) (simp add: IstioInstaller_def)
qed (simp_all add: IstioInstaller_def)

end
