(* ===== verification/Install_Sync.thy ===== *)
theory Install_Sync
  imports Mesh_Installers Event_Loops
begin

text \<open>
  The install syncer, \<open>pkg/install/install_syncer.go\<close>: for every install of a snapshot it
  installs or removes a Helm release and creates or deletes the mesh that stands for it.

  The state is the mesh store, then what the installers act on. The Kubernetes clients and the
  Helm environment are parameters.
\<close>

type_synonym ('m, 's, 'k) install_state = "'m \<times> ('s, 'k) install_world"

record kube_subject =
  subj_Kind :: string
  subj_Namespace :: string
  subj_Name :: string

record kube_role_ref =
  rref_Kind :: string
  rref_Name :: string
  rref_APIGroup :: string

record cluster_role_binding =
  crb_Name :: string
  crb_Subjects :: "kube_subject list"
  crb_RoleRef :: kube_role_ref

text \<open>The calls of the clientset; a namespace object has nothing but its name.\<close>

record 'k clientset =
  cs_Namespaces_Create :: "string \<Rightarrow> ('k, unit) act"
  cs_Namespaces_Delete :: "string \<Rightarrow> ('k, unit) act"
  cs_ClusterRoleBindings_Create :: "cluster_role_binding \<Rightarrow> ('k, unit) act"
  cs_ClusterRoleBindings_Delete :: "string \<Rightarrow> ('k, unit) act"
  cs_Writer :: "'k kube_writer"

text \<open>
  The fields of the struct, and the parameters the model adds: the Helm environment, and for
  the parser of the Istio definitions the recursion depth, the YAML library and the text.
\<close>

record ('m, 's, 'k) install_syncer =
  is_Kube :: "'k clientset"
  is_MeshClient :: "('m, mesh) client"
  is_SecurityClient :: "'k security_client option"
  is_ApiExts :: "'k kube_api"
  is_SecretClient :: "('s, istio_cacerts_secret) client"
  is_Helm :: "'k helm_env"
  is_fuel :: nat
  is_yaml :: yaml_lib
  is_IstioCrdYaml :: string

definition releaseNameKey :: string where
  "releaseNameKey = ''helm_release''"

section \<open>The namespace and the cluster role binding\<close>

text \<open>A oneof value with a nil message makes the field access panic.\<close>

definition getInstallationNamespace :: "install \<Rightarrow> string go" where
  "getInstallationNamespace install =
     (case install_MeshType install of
        Some (Mesh_Istio x) \<Rightarrow> (case x of None \<Rightarrow> nil_deref | Some i \<Rightarrow> Ret (istio_InstallationNamespace i))
      | Some (Mesh_Consul x) \<Rightarrow> (case x of None \<Rightarrow> nil_deref | Some c \<Rightarrow> Ret (consul_InstallationNamespace c))
      | Some (Mesh_Linkerd2 x) \<Rightarrow> (case x of None \<Rightarrow> nil_deref | Some l \<Rightarrow> Ret (linkerd2_InstallationNamespace l))
      | None \<Rightarrow> Ret [])"

definition getInstallNamespace :: "install \<Rightarrow> string \<Rightarrow> string go" where
  "getInstallNamespace install defaultNamespace =
     gbind (getInstallationNamespace install) (\<lambda>installNamespace.
       Ret (if installNamespace \<noteq> [] then installNamespace else defaultNamespace))"

definition createNamespaceIfNotExist :: "('m, 's, 'k) install_syncer \<Rightarrow> string \<Rightarrow> ('k, unit) act" where
  "createNamespaceIfNotExist syncer namespaceName =
     atolerate is_AlreadyExists (cs_Namespaces_Create (is_Kube syncer) namespaceName)"

definition SetupInstallNamespace ::
  "('m, 's, 'k) install_syncer \<Rightarrow> install \<Rightarrow> ('s, 'k) mesh_installer \<Rightarrow> ('k, string) act" where
  "SetupInstallNamespace syncer install installer =
     abind (alift (getInstallNamespace install (mi_GetDefaultNamespace installer))) (\<lambda>installNamespace.
     abind (awrap ''Error setting up namespace'' (createNamespaceIfNotExist syncer installNamespace)) (\<lambda>_.
     aret installNamespace))"

definition getCrb :: "string \<Rightarrow> string \<Rightarrow> cluster_role_binding" where
  "getCrb crbName namespaceName =
     \<lparr>crb_Name = crbName,
      crb_Subjects = [\<lparr>subj_Kind = ''ServiceAccount'', subj_Namespace = namespaceName, subj_Name = ''default''\<rparr>],
      crb_RoleRef = \<lparr>rref_Kind = ''ClusterRole'', rref_Name = ''cluster-admin'',
        rref_APIGroup = ''rbac.authorization.k8s.io''\<rparr>\<rparr>"

definition CreateCrbIfNotExist :: "('m, 's, 'k) install_syncer \<Rightarrow> string \<Rightarrow> string \<Rightarrow> ('k, unit) act" where
  "CreateCrbIfNotExist syncer crbName namespaceName =
     atolerate is_AlreadyExists (cs_ClusterRoleBindings_Create (is_Kube syncer) (getCrb crbName namespaceName))"

definition tryDeleteInstallNamespace :: "('m, 's, 'k) install_syncer \<Rightarrow> string \<Rightarrow> ('k, unit) act" where
  "tryDeleteInstallNamespace syncer namespaceName =
     abind (atry (cs_Namespaces_Delete (is_Kube syncer) namespaceName)) (\<lambda>_. aret ())"

definition deleteCrb :: "('m, 's, 'k) install_syncer \<Rightarrow> string \<Rightarrow> ('k, unit) act" where
  "deleteCrb syncer crbName = cs_ClusterRoleBindings_Delete (is_Kube syncer) crbName"

section \<open>The Helm release\<close>

text \<open>A chart that is not located returns before \<open>Teardown\<close>; a failed install does not.\<close>

definition helmInstallChart ::
  "'k helm_env \<Rightarrow> string \<Rightarrow> string \<Rightarrow> string \<Rightarrow> string \<Rightarrow> ('k, string) helm_act" where
  "helmInstallChart env chartPath releaseName installNamespace overridesYaml =
     abind (GetHelmClient env) (\<lambda>helmClient.
     abind (LocateChartRepoReleaseDefault env [] chartPath) (\<lambda>installPath.
     abind (atry (on_snd (he_InstallRelease env helmClient installPath installNamespace overridesYaml releaseName)))
       (\<lambda>response.
     abind Teardown (\<lambda>_.
     case response of Inl e \<Rightarrow> afail e | Inr release \<Rightarrow> aret release))))"

definition HelmInstall ::
  "('m, 's, 'k) install_syncer \<Rightarrow> helm_chart_locator_kind option option \<Rightarrow> string \<Rightarrow> string \<Rightarrow> string \<Rightarrow>
   ('k, string) helm_act" where
  "HelmInstall syncer chartLocator releaseName installNamespace overridesYaml =
     (case chartLocator of
        Some (Some (ChartPath path)) \<Rightarrow>
          helmInstallChart (is_Helm syncer) path releaseName installNamespace overridesYaml
      | _ \<Rightarrow> afail (Errorf ''Unsupported kind of chart locator''))"

definition installHelmRelease ::
  "('m, 's, 'k) install_syncer \<Rightarrow> install \<Rightarrow> ('s, 'k) mesh_installer \<Rightarrow> (('s, 'k) install_world, string) act"
where
  "installHelmRelease syncer install installer =
     abind (at_kube (SetupInstallNamespace syncer install installer)) (\<lambda>installNamespace.
     let crbName = mi_GetCrbName installer in
     abind (if crbName \<noteq> [] then at_kube (CreateCrbIfNotExist syncer crbName installNamespace) else aret ()) (\<lambda>_.
     abind (awrap ''Error doing pre-helm install steps''
       (mi_DoPreHelmInstall installer installNamespace install)) (\<lambda>_.
     abind (awrap ''installing helm chart''
       (at_helm (HelmInstall syncer (install_ChartLocator install) (meta_Name (install_Metadata install))
          installNamespace (mi_GetOverridesYaml installer install)))) (\<lambda>releaseName.
     abind (mi_DoPostHelmInstall installer install releaseName) (\<lambda>_.
     aret releaseName)))))"

text \<open>The error of \<open>DeleteRelease\<close> is assigned and never looked at.\<close>

definition uninstallHelmRelease ::
  "('m, 's, 'k) install_syncer \<Rightarrow> mesh \<Rightarrow> install \<Rightarrow> ('s, 'k) mesh_installer \<Rightarrow> (('s, 'k) install_world, unit) act"
where
  "uninstallHelmRelease syncer mesh install meshInstaller =
     (let releaseName = (case map_of (map_entries (meta_Annotations (mesh_Metadata mesh))) releaseNameKey of
        None \<Rightarrow> [] | Some n \<Rightarrow> n) in
      abind (at_helm (GetHelmClient (is_Helm syncer))) (\<lambda>helmClient.
      abind (at_kube (atry (he_DeleteRelease (is_Helm syncer) helmClient releaseName True))) (\<lambda>_.
      abind (at_helm Teardown) (\<lambda>_.
      abind (alift (getInstallNamespace install (mi_GetDefaultNamespace meshInstaller))) (\<lambda>ns.
      abind (at_kube (tryDeleteInstallNamespace syncer ns)) (\<lambda>_.
      if mi_GetCrbName meshInstaller \<noteq> []
      then at_kube (deleteCrb syncer (mi_GetCrbName meshInstaller)) else aret ()))))))"

section \<open>The mesh\<close>

definition getMeshObject :: "install \<Rightarrow> string \<Rightarrow> mesh go" where
  "getMeshObject install releaseName =
     (case install_MeshType install of
        None \<Rightarrow> Fail (Errorf ''Unsupported mesh type.'')
      | Some t \<Rightarrow>
          Ret \<lparr>mesh_Status = zero_status,
               mesh_Metadata = (new_metadata (meta_Namespace (install_Metadata install))
                   (meta_Name (install_Metadata install)))
                 \<lparr>meta_Annotations := Some [(releaseNameKey, releaseName)]\<rparr>,
               mesh_MeshType = Some (case t of
                   Mesh_Istio x \<Rightarrow> Mesh_Istio x | Mesh_Consul x \<Rightarrow> Mesh_Consul x | Mesh_Linkerd2 x \<Rightarrow> Mesh_Linkerd2 x),
               mesh_Encryption = install_Encryption install,
               mesh_Observability = None, mesh_Policy = None\<rparr>)"

definition createMesh :: "('m, 's, 'k) install_syncer \<Rightarrow> install \<Rightarrow> string \<Rightarrow> ('m, unit) act" where
  "createMesh syncer install releaseName =
     abind (alift (getMeshObject install releaseName)) (\<lambda>mesh.
     abind (client_Write (is_MeshClient syncer) mesh False) (\<lambda>_. aret ()))"

section \<open>The syncer\<close>

text \<open>The clientset as the interface of the secret syncer, on the state the installers see.\<close>

definition lift_writer :: "'k kube_writer \<Rightarrow> (helm_state \<times> 'k) kube_writer" where
  "lift_writer w =
     \<lparr>kube_Pods_DeleteCollection = (\<lambda>ns sel. on_snd (kube_Pods_DeleteCollection w ns sel)),
      kube_Secrets_Delete = (\<lambda>ns name. on_snd (kube_Secrets_Delete w ns name))\<rparr>"

definition meshInstallerFor ::
  "('m, 's, 'k) install_syncer \<Rightarrow> istio_cacerts_secret list \<Rightarrow> install \<Rightarrow> ('s, 'k) mesh_installer go" where
  "meshInstallerFor syncer secretList install =
     (case install_MeshType install of
        Some (Mesh_Consul _) \<Rightarrow> Ret ConsulInstaller
      | Some (Mesh_Istio _) \<Rightarrow>
          gbind (gwrap ''initializing istio installer''
            (NewIstioInstaller (is_fuel syncer) (is_yaml syncer) (is_IstioCrdYaml syncer) (is_ApiExts syncer)
               (is_SecurityClient syncer)
               (Some (preinstall_syncer (Some (lift_writer (cs_Writer (is_Kube syncer))))
                  (is_SecretClient syncer) secretList)))) (\<lambda>i.
          Ret (IstioInstaller i))
      | Some (Mesh_Linkerd2 _) \<Rightarrow> Ret Linkerd2Installer
      | None \<Rightarrow> Fail (Errorf ''Unsupported mesh type %v''))"

definition syncInstall ::
  "('m, 's, 'k) install_syncer \<Rightarrow> install \<Rightarrow> istio_cacerts_secret list \<Rightarrow> (('m, 's, 'k) install_state, unit) act"
where
  "syncInstall syncer install secretList =
     abind (alift (meshInstallerFor syncer secretList install)) (\<lambda>meshInstaller.
     let installEnabled = (case install_Enabled install of None \<Rightarrow> True | Some b \<Rightarrow> b) in
     abind (atry (on_fst (client_Read (is_MeshClient syncer) (meta_Namespace (install_Metadata install))
       (meta_Name (install_Metadata install))))) (\<lambda>r.
     case r of
       Inr mesh \<Rightarrow>
         if \<not> installEnabled then
           abind (on_snd (uninstallHelmRelease syncer mesh install meshInstaller)) (\<lambda>_.
           on_fst (client_Delete (is_MeshClient syncer) (meta_Namespace (mesh_Metadata mesh))
             (meta_Name (mesh_Metadata mesh)) False))
         else aret ()
     | Inl meshErr \<Rightarrow>
         if installEnabled then
           abind (on_snd (installHelmRelease syncer install meshInstaller)) (\<lambda>releaseName.
           on_fst (createMesh syncer install releaseName))
         else aret ()))"

definition InstallSyncer_Sync ::
  "('m, 's, 'k) install_syncer \<Rightarrow> install_snapshot \<Rightarrow> (('m, 's, 'k) install_state, unit) act" where
  "InstallSyncer_Sync syncer snap =
     (let secretList = snap_List istio_cacerts_secret_ops (isnap_Istiocerts snap) in
      aforeach (\<lambda>install. syncInstall syncer install secretList) (snap_List install_ops (isnap_Installs snap)))"

end
