(* ===== verification/Setup.thy ===== *)
theory Setup
  imports Event_Loops Istio_Routing_Sync Istio_Policy Secret_Sync Consul_Sync Prometheus_Sync Install_Sync
begin

text \<open>
  How the program is put together (\<open>pkg/setup/setup.go\<close>): \<open>Main\<close> makes the clients, the two
  emitters, the seven syncers of the translator and the one of the installer, and runs the two
  event loops. The clients and their stores are parameters.
\<close>

section \<open>The world\<close>

text \<open>Everything that the syncers write to: one store per client, Helm, the cluster and Consul.\<close>

record ('d, 'v, 'p, 'm, 's, 'k, 'c, 'rc, 'rb, 'rr) world =
  w_destinationRules :: 'd
  w_virtualServices :: 'v
  w_prometheus :: 'p
  w_meshes :: 'm
  w_secrets :: 's
  w_helm :: helm_state
  w_kube :: 'k
  w_consul :: 'c
  w_rbac :: "('rc, 'rb, 'rr) policy_state"

text \<open>A syncer on its part of the world.\<close>

definition on_part :: "('w \<Rightarrow> 'x) \<Rightarrow> ('x \<Rightarrow> 'w \<Rightarrow> 'w) \<Rightarrow> ('x, 'a) act \<Rightarrow> ('w, 'a) act" where
  "on_part get put m w = (case m (get w) of (r, x) \<Rightarrow> (r, put x w))"

definition at_routing :: "('d \<times> 'v, 'a) act \<Rightarrow> (('d, 'v, 'p, 'm, 's, 'k, 'c, 'rc, 'rb, 'rr) world, 'a) act" where
  "at_routing = on_part (\<lambda>w. (w_destinationRules w, w_virtualServices w))
     (\<lambda>(d, v) w. w\<lparr>w_destinationRules := d, w_virtualServices := v\<rparr>)"

definition at_prometheus :: "('p \<times> 'k, 'a) act \<Rightarrow> (('d, 'v, 'p, 'm, 's, 'k, 'c, 'rc, 'rb, 'rr) world, 'a) act" where
  "at_prometheus = on_part (\<lambda>w. (w_prometheus w, w_kube w)) (\<lambda>(p, k) w. w\<lparr>w_prometheus := p, w_kube := k\<rparr>)"

definition at_consul :: "('c, 'a) act \<Rightarrow> (('d, 'v, 'p, 'm, 's, 'k, 'c, 'rc, 'rb, 'rr) world, 'a) act" where
  "at_consul = on_part w_consul (\<lambda>c w. w\<lparr>w_consul := c\<rparr>)"

definition at_secrets :: "('s \<times> 'k, 'a) act \<Rightarrow> (('d, 'v, 'p, 'm, 's, 'k, 'c, 'rc, 'rb, 'rr) world, 'a) act" where
  "at_secrets = on_part (\<lambda>w. (w_secrets w, w_kube w)) (\<lambda>(s, k) w. w\<lparr>w_secrets := s, w_kube := k\<rparr>)"

definition at_rbac ::
  "(('rc, 'rb, 'rr) policy_state, 'a) act \<Rightarrow> (('d, 'v, 'p, 'm, 's, 'k, 'c, 'rc, 'rb, 'rr) world, 'a) act" where
  "at_rbac = on_part w_rbac (\<lambda>x w. w\<lparr>w_rbac := x\<rparr>)"

definition at_installs ::
  "(('m, 's, 'k) install_state, 'a) act \<Rightarrow> (('d, 'v, 'p, 'm, 's, 'k, 'c, 'rc, 'rb, 'rr) world, 'a) act" where
  "at_installs = on_part (\<lambda>w. (w_meshes w, w_secrets w, w_helm w, w_kube w))
     (\<lambda>(m, s, h, k) w. w\<lparr>w_meshes := m, w_secrets := s, w_helm := h, w_kube := k\<rparr>)"

section \<open>Making the clients\<close>

record 'x registrable =
  rg_New :: "'x go"
  rg_Register :: "unit go"

definition new_registered :: "'x registrable \<Rightarrow> 'x go" where
  "new_registered r = gbind (rg_New r) (\<lambda>c. gbind (rg_Register r) (\<lambda>_. Ret c))"

text \<open>
  What \<open>Main\<close> calls. A client that is only watched needs no operation. The last fields are what
  the syncers take as parameters: the order of maps, Helm, the YAML library, the text of the Istio
  definitions and the recursion depth of its parser.
\<close>

record ('d, 'v, 'p, 'm, 's, 'k, 'c, 'rc, 'rb, 'rr) setup_env =
  se_GetConfig :: "unit go"
  se_Kube :: "'k clientset go"
  se_DestinationRules :: "('d, destination_rule) client registrable"
  se_VirtualServices :: "('v, virtual_service) client registrable"
  se_Prometheus :: "('p, prometheus_resource) client registrable"
  se_Meshes :: "('m, mesh) client registrable"
  se_Installs :: "unit registrable"
  se_RoutingRules :: "unit registrable"
  se_Upstreams :: "unit registrable"
  se_Secrets :: "('s, istio_cacerts_secret) client registrable"
  se_ServiceRoleBindings :: "('rb, service_role_binding) client registrable"
  se_ServiceRoles :: "('rr, service_role) client registrable"
  se_RbacConfigs :: "('rc, rbac_config) client registrable"
  se_PolicyKube :: "kube_reader go"
  se_ApiExts :: "'k kube_api go"
  se_watchMesh :: "string \<Rightarrow> unit go"
  se_watchRoutingRule :: "string \<Rightarrow> unit go"
  se_watchUpstream :: "string \<Rightarrow> unit go"
  se_watchSecret :: "string \<Rightarrow> unit go"
  se_watchInstall :: "string \<Rightarrow> unit go"
  se_ConsulAt :: "string \<Rightarrow> 'c consul_client go"
  se_Consul :: "'c consul_client go"
  se_routing :: routing_env
  se_policyRange :: "(resource_ref \<times> resource_ref list) list \<Rightarrow> (resource_ref \<times> resource_ref list) list"
  se_Helm :: "'k helm_env"
  se_fuel :: nat
  se_yaml :: yaml_lib
  se_IstioCrdYaml :: string

definition watched :: "'x registrable \<Rightarrow> (string \<Rightarrow> unit go) \<Rightarrow> watch_client" where
  "watched r watch = \<lparr>wc_Register = rg_Register r, wc_Watch = watch\<rparr>"

definition translator_clients_of ::
  "('d, 'v, 'p, 'm, 's, 'k, 'c, 'rc, 'rb, 'rr) setup_env \<Rightarrow> translator_clients" where
  "translator_clients_of env =
     \<lparr>tc_mesh = watched (se_Meshes env) (se_watchMesh env),
      tc_routingRule = watched (se_RoutingRules env) (se_watchRoutingRule env),
      tc_upstream = watched (se_Upstreams env) (se_watchUpstream env),
      tc_istioCacertsSecret = watched (se_Secrets env) (se_watchSecret env)\<rparr>"

section \<open>Main\<close>

definition defaultNamespaces :: "string list" where
  "defaultNamespaces = [''supergloo-system'', ''gloo-system'', ''default'']"

text \<open>What runs once \<open>Main\<close> has started: the namespaces watched and the syncers of the two loops.\<close>

record 'w running =
  run_namespaces :: "string list"
  run_translatorSyncers :: "'w syncer list"
  run_installSyncers :: "(install_snapshot \<Rightarrow> ('w, unit) act) list"

definition translatorSyncersOf ::
  "('d, 'v, 'p, 'm, 's, 'k, 'c, 'rc, 'rb, 'rr) setup_env \<Rightarrow> string list \<Rightarrow> 'k clientset \<Rightarrow>
   ('d, destination_rule) client \<Rightarrow> ('v, virtual_service) client \<Rightarrow> ('p, prometheus_resource) client \<Rightarrow>
   ('s, istio_cacerts_secret) client \<Rightarrow> ('rc, 'rb, 'rr) policy_syncer \<Rightarrow>
   ('d, 'v, 'p, 'm, 's, 'k, 'c, 'rc, 'rb, 'rr) world syncer list"
where
  "translatorSyncersOf env namespaces kubeClient destinationRuleClient virtualServiceClient prometheusClient secretClient
     istioPolicySyncer =
     [\<lambda>snap. at_routing (MeshRoutingSyncer_Sync (se_routing env)
        (NewMeshRoutingSyncer namespaces None destinationRuleClient virtualServiceClient) snap),
      \<lambda>snap. at_prometheus (PrometheusSyncer_Sync
        (istio_NewPrometheusSyncer (Some (cs_Writer kubeClient)) prometheusClient) snap),
      \<lambda>snap. at_prometheus (PrometheusSyncer_Sync
        (linkerd2_NewPrometheusSyncer (Some (cs_Writer kubeClient)) prometheusClient) snap),
      \<lambda>snap. at_consul (ConsulSyncer_Sync (se_ConsulAt env) 0 snap),
      \<lambda>snap. at_consul (ConsulPolicySyncer_Sync (se_Consul env) snap),
      \<lambda>snap. at_secrets (EncryptionSyncer_Sync
        \<lparr>es_Kube = Some (cs_Writer kubeClient), es_SecretClient = secretClient\<rparr> snap),
      \<lambda>snap. at_rbac (PolicySyncer_Sync (se_policyRange env) istioPolicySyncer snap)]"

definition installSyncersOf ::
  "('d, 'v, 'p, 'm, 's, 'k, 'c, 'rc, 'rb, 'rr) setup_env \<Rightarrow> 'k clientset \<Rightarrow> 'k kube_api \<Rightarrow> ('m, mesh) client \<Rightarrow>
   ('s, istio_cacerts_secret) client \<Rightarrow>
   (install_snapshot \<Rightarrow> (('d, 'v, 'p, 'm, 's, 'k, 'c, 'rc, 'rb, 'rr) world, unit) act) list"
where
  "installSyncersOf env kubeClient apiExts meshClient secretClient =
     [\<lambda>snap. at_installs (InstallSyncer_Sync
        \<lparr>is_Kube = kubeClient, is_MeshClient = meshClient, is_SecurityClient = None, is_ApiExts = apiExts,
         is_SecretClient = secretClient, is_Helm = se_Helm env, is_fuel = se_fuel env, is_yaml = se_yaml env,
         is_IstioCrdYaml = se_IstioCrdYaml env\<rparr> snap)]"

text \<open>
  \<open>Main\<close> up to its last loop, which never ends because its context is never cancelled. The two
  event loops start with their watches, and return the error of the first watch that does not start.
\<close>

definition setup_Main ::
  "('d, 'v, 'p, 'm, 's, 'k, 'c, 'rc, 'rb, 'rr) setup_env \<Rightarrow> string list \<Rightarrow>
   ('d, 'v, 'p, 'm, 's, 'k, 'c, 'rc, 'rb, 'rr) world running go"
where
  "setup_Main env args =
     (let namespaces = (if length args = 0 then defaultNamespaces else args) in
      gbind (se_GetConfig env) (\<lambda>_.
      gbind (se_Kube env) (\<lambda>kubeClient.
      gbind (new_registered (se_DestinationRules env)) (\<lambda>destinationRuleClient.
      gbind (new_registered (se_VirtualServices env)) (\<lambda>virtualServiceClient.
      gbind (new_registered (se_Prometheus env)) (\<lambda>prometheusClient.
      gbind (new_registered (se_Meshes env)) (\<lambda>meshClient.
      gbind (new_registered (se_Installs env)) (\<lambda>_.
      gbind (new_registered (se_RoutingRules env)) (\<lambda>_.
      gbind (new_registered (se_Upstreams env)) (\<lambda>_.
      gbind (new_registered (se_Secrets env)) (\<lambda>secretClient.
      gbind (NewPolicySyncer ''supergloo-system''
          (rg_New (se_ServiceRoleBindings env)) (rg_Register (se_ServiceRoleBindings env))
          (rg_New (se_ServiceRoles env)) (rg_Register (se_ServiceRoles env))
          (rg_New (se_RbacConfigs env)) (rg_Register (se_RbacConfigs env)) (se_PolicyKube env)) (\<lambda>istioPolicySyncer.
      gbind (gwrap ''creating api extensions client'' (se_ApiExts env)) (\<lambda>apiExts.
      gbind (gwrap ''starting snapshot watch'' (translatorEmitter_Snapshots (translator_clients_of env) namespaces)) (\<lambda>_.
      gbind (gwrap ''starting snapshot watch''
        (installEmitter_Snapshots (watched (se_Installs env) (se_watchInstall env))
          (watched (se_Secrets env) (se_watchSecret env)) namespaces)) (\<lambda>_.
      Ret \<lparr>run_namespaces = namespaces,
           run_translatorSyncers = translatorSyncersOf env namespaces kubeClient destinationRuleClient
             virtualServiceClient prometheusClient secretClient istioPolicySyncer,
           run_installSyncers = installSyncersOf env kubeClient apiExts meshClient secretClient\<rparr>)))))))))))))))"

section \<open>The two loops\<close>

text \<open>
  Each loop takes up the snapshots of its emitter, one after the other; the order between the
  two is not determined. A run is the sequence of snapshots in the order in which they are taken
  up, \<open>Inl\<close> by the translator and \<open>Inr\<close> by the installer. The syncs of the two loops may overlap in
  time; here one ends before the next begins.
\<close>

fun run_loops :: "('p \<Rightarrow> ('w, unit) act) \<Rightarrow> ('q \<Rightarrow> ('w, unit) act) \<Rightarrow> ('p + 'q) list \<Rightarrow> ('w, err list) act" where
  "run_loops translate inst [] = aret []"
| "run_loops translate inst (x # xs) =
     abind (atry (case x of Inl p \<Rightarrow> translate p | Inr q \<Rightarrow> inst q)) (\<lambda>r.
     abind (run_loops translate inst xs) (\<lambda>es. aret (case r of Inl e \<Rightarrow> e # es | Inr _ \<Rightarrow> es)))"

definition run_system ::
  "'w running \<Rightarrow> (translator_snapshot + install_snapshot) list \<Rightarrow> ('w, err list) act" where
  "run_system r = run_loops (TranslatorSyncers_Sync (run_translatorSyncers r)) (InstallSyncers_Sync (run_installSyncers r))"

text \<open>One loop alone is the event loop of the generated code.\<close>

lemma run_loops_Inl: "run_loops translate inst (map Inl ps) = event_loop translate ps"
  by (induction ps) simp_all

lemma run_loops_Inr: "run_loops translate inst (map Inr qs) = event_loop inst qs"
  by (induction qs) simp_all

end
