(* ===== verification/Istio_Routing_Examples.thy ===== *)
theory Istio_Routing_Examples
  imports Istio_Routing_Sync
begin

text \<open>
  The examples on which the properties of the routing translator are applied: one Istio mesh
  with mutual TLS, two Kubernetes upstreams, and first one rule that shifts the traffic of one to
  the other, then three rules of which two are merged.
\<close>

section \<open>An example\<close>

definition ex_ref :: "string \<Rightarrow> resource_ref" where
  "ex_ref name = ResourceRef ''ns'' name"

definition ex_mesh :: mesh where
  "ex_mesh =
     \<lparr>mesh_Status = zero_status, mesh_Metadata = new_metadata ''ns'' ''m'',
      mesh_MeshType = Some (Mesh_Istio (Some \<lparr>istio_InstallationNamespace = ''sys'',
        istio_WatchNamespaces = [], istio_PrometheusConfigmap = None\<rparr>)),
      mesh_Encryption = Some \<lparr>enc_TlsEnabled = True, enc_Secret = None\<rparr>,
      mesh_Observability = None, mesh_Policy = None\<rparr>"

definition ex_upstream :: "string \<Rightarrow> string \<Rightarrow> upstream" where
  "ex_upstream name version =
     \<lparr>upstream_UpstreamSpec = Some \<lparr>us_UpstreamType = Some (UpstreamSpec_Kube
        \<lparr>kube_ServiceName = ''svc'', kube_ServiceNamespace = ''ns'', kube_ServicePort = 80,
         kube_Selector = [(''version'', version)]\<rparr>)\<rparr>,
      upstream_Status = zero_status, upstream_Metadata = new_metadata ''ns'' name\<rparr>"

definition ex_upstreams :: "upstream list" where
  "ex_upstreams = [ex_upstream ''u1'' ''v1'', ex_upstream ''u2'' ''v2'']"

definition ex_rule :: routing_rule where
  "ex_rule = (new_rule ([ex_ref ''u1''], [ex_ref ''u2''], None))
     \<lparr>rr_Metadata := new_metadata ''ns'' ''r'', rr_TargetMesh := Some (ex_ref ''m''),
      rr_TrafficShifting := Some [\<lparr>wd_Upstream = Some (ex_ref ''u2''), wd_Weight = 90\<rparr>],
      rr_Timeout := Some \<lparr>dur_Seconds = 3, dur_Nanos = 0\<rparr>\<rparr>"

definition ex_env :: routing_env where
  "ex_env = \<lparr>env_Hash = (\<lambda>k. 7), range_labelsByHost = id, range_meshesByRule = id,
     range_rulesByMeshByHost = id, range_rulesByMesh = id, range_rulesByUniqueMatch = id\<rparr>"

lemma ex_env_valid [simp]: "valid_env ex_env"
  by (simp add: valid_env_def ex_env_def)

definition ex_host :: string where
  "ex_host = ''svc.ns.svc.cluster.local''"

definition ex_drs :: "destination_rule list" where
  "ex_drs = [destinationRuleForHost ex_mesh ex_host [[(''version'', ''v1'')], [(''version'', ''v2'')]]]"

definition ex_route :: http_route where
  "ex_route =
     \<lparr>hr_Match = [convertMatcher [(''version'', ''v1'')] prefix_matcher],
      hr_Route = [\<lparr>dw_Destination = \<lparr>dest_Host = ex_host, dest_Subset = ''version-v2'',
        dest_Port = Some (PortSelector_Number 80)\<rparr>, dw_Weight = 0\<rparr>],
      hr_Timeout = Some \<lparr>dur_Seconds = 3, dur_Nanos = 0\<rparr>,
      hr_Retries = None, hr_Fault = None, hr_Mirror = None, hr_CorsPolicy = None,
      hr_AppendHeaders = [], hr_RemoveResponseHeaders = []\<rparr>"

definition ex_vs :: virtual_service where
  "ex_vs =
     \<lparr>vs_Status = zero_status, vs_Metadata = new_metadata ''ns'' (''m-'' @ ex_host),
      vs_Hosts = [ex_host], vs_Gateways = [''mesh''], vs_Http = [ex_route]\<rparr>"

lemma ex_simps [simp]:
  "getHostForUpstream (ex_upstream n v) = Ret ex_host"
  "getLabelsForUpstream (ex_upstream n v) = Ret [(''version'', v)]"
  "getPortForUpstream (ex_upstream n v) = Ret 80"
  "upstream_Metadata (ex_upstream n v) = new_metadata ''ns'' n"
  "mesh_Metadata ex_mesh = new_metadata ''ns'' ''m''"
  "rr_TargetMesh ex_rule = Some (ResourceRef ''ns'' ''m'')"
  by (simp_all add: ex_upstream_def ex_host_def ex_mesh_def ex_rule_def ex_ref_def
      host_type getLabelsForUpstream_def getPortForUpstream_def upstream_Type_def)

lemma ex_ranges [simp]:
  "range_labelsByHost ex_env = id" "range_meshesByRule ex_env = id"
  "range_rulesByMeshByHost ex_env = id" "range_rulesByMesh ex_env = id"
  "range_rulesByUniqueMatch ex_env = id" "env_Hash ex_env k = 7"
  by (simp_all add: ex_env_def)

lemma ex_find [simp]:
  "list_Find mesh_Metadata ''ns'' ''m'' [ex_mesh] = Ret ex_mesh"
  "list_Find upstream_Metadata ''ns'' ''u1'' ex_upstreams = Ret (ex_upstream ''u1'' ''v1'')"
  "list_Find upstream_Metadata ''ns'' ''u2'' ex_upstreams = Ret (ex_upstream ''u2'' ''v2'')"
  by (simp_all add: ref_matches_def ex_upstreams_def)

lemma ex_istio [simp]:
  "getIstioMeshForRule ex_rule [ex_mesh] =
     Ret (Some \<lparr>istio_InstallationNamespace = ''sys'', istio_WatchNamespaces = [],
       istio_PrometheusConfigmap = None\<rparr>)"
  by (simp add: getIstioMeshForRule_def) (simp add: ex_mesh_def)

lemma ex_subset [simp]: "subsetName [(''version'', ''v2'')] = ''version-v2''"
  by code_simp

lemma ex_destinationRules:
  "destinationRulesForUpstreams ex_env [ex_rule] [ex_mesh] ex_upstreams = Ret ex_drs"
  by (simp add: destinationRulesForUpstreams_def addMeshForRule_def ex_upstreams_def
      addLabelsByHost_def map_append_def ex_drs_def list_Sort_def)

lemma ex_merged:
  "mergeRulesByMatch ex_env [ex_rule] =
     Ret [ex_rule\<lparr>rr_Metadata := new_metadata [] [], rr_TargetMesh := None\<rparr>]"
  by (simp add: mergeRulesByMatch_def group_by_def map_append_def merge_group_def merge_rule_def
      merge_feature_def list_Sort_def)
    (simp add: ex_rule_def uniqueMatch_def new_rule_def set_features_def)

lemma ex_virtualServices:
  "virtualServicesForRules ex_env [ex_rule] [ex_mesh] ex_upstreams = Ret [ex_vs]"
proof -
  have "meshEntryForRule [ex_mesh] ex_rule = Ret (ex_rule, [ex_mesh])"
    by (simp add: meshEntryForRule_def validateRule_def)
  moreover have "upstreamsForRule ex_rule ex_upstreams = Ret [ex_upstream ''u2'' ''v2'']"
    by (simp add: upstreamsForRule_def) (simp add: ex_rule_def new_rule_def ex_ref_def)
  moreover have "virtualServiceForHost ex_env ex_host [ex_rule] ex_mesh ex_upstreams = Ret ex_vs"
    by (simp add: virtualServiceForHost_def ex_merged httpRouteForRule_def createIstioMatcher_def
        source_labels_def createLoadBalancedRoute_def addHttpFeatures_def del: gbind_eq_Ret)
      (simp add: ex_rule_def new_rule_def ex_ref_def source_labels_def createLoadBalancedRoute_def
        ex_vs_def ex_route_def new_http_route_def del: gbind_eq_Ret)
  ultimately show ?thesis
    by (simp add: virtualServicesForRules_def addUniqueHosts_def groupRules_def addRuleForHost_def
        map_append_def)
qed

section \<open>Rules that are merged\<close>

text \<open>
  Three rules of the mesh. Two are for the same requests, with a matcher that uses methods and a
  header with a regular expression: one shifts and mirrors traffic and changes headers, the other
  sets a timeout. The third is for all requests. The hash tells the two kinds apart, and the
  maps are ranged over backwards.
\<close>

text \<open>A concrete engine: a pattern is a list of words separated by bars.\<close>

definition rx_words :: "string \<Rightarrow> string \<Rightarrow> bool" where
  "rx_words p s \<longleftrightarrow> s \<in> set (strings_Split p ''|'')"

lemma rx_words_alternatives:
  "ms \<noteq> [] \<Longrightarrow> (\<And>m. m \<in> set ms \<Longrightarrow> CHR ''|'' \<notin> set m) \<Longrightarrow> rx_alternatives rx_words ms"
  by (simp add: rx_alternatives_def rx_words_def Split_Join)

lemma rx_words_simps [simp]:
  "rx_words ''GET|POST'' s \<longleftrightarrow> s = ''GET'' \<or> s = ''POST''" "rx_words ''1|2'' s \<longleftrightarrow> s = ''1'' \<or> s = ''2''"
proof -
  have "strings_Split ''GET|POST'' ''|'' = [''GET'', ''POST'']" "strings_Split ''1|2'' ''|'' = [''1'', ''2'']"
    by code_simp+
  then show "rx_words ''GET|POST'' s \<longleftrightarrow> s = ''GET'' \<or> s = ''POST''" "rx_words ''1|2'' s \<longleftrightarrow> s = ''1'' \<or> s = ''2''"
    by (simp_all add: rx_words_def)
qed

definition ex_matcher :: matcher where
  "ex_matcher =
     \<lparr>matcher_PathSpecifier = Some (Matcher_Prefix ''/a''),
      matcher_Headers = [\<lparr>hm_Name = ''x-version'', hm_Value = ''1|2'', hm_Regex = True\<rparr>],
      matcher_QueryParameters = [], matcher_Methods = [''GET'', ''POST'']\<rparr>"

lemma ex_matcher_expressible:
  "expressible rx_words ex_matcher \<and>
     (matcher_Methods ex_matcher \<noteq> [] \<longrightarrow> rx_alternatives rx_words (matcher_Methods ex_matcher))"
  by (auto simp: expressible_def ex_matcher_def intro!: rx_words_alternatives)

definition ex_key :: match_key where
  "ex_key = ([ResourceRef ''ns'' ''u1''], [ResourceRef ''ns'' ''u2''], Some [ex_matcher])"

definition ex_headers :: header_manipulation where
  "ex_headers =
     \<lparr>hman_RemoveResponseHeaders = [''server''], hman_AppendResponseHeaders = [],
      hman_RemoveRequestHeaders = [''cookie''], hman_AppendRequestHeaders = [(''x-mesh'', ''m'')]\<rparr>"

definition ex_shift :: routing_rule where
  "ex_shift = (new_rule ex_key)
     \<lparr>rr_Metadata := new_metadata ''ns'' ''shift'', rr_TargetMesh := Some (ResourceRef ''ns'' ''m''),
      rr_TrafficShifting := Some [\<lparr>wd_Upstream = Some (ResourceRef ''ns'' ''u2''), wd_Weight = 90\<rparr>],
      rr_Mirror := Some (ResourceRef ''ns'' ''u1''), rr_HeaderManipulaition := Some ex_headers\<rparr>"

definition ex_timed :: "match_key \<Rightarrow> int \<Rightarrow> routing_rule" where
  "ex_timed k s = (new_rule k)
     \<lparr>rr_Metadata := new_metadata ''ns'' ''timed'', rr_TargetMesh := Some (ResourceRef ''ns'' ''m''),
      rr_Timeout := Some \<lparr>dur_Seconds = s, dur_Nanos = 0\<rparr>\<rparr>"

definition ex_rules :: "routing_rule list" where
  "ex_rules = [ex_shift, ex_timed ([], [], None) 9, ex_timed ex_key 3]"

definition ex_keyed :: routing_env where
  "ex_keyed =
     \<lparr>env_Hash = (\<lambda>(sources, destinations, matchers). word_of_nat (length sources)),
      range_labelsByHost = id, range_meshesByRule = rev, range_rulesByMeshByHost = id,
      range_rulesByMesh = id, range_rulesByUniqueMatch = rev\<rparr>"

lemma ex_keyed_simps [simp]:
  "valid_env ex_keyed" "env_Hash ex_keyed (ss, ds, ms) = word_of_nat (length ss)"
  "range_meshesByRule ex_keyed = rev" "range_rulesByMeshByHost ex_keyed = id"
  "range_rulesByMesh ex_keyed = id" "range_rulesByUniqueMatch ex_keyed = rev"
  "env_Hash ex_keyed ex_key = 1"
  by (simp_all add: ex_keyed_def valid_env_def ex_key_def)

lemma ex_key_simps [simp]:
  "ex_key \<noteq> ([], [], None)" "([], [], None) \<noteq> ex_key" "fst ex_key = [ResourceRef ''ns'' ''u1'']"
  "fst (snd ex_key) = [ResourceRef ''ns'' ''u2'']" "snd (snd ex_key) = Some [ex_matcher]"
  by (simp_all add: ex_key_def)

lemma ex_shift_fields [simp]:
  "rr_Metadata ex_shift = new_metadata ''ns'' ''shift''" "uniqueMatch ex_shift = ex_key"
  "rr_TargetMesh ex_shift = Some (ResourceRef ''ns'' ''m'')"
  "rr_TrafficShifting ex_shift = Some [\<lparr>wd_Upstream = Some (ResourceRef ''ns'' ''u2''), wd_Weight = 90\<rparr>]"
  "rr_FaultInjection ex_shift = None" "rr_Timeout ex_shift = None" "rr_Retries ex_shift = None"
  "rr_CorsPolicy ex_shift = None" "rr_Mirror ex_shift = Some (ResourceRef ''ns'' ''u1'')"
  "rr_HeaderManipulaition ex_shift = Some ex_headers"
  "rr_Sources ex_shift = [ResourceRef ''ns'' ''u1'']" "rr_Destinations ex_shift = [ResourceRef ''ns'' ''u2'']"
  "rr_RequestMatchers ex_shift = Some [ex_matcher]"
  by (simp_all add: ex_shift_def new_rule_def ex_key_def uniqueMatch_def)

lemma ex_timed_fields [simp]:
  "rr_Metadata (ex_timed k s) = new_metadata ''ns'' ''timed''" "uniqueMatch (ex_timed k s) = k"
  "rr_TargetMesh (ex_timed k s) = Some (ResourceRef ''ns'' ''m'')"
  "rr_TrafficShifting (ex_timed k s) = None" "rr_FaultInjection (ex_timed k s) = None"
  "rr_Timeout (ex_timed k s) = Some \<lparr>dur_Seconds = s, dur_Nanos = 0\<rparr>"
  "rr_Retries (ex_timed k s) = None" "rr_CorsPolicy (ex_timed k s) = None"
  "rr_Mirror (ex_timed k s) = None" "rr_HeaderManipulaition (ex_timed k s) = None"
  "rr_Sources (ex_timed k s) = fst k" "rr_Destinations (ex_timed k s) = fst (snd k)"
  "rr_RequestMatchers (ex_timed k s) = snd (snd k)"
  by (cases k; simp add: ex_timed_def new_rule_def uniqueMatch_def)+

lemma ex_keyed_inj: "inj_on (env_Hash ex_keyed) (uniqueMatch ` set ex_rules)"
  by (auto simp: inj_on_def ex_rules_def)

text \<open>The merged rules.\<close>

definition ex_both :: routing_rule where
  "ex_both = set_features (new_rule ex_key)
     (Some [\<lparr>wd_Upstream = Some (ResourceRef ''ns'' ''u2''), wd_Weight = 90\<rparr>]) None
     (Some \<lparr>dur_Seconds = 3, dur_Nanos = 0\<rparr>) None None
     (Some (ResourceRef ''ns'' ''u1'')) (Some ex_headers)"

definition ex_default :: routing_rule where
  "ex_default = set_features (new_rule ([], [], None)) None None
     (Some \<lparr>dur_Seconds = 9, dur_Nanos = 0\<rparr>) None None None None"

lemma ex_both_fields [simp]:
  "rr_Metadata ex_both = new_metadata [] []" "uniqueMatch ex_both = ex_key"
  "rr_Sources ex_both = [ResourceRef ''ns'' ''u1'']" "rr_RequestMatchers ex_both = Some [ex_matcher]"
  "rr_TrafficShifting ex_both = Some [\<lparr>wd_Upstream = Some (ResourceRef ''ns'' ''u2''), wd_Weight = 90\<rparr>]"
  "rr_Mirror ex_both = Some (ResourceRef ''ns'' ''u1'')" "rr_HeaderManipulaition ex_both = Some ex_headers"
  "rr_Timeout ex_both = Some \<lparr>dur_Seconds = 3, dur_Nanos = 0\<rparr>"
  by (simp_all add: ex_both_def set_features_def uniqueMatch_def new_rule_def ex_key_def)

lemma ex_default_fields [simp]:
  "rr_Metadata ex_default = new_metadata [] []" "uniqueMatch ex_default = ([], [], None)"
  "rr_Sources ex_default = []" "rr_RequestMatchers ex_default = None" "rr_TrafficShifting ex_default = None"
  "rr_Mirror ex_default = None" "rr_HeaderManipulaition ex_default = None"
  by (simp_all add: ex_default_def set_features_def uniqueMatch_def new_rule_def)

lemma ex_merge_groups:
  "merge_group [ex_shift, ex_timed ex_key 3] = Ret ex_both"
  "merge_group [ex_timed ex_key 3, ex_shift] = Ret ex_both"
  "merge_group [ex_timed ([], [], None) 9] = Ret ex_default"
  "merge_group [ex_timed k i, ex_timed k j] = Fail (Errorf ''Timeout redefined in for match %v'')"
  by (simp_all add: merge_group_def merge_rule_def merge_feature_def ex_both_def ex_default_def
      del: gbind_eq_Ret gbind_eq_Fail)

lemma ex_rules_merged:
  "mergeRulesByMatch ex_keyed ex_rules = Ret [ex_default, ex_both]"
  "mergeRulesByMatch ex_keyed (rev ex_rules) = Ret [ex_default, ex_both]"
  by (simp_all add: mergeRulesByMatch_def group_by_def map_append_def ex_rules_def ex_merge_groups
      list_Sort_def del: gbind_eq_Ret)

lemma ex_conflict:
  "mergeRulesByMatch ex_keyed [ex_timed ex_key 3, ex_timed ([], [], None) 9, ex_timed ex_key 4] =
     Fail (Errorf ''Timeout redefined in for match %v'')"
  by (simp add: mergeRulesByMatch_def group_by_def map_append_def ex_merge_groups
      del: gbind_eq_Ret gbind_eq_Fail)

text \<open>Their routes, and the one virtual service.\<close>

definition ex_match :: http_match_request where
  "ex_match =
     \<lparr>hmr_Uri = Some (StringMatch_Prefix ''/a''), hmr_Method = Some (StringMatch_Regex ''GET|POST''),
      hmr_Headers = [(''x-version'', StringMatch_Regex ''1|2'')],
      hmr_SourceLabels = [(''version'', ''v1'')]\<rparr>"

lemma ex_convert: "convertMatcher [(''version'', ''v1'')] ex_matcher = ex_match"
  by (simp add: convertMatcher_def ex_matcher_def ex_match_def convertPath_def convertHeader_def)

lemma ex_matches:
  "createIstioMatcher ex_both ex_upstreams = Ret [ex_match]"
  "createIstioMatcher ex_default ex_upstreams = Ret [catch_all_match]"
  "createIstioMatcher ex_shift ex_upstreams = Ret [ex_match]"
  by (simp_all add: createIstioMatcher_def source_labels_def ex_convert del: gbind_eq_Ret)

lemma ex_routes: "\<exists>r r'. gmapM (httpRouteForRule ex_host ex_upstreams) [ex_default, ex_both] = Ret [r, r']"
  by (simp add: httpRouteForRule_def ex_matches createLoadBalancedRoute_def addHttpFeatures_def
      mirrorDestination_def Let_def del: gbind_eq_Ret)

lemma ex_rules_services:
  "\<exists>vs. virtualServicesForRules ex_keyed ex_rules [ex_mesh] ex_upstreams = Ret [vs]"
proof -
  have entry: "meshEntryForRule [ex_mesh] r = Ret (r, [ex_mesh])" if "r \<in> set ex_rules" for r
  proof -
    have "rr_TargetMesh r = Some (ResourceRef ''ns'' ''m'')" using that by (auto simp: ex_rules_def)
    then show ?thesis
      by (simp add: meshEntryForRule_def validateRule_def getIstioMeshForRule_def) (simp add: ex_mesh_def)
  qed
  have entries: "gmapM (meshEntryForRule [ex_mesh]) ex_rules = Ret (map (\<lambda>r. (r, [ex_mesh])) ex_rules)"
    by (rule gmapM_all_Ret) (rule entry)
  have ups: "upstreamsForRule ex_shift ex_upstreams = Ret [ex_upstream ''u2'' ''v2'']"
      "upstreamsForRule (ex_timed ex_key 3) ex_upstreams = Ret [ex_upstream ''u2'' ''v2'']"
      "upstreamsForRule (ex_timed ([], [], None) 9) ex_upstreams =
         Ret [ex_upstream ''u1'' ''v1'', ex_upstream ''u2'' ''v2'']"
    by (simp_all add: upstreamsForRule_def) (simp add: ex_upstreams_def)
  have hosts: "gfold (addUniqueHosts ex_upstreams) ex_rules [] = Ret [ex_host]"
    by (simp add: ex_rules_def addUniqueHosts_def ups del: gbind_eq_Ret)
  have groups: "groupRules [ex_host] (rev (map (\<lambda>r. (r, [ex_mesh])) ex_rules)) =
      [(ex_host, [(ex_mesh, rev ex_rules)])]"
    by (simp add: groupRules_def addRuleForHost_def map_append_def ex_rules_def)
  obtain vs where "virtualServiceForHost ex_keyed ex_host (rev ex_rules) ex_mesh ex_upstreams = Ret vs"
    using ex_routes by (auto simp: virtualServiceForHost_def ex_rules_merged del: gbind_eq_Ret)
  then show ?thesis
    by (simp add: virtualServicesForRules_def entries hosts groups del: gbind_eq_Ret)
qed

lemma ex_rules_hosts: "ex_host \<in> ruleHosts ex_rules ex_upstreams"
proof -
  have "upstreamsForRule ex_shift ex_upstreams = Ret [ex_upstream ''u2'' ''v2'']"
    by (simp add: upstreamsForRule_def)
  then show ?thesis
    by (auto simp: ruleHosts_def ex_rules_def upstreamHosts_def intro!: bexI [of _ ex_shift])
qed

lemma ex_rules_meshes: "ruleMeshes ex_rules [ex_mesh] = {ex_mesh}"
  by (auto simp: ruleMeshes_def ex_rules_def)

lemma ex_rules_hosts_all: "ruleHosts ex_rules ex_upstreams = {ex_host}"
  using ex_rules_hosts ruleHosts_subset [of ex_rules ex_upstreams]
  by (auto simp: upstreamHosts_def ex_upstreams_def)

definition ex_call :: "string \<Rightarrow> request" where
  "ex_call method = \<lparr>req_Path = ''/a/b'', req_Method = method, req_Headers = [(''x-version'', ''2'')],
     req_Query = [], req_SourceLabels = [(''version'', ''v1'')]\<rparr>"

lemma ex_call_path: "strings_HasPrefix (req_Path (ex_call m)) ''/''"
  by (simp add: ex_call_def strings_HasPrefix_def)

lemma ex_rules_member: "ex_shift \<in> set ex_rules"
  by (simp add: ex_rules_def)

lemma ex_call_accepted: "rule_accepts rx_words ex_upstreams ex_shift (ex_call m) \<longleftrightarrow> m = ''GET'' \<or> m = ''POST''"
  by (simp add: rule_accepts_def source_accepts_def source_labels_def has_labels_def ex_call_def
      matcher_accepts_def ex_matcher_def strings_HasPrefix_def field_accepts_def)

end
