(* ===== verification/Istio_Routing_Properties.thy ===== *)
theory Istio_Routing_Properties
  imports Istio_Routing_Examples
begin

text \<open>
  The properties of the routing translator, each with a witness on the examples of
  \<open>Istio_Routing_Examples\<close>.
\<close>

section \<open>Routes and subsets\<close>

text \<open>
  C1: Every subset that a generated virtual service routes or mirrors requests to is defined: the
  destination rules generated from the same snapshot hold one for that host in the same
  namespace with a subset of that name. (A route without a subset goes to the whole host.)
\<close>

theorem routed_subsets_defined:
  assumes drs: "destinationRulesForUpstreams env rules meshes upstreams = Ret drs"
    and vss: "virtualServicesForRules env rules meshes upstreams = Ret vss"
    and env: "valid_env env"
    and d: "vs \<in> set vss" "route \<in> set (vs_Http vs)" "d \<in> routeDestinations route" "dest_Subset d \<noteq> []"
  shows "\<exists>dr \<in> set drs. meta_Namespace (dr_Metadata dr) = meta_Namespace (vs_Metadata vs) \<and>
     dr_Host dr = dest_Host d \<and> dest_Subset d \<in> subset_Name ` set (dr_Subsets dr)"
proof -
  obtain h m where m: "m \<in> ruleMeshes rules meshes"
      "virtualServiceForHost env h (rulesForMesh env rules meshes m) m upstreams = Ret vs"
    using virtualServices_set(1) [OF vss env, of vs] d(1) by blast
  obtain merged where vs: "list_all2 (routeOfRule upstreams h) merged (vs_Http vs)"
      "meta_Namespace (vs_Metadata vs) = meta_Namespace (mesh_Metadata m)"
    using virtualServiceForHost_Ret [OF m(2)] by auto
  obtain rule where "routeOfRule upstreams h rule route"
    using vs(1) d(2) by (metis in_set_conv_nth list_all2_conv_all_nth)
  then have "upstreamSubset upstreams (dest_Host d) (dest_Subset d)"
    by (rule routeDestinations_subsets [OF _ d(3,4)])
  then obtain us where us: "us \<in> set upstreams" "getHostForUpstream us = Ret (dest_Host d)"
      "dest_Subset d = subsetName (labelsOf us)"
    by (auto simp: upstreamSubset_def)
  let ?dr = "destinationRuleForHost m (dest_Host d) (labelsAtHost upstreams (dest_Host d))"
  have "?dr \<in> set drs"
    using destinationRules_set [OF drs env] m(1) us by (auto simp: upstreamHosts_def)
  moreover have "dest_Subset d \<in> subset_Name ` set (dr_Subsets ?dr)"
    using us by (auto simp: destinationRuleForHost_def labelsAtHost_def subsetForLabels_def image_image)
  ultimately show ?thesis
    using vs(2) by (intro bexI [of _ ?dr]) (simp_all add: destinationRuleForHost_def)
qed

theorem routed_subsets_defined_witness:
  "\<exists>dr \<in> set ex_drs. meta_Namespace (dr_Metadata dr) = meta_Namespace (vs_Metadata ex_vs) \<and>
     dr_Host dr = ex_host \<and> ''version-v2'' \<in> subset_Name ` set (dr_Subsets dr)"
  using routed_subsets_defined [OF ex_destinationRules ex_virtualServices ex_env_valid,
      of ex_vs ex_route "dw_Destination (hd (hr_Route ex_route))"]
  by (simp add: ex_vs_def ex_route_def routeDestinations_def)

section \<open>Virtual services\<close>

text \<open>
  C3: There is exactly one virtual service for each host of the rules' destinations and each target
  mesh, named after the two. Its routes realise the merged rules of that mesh one to one: they
  are in the order in which \<open>mergeRulesByMatch\<close> returns them, which is the range order of its
  map. When the hash tells the rules apart, the merged rules have different sources,
  destinations and matchers, cover exactly those of the mesh's rules, and have exactly the
  features that some rule of the group sets.
\<close>

theorem virtual_services_realise_rules:
  assumes vss: "virtualServicesForRules env rules meshes upstreams = Ret vss"
    and env: "valid_env env" and inj: "inj_on (env_Hash env) (uniqueMatch ` set rules)"
  shows "length vss = card (ruleHosts rules upstreams) * card (ruleMeshes rules meshes) \<and>
     distinct (map (\<lambda>vs. (vs_Hosts vs, Metadata_Ref (vs_Metadata vs))) vss) \<and>
     (\<forall>vs \<in> set vss. \<exists>h \<in> ruleHosts rules upstreams. \<exists>m \<in> ruleMeshes rules meshes.
       \<exists>merged rs. vs_Hosts vs = [h] \<and>
         vs_Metadata vs = new_metadata (meta_Namespace (mesh_Metadata m))
           (meta_Name (mesh_Metadata m) @ ''-'' @ h) \<and>
         mset rs = mset (filter (\<lambda>r. \<exists>t. rr_TargetMesh r = Some t \<and> find_mesh t meshes = Ret m) rules) \<and>
         mergeRulesByMatch env rs = Ret merged \<and>
         list_all2 (routeOfRule upstreams h) merged (vs_Http vs) \<and>
         distinct (map uniqueMatch merged) \<and> uniqueMatch ` set merged = uniqueMatch ` set rs \<and>
         (\<forall>mr \<in> set merged. same_features (filter (\<lambda>r. uniqueMatch r = uniqueMatch mr) rs) mr)) \<and>
     (\<forall>h \<in> ruleHosts rules upstreams. \<forall>m \<in> ruleMeshes rules meshes. \<exists>vs \<in> set vss.
        vs_Hosts vs = [h] \<and> meta_Namespace (vs_Metadata vs) = meta_Namespace (mesh_Metadata m) \<and>
        meta_Name (vs_Metadata vs) = meta_Name (mesh_Metadata m) @ ''-'' @ h)"
proof -
  have each: "\<exists>h \<in> ruleHosts rules upstreams. \<exists>m \<in> ruleMeshes rules meshes.
       \<exists>merged rs. vs_Hosts vs = [h] \<and>
         vs_Metadata vs = new_metadata (meta_Namespace (mesh_Metadata m))
           (meta_Name (mesh_Metadata m) @ ''-'' @ h) \<and>
         mset rs = mset (filter (\<lambda>r. \<exists>t. rr_TargetMesh r = Some t \<and> find_mesh t meshes = Ret m) rules) \<and>
         mergeRulesByMatch env rs = Ret merged \<and>
         list_all2 (routeOfRule upstreams h) merged (vs_Http vs) \<and>
         distinct (map uniqueMatch merged) \<and> uniqueMatch ` set merged = uniqueMatch ` set rs \<and>
         (\<forall>mr \<in> set merged. same_features (filter (\<lambda>r. uniqueMatch r = uniqueMatch mr) rs) mr)"
    if "vs \<in> set vss" for vs
  proof -
    obtain h m where h: "h \<in> ruleHosts rules upstreams" "m \<in> ruleMeshes rules meshes"
        "virtualServiceForHost env h (rulesForMesh env rules meshes m) m upstreams = Ret vs"
      using virtualServices_set(1) [OF vss env, of vs] \<open>vs \<in> set vss\<close> by blast
    let ?rs = "rulesForMesh env rules meshes m"
    have rs: "mset ?rs = mset (filter (\<lambda>r. \<exists>t. rr_TargetMesh r = Some t \<and> find_mesh t meshes = Ret m) rules)"
      by (rule virtualServices_set(3) [OF vss env])
    then have "set ?rs \<subseteq> set rules"
      using mset_eq_setD [OF rs] by simp
    then have inj': "inj_on (env_Hash env) (uniqueMatch ` set ?rs)"
      using inj by (blast intro: inj_on_subset)
    obtain merged where merged: "mergeRulesByMatch env ?rs = Ret merged"
      and vs: "list_all2 (routeOfRule upstreams h) merged (vs_Http vs)" "vs_Hosts vs = [h]"
        "vs_Metadata vs = new_metadata (meta_Namespace (mesh_Metadata m))
           (meta_Name (mesh_Metadata m) @ ''-'' @ h)"
      using virtualServiceForHost_Ret [OF h(3)] by blast
    from h(1,2) vs rs merged mergeRulesByMatch_result [OF env inj' merged] show ?thesis by blast
  qed
  have all: "\<exists>vs \<in> set vss. vs_Hosts vs = [h] \<and>
        meta_Namespace (vs_Metadata vs) = meta_Namespace (mesh_Metadata m) \<and>
        meta_Name (vs_Metadata vs) = meta_Name (mesh_Metadata m) @ ''-'' @ h"
    if h: "h \<in> ruleHosts rules upstreams" "m \<in> ruleMeshes rules meshes" for h m
  proof -
    obtain vs where vs: "virtualServiceForHost env h (rulesForMesh env rules meshes m) m upstreams = Ret vs"
      using virtualServices_set(2) [OF vss env h] by blast
    then have "vs \<in> set vss" using virtualServices_set(1) [OF vss env, of vs] h by blast
    with virtualServiceForHost_Ret [OF vs] show ?thesis by auto
  qed
  let ?key = "\<lambda>vs. (vs_Hosts vs, Metadata_Ref (vs_Metadata vs))"
  have "distinct (map (\<lambda>vs. (hd (vs_Hosts vs), meta_Namespace (vs_Metadata vs), meta_Name (vs_Metadata vs))) vss)"
    by (rule virtualServices_distinct [OF vss env]) (use all in \<open>simp, metis list.sel(1)\<close>)
  then have "distinct (map (\<lambda>(hs, r). (hd hs, ref_Namespace r, ref_Name r)) (map ?key vss))"
    by (simp add: comp_def Metadata_Ref_def del: ResourceRef_meta)
  then have "distinct (map ?key vss)"
    unfolding distinct_map [of _ "map ?key vss"] ..
  with virtualServices_length [OF vss env] each all show ?thesis by blast
qed

theorem virtual_services_realise_rules_witness:
  "\<exists>vs merged rs. virtualServicesForRules ex_keyed ex_rules [ex_mesh] ex_upstreams = Ret [vs] \<and>
     vs_Hosts vs = [ex_host] \<and> mset rs = mset ex_rules \<and> mergeRulesByMatch ex_keyed rs = Ret merged \<and>
     list_all2 (routeOfRule ex_upstreams ex_host) merged (vs_Http vs) \<and>
     uniqueMatch ` set merged = {ex_key, ([], [], None)}"
proof -
  obtain vs where vs: "virtualServicesForRules ex_keyed ex_rules [ex_mesh] ex_upstreams = Ret [vs]"
    using ex_rules_services by blast
  have all: "filter (\<lambda>r. \<exists>t. rr_TargetMesh r = Some t \<and> find_mesh t [ex_mesh] = Ret ex_mesh) ex_rules = ex_rules"
    by (simp add: ex_rules_def)
  have "vs \<in> set [vs]" by simp
  from virtual_services_realise_rules [OF vs ex_keyed_simps(1) ex_keyed_inj, unfolded ex_rules_hosts_all
      ex_rules_meshes, THEN conjunct2, THEN conjunct2, THEN conjunct1, THEN bspec, OF this]
  obtain h m merged rs where h: "h \<in> {ex_host}" "m \<in> {ex_mesh}"
    and m: "vs_Hosts vs = [h]"
      "mset rs = mset (filter (\<lambda>r. \<exists>t. rr_TargetMesh r = Some t \<and> find_mesh t [ex_mesh] = Ret m) ex_rules)"
      "mergeRulesByMatch ex_keyed rs = Ret merged"
      "list_all2 (routeOfRule ex_upstreams h) merged (vs_Http vs)"
      "uniqueMatch ` set merged = uniqueMatch ` set rs"
    by (elim bexE exE conjE) (rule that, assumption+)
  from h m(2) have rs: "h = ex_host" "mset rs = mset ex_rules"
    by (simp_all only: singleton_iff all)
  moreover have "uniqueMatch ` set rs = {ex_key, ([], [], None)}"
    using mset_eq_setD [OF rs(2)] by (auto simp: ex_rules_def)
  ultimately show ?thesis
    using vs m rs by (intro exI [of _ vs] exI [of _ merged] exI [of _ rs]) simp
qed



definition ex_request :: request where
  "ex_request = \<lparr>req_Path = ''/a'', req_Method = ''GET'', req_Headers = [], req_Query = [],
     req_SourceLabels = [(''version'', ''v1'')]\<rparr>"



text \<open>
  A header condition without a value is documented to accept any value of the header;
  its translation accepts the empty value only: the translated matcher accepts a request with
  that header exactly when its value is empty, whatever the regular expression engine.
\<close>

theorem presence_header_narrowed:
  "matcher_accepts rx (prefix_matcher\<lparr>matcher_Headers := [\<lparr>hm_Name = k, hm_Value = [], hm_Regex = False\<rparr>]\<rparr>)
     (ex_request\<lparr>req_Headers := [(k, v)]\<rparr>) \<and>
   (http_matches rx (convertMatcher [] (prefix_matcher\<lparr>matcher_Headers :=
        [\<lparr>hm_Name = k, hm_Value = [], hm_Regex = False\<rparr>]\<rparr>)) (ex_request\<lparr>req_Headers := [(k, v)]\<rparr>) \<longleftrightarrow>
    v = [])"
  by (simp add: matcher_accepts_def prefix_matcher_def field_accepts_def ex_request_def
      strings_HasPrefix_def http_matches_def convertMatcher_def convertPath_def convertHeader_def
      has_labels_def)

section \<open>Merging\<close>

text \<open>
  C5: When the hash tells the rules' sources, destinations and matchers apart, merging the rules of a
  mesh succeeds exactly when no two rules for the same requests set the same feature (traffic
  shifting, faults, timeout, retries, CORS, mirror, headers); otherwise it is an error, never a
  panic. When it succeeds there is one merged rule for each combination of sources, destinations
  and matchers, with each feature that one of its rules sets, and no other.
\<close>

theorem mergeRulesByMatch_correct:
  assumes "valid_env env" and "inj_on (env_Hash env) (uniqueMatch ` set rules)"
  shows "(case mergeRulesByMatch env rules of
       Ret merged \<Rightarrow>
         (\<forall>r \<in> set rules. no_conflict (filter (\<lambda>x. uniqueMatch x = uniqueMatch r) rules)) \<and>
         distinct (map uniqueMatch merged) \<and> uniqueMatch ` set merged = uniqueMatch ` set rules \<and>
         (\<forall>m \<in> set merged. same_features (filter (\<lambda>r. uniqueMatch r = uniqueMatch m) rules) m)
     | Fail e \<Rightarrow> \<exists>r \<in> set rules. \<not> no_conflict (filter (\<lambda>x. uniqueMatch x = uniqueMatch r) rules)
     | Panic p \<Rightarrow> False)"
proof (cases "mergeRulesByMatch env rules")
  case (Ret merged)
  have ok: "\<forall>r \<in> set rules. no_conflict (filter (\<lambda>x. uniqueMatch x = uniqueMatch r) rules)"
    using mergeRulesByMatch_succeeds [OF assms] Ret by blast
  note m = mergeRulesByMatch_result [OF assms Ret]
  show ?thesis unfolding Ret go.case using ok m by blast
next
  case (Fail e)
  then show ?thesis using mergeRulesByMatch_succeeds [OF assms] by auto
next
  case (Panic p)
  then show ?thesis using mergeRulesByMatch_not_Panic [OF assms(1)] by blast
qed

theorem mergeRulesByMatch_correct_witness:
  "(case mergeRulesByMatch ex_keyed ex_rules of
      Ret merged \<Rightarrow> distinct (map uniqueMatch merged) \<and>
        uniqueMatch ` set merged = {ex_key, ([], [], None)} \<and>
        (\<exists>m \<in> set merged. uniqueMatch m = ex_key \<and> rr_Mirror m = rr_Mirror ex_shift \<and>
           rr_Timeout m = rr_Timeout (ex_timed ex_key 3))
    | _ \<Rightarrow> False) \<and>
   (case mergeRulesByMatch ex_keyed [ex_timed ex_key 3, ex_timed ([], [], None) 9, ex_timed ex_key 4] of
      Fail e \<Rightarrow> True | _ \<Rightarrow> False)"
proof -
  have keys: "uniqueMatch ` set [ex_timed ex_key 3, ex_timed ([], [], None) 9, ex_timed ex_key 4] =
      uniqueMatch ` set ex_rules"
    by (auto simp: ex_rules_def)
  have group: "filter (\<lambda>r. uniqueMatch r = ex_key) ex_rules = [ex_shift, ex_timed ex_key 3]"
    by (simp add: ex_rules_def)
  have "distinct (map uniqueMatch [ex_default, ex_both]) \<and>
      uniqueMatch ` set [ex_default, ex_both] = {ex_key, ([], [], None)} \<and>
      same_features [ex_shift, ex_timed ex_key 3] ex_both"
    using mergeRulesByMatch_correct [OF ex_keyed_simps(1) ex_keyed_inj, unfolded ex_rules_merged go.case]
    by (auto simp: group ex_rules_def)
  moreover have "\<exists>r \<in> set [ex_timed ex_key 3, ex_timed ([], [], None) 9, ex_timed ex_key 4]. \<not> no_conflict
      (filter (\<lambda>x. uniqueMatch x = uniqueMatch r) [ex_timed ex_key 3, ex_timed ([], [], None) 9, ex_timed ex_key 4])"
    using mergeRulesByMatch_correct [OF ex_keyed_simps(1) ex_keyed_inj [folded keys], unfolded ex_conflict go.case] .
  ultimately show ?thesis
    unfolding ex_rules_merged ex_conflict go.case by (auto simp: same_features_def the_set_def)
qed

section \<open>Destination rules\<close>

text \<open>
  C6: The generated destination rules are exactly those of the meshes that rules target and the
  hosts of all upstreams, one for each pair, each with one subset per upstream of the host and,
  when the mesh has mutual TLS enabled, the traffic policy ISTIO_MUTUAL.
\<close>

theorem destinationRules_complete:
  assumes "destinationRulesForUpstreams env rules meshes upstreams = Ret drs" and "valid_env env"
  shows "length drs = card (ruleMeshes rules meshes) * card (upstreamHosts upstreams) \<and>
    set drs = {dr. \<exists>m \<in> ruleMeshes rules meshes. \<exists>h \<in> upstreamHosts upstreams.
       dr_Host dr = h \<and> dr_Status dr = zero_status \<and>
       dr_Metadata dr = new_metadata (meta_Namespace (mesh_Metadata m))
         (meta_Name (mesh_Metadata m) @ ''-'' @ h) \<and>
       dr_TrafficPolicy dr = (if mtlsEnabled m then Some \<lparr>tp_Tls = Some TLS_ISTIO_MUTUAL\<rparr> else None) \<and>
       dr_Subsets dr = map (\<lambda>us. \<lparr>subset_Name = subsetName (labelsOf us), subset_Labels = labelsOf us\<rparr>)
         (filter (\<lambda>us. getHostForUpstream us = Ret h) upstreams)}"
proof -
  have "(dr = destinationRuleForHost m h (labelsAtHost upstreams h)) =
      (dr_Host dr = h \<and> dr_Status dr = zero_status \<and>
       dr_Metadata dr = new_metadata (meta_Namespace (mesh_Metadata m))
         (meta_Name (mesh_Metadata m) @ ''-'' @ h) \<and>
       dr_TrafficPolicy dr = (if mtlsEnabled m then Some \<lparr>tp_Tls = Some TLS_ISTIO_MUTUAL\<rparr> else None) \<and>
       dr_Subsets dr = map (\<lambda>us. \<lparr>subset_Name = subsetName (labelsOf us), subset_Labels = labelsOf us\<rparr>)
         (filter (\<lambda>us. getHostForUpstream us = Ret h) upstreams))" for dr m h
    by (cases dr) (auto simp: destinationRuleForHost_def labelsAtHost_def subsetForLabels_def comp_def)
  then show ?thesis
    using destinationRules_set [OF assms] destinationRules_length [OF assms] by auto
qed

theorem destinationRules_complete_witness:
  "length ex_drs = card (ruleMeshes [ex_rule] [ex_mesh]) * card (upstreamHosts ex_upstreams)"
  using destinationRules_complete [OF ex_destinationRules ex_env_valid] by blast

text \<open>
  C16: The generated list of destination rules does not depend on the order in which the run
  time visits the map from hosts to labels, nor on any other range order or the hash function.
\<close>

theorem destinationRules_deterministic:
  assumes "valid_env env" and "valid_env env'"
  shows "destinationRulesForUpstreams env rules meshes upstreams =
         destinationRulesForUpstreams env' rules meshes upstreams"
  using assms by (rule destinationRules_order)

theorem destinationRules_deterministic_witness:
  "destinationRulesForUpstreams (ex_env\<lparr>range_labelsByHost := rev\<rparr>) [ex_rule] [ex_mesh] ex_upstreams =
     destinationRulesForUpstreams ex_env [ex_rule] [ex_mesh] ex_upstreams"
  by (rule destinationRules_deterministic) (simp_all add: valid_env_def)

section \<open>What the translation loses\<close>

text \<open>
  A weighted route has one entry per destination, in order, each for the right host and
  port, but every entry has weight 0: the weights of the rule's destinations are not carried
  over.
\<close>

theorem traffic_shifting_drops_weights:
  assumes "createLoadBalancedRoute dests upstreams = Ret route"
  shows "length route = length dests \<and>
     (\<forall>i < length dests. dw_Weight (route ! i) = 0 \<and>
        (\<exists>ref us. wd_Upstream (dests ! i) = Some ref \<and> find_upstream ref upstreams = Ret us \<and>
           getHostForUpstream us = Ret (dest_Host (dw_Destination (route ! i)))))"
proof -
  have "list_all2 (\<lambda>d w. dw_Weight w = 0 \<and> (\<exists>ref us. wd_Upstream d = Some ref \<and>
      find_upstream ref upstreams = Ret us \<and> getHostForUpstream us = Ret (dest_Host (dw_Destination w))))
      dests route"
    using assms unfolding createLoadBalancedRoute_def gmapM_eq_Ret
    by (rule list_all2_mono) (auto simp: nil_deref_def split: option.splits)
  then show ?thesis by (auto simp: list_all2_conv_all_nth)
qed

theorem traffic_shifting_drops_weights_witness:
  "createLoadBalancedRoute [\<lparr>wd_Upstream = Some (ResourceRef ''ns'' ''u1''), wd_Weight = 90\<rparr>,
       \<lparr>wd_Upstream = Some (ResourceRef ''ns'' ''u2''), wd_Weight = 10\<rparr>] ex_upstreams =
     Ret (map (\<lambda>v. \<lparr>dw_Destination = \<lparr>dest_Host = ex_host, dest_Subset = subsetName [(''version'', v)],
        dest_Port = Some (PortSelector_Number 80)\<rparr>, dw_Weight = 0\<rparr>) [''v1'', ''v2'']) \<and>
   dw_Weight (map (\<lambda>v. \<lparr>dw_Destination = \<lparr>dest_Host = ex_host, dest_Subset = subsetName [(''version'', v)],
        dest_Port = Some (PortSelector_Number 80)\<rparr>, dw_Weight = 0\<rparr>) [''v1'', ''v2''] ! 0) = 0"
proof -
  have run: "createLoadBalancedRoute [\<lparr>wd_Upstream = Some (ResourceRef ''ns'' ''u1''), wd_Weight = 90\<rparr>,
       \<lparr>wd_Upstream = Some (ResourceRef ''ns'' ''u2''), wd_Weight = 10\<rparr>] ex_upstreams =
     Ret (map (\<lambda>v. \<lparr>dw_Destination = \<lparr>dest_Host = ex_host, dest_Subset = subsetName [(''version'', v)],
        dest_Port = Some (PortSelector_Number 80)\<rparr>, dw_Weight = 0\<rparr>) [''v1'', ''v2''])"
    by (simp add: createLoadBalancedRoute_def)
  from traffic_shifting_drops_weights [OF this] run show ?thesis by simp
qed

text \<open>
  A rule that targets a mesh of another kind than Istio makes the generation of virtual
  services panic: the nil result of \<open>getIstioMeshForRule\<close>, which means "not our mesh", is
  dereferenced by \<open>validateRule\<close>.
\<close>

theorem foreign_target_mesh_panics:
  assumes "rr_TargetMesh r = Some t" and "find_mesh t meshes = Ret m"
    and "\<And>i. mesh_MeshType m \<noteq> Some (Mesh_Istio i)"
  shows "getIstioMeshForRule r meshes = Ret None \<and>
     (\<exists>p. virtualServicesForRules env (r # rules) meshes upstreams = Panic p)"
proof -
  have none: "getIstioMeshForRule r meshes = Ret None"
    using assms by (auto simp: getIstioMeshForRule_def split: option.splits mesh_type.splits)
  then have "meshEntryForRule meshes r = Panic ''nil pointer dereference''"
    by (simp add: meshEntryForRule_def validateRule_def nil_deref_def)
  with none show ?thesis
    by (simp add: virtualServicesForRules_def)
qed

theorem foreign_target_mesh_panics_witness:
  "\<exists>p. virtualServicesForRules ex_env [ex_rule] [ex_mesh\<lparr>mesh_MeshType := Some (Mesh_Consul None)\<rparr>]
     ex_upstreams = Panic p"
proof -
  have md: "mesh_Metadata (ex_mesh\<lparr>mesh_MeshType := Some (Mesh_Consul None)\<rparr>) = new_metadata ''ns'' ''m''"
    by (simp add: ex_mesh_def)
  show ?thesis
    using foreign_target_mesh_panics [of ex_rule "ResourceRef ''ns'' ''m''"
        "[ex_mesh\<lparr>mesh_MeshType := Some (Mesh_Consul None)\<rparr>]"]
    by (simp add: md)
qed

text \<open>
  A route gets its mirror only if the mirror's upstream exists: if it does not, the ignored
  error of \<open>Find\<close> leaves a nil upstream and adding the features panics; if it does and has a
  host, the features are added without an error.
\<close>

theorem missing_mirror_panics:
  assumes "rr_Mirror rule = Some ref"
  shows "((\<forall>us \<in> set upstreams. \<not> ref_matches (ref_Namespace ref) (ref_Name ref) (upstream_Metadata us)) \<longrightarrow>
       (\<exists>p. addHttpFeatures rule http upstreams = Panic p)) \<and>
    (\<forall>us host. find_upstream ref upstreams = Ret us \<longrightarrow> getHostForUpstream us = Ret host \<longrightarrow>
       (\<exists>r. addHttpFeatures rule http upstreams = Ret r \<and> map_option dest_Host (hr_Mirror r) = Some host))"
proof (intro conjI impI allI)
  assume "\<forall>us \<in> set upstreams. \<not> ref_matches (ref_Namespace ref) (ref_Name ref) (upstream_Metadata us)"
  then obtain e where "find_upstream ref upstreams = Fail e"
    using list_Find_fails [of upstream_Metadata] by blast
  then show "\<exists>p. addHttpFeatures rule http upstreams = Panic p"
    using assms by (simp add: addHttpFeatures_def mirrorDestination_def nil_deref_def Let_def)
next
  fix us host
  assume us: "find_upstream ref upstreams = Ret us" "getHostForUpstream us = Ret host"
  then obtain ls where "getLabelsForUpstream us = Ret ls" using host_has_labels by blast
  with us assms show "\<exists>r. addHttpFeatures rule http upstreams = Ret r \<and>
         map_option dest_Host (hr_Mirror r) = Some host"
    by (cases "rr_HeaderManipulaition rule")
      (simp_all add: addHttpFeatures_def mirrorDestination_def Let_def)
qed

theorem missing_mirror_panics_witness:
  "\<exists>p. addHttpFeatures (ex_rule\<lparr>rr_Mirror := Some (ResourceRef ''ns'' ''u3'')\<rparr>) ex_route ex_upstreams = Panic p"
  using missing_mirror_panics [of "ex_rule\<lparr>rr_Mirror := Some (ResourceRef ''ns'' ''u3'')\<rparr>" "ResourceRef ''ns'' ''u3''"
      ex_upstreams ex_route]
  by (simp add: ex_upstreams_def)

section \<open>Names\<close>

text \<open>
  C15: The metadata that is written has a name of at most 63 bytes without dots, underscores,
  colons, brackets, spaces and line breaks, which writing again does not change, keeps the
  namespace, is annotated with its creator and carries the labels of the write selector, so
  that the next listing finds it.
\<close>

theorem updateMetadataForWriting_correct:
  assumes "distinct (map fst sel)"
  shows "let m' = updateMetadataForWriting sel m
     in length (meta_Name m') \<le> 63 \<and>
        set (meta_Name m') \<inter> (unsafe_chars \<union> {CHR ''_''}) = {} \<and>
        meta_Name (updateMetadataForWriting sel m') = meta_Name m' \<and>
        meta_Namespace m' = meta_Namespace m \<and>
        map_of (map_entries (meta_Annotations m')) ''created_by'' = Some ''supergloo'' \<and>
        selector_Matches sel m'"
proof -
  have "set (nameutils_SanitizeName (sanitizeName s)) \<inter> (unsafe_chars \<union> {CHR ''_''}) = {}" for s
    using SanitizeName_chars [of "sanitizeName s"] sanitizeName_safe [of s]
    by (auto simp: unsafe_chars_def)
  moreover have "map_of (map_entries (meta_Annotations (updateMetadataForWriting sel m))) ''created_by'' =
      Some ''supergloo''"
    by (simp add: updateMetadataForWriting_def update_conv')
  ultimately show ?thesis
    using updateMetadata_selected [OF assms] SanitizeName_length updateMetadata_idem_name
    by (simp add: Let_def)
qed

theorem updateMetadataForWriting_correct_witness:
  "selector_Matches [(''k'', ''v'')] (updateMetadataForWriting [(''k'', ''v'')] (new_metadata ''ns'' ''a.b''))"
  using updateMetadataForWriting_correct [of "[(''k'', ''v'')]"] by (simp add: Let_def)

section \<open>Synchronising\<close>

text \<open>
  C8: A sync of the routing syncer on two stores succeeds when the snapshot translates and the
  results can be written, and then the stores are as generated: every generated destination
  rule and virtual service of a write namespace is stored with its specification, every
  other resource there with the syncer's labels is gone, and nothing else has changed.
\<close>

theorem MeshRoutingSyncer_Sync_converges:
  assumes rngs: "valid_range r1" "valid_range r2"
    and s: "s = NewMeshRoutingSyncer nss (Some sel)
        (mem_client r1 destination_rule_ops k1) (mem_client r2 virtual_service_ops k2)"
    and drs: "destinationRulesForUpstreams env (snap_List routing_rule_ops (snap_Routingrules snap))
        (snap_List mesh_ops (snap_Meshes snap)) (snap_List upstream_ops (snap_Upstreams snap)) = Ret drs"
    and vss: "virtualServicesForRules env (snap_List routing_rule_ops (snap_Routingrules snap))
        (snap_List mesh_ops (snap_Meshes snap)) (snap_List upstream_ops (snap_Upstreams snap)) = Ret vss"
    and ok: "mem_ok destination_rule_ops k1 a" "mem_ok virtual_service_ops k2 b"
    and w: "writable destination_rule_ops mem_covers sel nss (map (dr_for_writing sel) drs)
          (mem_view destination_rule_ops k1 a)"
      "writable virtual_service_ops mem_covers sel nss (map (vs_for_writing sel) vss)
          (mem_view virtual_service_ops k2 b)"
  shows "\<exists>a' b'. MeshRoutingSyncer_Sync env s snap (a, b) = (Ret (), (a', b')) \<and>
     converged destination_rule_ops (\<lambda>_ d r. same_dr r d) mem_covers sel nss
       (map (dr_for_writing sel) drs) (mem_view destination_rule_ops k1 a) (mem_view destination_rule_ops k1 a') \<and>
     converged virtual_service_ops (\<lambda>_ d r. same_vs r d) mem_covers sel nss
       (map (vs_for_writing sel) vss) (mem_view virtual_service_ops k2 b) (mem_view virtual_service_ops k2 b')"
proof -
  have s': "s = \<lparr>mrs_writeNamespaces = nss, mrs_writeSelector = sel,
      mrs_destinationRules = mem_client r1 destination_rule_ops k1,
      mrs_virtualServices = mem_client r2 virtual_service_ops k2\<rparr>"
    by (simp add: s NewMeshRoutingSyncer_def)
  have "MeshRoutingSyncer_Sync env s snap (a, b) =
      writeIstioCrds s (map (dr_for_writing sel) drs) (map (vs_for_writing sel) vss) (a, b)"
    by (simp add: MeshRoutingSyncer_Sync_def drs vss s' act_simps)
  with routing_stores.writeIstioCrds_converges [OF mem_routing_stores [OF rngs] s' ok w]
  show ?thesis by auto
qed

definition ex_snapshot :: translator_snapshot where
  "ex_snapshot = \<lparr>snap_Meshes = [(''ns'', [ex_mesh])], snap_Routingrules = [(''ns'', [ex_rule])],
     snap_Upstreams = [(''ns'', ex_upstreams)], snap_Istiocerts = []\<rparr>"

lemma ex_snap_lists:
  "snap_List mesh_ops (snap_Meshes ex_snapshot) = [ex_mesh]"
  "snap_List routing_rule_ops (snap_Routingrules ex_snapshot) = [ex_rule]"
  "snap_List upstream_ops (snap_Upstreams ex_snapshot) = ex_upstreams"
  by (simp_all add: ex_snapshot_def byNamespace_List_def list_Sort_def ops_simps ex_upstreams_def
      Metadata_Ref_def less_eq_resource_ref_def del: ResourceRef_meta)

lemma ex_written_name:
  "nameutils_SanitizeName (sanitizeName (''m-'' @ ex_host)) = ''m-svc-ns-svc-cluster-local''"
  "ValidateName ''m-svc-ns-svc-cluster-local''"
  by code_simp+

theorem MeshRoutingSyncer_Sync_converges_witness:
  "\<exists>a' b'. MeshRoutingSyncer_Sync ex_env (NewMeshRoutingSyncer [''ns''] (Some [(''k'', ''v'')])
        (mem_client id destination_rule_ops ''dr'') (mem_client id virtual_service_ops ''vs'')) ex_snapshot ([], []) =
      (Ret (), (a', b')) \<and>
     (\<exists>r. mem_view virtual_service_ops ''vs'' b' (ResourceRef ''ns'' ''m-svc-ns-svc-cluster-local'') = Some r \<and>
        same_vs r (vs_for_writing [(''k'', ''v'')] ex_vs))"
proof -
  have empty: "mem_ok ops k []" "mem_view ops k [] ref = None" for ops k ref
    by (simp_all add: mem_ok_def mem_view_def)
  have ref: "Metadata_Ref (updateMetadataForWriting sel (new_metadata ''ns'' (''m-'' @ ex_host))) =
      ResourceRef ''ns'' ''m-svc-ns-svc-cluster-local''" for sel
    by (simp add: Metadata_Ref_def ex_written_name del: ResourceRef_meta append.simps)
  have dr: "writable destination_rule_ops mem_covers [(''k'', ''v'')] [''ns''] (map (dr_for_writing [(''k'', ''v'')]) ex_drs)
      (mem_view destination_rule_ops ''dr'' [])"
    using ex_written_name
    by (simp add: writable_def empty ex_drs_def dr_for_writing_def destinationRuleForHost_def ops_simps)
  have vs: "writable virtual_service_ops mem_covers [(''k'', ''v'')] [''ns''] (map (vs_for_writing [(''k'', ''v'')]) [ex_vs])
      (mem_view virtual_service_ops ''vs'' [])"
    using ex_written_name
    by (simp add: writable_def empty vs_for_writing_def ex_vs_def ops_simps)
  have vs_ref: "resource_Ref virtual_service_ops (vs_for_writing sel ex_vs) =
      ResourceRef ''ns'' ''m-svc-ns-svc-cluster-local''" for sel
    using ref [of sel] by (simp add: vs_for_writing_def ex_vs_def ops_simps)
  have "meta_Namespace (GetMetadata virtual_service_ops (vs_for_writing sel ex_vs)) = ''ns''" for sel
    by (simp add: vs_for_writing_def ex_vs_def ops_simps)
  then show ?thesis
    using MeshRoutingSyncer_Sync_converges [OF valid_range_id(1) valid_range_id(1) refl
        ex_destinationRules [folded ex_snap_lists] ex_virtualServices [folded ex_snap_lists] empty(1) empty(1) dr vs]
      vs_ref [of "[(''k'', ''v'')]"]
    by (auto simp: converged_def)
qed

text \<open>
  C11: A snapshot that does not translate changes nothing: the sync returns an error (or
  panics) before the first write.
\<close>

theorem MeshRoutingSyncer_Sync_fails_safe:
  assumes "(\<forall>drs. destinationRulesForUpstreams env (snap_List routing_rule_ops (snap_Routingrules snap))
        (snap_List mesh_ops (snap_Meshes snap)) (snap_List upstream_ops (snap_Upstreams snap)) \<noteq> Ret drs) \<or>
     (\<forall>vss. virtualServicesForRules env (snap_List routing_rule_ops (snap_Routingrules snap))
        (snap_List mesh_ops (snap_Meshes snap)) (snap_List upstream_ops (snap_Upstreams snap)) \<noteq> Ret vss)"
  shows "snd (MeshRoutingSyncer_Sync env s snap st) = st \<and> fst (MeshRoutingSyncer_Sync env s snap st) \<noteq> Ret ()"
  using assms
  by (cases "destinationRulesForUpstreams env (snap_List routing_rule_ops (snap_Routingrules snap))
        (snap_List mesh_ops (snap_Meshes snap)) (snap_List upstream_ops (snap_Upstreams snap))";
      cases "virtualServicesForRules env (snap_List routing_rule_ops (snap_Routingrules snap))
        (snap_List mesh_ops (snap_Meshes snap)) (snap_List upstream_ops (snap_Upstreams snap))")
    (simp_all add: MeshRoutingSyncer_Sync_def Let_def alift_def abind_def)

theorem MeshRoutingSyncer_Sync_fails_safe_witness:
  "snd (MeshRoutingSyncer_Sync ex_env (NewMeshRoutingSyncer [''ns''] None (mem_client id destination_rule_ops ''dr'')
       (mem_client id virtual_service_ops ''vs'')) (ex_snapshot\<lparr>snap_Meshes := []\<rparr>) ([], [])) = ([], [])"
proof -
  have "\<forall>drs. destinationRulesForUpstreams ex_env [ex_rule] [] ex_upstreams \<noteq> Ret drs"
    by (simp add: destinationRulesForUpstreams_def addMeshForRule_def)
  then show ?thesis
    using MeshRoutingSyncer_Sync_fails_safe [of ex_env "ex_snapshot\<lparr>snap_Meshes := []\<rparr>"
        "NewMeshRoutingSyncer [''ns''] None (mem_client id destination_rule_ops ''dr'')
          (mem_client id virtual_service_ops ''vs'')" "([], [])"] ex_snap_lists
    by (simp add: ex_snapshot_def byNamespace_List_def list_Sort_def)
qed

end
