(* ===== verification/Install_Properties.thy ===== *)
theory Install_Properties
  imports Install_Sync
begin

text \<open>What the install syncer, the installers and the Helm client do.\<close>

section \<open>The values given to Helm\<close>

text \<open>The values of the Istio chart, for a mutual TLS flag and a flag for an own certificate.\<close>

definition istio_values :: "bool \<Rightarrow> bool \<Rightarrow> string" where
  "istio_values tls own = text_lines
     [''#overrides'', ''global:'', ''  mtls:'', ''    enabled: '' @ strconv_FormatBool tls, ''  crds: false'',
      ''  controlPlaneSecurityEnabled: true'', ''security:'', ''  selfSigned: '' @ strconv_FormatBool (\<not> own),
      ''  enabled: true'', '''']"

text \<open>The first and the last block of the values of the Consul chart do not depend on the flag.\<close>

definition consul_values :: "bool \<Rightarrow> string" where
  "consul_values tls =
     text_lines (take 11 [
       '''', ''global:'', ''  # Change this to specify a version of consul.'',
       ''  # soloio/consul:latest was just published to provide a 1.4 container'',
       ''  # consul:1.3.0 is the latest container on docker hub from consul'',
       ''  image: \"soloio/consul:latest\"'', ''  imageK8S: \"hashicorp/consul-k8s:0.2.1\"'', '''',
       ''server:'', ''  replicas: 1'', ''  bootstrapExpect: 1'']) @
     text_lines [''  connect: '' @ strconv_FormatBool tls] @
     text_lines [''  disruptionBudget:'', ''    enabled: false'', ''    maxUnavailable: null'', '''',
       ''client:'', ''  enabled: true'', ''  grpc: true'', '''', ''connectInject:''] @
     text_lines [''  enabled: '' @ strconv_FormatBool tls]"

text \<open>
  C29: The Istio chart is given mutual TLS exactly when the install enables it, and self-signed
  certificates unless it is enabled with a secret; the Consul chart is given Connect and the
  injector exactly when the install enables TLS; nothing else of the templates changes.
\<close>

theorem overrides_correct:
  "istio_getOverrides encryption =
     (case encryption of
        None \<Rightarrow> istio_values False False
      | Some e \<Rightarrow> istio_values (enc_TlsEnabled e) (enc_TlsEnabled e \<and> enc_Secret e \<noteq> None)) \<and>
   consul_getOverrides encryption =
     (case encryption of None \<Rightarrow> consul_values False | Some e \<Rightarrow> consul_values (enc_TlsEnabled e))"
proof (cases encryption)
  case None
  have "istio_getOverrides None = istio_values False False" by code_simp
  moreover have "consul_getOverrides None = consul_values False" by code_simp
  ultimately show ?thesis using None by simp
next
  case (Some e)
  then obtain t s where e: "e = \<lparr>enc_TlsEnabled = t, enc_Secret = s\<rparr>" by (cases e)
  have "istio_getOverrides (Some \<lparr>enc_TlsEnabled = True, enc_Secret = Some r\<rparr>) = istio_values True True" for r
    by code_simp
  moreover have "istio_getOverrides (Some \<lparr>enc_TlsEnabled = True, enc_Secret = None\<rparr>) = istio_values True False"
    by code_simp
  moreover have "istio_getOverrides (Some \<lparr>enc_TlsEnabled = False, enc_Secret = r\<rparr>) = istio_values False False" for r
    by code_simp
  moreover have "consul_getOverrides (Some \<lparr>enc_TlsEnabled = True, enc_Secret = r\<rparr>) = consul_values True" for r
    by code_simp
  moreover have "consul_getOverrides (Some \<lparr>enc_TlsEnabled = False, enc_Secret = r\<rparr>) = consul_values False" for r
    by code_simp
  ultimately show ?thesis using Some e by (cases t; cases s) auto
qed

section \<open>The tunnel to Tiller\<close>

abbreviation tiller_service :: string where
  "tiller_service \<equiv> ''tiller-deploy.kube-system.svc.cluster.local''"

text \<open>The tunnel variable points to a tunnel that was made.\<close>

definition tunnel_made :: "helm_state \<Rightarrow> bool" where
  "tunnel_made h \<longleftrightarrow> (\<forall>i. helm_tillerTunnel h = Some i \<longrightarrow> i < length (helm_Tunnels h))"

text \<open>The two ways to a client: Tiller's name resolves, or a new tunnel is made.\<close>

lemma GetHelmClient_cases:
  assumes "GetHelmClient env (h, k) = (Ret c, (h', k'))"
  obtains
    (in_cluster) k1 where "he_LookupIP env tiller_service k = (Ret (), k1)"
      "helm_tillerTunnel h' = helm_tillerTunnel h" "helm_Tunnels h' = helm_Tunnels h"
  | (tunnel) e k1 port where "he_LookupIP env tiller_service k = (Fail e, k1)"
      "helm_tillerTunnel h' = Some (length (helm_Tunnels h))"
      "helm_Tunnels h' = helm_Tunnels h @ [\<lparr>tun_Local = port, tun_Closed = False\<rparr>]"
proof -
  from assms obtain h1 k1 where conn: "setupConnection env (h, k) = (Ret (), (h1, k1))"
    and h': "h' = h1"
    by (auto simp: GetHelmClient_def abind_eq_Ret getSettings_def on_fst_eq on_snd_eq aget_def aret_def Let_def)
  show ?thesis
  proof (cases "he_LookupIP env tiller_service k")
    case (Pair r k2)
    show ?thesis
    proof (cases r)
      case (Ret u)
      with Pair conn have "helm_tillerTunnel h1 = helm_tillerTunnel h" "helm_Tunnels h1 = helm_Tunnels h"
        by (auto simp: setupConnection_def AddFlags_def setupTillerHost_def setTillerHost_def getSettings_def
            abind_def atry_def on_fst_def on_snd_def act_defs Let_def)
      with in_cluster Pair Ret h' show ?thesis by auto
    next
      case (Fail e)
      with Pair conn obtain port where "helm_tillerTunnel h1 = Some (length (helm_Tunnels h))"
          "helm_Tunnels h1 = helm_Tunnels h @ [\<lparr>tun_Local = port, tun_Closed = False\<rparr>]"
        by (auto simp: setupConnection_def AddFlags_def setupTillerHost_def setTillerHost_def getSettings_def
            portforwarder_New_def abind_def atry_def on_fst_def on_snd_def act_defs Let_def
            split: prod.splits go.splits option.splits)
      with tunnel Pair Fail h' show ?thesis by auto
    next
      case (Panic p)
      with Pair conn show ?thesis
        by (auto simp: setupConnection_def AddFlags_def setupTillerHost_def abind_def atry_def on_fst_def on_snd_def
            act_defs Let_def)
    qed
  qed
qed

text \<open>
  After a Helm client was obtained, Teardown closes the tunnel that was made for it. It
  panics exactly when Tiller's name resolves now and an earlier session left its closed
  tunnel behind, since Teardown never clears the variable.
\<close>

theorem Teardown_after_GetHelmClient:
  assumes "tunnel_made h" and "GetHelmClient env (h, k) = (Ret c, (h', k'))"
  shows "(fst (Teardown (h', k')) = Panic ''close of closed channel'' \<longleftrightarrow>
      (\<exists>k1 i. he_LookupIP env tiller_service k = (Ret (), k1) \<and> helm_tillerTunnel h = Some i \<and>
         tun_Closed (helm_Tunnels h ! i))) \<and>
    (fst (Teardown (h', k')) \<noteq> Panic ''close of closed channel'' \<longrightarrow>
      (\<exists>h2. Teardown (h', k') = (Ret (), (h2, k')) \<and> tunnel_made h2 \<and>
         (\<forall>t \<in> set (helm_Tunnels h2) - set (helm_Tunnels h). tun_Closed t)))"
  using assms(2)
proof (cases rule: GetHelmClient_cases)
  case (in_cluster k1)
  then show ?thesis
    using assms(1) set_update_subset_insert [of "helm_Tunnels h"]
    by (auto simp: Teardown_def on_fst_def tunnel_made_def split: option.splits prod.splits)
      (fastforce dest!: set_update_subset_insert [THEN subsetD])
next
  case (tunnel e k1 port)
  then show ?thesis
    by (auto simp: Teardown_def on_fst_def tunnel_made_def nth_append)
qed

text \<open>A cluster for the witnesses: Tiller's name resolves, and everything succeeds.\<close>

definition ex_helm_env :: "unit helm_env" where
  "ex_helm_env =
     \<lparr>he_DefaultHelmHome = ''/root/.helm'', he_ExpandEnv = id, he_LookupIP = (\<lambda>n. aret ()),
      he_ClientConfig = (\<lambda>c f. aret ()), he_NewForConfig = aret (), he_GetTillerPodName = (\<lambda>ns. aret ''tiller''),
      he_ForwardPort = (\<lambda>ns p. aret (1234, None)), he_PingTiller = (\<lambda>c. aret ()),
      he_InstallRelease = (\<lambda>c p ns v n. aret n), he_DeleteRelease = (\<lambda>c n p. aret ()),
      he_Stat = (\<lambda>p. aret True), he_IsNotExist = (\<lambda>e. False), he_Getwd = aret ''/'', he_MkdirAll = (\<lambda>p. aret ()),
      he_VerifyChart = (\<lambda>p k. aret ()), he_FindChart = (\<lambda>xs. aret []), he_DownloadTo = (\<lambda>s a v n w d. aret [])\<rparr>"

definition ex_helm_state :: helm_state where
  "ex_helm_state =
     \<lparr>helm_Settings = \<lparr>hs_Home = [], hs_TillerHost = [], hs_KubeContext = [], hs_KubeConfig = [], hs_Debug = False,
        hs_TillerNamespace = [], hs_TillerConnectionTimeout = 0\<rparr>,
      helm_tillerTunnel = Some 0, helm_Tunnels = [\<lparr>tun_Local = 4000, tun_Closed = True\<rparr>]\<rparr>"

lemma ex_GetHelmClient:
  "GetHelmClient ex_helm_env (ex_helm_state, ()) =
     (Ret \<lparr>hc_Host = tiller_service @ '':44134'', hc_ConnectTimeout = 300\<rparr>,
      (ex_helm_state\<lparr>helm_Settings := \<lparr>hs_Home = ''/root/.helm'', hs_TillerHost = tiller_service @ '':44134'',
         hs_KubeContext = [], hs_KubeConfig = [], hs_Debug = False, hs_TillerNamespace = ''kube-system'',
         hs_TillerConnectionTimeout = 300\<rparr>\<rparr>, ()))"
  by (simp add: GetHelmClient_def setupConnection_def AddFlags_def setupTillerHost_def setTillerHost_def
      getSettings_def abind_def atry_def on_fst_def on_snd_def act_defs Let_def ex_helm_env_def)

theorem Teardown_after_GetHelmClient_witness:
  "fst (Teardown (snd (GetHelmClient ex_helm_env (ex_helm_state, ())))) = Panic ''close of closed channel''"
proof -
  have "tunnel_made ex_helm_state" by (simp add: tunnel_made_def ex_helm_state_def)
  note * = Teardown_after_GetHelmClient [OF this ex_GetHelmClient, THEN conjunct1]
  show ?thesis
    unfolding ex_GetHelmClient snd_conv *
    by (simp add: ex_helm_env_def ex_helm_state_def aret_def)
qed

section \<open>Installs and meshes\<close>

text \<open>
  The mesh that stands for an install: it has the install's reference, mesh type and encryption,
  and is annotated with the release.
\<close>

definition represents :: "install \<Rightarrow> string \<Rightarrow> mesh \<Rightarrow> bool" where
  "represents install release mesh \<longleftrightarrow>
     Metadata_Ref (mesh_Metadata mesh) = Metadata_Ref (install_Metadata install) \<and>
     mesh_MeshType mesh = install_MeshType install \<and> mesh_Encryption mesh = install_Encryption install \<and>
     map_of (map_entries (meta_Annotations (mesh_Metadata mesh))) releaseNameKey = Some release"

definition enabled :: "install \<Rightarrow> bool" where
  "enabled install \<longleftrightarrow> install_Enabled install \<noteq> Some False"

lemma enabled_eq: "(case install_Enabled install of None \<Rightarrow> True | Some b \<Rightarrow> b) = enabled install"
  by (auto simp: enabled_def split: option.splits)

lemma metadata_but_version:
  "m\<lparr>meta_ResourceVersion := v\<rparr> = m'\<lparr>meta_ResourceVersion := v\<rparr> \<Longrightarrow>
     meta_Namespace m = meta_Namespace m' \<and> meta_Name m = meta_Name m' \<and> meta_Annotations m = meta_Annotations m'"
  by (cases m; cases m') simp

lemma getMeshObject_represents:
  assumes "getMeshObject install release = Ret d" and "but_version mesh_ops mesh d"
  shows "represents install release mesh"
    and "mesh_Metadata d = (new_metadata (meta_Namespace (install_Metadata install)) (meta_Name (install_Metadata install)))
                 \<lparr>meta_Annotations := Some [(releaseNameKey, release)]\<rparr>"
proof -
  obtain t where t: "install_MeshType install = Some t"
      "d = \<lparr>mesh_Status = zero_status,
               mesh_Metadata = (new_metadata (meta_Namespace (install_Metadata install))
                   (meta_Name (install_Metadata install)))
                 \<lparr>meta_Annotations := Some [(releaseNameKey, release)]\<rparr>,
               mesh_MeshType = Some t, mesh_Encryption = install_Encryption install,
               mesh_Observability = None, mesh_Policy = None\<rparr>"
    using assms(1) by (auto simp: getMeshObject_def split: option.splits mesh_type.splits)
  then show "mesh_Metadata d = (new_metadata (meta_Namespace (install_Metadata install)) (meta_Name (install_Metadata install)))
                 \<lparr>meta_Annotations := Some [(releaseNameKey, release)]\<rparr>"
    by simp
  have "mesh_MeshType mesh = mesh_MeshType d \<and> mesh_Encryption mesh = mesh_Encryption d \<and>
      meta_Namespace (mesh_Metadata mesh) = meta_Namespace (mesh_Metadata d) \<and>
      meta_Name (mesh_Metadata mesh) = meta_Name (mesh_Metadata d) \<and>
      meta_Annotations (mesh_Metadata mesh) = meta_Annotations (mesh_Metadata d)"
    using assms(2) by (cases mesh; cases d) (auto simp: but_version_def ops_simps dest: metadata_but_version)
  with t show "represents install release mesh"
    by (simp add: represents_def Metadata_Ref_def new_metadata_def del: ResourceRef_meta)
qed

text \<open>
  The install syncer relies on the contract of the mesh client only.
\<close>

locale mesh_store = resource_client mesh_ops client view ok covers
  for client :: "('m, mesh) client" and view ok covers
begin

lemma createMesh_new:
  assumes "ok m" and "is_MeshClient syncer = client" and "install_MeshType install \<noteq> None"
    and "meta_Namespace (install_Metadata install) \<noteq> []" "ValidateName (meta_Name (install_Metadata install))"
    and "view m (Metadata_Ref (install_Metadata install)) = None"
  shows "\<exists>m' mesh. createMesh syncer install release m = (Ret (), m') \<and> ok m' \<and> represents install release mesh \<and>
     view m' = (view m)(Metadata_Ref (install_Metadata install) \<mapsto> mesh)"
proof -
  obtain d where d: "getMeshObject install release = Ret d"
    using assms(3) by (auto simp: getMeshObject_def)
  have ref: "resource_Ref mesh_ops d = Metadata_Ref (install_Metadata install)"
    using getMeshObject_represents(1) [OF d, of d] by (simp add: represents_def but_version_def ops_simps)
  then have "meta_Namespace (GetMetadata mesh_ops d) \<noteq> []" "ValidateName (meta_Name (GetMetadata mesh_ops d))"
    using assms(4,5) by (simp_all add: Metadata_Ref_def del: ResourceRef_meta)
  then obtain mesh m' where "client_Write client d False m = (Ret mesh, m')" "ok m'" "but_version mesh_ops mesh d"
      "view m' = (view m)(resource_Ref mesh_ops d \<mapsto> mesh)"
    using Write_new [OF assms(1), of d False] assms(6) ref by auto
  with d assms(2) ref getMeshObject_represents(1) [OF d] show ?thesis
    by (auto simp: createMesh_def act_simps)
qed

text \<open>The four cases of a sync, for a mesh client that keeps its promises.\<close>

lemma sync_cases:
  assumes m: "ok m" "is_MeshClient syncer = client"
    and name: "meta_Namespace (install_Metadata install) \<noteq> []" "ValidateName (meta_Name (install_Metadata install))"
    and inst: "meshInstallerFor syncer secrets install = Ret inst"
  shows "view m (Metadata_Ref (install_Metadata install)) = Some mesh \<Longrightarrow> enabled install \<Longrightarrow>
      syncInstall syncer install secrets (m, w) = (Ret (), (m, w))"
    and "view m (Metadata_Ref (install_Metadata install)) = None \<Longrightarrow> \<not> enabled install \<Longrightarrow>
      syncInstall syncer install secrets (m, w) = (Ret (), (m, w))"
    and "view m (Metadata_Ref (install_Metadata install)) = Some mesh \<Longrightarrow> \<not> enabled install \<Longrightarrow>
      \<exists>m'. client_Delete client (meta_Namespace (install_Metadata install)) (meta_Name (install_Metadata install)) False m
            = (Ret (), m') \<and> ok m' \<and>
        view m' = (view m)(Metadata_Ref (install_Metadata install) := None) \<and>
        syncInstall syncer install secrets (m, w) =
          (case uninstallHelmRelease syncer mesh install inst w of
             (Ret u, w') \<Rightarrow> (Ret (), (m', w')) | (Fail e, w') \<Rightarrow> (Fail e, (m, w')) | (Panic p, w') \<Rightarrow> (Panic p, (m, w')))"
    and "view m (Metadata_Ref (install_Metadata install)) = None \<Longrightarrow> enabled install \<Longrightarrow>
      syncInstall syncer install secrets (m, w) =
        (case installHelmRelease syncer install inst w of
           (Ret release, w') \<Rightarrow> (case createMesh syncer install release m of (r, m') \<Rightarrow> (r, (m', w')))
         | (Fail e, w') \<Rightarrow> (Fail e, (m, w')) | (Panic p, w') \<Rightarrow> (Panic p, (m, w')))"
proof -
  let ?ns = "meta_Namespace (install_Metadata install)" and ?n = "meta_Name (install_Metadata install)"
  have present: "client_Read client ?ns ?n m = (Ret x, m)" if "view m (Metadata_Ref (install_Metadata install)) = Some x" for x
    using Read_present [OF m(1), of ?ns ?n x] that by simp
  have absent: "client_Read client ?ns ?n m = (Fail (NotExistErr ?ns ?n), m)"
    if "view m (Metadata_Ref (install_Metadata install)) = None"
    using Read_absent [OF m(1) name] that by simp
  note unf = syncInstall_def inst enabled_eq m(2) act_simps atry_def on_fst_def on_snd_def abind_def
  show "syncInstall syncer install secrets (m, w) = (Ret (), (m, w))"
    if "view m (Metadata_Ref (install_Metadata install)) = Some mesh" "enabled install"
    using that present by (simp add: unf)
  show "syncInstall syncer install secrets (m, w) = (Ret (), (m, w))"
    if "view m (Metadata_Ref (install_Metadata install)) = None" "\<not> enabled install"
    using that absent by (simp add: unf)
  show "\<exists>m'. client_Delete client ?ns ?n False m = (Ret (), m') \<and> ok m' \<and>
        view m' = (view m)(Metadata_Ref (install_Metadata install) := None) \<and>
        syncInstall syncer install secrets (m, w) =
          (case uninstallHelmRelease syncer mesh install inst w of
             (Ret u, w') \<Rightarrow> (Ret (), (m', w')) | (Fail e, w') \<Rightarrow> (Fail e, (m, w')) | (Panic p, w') \<Rightarrow> (Panic p, (m, w')))"
    if mesh: "view m (Metadata_Ref (install_Metadata install)) = Some mesh" and "\<not> enabled install"
  proof -
    have "Metadata_Ref (mesh_Metadata mesh) = Metadata_Ref (install_Metadata install)"
      using view_Ref [OF m(1) mesh] by (simp add: ops_simps)
    then have same: "meta_Namespace (mesh_Metadata mesh) = ?ns" "meta_Name (mesh_Metadata mesh) = ?n"
      by (simp_all add: Metadata_Ref_def del: ResourceRef_meta)
    obtain m' where "client_Delete client ?ns ?n False m = (Ret (), m')" "ok m'"
        "view m' = (view m)(Metadata_Ref (install_Metadata install) := None)"
      using Delete_present [OF m(1), of ?ns ?n mesh False] mesh by auto
    with present [OF mesh] that same show ?thesis
      by (intro exI [of _ m']) (simp add: unf split: prod.split go.split)
  qed
  show "syncInstall syncer install secrets (m, w) =
        (case installHelmRelease syncer install inst w of
           (Ret release, w') \<Rightarrow> (case createMesh syncer install release m of (r, m') \<Rightarrow> (r, (m', w')))
         | (Fail e, w') \<Rightarrow> (Fail e, (m, w')) | (Panic p, w') \<Rightarrow> (Panic p, (m, w')))"
    if "view m (Metadata_Ref (install_Metadata install)) = None" "enabled install"
    using that absent by (simp add: unf split: prod.split go.split)
qed

lemma installer_has_type: "meshInstallerFor syncer secrets install = Ret inst \<Longrightarrow> install_MeshType install \<noteq> None"
  by (cases "install_MeshType install") (auto simp: meshInstallerFor_def)

lemma sync_settles:
  assumes m: "ok m" "is_MeshClient syncer = client"
    and name: "meta_Namespace (install_Metadata install) \<noteq> []" "ValidateName (meta_Name (install_Metadata install))"
    and ret: "syncInstall syncer install secrets (m, w) = (Ret (), (m', w'))"
  shows "ok m' \<and>
    view m' = (view m)(Metadata_Ref (install_Metadata install) :=
      (if enabled install then view m' (Metadata_Ref (install_Metadata install)) else None)) \<and>
    (enabled install \<longrightarrow> (\<exists>mesh. view m' (Metadata_Ref (install_Metadata install)) = Some mesh \<and>
      (case view m (Metadata_Ref (install_Metadata install)) of
         Some old \<Rightarrow> mesh = old \<and> w' = w
       | None \<Rightarrow> \<exists>inst release. meshInstallerFor syncer secrets install = Ret inst \<and>
           installHelmRelease syncer install inst w = (Ret release, w') \<and> represents install release mesh))) \<and>
    syncInstall syncer install secrets (m', w') = (Ret (), (m', w'))"
proof -
  obtain inst where inst: "meshInstallerFor syncer secrets install = Ret inst"
    using ret by (cases "meshInstallerFor syncer secrets install") (auto simp: syncInstall_def act_simps abind_def)
  note cases = sync_cases [OF m name inst] and again = sync_cases [OF _ m(2) name inst]
  show ?thesis
  proof (cases "view m (Metadata_Ref (install_Metadata install))")
    case None
    show ?thesis
    proof (cases "enabled install")
      case True
      with ret cases(4) [OF None] obtain release where rel: "installHelmRelease syncer install inst w = (Ret release, w')"
          "createMesh syncer install release m = (Ret (), m')"
        by (auto split: prod.splits go.splits)
      moreover obtain mesh where "ok m'" "represents install release mesh"
          "view m' = (view m)(Metadata_Ref (install_Metadata install) \<mapsto> mesh)"
        using createMesh_new [OF m installer_has_type [OF inst] name None, of release] rel(2) by auto
      ultimately show ?thesis
        using True None inst again(1) [of m' mesh] by auto
    next
      case False
      with ret cases(2) [OF None] m(1) None show ?thesis by (auto simp: fun_upd_idem)
    qed
  next
    case (Some mesh)
    show ?thesis
    proof (cases "enabled install")
      case True
      with ret cases(1) [OF Some] m(1) Some show ?thesis by (auto simp: fun_upd_idem)
    next
      case False
      obtain u w1 where "uninstallHelmRelease syncer mesh install inst w = (u, w1)" by (metis surj_pair)
      with ret cases(3) [OF Some False, of w] have "ok m'" "view m' = (view m)(Metadata_Ref (install_Metadata install) := None)"
        by - (cases u; auto)+
      with False again(2) [of m'] show ?thesis by auto
    qed
  qed
qed

lemma sync_fails:
  assumes m: "ok m" "is_MeshClient syncer = client"
    and name: "meta_Namespace (install_Metadata install) \<noteq> []" "ValidateName (meta_Name (install_Metadata install))"
    and ret: "syncInstall syncer install secrets (m, w) = (r, (m', w'))" "r \<noteq> Ret ()"
  shows "m' = m"
proof (cases "meshInstallerFor syncer secrets install")
  case inst: (Ret inst)
  note cases = sync_cases [OF m name inst]
  show ?thesis
  proof (cases "view m (Metadata_Ref (install_Metadata install))")
    case None
    show ?thesis
    proof (cases "enabled install")
      case True
      have "\<exists>m'. createMesh syncer install release m = (Ret (), m')" for release
        using createMesh_new [OF m installer_has_type [OF inst] name None] by blast
      with ret cases(4) [OF None True] show ?thesis
        by (auto split: prod.splits go.splits) (metis prod.inject)+
    qed (use ret cases(2) [OF None] in auto)
  next
    case (Some mesh)
    obtain u w1 where "uninstallHelmRelease syncer mesh install inst w = (u, w1)" by (metis surj_pair)
    with ret cases(1) [OF Some, of w] cases(3) [OF Some, of w] show ?thesis
      by (cases "enabled install"; cases u) auto
  qed
qed (use ret in \<open>auto simp: syncInstall_def act_simps abind_def\<close>)

end

interpretation mesh_memory:
  mesh_store "mem_client id mesh_ops ''*v1.Mesh''" "mem_view mesh_ops ''*v1.Mesh''" "mem_ok mesh_ops ''*v1.Mesh''" mem_covers
  by (intro mesh_store.intro mem_store_client mesh.resource_type_axioms) simp

lemma mem_mesh_store:
  "valid_range rng \<Longrightarrow> mesh_store (mem_client rng mesh_ops k) (mem_view mesh_ops k) (mem_ok mesh_ops k) mem_covers"
  by (intro mesh_store.intro mem_store_client mesh.resource_type_axioms)

text \<open>
  C27: A sync of an install that succeeds leaves the mesh store as the install asks: enabled, a
  mesh is there (the one that was there, with nothing done at all, or a new one that
  represents the install and names the release that Helm returned); disabled, there is none. Other
  meshes are not touched, and the same sync again changes nothing, not even the cluster.
\<close>

theorem syncInstall_settles:
  assumes "valid_range rng" and "is_MeshClient syncer = mem_client rng mesh_ops kd" and "mem_ok mesh_ops kd m"
    and "meta_Namespace (install_Metadata install) \<noteq> []" "ValidateName (meta_Name (install_Metadata install))"
    and "syncInstall syncer install secrets (m, w) = (Ret (), (m', w'))"
  shows "mem_ok mesh_ops kd m' \<and>
    mem_view mesh_ops kd m' = (mem_view mesh_ops kd m)(Metadata_Ref (install_Metadata install) :=
      (if enabled install then mem_view mesh_ops kd m' (Metadata_Ref (install_Metadata install)) else None)) \<and>
    (enabled install \<longrightarrow> (\<exists>mesh. mem_view mesh_ops kd m' (Metadata_Ref (install_Metadata install)) = Some mesh \<and>
      (case mem_view mesh_ops kd m (Metadata_Ref (install_Metadata install)) of
         Some old \<Rightarrow> mesh = old \<and> w' = w
       | None \<Rightarrow> \<exists>inst release. meshInstallerFor syncer secrets install = Ret inst \<and>
           installHelmRelease syncer install inst w = (Ret release, w') \<and> represents install release mesh))) \<and>
    syncInstall syncer install secrets (m', w') = (Ret (), (m', w'))"
  using mesh_store.sync_settles [OF mem_mesh_store [OF assms(1)] assms(3,2,4,5,6)] .

text \<open>
  C28: A sync of an install that does not succeed, whatever fails, leaves the mesh store as it
  was, so that the next sync of the install tries again.
\<close>

theorem syncInstall_failure_keeps_meshes:
  assumes "valid_range rng" and "is_MeshClient syncer = mem_client rng mesh_ops kd" and "mem_ok mesh_ops kd m"
    and "meta_Namespace (install_Metadata install) \<noteq> []" "ValidateName (meta_Name (install_Metadata install))"
    and "syncInstall syncer install secrets (m, w) = (r, (m', w'))" "r \<noteq> Ret ()"
  shows "m' = m"
  using mesh_store.sync_fails [OF mem_mesh_store [OF assms(1)] assms(3,2,4-7)] .

text \<open>
  The outcome of \<open>DeleteRelease\<close> does not matter: if another Helm gives other results but
  has the same effects, a sync does the same and has the same result. In particular the mesh is
  deleted although its release is still there.
\<close>

theorem DeleteRelease_outcome_ignored:
  assumes "\<And>c n p k. snd (del c n p k) = snd (he_DeleteRelease env c n p k)"
    and "\<And>c n p k q. fst (del c n p k) \<noteq> Panic q" "\<And>c n p k q. fst (he_DeleteRelease env c n p k) \<noteq> Panic q"
  shows "syncInstall (syncer\<lparr>is_Helm := env\<lparr>he_DeleteRelease := del\<rparr>\<rparr>) install secrets =
         syncInstall (syncer\<lparr>is_Helm := env\<rparr>) install secrets"
proof -
  let ?env = "env\<lparr>he_DeleteRelease := del\<rparr>"
  have "getKubeClient ?env = getKubeClient env"
    by (intro ext) (simp add: getKubeClient_def configForContext_def)
  moreover have "portforwarder_New ?env = portforwarder_New env" by (intro ext) (simp add: portforwarder_New_def cong: sum.case_cong)
  ultimately have conn: "setupConnection ?env = setupConnection env"
    by (simp add: setupConnection_def AddFlags_def setupTillerHost_def cong: if_cong)
  then have client: "GetHelmClient ?env = GetHelmClient env" by (simp add: GetHelmClient_def)
  have locate: "LocateChartRepoReleaseDefault ?env = LocateChartRepoReleaseDefault env"
    by (intro ext) (simp add: LocateChartRepoReleaseDefault_def locateChartPath_def existingChart_def downloadChart_def
        filepath_Abs_def Home_Repository_def Home_Archive_def cong: option.case_cong sum.case_cong if_cong)
  have helm: "HelmInstall (syncer\<lparr>is_Helm := ?env\<rparr>) = HelmInstall (syncer\<lparr>is_Helm := env\<rparr>)"
    by (intro ext) (simp add: HelmInstall_def helmInstallChart_def client locate
        split: option.split helm_chart_locator_kind.split)
  have install: "installHelmRelease (syncer\<lparr>is_Helm := ?env\<rparr>) = installHelmRelease (syncer\<lparr>is_Helm := env\<rparr>)"
    by (intro ext) (simp add: installHelmRelease_def helm SetupInstallNamespace_def createNamespaceIfNotExist_def
        CreateCrbIfNotExist_def cong: if_cong)
  have drop1: "abind (on_snd (on_snd (atry (del c n True)))) (\<lambda>_. g) (a, h, k) =
      abind (on_snd (on_snd (atry (he_DeleteRelease env c n True)))) (\<lambda>_. g) (a, h, k)" for c n g a h k
  proof -
    obtain r1 r2 k' where d: "del c n True k = (r1, k')" "he_DeleteRelease env c n True k = (r2, k')"
      using assms(1) [of c n True k] by (metis prod.collapse)
    then have "\<nexists>q. r1 = Panic q" "\<nexists>q. r2 = Panic q"
      using assms(2) [of c n True k] assms(3) [of c n True k] by auto
    with d show ?thesis by (cases r1; cases r2) (simp_all add: abind_def on_snd_def atry_def)
  qed
  have drop: "abind (on_snd (on_snd (atry (del c n True)))) (\<lambda>_. g) =
      abind (on_snd (on_snd (atry (he_DeleteRelease env c n True)))) (\<lambda>_. g)" for c n g
    by (rule ext) (metis drop1 prod_cases3)
  have uninstall: "uninstallHelmRelease (syncer\<lparr>is_Helm := ?env\<rparr>) = uninstallHelmRelease (syncer\<lparr>is_Helm := env\<rparr>)"
    by (intro ext) (simp add: uninstallHelmRelease_def client drop tryDeleteInstallNamespace_def deleteCrb_def cong: if_cong)
  show ?thesis
    by (intro ext) (simp add: syncInstall_def install uninstall meshInstallerFor_def createMesh_def
        cong: if_cong sum.case_cong option.case_cong mesh_type.case_cong)
qed

section \<open>Witnesses\<close>

definition ex_install :: "helm_chart_locator_kind option option \<Rightarrow> bool option \<Rightarrow> install" where
  "ex_install chart on =
     \<lparr>install_Status = zero_status, install_Metadata = new_metadata ''ns'' ''mesh'',
      install_MeshType = Some (Mesh_Linkerd2 (Some \<lparr>linkerd2_InstallationNamespace = [], linkerd2_WatchNamespaces = [],
        linkerd2_PrometheusConfigmap = None\<rparr>)),
      install_ChartLocator = chart, install_Encryption = None, install_Enabled = on\<rparr>"

definition ex_install_syncer :: "(mesh mem_cache, istio_cacerts_secret mem_cache, unit) install_syncer" where
  "ex_install_syncer =
     \<lparr>is_Kube = \<lparr>cs_Namespaces_Create = (\<lambda>n. afail (KubeAlreadyExists n)), cs_Namespaces_Delete = (\<lambda>n. aret ()),
        cs_ClusterRoleBindings_Create = (\<lambda>c. aret ()), cs_ClusterRoleBindings_Delete = (\<lambda>n. aret ()),
        cs_Writer = \<lparr>kube_Pods_DeleteCollection = (\<lambda>ns sel. aret ()), kube_Secrets_Delete = (\<lambda>ns n. aret ())\<rparr>\<rparr>,
      is_MeshClient = mem_client id mesh_ops ''m'', is_SecurityClient = None,
      is_ApiExts = \<lparr>ka_Create = (\<lambda>t ns x. aret ()), ka_Get = (\<lambda>t ns n. afail (Errorf [])),
        ka_Update = (\<lambda>t ns x. aret ()), ka_Delete = (\<lambda>t ns n. aret ())\<rparr>,
      is_SecretClient = mem_client id istio_cacerts_secret_ops ''s'', is_Helm = ex_helm_env, is_fuel = 1,
      is_yaml = \<lparr>yl_Untyped = (\<lambda>s. Fail (Errorf [])), yl_TypeMeta = (\<lambda>s. Fail (Errorf [])),
        yl_Object = (\<lambda>t s. Fail (Errorf [])), yl_Marshal = (\<lambda>v. Fail (Errorf []))\<rparr>,
      is_IstioCrdYaml = []\<rparr>"

abbreviation ex_world :: "(istio_cacerts_secret mem_cache, unit) install_world" where
  "ex_world \<equiv> ([], (ex_helm_state\<lparr>helm_tillerTunnel := None\<rparr>, ()))"

lemma ex_install_name:
  "meta_Namespace (install_Metadata (ex_install chart on)) \<noteq> []"
  "ValidateName (meta_Name (install_Metadata (ex_install chart on)))"
  "Metadata_Ref (install_Metadata (ex_install chart on)) = ResourceRef ''ns'' ''mesh''"
proof -
  have "ValidateName ''mesh''" by code_simp
  then show "meta_Namespace (install_Metadata (ex_install chart on)) \<noteq> []"
    "ValidateName (meta_Name (install_Metadata (ex_install chart on)))"
    "Metadata_Ref (install_Metadata (ex_install chart on)) = ResourceRef ''ns'' ''mesh''"
    by (simp_all add: ex_install_def new_metadata_def Metadata_Ref_def del: ResourceRef_meta)
qed

lemma ex_install_client: "is_MeshClient ex_install_syncer = mem_client id mesh_ops ''m''"
  by (simp add: ex_install_syncer_def)

lemma ex_empty: "mem_ok mesh_ops ''m'' []" "mem_view mesh_ops ''m'' [] ref = None"
  by (simp_all add: mem_ok_def mem_view_def)

lemma ex_syncInstall:
  "fst (syncInstall ex_install_syncer (ex_install (Some (Some (ChartPath ''/chart''))) None) [] ([], ex_world)) = Ret ()"
  by code_simp

theorem syncInstall_settles_witness:
  "\<exists>m' w' mesh. syncInstall ex_install_syncer (ex_install (Some (Some (ChartPath ''/chart''))) None) [] ([], ex_world) =
       (Ret (), (m', w')) \<and>
     mem_view mesh_ops ''m'' m' (ResourceRef ''ns'' ''mesh'') = Some mesh \<and>
     syncInstall ex_install_syncer (ex_install (Some (Some (ChartPath ''/chart''))) None) [] (m', w') = (Ret (), (m', w'))"
proof -
  obtain m' w' where run: "syncInstall ex_install_syncer (ex_install (Some (Some (ChartPath ''/chart''))) None) [] ([], ex_world) =
       (Ret (), (m', w'))"
    using ex_syncInstall by (metis prod.collapse)
  from syncInstall_settles [OF _ ex_install_client ex_empty(1) ex_install_name(1,2) run]
  moreover have "enabled (ex_install chart None)" for chart by (simp add: enabled_def ex_install_def)
  ultimately show ?thesis using run by (auto simp: ex_install_name(3))
qed

theorem syncInstall_failure_keeps_meshes_witness:
  "\<exists>e w'. syncInstall ex_install_syncer (ex_install None None) [] ([], ex_world) = (Fail e, ([], w'))"
proof -
  have "fst (syncInstall ex_install_syncer (ex_install None None) [] ([], ex_world)) =
      Fail (Wrapf (Errorf ''Unsupported kind of chart locator'') ''installing helm chart'')"
    by code_simp
  then obtain e m' w' where run: "syncInstall ex_install_syncer (ex_install None None) [] ([], ex_world) = (Fail e, (m', w'))"
    by (metis prod.collapse)
  have "m' = []"
    by (rule syncInstall_failure_keeps_meshes [OF _ ex_install_client ex_empty(1) ex_install_name(1,2) run])
      (simp_all add: valid_range_def)
  with run show ?thesis by blast
qed

theorem DeleteRelease_outcome_ignored_witness:
  "syncInstall (ex_install_syncer\<lparr>is_Helm := ex_helm_env\<lparr>he_DeleteRelease := \<lambda>c n p. afail (Errorf n)\<rparr>\<rparr>) =
   syncInstall (ex_install_syncer\<lparr>is_Helm := ex_helm_env\<rparr>)"
  by (intro ext fun_cong [OF DeleteRelease_outcome_ignored]) (simp_all add: ex_helm_env_def afail_def aret_def)

end
