(* ===== verification/Setup_Properties.thy ===== *)
theory Setup_Properties
  imports Setup Event_Loop_Properties Istio_Routing_Properties Install_Properties
begin

text \<open>
  What the parts of the program do to each other: the seven syncers of the translator and the
  installer act on one world.
\<close>

section \<open>Parts of the world\<close>

lemma on_part_eq: "on_part get put m w = (fst (m (get w)), put (snd (m (get w))) w)"
  by (simp add: on_part_def case_prod_beta)

lemmas at_defs = at_routing_def at_prometheus_def at_consul_def at_secrets_def at_rbac_def at_installs_def

lemma fst_at [simp]:
  "fst (at_routing m1 w) = fst (m1 (w_destinationRules w, w_virtualServices w))"
  "fst (at_prometheus m2 w) = fst (m2 (w_prometheus w, w_kube w))"
  "fst (at_consul m3 w) = fst (m3 (w_consul w))"
  "fst (at_secrets m4 w) = fst (m4 (w_secrets w, w_kube w))"
  "fst (at_rbac m5 w) = fst (m5 (w_rbac w))"
  by (simp_all add: at_defs on_part_eq)

lemma snd_at:
  "snd (at_routing m1 w) = w\<lparr>w_destinationRules := fst (snd (m1 (w_destinationRules w, w_virtualServices w))),
     w_virtualServices := snd (snd (m1 (w_destinationRules w, w_virtualServices w)))\<rparr>"
  "snd (at_prometheus m2 w) = w\<lparr>w_prometheus := fst (snd (m2 (w_prometheus w, w_kube w))),
     w_kube := snd (snd (m2 (w_prometheus w, w_kube w)))\<rparr>"
  "snd (at_consul m3 w) = w\<lparr>w_consul := snd (m3 (w_consul w))\<rparr>"
  "snd (at_secrets m4 w) = w\<lparr>w_secrets := fst (snd (m4 (w_secrets w, w_kube w))),
     w_kube := snd (snd (m4 (w_secrets w, w_kube w)))\<rparr>"
  "snd (at_rbac m5 w) = w\<lparr>w_rbac := snd (m5 (w_rbac w))\<rparr>"
  by (simp_all add: at_defs on_part_eq case_prod_beta)

text \<open>What a collecting loop that did not panic did.\<close>

lemma acollect_ConsE:
  assumes "acollect f (x # xs) s = (Ret es, t)"
  obtains es' where "acollect f xs (snd (f x s)) = (Ret es', t)" "es = [] \<longleftrightarrow> fst (f x s) = Ret () \<and> es' = []"
  using assms by (cases "f x s"; cases "fst (f x s)") (auto simp: abind_def atry_def aret_def split: prod.splits go.splits)

lemma acollect_not_Fail: "acollect f xs s \<noteq> (Fail e, t)"
  by (induction xs arbitrary: s) (auto simp: abind_def atry_def aret_def split: prod.splits go.splits)

lemma collected:
  assumes "abind (acollect f xs) (\<lambda>es. alift (ErrorOrNil es)) s = (res, t)" "\<nexists>p. res = Panic p"
  obtains es where "acollect f xs s = (Ret es, t)" "res = Ret () \<longleftrightarrow> es = []"
  using assms by (cases "acollect f xs s"; cases "fst (acollect f xs s)")
    (auto simp: abind_def alift_def ErrorOrNil_def acollect_not_Fail split: if_splits)

section \<open>One sync of the translator\<close>

lemma acollect_map: "acollect f (map g xs) = acollect (\<lambda>x. f (g x)) xs"
  by (induction xs) simp_all

lemma seven_parts:
  fixes w :: "('d, 'v, 'p, 'm, 's, 'k, 'c, 'rc, 'rb, 'rr) world"
  assumes "acollect (\<lambda>f. f) [at_routing m1, at_prometheus m2, at_prometheus m3, at_consul m4, at_consul m5, at_secrets m6, at_rbac m7] w =
     (Ret es, w')"
  shows "(w_destinationRules w', w_virtualServices w') = snd (m1 (w_destinationRules w, w_virtualServices w)) \<and>
    w_prometheus w' = fst (snd (m3 (snd (m2 (w_prometheus w, w_kube w))))) \<and>
    w_consul w' = snd (m5 (snd (m4 (w_consul w)))) \<and>
    (w_secrets w', w_kube w') = snd (m6 (w_secrets w, snd (snd (m3 (snd (m2 (w_prometheus w, w_kube w))))))) \<and>
    w_rbac w' = snd (m7 (w_rbac w)) \<and> w_meshes w' = w_meshes w \<and> w_helm w' = w_helm w \<and>
    (es = [] \<longleftrightarrow> fst (m1 (w_destinationRules w, w_virtualServices w)) = Ret () \<and> fst (m2 (w_prometheus w, w_kube w)) = Ret () \<and>
       fst (m3 (snd (m2 (w_prometheus w, w_kube w)))) = Ret () \<and> fst (m4 (w_consul w)) = Ret () \<and>
       fst (m5 (snd (m4 (w_consul w)))) = Ret () \<and>
       fst (m6 (w_secrets w, snd (snd (m3 (snd (m2 (w_prometheus w, w_kube w))))))) = Ret () \<and> fst (m7 (w_rbac w)) = Ret ())"
proof -
  obtain r1 d v where 1: "m1 (w_destinationRules w, w_virtualServices w) = (r1, (d, v))" by (metis prod.collapse)
  obtain r2 p k where 2: "m2 (w_prometheus w, w_kube w) = (r2, (p, k))" by (metis prod.collapse)
  obtain r3 p' k' where 3: "m3 (p, k) = (r3, (p', k'))" by (metis prod.collapse)
  obtain r4 c where 4: "m4 (w_consul w) = (r4, c)" by (metis prod.collapse)
  obtain r5 c' where 5: "m5 c = (r5, c')" by (metis prod.collapse)
  obtain r6 s k'' where 6: "m6 (w_secrets w, k') = (r6, (s, k''))" by (metis prod.collapse)
  obtain r7 x where 7: "m7 (w_rbac w) = (r7, x)" by (metis prod.collapse)
  show ?thesis
    using assms
    by (elim acollect_ConsE) (simp add: snd_at aret_def 1 2 3 4 5 6 7, hypsubst, simp)
qed

lemma translator_sync_parts:
  fixes env :: "('d, 'v, 'p, 'm, 's, 'k, 'c, 'rc, 'rb, 'rr) setup_env"
  assumes "TranslatorSyncers_Sync (translatorSyncersOf env nss kube dr vs prom secret policy) snap w = (res, w')"
    and "\<nexists>p. res = Panic p"
  shows "let routing = MeshRoutingSyncer_Sync (se_routing env) (NewMeshRoutingSyncer nss None dr vs) snap
        (w_destinationRules w, w_virtualServices w);
      prom1 = PrometheusSyncer_Sync (istio_NewPrometheusSyncer (Some (cs_Writer kube)) prom) snap (w_prometheus w, w_kube w);
      prom2 = PrometheusSyncer_Sync (linkerd2_NewPrometheusSyncer (Some (cs_Writer kube)) prom) snap (snd prom1);
      certs = ConsulSyncer_Sync (se_ConsulAt env) 0 snap (w_consul w);
      intentions = ConsulPolicySyncer_Sync (se_Consul env) snap (snd certs);
      encryption = EncryptionSyncer_Sync \<lparr>es_Kube = Some (cs_Writer kube), es_SecretClient = secret\<rparr> snap
        (w_secrets w, snd (snd prom2));
      policies = PolicySyncer_Sync (se_policyRange env) policy snap (w_rbac w)
    in (w_destinationRules w', w_virtualServices w') = snd routing \<and> w_prometheus w' = fst (snd prom2) \<and>
      w_consul w' = snd intentions \<and> (w_secrets w', w_kube w') = snd encryption \<and> w_rbac w' = snd policies \<and>
      w_meshes w' = w_meshes w \<and> w_helm w' = w_helm w \<and>
      (res = Ret () \<longleftrightarrow> fst routing = Ret () \<and> fst prom1 = Ret () \<and> fst prom2 = Ret () \<and> fst certs = Ret () \<and>
         fst intentions = Ret () \<and> fst encryption = Ret () \<and> fst policies = Ret ())"
proof -
  obtain es where es: "acollect (\<lambda>syncer. syncer snap) (translatorSyncersOf env nss kube dr vs prom secret policy) w = (Ret es, w')"
      "res = Ret () \<longleftrightarrow> es = []"
    using collected [OF assms(1) [unfolded TranslatorSyncers_Sync_def] assms(2)] .
  have "acollect (\<lambda>f. f) (map (\<lambda>syncer. syncer snap) (translatorSyncersOf env nss kube dr vs prom secret policy)) w = (Ret es, w')"
    using es(1) by (simp only: acollect_map)
  from seven_parts [OF this [unfolded translatorSyncersOf_def list.map]]
  show ?thesis unfolding es(2) Let_def .
qed


section \<open>Routing converges in the whole program\<close>

lemma routing_part_converges:
  assumes rngs: "valid_range r1" "valid_range r2"
    and drs: "destinationRulesForUpstreams renv (snap_List routing_rule_ops (snap_Routingrules snap))
        (snap_List mesh_ops (snap_Meshes snap)) (snap_List upstream_ops (snap_Upstreams snap)) = Ret drs"
    and vss: "virtualServicesForRules renv (snap_List routing_rule_ops (snap_Routingrules snap))
        (snap_List mesh_ops (snap_Meshes snap)) (snap_List upstream_ops (snap_Upstreams snap)) = Ret vss"
    and ok: "mem_ok destination_rule_ops k1 a" "mem_ok virtual_service_ops k2 b"
    and sel: "sel = [(''reconciler.solo.io'', ''supergloo.istio.routing'')]"
    and w: "writable destination_rule_ops mem_covers sel nss (map (dr_for_writing sel) drs) (mem_view destination_rule_ops k1 a)"
      "writable virtual_service_ops mem_covers sel nss (map (vs_for_writing sel) vss) (mem_view virtual_service_ops k2 b)"
  shows "\<exists>a' b'. MeshRoutingSyncer_Sync renv (NewMeshRoutingSyncer nss None
        (mem_client r1 destination_rule_ops k1) (mem_client r2 virtual_service_ops k2)) snap (a, b) = (Ret (), (a', b')) \<and>
     converged destination_rule_ops (\<lambda>_ d r. same_dr r d) mem_covers sel nss
       (map (dr_for_writing sel) drs) (mem_view destination_rule_ops k1 a) (mem_view destination_rule_ops k1 a') \<and>
     converged virtual_service_ops (\<lambda>_ d r. same_vs r d) mem_covers sel nss
       (map (vs_for_writing sel) vss) (mem_view virtual_service_ops k2 b) (mem_view virtual_service_ops k2 b')"
proof -
  let ?s = "NewMeshRoutingSyncer nss None (mem_client r1 destination_rule_ops k1) (mem_client r2 virtual_service_ops k2)"
  have s: "?s = \<lparr>mrs_writeNamespaces = nss, mrs_writeSelector = sel,
      mrs_destinationRules = mem_client r1 destination_rule_ops k1, mrs_virtualServices = mem_client r2 virtual_service_ops k2\<rparr>"
    by (simp add: NewMeshRoutingSyncer_def sel)
  have "MeshRoutingSyncer_Sync renv ?s snap (a, b) =
      writeIstioCrds ?s (map (dr_for_writing sel) drs) (map (vs_for_writing sel) vss) (a, b)"
    by (simp add: MeshRoutingSyncer_Sync_def drs vss s act_simps)
  with routing_stores.writeIstioCrds_converges [OF mem_routing_stores [OF rngs] s ok w] show ?thesis by auto
qed

text \<open>
  A sync of the whole translator leaves exactly the wanted destination rules and virtual
  services, in the namespaces that the program watches, whatever errors the other six syncers
  return (unless one panics).
\<close>

theorem setup_routing_converges:
  fixes env :: "(destination_rule mem_cache, virtual_service mem_cache, 'p, 'm, 's, 'k, 'c, 'rc, 'rb, 'rr) setup_env"
  assumes "TranslatorSyncers_Sync (translatorSyncersOf env nss kube (mem_client r1 destination_rule_ops k1)
        (mem_client r2 virtual_service_ops k2) prom secret policy) snap w = (res, w')" "\<nexists>p. res = Panic p"
    and "valid_range r1" "valid_range r2"
    and "destinationRulesForUpstreams (se_routing env) (snap_List routing_rule_ops (snap_Routingrules snap))
        (snap_List mesh_ops (snap_Meshes snap)) (snap_List upstream_ops (snap_Upstreams snap)) = Ret drs"
    and "virtualServicesForRules (se_routing env) (snap_List routing_rule_ops (snap_Routingrules snap))
        (snap_List mesh_ops (snap_Meshes snap)) (snap_List upstream_ops (snap_Upstreams snap)) = Ret vss"
    and "mem_ok destination_rule_ops k1 (w_destinationRules w)" "mem_ok virtual_service_ops k2 (w_virtualServices w)"
    and "sel = [(''reconciler.solo.io'', ''supergloo.istio.routing'')]"
    and "writable destination_rule_ops mem_covers sel nss (map (dr_for_writing sel) drs)
        (mem_view destination_rule_ops k1 (w_destinationRules w))"
      "writable virtual_service_ops mem_covers sel nss (map (vs_for_writing sel) vss)
        (mem_view virtual_service_ops k2 (w_virtualServices w))"
  shows "converged destination_rule_ops (\<lambda>_ d r. same_dr r d) mem_covers sel nss (map (dr_for_writing sel) drs)
      (mem_view destination_rule_ops k1 (w_destinationRules w)) (mem_view destination_rule_ops k1 (w_destinationRules w')) \<and>
    converged virtual_service_ops (\<lambda>_ d r. same_vs r d) mem_covers sel nss (map (vs_for_writing sel) vss)
      (mem_view virtual_service_ops k2 (w_virtualServices w)) (mem_view virtual_service_ops k2 (w_virtualServices w'))"
  using routing_part_converges [OF assms(3-11)] translator_sync_parts [OF assms(1,2)] by (auto simp: Let_def)

section \<open>The two loops\<close>

definition translator_snapshots :: "('p + 'q) list \<Rightarrow> 'p list" where
  "translator_snapshots xs = concat (map (\<lambda>x. case x of Inl p \<Rightarrow> [p] | Inr _ \<Rightarrow> []) xs)"

lemma translator_snapshots_simps [simp]:
  "translator_snapshots [] = []"
  "translator_snapshots (Inl p # xs) = p # translator_snapshots xs"
  "translator_snapshots (Inr q # xs) = translator_snapshots xs"
  by (simp_all add: translator_snapshots_def)



lemma at_installs_parts [simp]:
  "w_destinationRules (snd (at_installs m w)) = w_destinationRules w"
  "w_virtualServices (snd (at_installs m w)) = w_virtualServices w"
  "w_prometheus (snd (at_installs m w)) = w_prometheus w"
  "w_consul (snd (at_installs m w)) = w_consul w" "w_rbac (snd (at_installs m w)) = w_rbac w"
  by (simp_all add: at_installs_def on_part_eq case_prod_beta)


section \<open>Starting\<close>

lemma gbind_Ret_ex: "(\<exists>r. gbind m f = Ret r) \<longleftrightarrow> (\<exists>x. m = Ret x \<and> (\<exists>r. f x = Ret r))"
  by (cases m) auto

lemma gwrap_Ret_ex: "(\<exists>r. gwrap msg m = Ret r) \<longleftrightarrow> (\<exists>r. m = Ret r)"
  by simp

lemma Ret_ex: "\<exists>r. Ret x = Ret r"
  by simp

lemma policy_starts:
  "(\<exists>p. NewPolicySyncer ns (rg_New a) (rg_Register a) (rg_New b) (rg_Register b) (rg_New c) (rg_Register c) kube = Ret p) \<longleftrightarrow>
     (\<exists>x. new_registered a = Ret x) \<and> (\<exists>x. new_registered b = Ret x) \<and> (\<exists>x. new_registered c = Ret x) \<and> (\<exists>k. kube = Ret k)"
  unfolding NewPolicySyncer_def new_registered_def gbind_Ret_ex by auto

text \<open>
  C36: \<open>Main\<close> starts exactly if the configuration is there and every client is made and registered,
  and every watch starts in every namespace; it then watches the namespaces it was given, or the
  three default ones.
\<close>

theorem setup_Main_starts:
  "(\<exists>r. setup_Main env args = Ret r) \<longleftrightarrow>
     se_GetConfig env = Ret () \<and> (\<exists>k. se_Kube env = Ret k) \<and>
     (\<exists>c. new_registered (se_DestinationRules env) = Ret c) \<and> (\<exists>c. new_registered (se_VirtualServices env) = Ret c) \<and>
     (\<exists>c. new_registered (se_Prometheus env) = Ret c) \<and> (\<exists>c. new_registered (se_Meshes env) = Ret c) \<and>
     (\<exists>c. new_registered (se_Installs env) = Ret c) \<and> (\<exists>c. new_registered (se_RoutingRules env) = Ret c) \<and>
     (\<exists>c. new_registered (se_Upstreams env) = Ret c) \<and> (\<exists>c. new_registered (se_Secrets env) = Ret c) \<and>
     (\<exists>c. new_registered (se_ServiceRoleBindings env) = Ret c) \<and> (\<exists>c. new_registered (se_ServiceRoles env) = Ret c) \<and>
     (\<exists>c. new_registered (se_RbacConfigs env) = Ret c) \<and> (\<exists>k. se_PolicyKube env = Ret k) \<and> (\<exists>a. se_ApiExts env = Ret a) \<and>
     list_all (\<lambda>ns. se_watchMesh env ns = Ret () \<and> se_watchRoutingRule env ns = Ret () \<and> se_watchUpstream env ns = Ret () \<and>
        se_watchSecret env ns = Ret () \<and> se_watchInstall env ns = Ret ()) (if args = [] then defaultNamespaces else args)"
proof -
  let ?nss = "if args = [] then defaultNamespaces else args"
  have tr: "gwrap m (translatorEmitter_Snapshots (translator_clients_of env) ?nss) = Ret () \<longleftrightarrow>
      (\<forall>ns \<in> set ?nss. se_watchMesh env ns = Ret () \<and> se_watchRoutingRule env ns = Ret () \<and> se_watchUpstream env ns = Ret () \<and>
        se_watchSecret env ns = Ret ())" for m
    by (simp add: translatorEmitter_Snapshots_def start_watches_Ret translator_clients_of_def watched_def)
  have ins: "gwrap m (installEmitter_Snapshots (watched (se_Installs env) (se_watchInstall env))
        (watched (se_Secrets env) (se_watchSecret env)) ?nss) = Ret () \<longleftrightarrow>
      (\<forall>ns \<in> set ?nss. se_watchInstall env ns = Ret () \<and> se_watchSecret env ns = Ret ())" for m
    by (simp add: installEmitter_Snapshots_def start_watches_Ret watched_def)
  have unit: "(\<exists>x. P x) \<longleftrightarrow> P ()" for P by auto
  have nss: "(if length args = 0 then defaultNamespaces else args) = ?nss" by simp
  show ?thesis
    unfolding setup_Main_def Let_def nss gbind_Ret_ex
    by (simp only: ex_simps unit tr ins gwrap_Ret_ex Ret_ex)
      (use policy_starts [of "''supergloo-system''" "se_ServiceRoleBindings env" "se_ServiceRoles env" "se_RbacConfigs env"
        "se_PolicyKube env"] in \<open>auto simp: list_all_iff\<close>)
qed

section \<open>Witnesses\<close>

text \<open>
  The examples of routing and of installing in one world, whose API server has no RBAC: the policy
  syncer fails.
\<close>

definition ex_no_client :: "(unit, 'r) client" where
  "ex_no_client = \<lparr>client_Read = (\<lambda>ns n. afail (Errorf [])), client_Write = (\<lambda>r w. afail (Errorf [])),
     client_Delete = (\<lambda>ns n i. afail (Errorf [])), client_List = (\<lambda>ns sel. afail (Errorf []))\<rparr>"

definition ex_policy_syncer :: "(unit, unit, unit) policy_syncer" where
  "ex_policy_syncer = \<lparr>ps_WriteSelector = [], ps_WriteNamespace = ''supergloo-system'', ps_serviceRoleBindings = ex_no_client,
     ps_serviceRoles = ex_no_client, ps_rbacConfigs = ex_no_client,
     ps_kubeClient = \<lparr>kube_Namespaces_List = Ret [], kube_Services_Get = (\<lambda>ns n. Ret []), kube_Pods_List = (\<lambda>ns sel. Ret [])\<rparr>\<rparr>"

type_synonym ex_setup_world =
  "(destination_rule mem_cache, virtual_service mem_cache, unit, mesh mem_cache, istio_cacerts_secret mem_cache,
    unit, unit, unit, unit, unit) world"

definition ex_start :: ex_setup_world where
  "ex_start = \<lparr>w_destinationRules = [], w_virtualServices = [], w_prometheus = (), w_meshes = [], w_secrets = [],
     w_helm = ex_helm_state\<lparr>helm_tillerTunnel := None\<rparr>, w_kube = (), w_consul = (), w_rbac = ((), (), ())\<rparr>"

definition ex_setup_env ::
  "(destination_rule mem_cache, virtual_service mem_cache, unit, mesh mem_cache, istio_cacerts_secret mem_cache,
    unit, unit, unit, unit, unit) setup_env" where
  "ex_setup_env =
     \<lparr>se_GetConfig = Ret (), se_Kube = Ret (is_Kube ex_install_syncer),
      se_DestinationRules = \<lparr>rg_New = Ret (mem_client id destination_rule_ops ''dr''), rg_Register = Ret ()\<rparr>,
      se_VirtualServices = \<lparr>rg_New = Ret (mem_client id virtual_service_ops ''vs''), rg_Register = Ret ()\<rparr>,
      se_Prometheus = \<lparr>rg_New = Ret ex_no_client, rg_Register = Ret ()\<rparr>,
      se_Meshes = \<lparr>rg_New = Ret (mem_client id mesh_ops ''m''), rg_Register = Ret ()\<rparr>,
      se_Installs = \<lparr>rg_New = Ret (), rg_Register = Ret ()\<rparr>, se_RoutingRules = \<lparr>rg_New = Ret (), rg_Register = Ret ()\<rparr>,
      se_Upstreams = \<lparr>rg_New = Ret (), rg_Register = Ret ()\<rparr>,
      se_Secrets = \<lparr>rg_New = Ret (mem_client id istio_cacerts_secret_ops ''s''), rg_Register = Ret ()\<rparr>,
      se_ServiceRoleBindings = \<lparr>rg_New = Ret ex_no_client, rg_Register = Ret ()\<rparr>,
      se_ServiceRoles = \<lparr>rg_New = Ret ex_no_client, rg_Register = Ret ()\<rparr>,
      se_RbacConfigs = \<lparr>rg_New = Ret ex_no_client, rg_Register = Ret ()\<rparr>,
      se_PolicyKube = Ret (ps_kubeClient ex_policy_syncer), se_ApiExts = Ret (is_ApiExts ex_install_syncer),
      se_watchMesh = (\<lambda>ns. Ret ()), se_watchRoutingRule = (\<lambda>ns. Ret ()), se_watchUpstream = (\<lambda>ns. Ret ()),
      se_watchSecret = (\<lambda>ns. Ret ()), se_watchInstall = (\<lambda>ns. Ret ()),
      se_ConsulAt = (\<lambda>a. Fail (Errorf [])), se_Consul = Fail (Errorf []), se_routing = ex_env, se_policyRange = id,
      se_Helm = ex_helm_env, se_fuel = 1, se_yaml = is_yaml ex_install_syncer, se_IstioCrdYaml = []\<rparr>"

abbreviation ex_translator_syncers :: "ex_setup_world syncer list" where
  "ex_translator_syncers \<equiv> translatorSyncersOf ex_setup_env [''ns''] (is_Kube ex_install_syncer)
     (mem_client id destination_rule_ops ''dr'') (mem_client id virtual_service_ops ''vs'') ex_no_client
     (mem_client id istio_cacerts_secret_ops ''s'') ex_policy_syncer"

lemma ex_empty_store: "mem_ok ops k []" "mem_view ops k [] ref = None"
  by (simp_all add: mem_ok_def mem_view_def)

lemma ex_writable:
  "writable destination_rule_ops mem_covers sel [''ns''] (map (dr_for_writing sel) ex_drs) (mem_view destination_rule_ops ''dr'' [])"
  "writable virtual_service_ops mem_covers sel [''ns''] (map (vs_for_writing sel) [ex_vs]) (mem_view virtual_service_ops ''vs'' [])"
  using ex_written_name
  by (simp_all add: writable_def ex_empty_store ex_drs_def dr_for_writing_def destinationRuleForHost_def vs_for_writing_def
      ex_vs_def ops_simps)

lemma ex_other_syncers:
  "PrometheusSyncer_Sync ps ex_snapshot s1 = (Ret (), s1)"
  "ConsulSyncer_Sync c p ex_snapshot s2 = (Ret (), s2)"
  "ConsulPolicySyncer_Sync c' ex_snapshot s3 = (Ret (), s3)"
  "EncryptionSyncer_Sync e ex_snapshot s4 = (Ret (), s4)"
  "PolicySyncer_Sync r ex_policy_syncer ex_snapshot s5 = (Fail (MultiErr [Errorf []]), s5)"
  by (simp_all add: PrometheusSyncer_Sync_def ConsulSyncer_Sync_def ConsulPolicySyncer_Sync_def EncryptionSyncer_Sync_def
      PolicySyncer_Sync_def ex_snap_lists ex_mesh_def prometheus_syncMesh_def consul_syncMesh_def consul_policyForMesh_def
      EncryptionSyncer_syncMesh_def mesh_GetIstio_def SyncSecret_def syncMeshPolicy_def removePolicy_def Reconcile_def
      ex_policy_syncer_def ex_no_client_def prod_eq_iff abind_def atry_def awrap_def act_defs ErrorOrNil_def on_fst_def)

lemma ex_translator_run:
  "\<exists>w'. TranslatorSyncers_Sync ex_translator_syncers ex_snapshot ex_start = (Fail (MultiErr [MultiErr [Errorf []]]), w')"
proof -
  obtain a b where "MeshRoutingSyncer_Sync ex_env (NewMeshRoutingSyncer [''ns''] None
      (mem_client id destination_rule_ops ''dr'') (mem_client id virtual_service_ops ''vs'')) ex_snapshot ([], []) = (Ret (), (a, b))"
    using routing_part_converges [OF valid_range_id(1) valid_range_id(1) ex_destinationRules [folded ex_snap_lists]
        ex_virtualServices [folded ex_snap_lists] ex_empty_store(1) ex_empty_store(1) refl ex_writable]
    by blast
  then show ?thesis
    by (simp add: TranslatorSyncers_Sync_def translatorSyncersOf_def at_defs on_part_eq ex_other_syncers ex_start_def
        ex_setup_env_def abind_def atry_def act_defs ErrorOrNil_def)
qed

lemma ex_vs_written:
  "resource_Ref virtual_service_ops (vs_for_writing sel ex_vs) = ResourceRef ''ns'' ''m-svc-ns-svc-cluster-local''"
  "meta_Namespace (GetMetadata virtual_service_ops (vs_for_writing sel ex_vs)) = ''ns''"
proof -
  have "Metadata_Ref (updateMetadataForWriting sel (new_metadata ''ns'' (''m-'' @ ex_host))) =
      ResourceRef ''ns'' ''m-svc-ns-svc-cluster-local''"
    by (simp add: Metadata_Ref_def ex_written_name del: ResourceRef_meta append.simps)
  then show "resource_Ref virtual_service_ops (vs_for_writing sel ex_vs) = ResourceRef ''ns'' ''m-svc-ns-svc-cluster-local''"
    "meta_Namespace (GetMetadata virtual_service_ops (vs_for_writing sel ex_vs)) = ''ns''"
    by (simp_all add: vs_for_writing_def ex_vs_def ops_simps)
qed


theorem setup_routing_converges_witness:
  "\<exists>w' r. TranslatorSyncers_Sync ex_translator_syncers ex_snapshot ex_start = (Fail (MultiErr [MultiErr [Errorf []]]), w') \<and>
     mem_view virtual_service_ops ''vs'' (w_virtualServices w') (ResourceRef ''ns'' ''m-svc-ns-svc-cluster-local'') = Some r \<and>
     same_vs r (vs_for_writing [(''reconciler.solo.io'', ''supergloo.istio.routing'')] ex_vs)"
proof -
  let ?sel = "[(''reconciler.solo.io'', ''supergloo.istio.routing'')]"
  obtain w' where w': "TranslatorSyncers_Sync ex_translator_syncers ex_snapshot ex_start = (Fail (MultiErr [MultiErr [Errorf []]]), w')"
    using ex_translator_run by blast
  have env: "se_routing ex_setup_env = ex_env" "w_destinationRules ex_start = []" "w_virtualServices ex_start = []"
    by (simp_all add: ex_setup_env_def ex_start_def)
  have "converged virtual_service_ops (\<lambda>_ d r. same_vs r d) mem_covers ?sel [''ns''] (map (vs_for_writing ?sel) [ex_vs])
      (mem_view virtual_service_ops ''vs'' []) (mem_view virtual_service_ops ''vs'' (w_virtualServices w'))"
    using setup_routing_converges [OF w' _ valid_range_id(1) valid_range_id(1), of "ex_drs" "[ex_vs]" ?sel]
      ex_destinationRules [folded ex_snap_lists] ex_virtualServices [folded ex_snap_lists] ex_writable [of ?sel]
    by (simp add: env ex_empty_store)
  then show ?thesis using w' ex_vs_written by (auto simp: converged_def)
qed





end
