(* ===== verification/End_To_End.thy ===== *)
theory End_To_End
  imports Watch_System Setup_Properties
begin

text \<open>
  From the resources that users store to the resources that Istio reads: the watches, the emitter and one sync
  of the whole translator together.
\<close>

section \<open>The examples of routing, stored\<close>

definition ex_stored :: "any_resource mem_cache" where
  "ex_stored = map (\<lambda>a. (mem_key (any_Kind a) (meta_Namespace (any_Metadata a)) (meta_Name (any_Metadata a)), a))
     ([R_Mesh ex_mesh, R_RoutingRule ex_rule] @ map R_Upstream ex_upstreams)"

lemma ex_stored_metadata:
  "mesh_Metadata ex_mesh = new_metadata ''ns'' ''m''" "rr_Metadata ex_rule = new_metadata ''ns'' ''r''"
  "upstream_Metadata (ex_upstream u v) = new_metadata ''ns'' u"
  by (simp_all add: ex_mesh_def ex_rule_def ex_upstream_def)

lemma ex_stored_apart: "store_apart [''ns''] ex_stored"
  by (simp add: store_apart_def shared_ok_def ex_stored_def ex_upstreams_def ex_stored_metadata apart_def mem_key_def)

lemma ex_watchable: "watchable [''ns'']"
  by (simp add: watchable_def)

lemma ex_stored_lists:
  "stored_list as_Mesh mesh_Metadata [''ns''] ex_stored = [ex_mesh]"
  "stored_list as_RoutingRule rr_Metadata [''ns''] ex_stored = [ex_rule]"
  "stored_list as_Upstream upstream_Metadata [''ns''] ex_stored = ex_upstreams"
  "stored_list as_IstioCacertsSecret cacerts_Metadata [''ns''] ex_stored = []"
  by (simp_all add: stored_list_def ex_stored_def list_Sort_def map_filter_simps ex_stored_metadata ex_upstreams_def
      Metadata_Ref_def less_eq_resource_ref_def del: ResourceRef_meta)

abbreviation ex_hash :: "translator_snapshot \<Rightarrow> 64 word" where
  "ex_hash \<equiv> \<lambda>s. of_nat (length (snap_Meshes s))"

definition ex_settled :: watch_system where
  "ex_settled = fold (system_step id ex_hash) (settle_system [''ns''] (system_start ex_stored)) (system_start ex_stored)"

lemma ex_started: "system_run id hash [''ns''] (system_start ex_stored)"
  by (rule system_run.start [OF ex_stored_apart])

lemma system_run_steps:
  "system_run rng hash nss s \<Longrightarrow> list_all (allowed nss) xs \<Longrightarrow> system_run rng hash nss (fold (system_step rng hash) xs s)"
  by (induction xs arbitrary: s) (simp_all add: system_run.step)

lemma settle_allowed: "list_all (allowed nss) (settle_system nss s)"
  by (auto simp: settle_system_def list_all_iff set_watches simp del: split_paired_All)

lemma ex_settled_run: "system_run id ex_hash [''ns''] ex_settled"
  unfolding ex_settled_def by (rule system_run_steps [OF ex_started settle_allowed])

section \<open>The properties\<close>

text \<open>C21: Whatever the interleaving of writes and deletions of all kinds with the signals, lists and
  timers of all watches of the translator: when every watch has sent its first list and has neither a signal
  nor a list pending, each of the four lists of the emitter's snapshot is exactly the sorted list of the
  resources of its kind that the store holds in the watched namespaces, versions and statuses included.\<close>
theorem snapshot_is_the_store:
  assumes "system_run rng hash nss s" and "valid_range rng" and "watchable nss" and "idle nss s"
  shows "up_to_date nss (sys_store s) (em_current (sys_emitter s))"
  using idle_up_to_date [OF system_run_inv [OF assms(1-3)] assms(4)] .

theorem snapshot_is_the_store_witness:
  "\<exists>s. system_run id ex_hash [''ns''] s \<and> sys_store s = ex_stored \<and> up_to_date [''ns''] ex_stored (em_current (sys_emitter s))"
proof -
  note settled = system_settles [OF valid_range_id(1) ex_watchable system_run_inv [OF ex_started valid_range_id(1) ex_watchable],
      of ex_hash, folded ex_settled_def]
  then have "idle [''ns''] ex_settled" "sys_store ex_settled = ex_stored" by (simp_all add: system_start_def)
  with snapshot_is_the_store [OF ex_settled_run valid_range_id(1) ex_watchable] ex_settled_run show ?thesis by auto
qed

text \<open>C22: From every reachable state, letting the goroutines of each watch run until they have nothing
  left to do, and then the timer fire, empties the channels and makes the snapshot what the store holds; and
  the timer sends that snapshot, unless its hash is that of the last one.\<close>
theorem system_catches_up:
  assumes "system_run rng hash nss s" and "valid_range rng" and "watchable nss"
  defines "q \<equiv> fold (system_step rng hash) (settle_system nss s) s"
  shows "sys_store q = sys_store s \<and> idle nss q \<and> up_to_date nss (sys_store s) (em_current (sys_emitter q)) \<and>
    (if snapshot_Hash hash (em_original (sys_emitter s)) = snapshot_Hash hash (em_current (sys_emitter q))
     then em_sent (sys_emitter q) = em_sent (sys_emitter s)
     else em_sent (sys_emitter q) = em_sent (sys_emitter s) @ [snapshot_Clone (em_current (sys_emitter q))])"
  unfolding q_def by (rule system_settles [OF assms(2,3) system_run_inv [OF assms(1-3)]])

theorem system_catches_up_witness:
  "snap_List mesh_ops (snap_Meshes (em_current (sys_emitter ex_settled))) = [ex_mesh] \<and>
   snap_List upstream_ops (snap_Upstreams (em_current (sys_emitter ex_settled))) = ex_upstreams"
  using system_catches_up [OF ex_started [of ex_hash] valid_range_id(1) ex_watchable, folded ex_settled_def]
  by (simp add: up_to_date_def system_start_def ex_stored_lists)

lemma up_to_date_Clone: "up_to_date nss st (snapshot_Clone snap) \<longleftrightarrow> up_to_date nss st snap"
  by (simp add: up_to_date_def snapshot_Clone_def)

text \<open>C9: Once the watches have settled, the snapshot that the timer then sends makes a sync of the
  translator leave exactly the destination rules and virtual services in the watched namespaces that the
  routing rules, meshes and upstreams of the store ask for, whatever the emitter had taken up before and
  whatever errors the other syncers return (unless one panics).\<close>
theorem stored_configuration_is_realised:
  fixes env :: "(destination_rule mem_cache, virtual_service mem_cache, 'p, 'm, 's, 'k, 'c, 'rc, 'rb, 'rr) setup_env"
  assumes run: "system_run rng hash nss s" "valid_range rng" "watchable nss"
    and q: "q = fold (system_step rng hash) (settle_system nss s) s" "em_sent (sys_emitter q) \<noteq> em_sent (sys_emitter s)"
    and sync: "TranslatorSyncers_Sync (translatorSyncersOf env nss kube (mem_client r1 destination_rule_ops k1)
        (mem_client r2 virtual_service_ops k2) prom secret policy) (last (em_sent (sys_emitter q))) w = (res, w')" "\<nexists>p. res = Panic p"
    and rngs: "valid_range r1" "valid_range r2"
    and drs: "destinationRulesForUpstreams (se_routing env) (stored_list as_RoutingRule rr_Metadata nss (sys_store s))
        (stored_list as_Mesh mesh_Metadata nss (sys_store s)) (stored_list as_Upstream upstream_Metadata nss (sys_store s)) = Ret drs"
    and vss: "virtualServicesForRules (se_routing env) (stored_list as_RoutingRule rr_Metadata nss (sys_store s))
        (stored_list as_Mesh mesh_Metadata nss (sys_store s)) (stored_list as_Upstream upstream_Metadata nss (sys_store s)) = Ret vss"
    and ok: "mem_ok destination_rule_ops k1 (w_destinationRules w)" "mem_ok virtual_service_ops k2 (w_virtualServices w)"
    and sel: "sel = [(''reconciler.solo.io'', ''supergloo.istio.routing'')]"
    and writable: "writable destination_rule_ops mem_covers sel nss (map (dr_for_writing sel) drs)
        (mem_view destination_rule_ops k1 (w_destinationRules w))"
      "writable virtual_service_ops mem_covers sel nss (map (vs_for_writing sel) vss)
        (mem_view virtual_service_ops k2 (w_virtualServices w))"
  shows "converged destination_rule_ops (\<lambda>_ d r. same_dr r d) mem_covers sel nss (map (dr_for_writing sel) drs)
      (mem_view destination_rule_ops k1 (w_destinationRules w)) (mem_view destination_rule_ops k1 (w_destinationRules w')) \<and>
    converged virtual_service_ops (\<lambda>_ d r. same_vs r d) mem_covers sel nss (map (vs_for_writing sel) vss)
      (mem_view virtual_service_ops k2 (w_virtualServices w)) (mem_view virtual_service_ops k2 (w_virtualServices w'))"
proof -
  note settled = system_settles [OF run(2,3) system_run_inv [OF run], of hash, folded q(1)]
  then have "last (em_sent (sys_emitter q)) = snapshot_Clone (em_current (sys_emitter q))" using q(2) by (simp split: if_splits)
  with settled have "up_to_date nss (sys_store s) (last (em_sent (sys_emitter q)))" by (simp add: up_to_date_Clone)
  then show ?thesis
    using routing_part_converges [OF rngs _ _ ok sel writable, of "se_routing env" "last (em_sent (sys_emitter q))"] drs vss
      translator_sync_parts [OF sync]
    by (auto simp: up_to_date_def Let_def)
qed

lemma ex_settled_sent: "em_sent (sys_emitter ex_settled) = [ex_snapshot]"
proof -
  let ?snap = "em_current (sys_emitter ex_settled)"
  note settled = system_settles [OF valid_range_id(1) ex_watchable system_run_inv [OF ex_started valid_range_id(1) ex_watchable],
      of ex_hash, folded ex_settled_def]
  then have "up_to_date [''ns''] ex_stored ?snap" by (simp add: system_start_def)
  then have lists: "snap_List mesh_ops (snap_Meshes ?snap) = [ex_mesh]" "snap_List routing_rule_ops (snap_Routingrules ?snap) = [ex_rule]"
      "snap_List upstream_ops (snap_Upstreams ?snap) = ex_upstreams"
      "snap_List istio_cacerts_secret_ops (snap_Istiocerts ?snap) = []"
    by (simp_all add: up_to_date_def ex_stored_lists)
  have clone: "snapshot_Clone ?snap = ex_snapshot"
    by (simp add: snapshot_Clone_def byNamespace_Clone_def lists [unfolded get_metadata_simps] list_ByNamespace_def
        byNamespace_Add_def map_append_def get_metadata_simps ex_stored_metadata ex_upstreams_def ex_snapshot_def)
  have "snapshotToHash ?snap = snapshotToHash ex_snapshot" using snapshotToHash_Clone [of ?snap] by (simp add: clone)
  moreover have "snapshot_Clone ex_snapshot = ex_snapshot" using snapshot_Clone_Clone [of ?snap] by (simp add: clone)
  ultimately have "snapshot_Hash ex_hash ?snap = 1"
    by (simp add: snapshot_Hash_def snapshotToHash_def) (simp add: ex_snapshot_def clear_all_def)
  moreover have "snapshot_Hash ex_hash zero_translator_snapshot = 0"
    by (simp add: snapshot_Hash_def snapshotToHash_def) (simp add: zero_translator_snapshot_def clear_all_def)
  ultimately show ?thesis using settled clone by (simp add: system_start_def emitter_start_def)
qed

theorem stored_configuration_is_realised_witness:
  "\<exists>w' r. TranslatorSyncers_Sync ex_translator_syncers (last (em_sent (sys_emitter ex_settled))) ex_start =
       (Fail (MultiErr [MultiErr [Errorf []]]), w') \<and>
     mem_view virtual_service_ops ''vs'' (w_virtualServices w') (ResourceRef ''ns'' ''m-svc-ns-svc-cluster-local'') = Some r \<and>
     same_vs r (vs_for_writing [(''reconciler.solo.io'', ''supergloo.istio.routing'')] ex_vs)"
proof -
  let ?sel = "[(''reconciler.solo.io'', ''supergloo.istio.routing'')]"
  have sent: "last (em_sent (sys_emitter ex_settled)) = ex_snapshot" by (simp add: ex_settled_sent)
  have not_sent: "em_sent (sys_emitter ex_settled) \<noteq> em_sent (sys_emitter (system_start ex_stored))"
    by (simp add: ex_settled_sent system_start_def emitter_start_def)
  obtain w' where w': "TranslatorSyncers_Sync ex_translator_syncers (last (em_sent (sys_emitter ex_settled))) ex_start =
      (Fail (MultiErr [MultiErr [Errorf []]]), w')"
    using ex_translator_run unfolding sent by blast
  have env: "se_routing ex_setup_env = ex_env" "w_destinationRules ex_start = []" "w_virtualServices ex_start = []"
      "sys_store (system_start ex_stored) = ex_stored"
    by (simp_all add: ex_setup_env_def ex_start_def system_start_def)
  have "converged virtual_service_ops (\<lambda>_ d r. same_vs r d) mem_covers ?sel [''ns''] (map (vs_for_writing ?sel) [ex_vs])
      (mem_view virtual_service_ops ''vs'' []) (mem_view virtual_service_ops ''vs'' (w_virtualServices w'))"
    using stored_configuration_is_realised [OF ex_started valid_range_id(1) ex_watchable ex_settled_def not_sent w' _
        valid_range_id(1) valid_range_id(1), of "ex_drs" "[ex_vs]" ?sel]
      ex_destinationRules ex_virtualServices ex_writable [of ?sel]
    by (simp add: env ex_empty_store ex_stored_lists)
  then show ?thesis using w' ex_vs_written by (auto simp: converged_def)
qed

end
