(* ===== verification/Memory_Cache.thy ===== *)
theory Memory_Cache
  imports Typed_Properties
begin

text \<open>
  The cache of the in-memory client with its objects
  (\<open>vendor/github.com/solo-io/solo-kit/pkg/api/v1/clients/memory/resource_client.go\<close>). The map holds pointers, and
  what is read is the stored object itself, not a copy. \<open>Memory_Client\<close> models the store by values; here the
  two are proved to agree as long as nobody changes an object that the store holds, and what happens
  when somebody does.
\<close>

section \<open>The cache\<close>

text \<open>
  The objects that were made, an address being a position; the map from keys to addresses; the
  subscriptions, with whether the one place of the channel is taken; the number of channels made.
\<close>

record 'r object_cache =
  oc_objects :: "'r list"
  oc_store :: "(string \<times> nat) list"
  oc_subscribers :: "(nat \<times> bool) list"
  oc_channels :: nat




text \<open>What a holder of a pointer can do at any time.\<close>

definition change_object :: "nat \<Rightarrow> 'r \<Rightarrow> 'r object_cache \<Rightarrow> 'r object_cache" where
  "change_object p r c = c\<lparr>oc_objects := (oc_objects c)[p := r]\<rparr>"

definition signalUpdate :: "'r object_cache \<Rightarrow> 'r object_cache" where
  "signalUpdate c = c\<lparr>oc_subscribers := map (\<lambda>(ch, signalled). (ch, True)) (oc_subscribers c)\<rparr>"

definition cache_Get :: "string \<Rightarrow> 'r object_cache \<Rightarrow> nat option" where
  "cache_Get key c = map_of (oc_store c) key"

definition cache_Delete :: "string \<Rightarrow> 'r object_cache \<Rightarrow> 'r object_cache" where
  "cache_Delete key c = signalUpdate (c\<lparr>oc_store := AList.delete key (oc_store c)\<rparr>)"

definition cache_Set :: "string \<Rightarrow> nat \<Rightarrow> 'r object_cache \<Rightarrow> 'r object_cache" where
  "cache_Set key p c = signalUpdate (c\<lparr>oc_store := AList.update key p (oc_store c)\<rparr>)"


definition Subscribe :: "'r object_cache \<Rightarrow> nat \<times> 'r object_cache" where
  "Subscribe c =
     (oc_channels c,
      c\<lparr>oc_subscribers := oc_subscribers c @ [(oc_channels c, False)], oc_channels := oc_channels c + 1\<rparr>)"

text \<open>Only the first subscription with the channel is removed.\<close>

fun remove_subscription :: "nat \<Rightarrow> (nat \<times> bool) list \<Rightarrow> (nat \<times> bool) list" where
  "remove_subscription ch [] = []"
| "remove_subscription ch (sub # subs) = (if fst sub = ch then subs else sub # remove_subscription ch subs)"

definition Unsubscribe :: "nat \<Rightarrow> 'r object_cache \<Rightarrow> 'r object_cache" where
  "Unsubscribe ch c = c\<lparr>oc_subscribers := remove_subscription ch (oc_subscribers c)\<rparr>"

text \<open>The watch takes the signal out of its channel, when there is one.\<close>

definition take_signal :: "nat \<Rightarrow> 'r object_cache \<Rightarrow> 'r object_cache" where
  "take_signal ch c = c\<lparr>oc_subscribers := map (\<lambda>(ch', s). (ch', s \<and> ch' \<noteq> ch)) (oc_subscribers c)\<rparr>"

section \<open>The client on objects\<close>

definition obj_Read :: "string \<Rightarrow> string \<Rightarrow> string \<Rightarrow> ('r object_cache, nat) act" where
  "obj_Read kind ns name c =
     (if \<not> ValidateName name
      then (Fail (Wrapf (Errorf ''invalid name'') ''validation error''), c)
      else
        (let namespace = DefaultNamespaceIfEmpty ns
         in case cache_Get (mem_key kind namespace name) c of
              None \<Rightarrow> (Fail (NotExistErr namespace name), c)
            | Some p \<Rightarrow> (Ret p, c)))"





section \<open>The store by values\<close>

definition values_of :: "'r list \<Rightarrow> (string \<times> nat) list \<Rightarrow> 'r mem_cache" where
  "values_of objects st = map (\<lambda>(key, p). (key, objects ! p)) st"

abbreviation stored_values :: "'r object_cache \<Rightarrow> 'r mem_cache" where
  "stored_values c \<equiv> values_of (oc_objects c) (oc_store c)"

definition cache_ok :: "'r object_cache \<Rightarrow> bool" where
  "cache_ok c \<longleftrightarrow> distinct (map fst (oc_store c)) \<and> distinct (map snd (oc_store c)) \<and>
     (\<forall>p \<in> snd ` set (oc_store c). p < length (oc_objects c))"





lemma values_change: "p \<notin> snd ` set st \<Longrightarrow> values_of (h[p := r]) st = values_of h st"
  by (auto simp: values_of_def image_iff)



lemma cache_fields [simp]:
  "oc_objects (signalUpdate c) = oc_objects c" "oc_store (signalUpdate c) = oc_store c"
  "oc_objects (cache_Set k p c) = oc_objects c" "oc_store (cache_Set k p c) = AList.update k p (oc_store c)"
  "oc_objects (cache_Delete k c) = oc_objects c" "oc_store (cache_Delete k c) = AList.delete k (oc_store c)"
  by (simp_all add: signalUpdate_def cache_Set_def cache_Delete_def)

text \<open>Every subscription holds a signal.\<close>

definition all_signalled :: "'r object_cache \<Rightarrow> bool" where
  "all_signalled c \<longleftrightarrow> list_all snd (oc_subscribers c)"

lemma signalled [simp]: "all_signalled (signalUpdate c)" "all_signalled (cache_Set k p c)" "all_signalled (cache_Delete k c)"
  by (auto simp: all_signalled_def signalUpdate_def cache_Set_def cache_Delete_def list_all_iff)

section \<open>Agreement\<close>

lemma cache_okD:
  assumes "cache_ok c"
  shows "distinct (map fst (oc_store c))" "distinct (map snd (oc_store c))" "\<forall>p \<in> snd ` set (oc_store c). p < length (oc_objects c)"
  using assms by (auto simp: cache_ok_def)



lemma obj_Read_store: "snd (obj_Read kind ns name c) = c"
  by (simp add: obj_Read_def Let_def split: option.split)

lemma obj_Read_Ret:
  assumes "fst (obj_Read kind ns name c) = Ret p"
  shows "map_of (oc_store c) (mem_key kind (DefaultNamespaceIfEmpty ns) name) = Some p"
  using assms by (simp add: obj_Read_def cache_Get_def Let_def split: if_splits option.splits)










section \<open>Subscriptions\<close>

definition subscriptions_ok :: "'r object_cache \<Rightarrow> bool" where
  "subscriptions_ok c \<longleftrightarrow> distinct (map fst (oc_subscribers c)) \<and> list_all (\<lambda>(ch, s). ch < oc_channels c) (oc_subscribers c)"

text \<open>A new subscription has a channel of its own, without a signal; ending it leaves exactly the others.\<close>

lemma Subscribe_ok:
  assumes "subscriptions_ok c" and "Subscribe c = (ch, c')"
  shows "subscriptions_ok c'" "map_of (oc_subscribers c) ch = None" "map_of (oc_subscribers c') ch = Some False"
proof -
  have c': "ch = oc_channels c" "oc_subscribers c' = oc_subscribers c @ [(oc_channels c, False)]" "oc_channels c' = Suc (oc_channels c)"
    using assms(2) by (auto simp: Subscribe_def)
  have new: "oc_channels c \<notin> fst ` set (oc_subscribers c)" using assms(1) by (auto simp: subscriptions_ok_def list_all_iff)
  show "map_of (oc_subscribers c) ch = None" using new by (simp add: c'(1) map_of_eq_None_iff)
  then show "map_of (oc_subscribers c') ch = Some False" by (simp add: c' map_add_def)
  show "subscriptions_ok c'" using assms(1) new by (fastforce simp: subscriptions_ok_def c' list_all_iff)
qed

lemma remove_subscription_filter:
  "distinct (map fst subs) \<Longrightarrow> remove_subscription ch subs = filter (\<lambda>sub. fst sub \<noteq> ch) subs"
proof (induction subs)
  case (Cons sub subs)
  show ?case
  proof (cases "fst sub = ch")
    case True
    then have "ch \<notin> fst ` set subs" using Cons.prems by auto
    then have "filter (\<lambda>sub. fst sub \<noteq> ch) subs = subs" unfolding filter_id_conv by blast
    with True show ?thesis by simp
  qed (use Cons in simp)
qed simp

lemma Unsubscribe_ok:
  assumes "subscriptions_ok c"
  shows "subscriptions_ok (Unsubscribe ch c)"
    "map_of (oc_subscribers (Unsubscribe ch c)) ch' = (if ch' = ch then None else map_of (oc_subscribers c) ch')"
proof -
  have r: "oc_subscribers (Unsubscribe ch c) = filter (\<lambda>sub. fst sub \<noteq> ch) (oc_subscribers c)"
    using assms by (simp add: Unsubscribe_def subscriptions_ok_def remove_subscription_filter)
  show "subscriptions_ok (Unsubscribe ch c)"
    using assms r by (auto simp: subscriptions_ok_def list_all_iff Unsubscribe_def distinct_map_filter)
  have "map_of (filter (\<lambda>sub. fst sub \<noteq> ch) subs) ch' = (if ch' = ch then None else map_of subs ch')" for subs :: "(nat \<times> bool) list"
    by (induction subs) auto
  then show "map_of (oc_subscribers (Unsubscribe ch c)) ch' = (if ch' = ch then None else map_of (oc_subscribers c) ch')"
    by (simp only: r)
qed

lemma signalUpdate_ok: "subscriptions_ok c \<Longrightarrow> subscriptions_ok (signalUpdate c)"
  by (simp add: subscriptions_ok_def signalUpdate_def case_prod_unfold comp_def list_all_iff)

lemma take_signal_only:
  assumes "subscriptions_ok c"
  shows "subscriptions_ok (take_signal ch c)"
    "map_of (oc_subscribers (take_signal ch c)) ch' =
      (if ch' = ch then map_option (\<lambda>_. False) (map_of (oc_subscribers c) ch') else map_of (oc_subscribers c) ch')"
proof -
  show "subscriptions_ok (take_signal ch c)"
    using assms by (simp add: subscriptions_ok_def take_signal_def case_prod_unfold comp_def list_all_iff)
  have "map_of (map (\<lambda>(ch', s). (ch', s \<and> ch' \<noteq> ch)) subs) ch' =
      (if ch' = ch then map_option (\<lambda>_. False) (map_of subs ch') else map_of subs ch')" for subs :: "(nat \<times> bool) list"
    by (induction subs) auto
  then show "map_of (oc_subscribers (take_signal ch c)) ch' =
      (if ch' = ch then map_option (\<lambda>_. False) (map_of (oc_subscribers c) ch') else map_of (oc_subscribers c) ch')"
    by (simp add: take_signal_def)
qed

section \<open>Runs of the client\<close>










text \<open>What a program reads it must not change: a change of an object that \<open>Read\<close> returned is at once what the
  store holds under that name, without a check of the version and without waking a watch.\<close>
theorem changes_of_read_objects_are_stored:
  assumes "cache_ok c" and "fst (obj_Read kind ns name c) = Ret p"
  shows "stored_values (change_object p r c) =
      AList.update (mem_key kind (DefaultNamespaceIfEmpty ns) name) r (stored_values c) \<and>
    oc_subscribers (change_object p r c) = oc_subscribers c \<and>
    mem_Read kind ns name (stored_values (change_object p r c)) = (Ret r, stored_values (change_object p r c))"
proof -
  let ?key = "mem_key kind (DefaultNamespaceIfEmpty ns) name"
  note p = obj_Read_Ret [OF assms(2)]
  have "values_of ((oc_objects c)[p := r]) st = AList.update ?key r (values_of (oc_objects c) st)"
    if "map_of st ?key = Some p" "distinct (map snd st)" "p < length (oc_objects c)" for st
    using that
  proof (induction st)
    case (Cons e st)
    show ?case
    proof (cases "fst e = ?key")
      case True
      with Cons.prems have "p \<notin> snd ` set st" "snd e = p" by (auto split: if_splits)
      then have "values_of ((oc_objects c)[p := r]) st = values_of (oc_objects c) st" by (intro values_change)
      with True \<open>snd e = p\<close> Cons.prems(3) show ?thesis by (simp add: values_of_def split_def)
    next
      case False
      with Cons.prems have st: "map_of st ?key = Some p" "distinct (map snd st)" "snd e \<noteq> p"
        by (auto split: if_splits dest: map_of_SomeD intro: rev_image_eqI)
      from Cons.IH [OF st(1,2) Cons.prems(3)] False st(3) show ?thesis by (simp add: values_of_def split_def)
    qed
  qed simp
  moreover have "p < length (oc_objects c)" using cache_okD(3) [OF assms(1)] map_of_SomeD [OF p] by force
  ultimately have stored: "stored_values (change_object p r c) = AList.update ?key r (stored_values c)"
    using p cache_okD(2) [OF assms(1)] by (simp add: change_object_def)
  have "ValidateName name" using assms(2) by (simp add: obj_Read_def split: if_splits)
  then have "mem_Read kind ns name (AList.update ?key r (stored_values c)) = (Ret r, AList.update ?key r (stored_values c))"
    by (simp add: mem_Read_def Let_def update_conv')
  with stored show ?thesis by (simp add: change_object_def)
qed

section \<open>An example\<close>

text \<open>A mesh is written, then the program changes its own object, and reads what it has written.\<close>

definition ex_changed :: mesh where
  "ex_changed = ex_typed_mesh\<lparr>mesh_MeshType := Some (Mesh_Consul None)\<rparr>"

definition ex_stored_mesh :: mesh where
  "ex_stored_mesh = ex_typed_mesh\<lparr>mesh_Metadata := (new_metadata ''ns'' ''mesh'')\<lparr>meta_ResourceVersion := ''2''\<rparr>\<rparr>"


definition ex_cache :: "mesh object_cache" where
  "ex_cache = \<lparr>oc_objects = [ex_changed, ex_stored_mesh, ex_stored_mesh], oc_store = [(''k;ns;mesh'', 1)],
     oc_subscribers = [], oc_channels = 0\<rparr>"




theorem changes_of_read_objects_are_stored_witness:
  "fst (obj_Read ''k'' ''ns'' ''mesh'' ex_cache) = Ret 1 \<and>
   stored_values (change_object 1 ex_changed ex_cache) = [(''k;ns;mesh'', ex_changed)]"
proof -
  have "ValidateName ''mesh''" by code_simp
  then have read: "fst (obj_Read ''k'' ''ns'' ''mesh'' ex_cache) = Ret 1"
    by (simp add: obj_Read_def cache_Get_def Let_def DefaultNamespaceIfEmpty_def mem_key_def mem_Prefix_def ex_cache_def)
  have "cache_ok ex_cache" by (simp add: cache_ok_def ex_cache_def)
  from changes_of_read_objects_are_stored [OF this read, of ex_changed] read show ?thesis
    by (simp add: DefaultNamespaceIfEmpty_def mem_key_def mem_Prefix_def) (simp add: ex_cache_def values_of_def)
qed

end
