(* ===== verification/Gloo_Kinds.thy ===== *)
theory Gloo_Kinds
  imports Typed_Properties
begin

text \<open>
  The other kinds of resources of \<open>pkg/api/external/gloo/v1\<close>: their messages (\<open>*.pb.go\<close>; the settings of
  plugins are left out) and the code that is generated for each, instances of the templates of \<open>Typed_Clients\<close>
  over the sum of these kinds. The program itself uses upstreams only.
\<close>

section \<open>Messages\<close>

record artifact =
  artifact_Data :: string
  artifact_Metadata :: metadata

record endpoint =
  ep_Upstreams :: "resource_ref list"
  ep_Address :: string
  ep_Port :: "32 word"
  ep_Metadata :: metadata

record aws_secret =
  aws_AccessKey :: string
  aws_SecretKey :: string

record azure_secret =
  azure_ApiKeys :: "(string \<times> string) list"

record tls_secret =
  tls_CertChain :: string
  tls_PrivateKey :: string
  tls_RootCa :: string

text \<open>Each case of a \<open>oneof\<close> holds a pointer, which may be nil.\<close>

datatype secret_kind =
    Secret_Aws "aws_secret option"
  | Secret_Azure "azure_secret option"
  | Secret_Tls "tls_secret option"

record gloo_secret =
  gsecret_Kind :: "secret_kind option"
  gsecret_Metadata :: metadata

text \<open>\<open>Settings_Directory\<close>; the messages of the other sources are empty.\<close>

record settings_directory =
  dir_Directory :: string

datatype config_source =
    Settings_KubernetesConfigSource
  | Settings_DirectoryConfigSource "settings_directory option"

datatype secret_source =
    Settings_KubernetesSecretSource
  | Settings_VaultSecretSource
  | Settings_DirectorySecretSource "settings_directory option"

datatype artifact_source =
    Settings_KubernetesArtifactSource
  | Settings_DirectoryArtifactSource "settings_directory option"

record settings =
  set_DiscoveryNamespace :: string
  set_WatchNamespaces :: "string list"
  set_ConfigSource :: "config_source option"
  set_SecretSource :: "secret_source option"
  set_ArtifactSource :: "artifact_source option"
  set_BindAddr :: string
  set_RefreshRate :: "duration option"
  set_DevMode :: bool
  set_Metadata :: metadata
  set_Status :: status

record ssl_files =
  sslf_TlsCert :: string
  sslf_TlsKey :: string
  sslf_RootCa :: string

datatype ssl_secrets =
    SslConfig_SecretRef "resource_ref option"
  | SslConfig_SslFiles "ssl_files option"

record ssl_config =
  ssl_SslSecrets :: "ssl_secrets option"
  ssl_SniDomains :: "string list"

record gloo_destination =
  gd_Upstream :: resource_ref

record gloo_weighted_destination =
  gwd_Destination :: "gloo_destination option"
  gwd_Weight :: "32 word"

datatype route_destination =
    RouteAction_Single "gloo_destination option"
  | RouteAction_Multi "gloo_weighted_destination list option"

datatype redirect_response_code =
    RedirectAction_MOVED_PERMANENTLY | RedirectAction_FOUND | RedirectAction_SEE_OTHER
  | RedirectAction_TEMPORARY_REDIRECT | RedirectAction_PERMANENT_REDIRECT

datatype path_rewrite = RedirectAction_PathRedirect string | RedirectAction_PrefixRewrite string

record redirect_action =
  redirect_HostRedirect :: string
  redirect_PathRewriteSpecifier :: "path_rewrite option"
  redirect_ResponseCode :: redirect_response_code
  redirect_HttpsRedirect :: bool
  redirect_StripQuery :: bool

record direct_response_action =
  response_Status :: "32 word"
  response_Body :: string

datatype gloo_action =
    Route_RouteAction "route_destination option option"
  | Route_RedirectAction "redirect_action option"
  | Route_DirectResponseAction "direct_response_action option"

record gloo_route =
  groute_Matcher :: "matcher option"
  groute_Action :: "gloo_action option"

record virtual_host =
  vhost_Name :: string
  vhost_Domains :: "string list"
  vhost_Routes :: "gloo_route list"

record http_listener =
  httpl_VirtualHosts :: "virtual_host list"

record gloo_listener =
  listener_Name :: string
  listener_BindAddress :: string
  listener_BindPort :: "32 word"
  listener_ListenerType :: "http_listener option option"
  listener_SslConfiguations :: "ssl_config list"

record gloo_proxy =
  proxy_Listeners :: "gloo_listener list"
  proxy_Status :: status
  proxy_Metadata :: metadata

section \<open>Untyped resources\<close>

text \<open>The kinds without a status have nothing to clear.\<close>

definition artifact_ops :: "artifact resource_ops" where
  "artifact_ops = \<lparr>GetMetadata = artifact_Metadata, SetMetadata = (\<lambda>m r. r\<lparr>artifact_Metadata := m\<rparr>),
     ClearStatus = (\<lambda>r. r)\<rparr>"

definition endpoint_ops :: "endpoint resource_ops" where
  "endpoint_ops = \<lparr>GetMetadata = ep_Metadata, SetMetadata = (\<lambda>m r. r\<lparr>ep_Metadata := m\<rparr>),
     ClearStatus = (\<lambda>r. r)\<rparr>"

definition proxy_ops :: "gloo_proxy resource_ops" where
  "proxy_ops = \<lparr>GetMetadata = proxy_Metadata, SetMetadata = (\<lambda>m r. r\<lparr>proxy_Metadata := m\<rparr>),
     ClearStatus = (\<lambda>r. r\<lparr>proxy_Status := zero_status\<rparr>)\<rparr>"

definition secret_ops :: "gloo_secret resource_ops" where
  "secret_ops = \<lparr>GetMetadata = gsecret_Metadata, SetMetadata = (\<lambda>m r. r\<lparr>gsecret_Metadata := m\<rparr>),
     ClearStatus = (\<lambda>r. r)\<rparr>"

definition settings_ops :: "settings resource_ops" where
  "settings_ops = \<lparr>GetMetadata = set_Metadata, SetMetadata = (\<lambda>m r. r\<lparr>set_Metadata := m\<rparr>),
     ClearStatus = (\<lambda>r. r\<lparr>set_Status := zero_status\<rparr>)\<rparr>"

lemmas gloo_ops_simps = artifact_ops_def endpoint_ops_def proxy_ops_def secret_ops_def settings_ops_def

interpretation artifact: resource_type artifact_ops
  by unfold_locales (simp_all add: artifact_ops_def)

interpretation endpoint: resource_type endpoint_ops
  by unfold_locales (simp_all add: endpoint_ops_def)

interpretation gloo_proxy: resource_type proxy_ops
  by unfold_locales (simp_all add: proxy_ops_def)

interpretation gloo_secret: resource_type secret_ops
  by unfold_locales (simp_all add: secret_ops_def)

interpretation settings: resource_type settings_ops
  by unfold_locales (simp_all add: settings_ops_def)

datatype gloo_resource =
    G_Artifact artifact
  | G_Endpoint endpoint
  | G_Proxy gloo_proxy
  | G_Secret gloo_secret
  | G_Settings settings

fun gloo_Metadata :: "gloo_resource \<Rightarrow> metadata" where
  "gloo_Metadata (G_Artifact r) = artifact_Metadata r"
| "gloo_Metadata (G_Endpoint r) = ep_Metadata r"
| "gloo_Metadata (G_Proxy r) = proxy_Metadata r"
| "gloo_Metadata (G_Secret r) = gsecret_Metadata r"
| "gloo_Metadata (G_Settings r) = set_Metadata r"

fun gloo_SetMetadata :: "metadata \<Rightarrow> gloo_resource \<Rightarrow> gloo_resource" where
  "gloo_SetMetadata m (G_Artifact r) = G_Artifact (SetMetadata artifact_ops m r)"
| "gloo_SetMetadata m (G_Endpoint r) = G_Endpoint (SetMetadata endpoint_ops m r)"
| "gloo_SetMetadata m (G_Proxy r) = G_Proxy (SetMetadata proxy_ops m r)"
| "gloo_SetMetadata m (G_Secret r) = G_Secret (SetMetadata secret_ops m r)"
| "gloo_SetMetadata m (G_Settings r) = G_Settings (SetMetadata settings_ops m r)"

fun gloo_ClearStatus :: "gloo_resource \<Rightarrow> gloo_resource" where
  "gloo_ClearStatus (G_Artifact r) = G_Artifact (ClearStatus artifact_ops r)"
| "gloo_ClearStatus (G_Endpoint r) = G_Endpoint (ClearStatus endpoint_ops r)"
| "gloo_ClearStatus (G_Proxy r) = G_Proxy (ClearStatus proxy_ops r)"
| "gloo_ClearStatus (G_Secret r) = G_Secret (ClearStatus secret_ops r)"
| "gloo_ClearStatus (G_Settings r) = G_Settings (ClearStatus settings_ops r)"

definition gloo_any_ops :: "gloo_resource resource_ops" where
  "gloo_any_ops = \<lparr>GetMetadata = gloo_Metadata, SetMetadata = gloo_SetMetadata, ClearStatus = gloo_ClearStatus\<rparr>"

section \<open>Artifact\<close>

fun as_Artifact :: "gloo_resource \<Rightarrow> artifact option" where
  "as_Artifact (G_Artifact r) = Some r"
| "as_Artifact _ = None"

definition zero_Artifact :: artifact where
  "zero_Artifact =
     \<lparr>artifact_Data = [], artifact_Metadata = zero_metadata\<rparr>"

definition ArtifactList_functions :: "(artifact, gloo_resource) list_functions" where
  "ArtifactList_functions = list_functions_of False G_Artifact artifact_ops zero_Artifact"

definition NewArtifactClient ::
  "('s, gloo_resource) base_client go \<Rightarrow> ('s, gloo_resource, artifact) generated_client go" where
  "NewArtifactClient = new_client ''Artifact'' G_Artifact as_Artifact"

definition ArtifactReconciler_Reconcile ::
  "('s, gloo_resource) client \<Rightarrow> string \<Rightarrow> artifact list \<Rightarrow> artifact transition option \<Rightarrow>
   (string \<times> string) list \<Rightarrow> ('s, unit) act" where
  "ArtifactReconciler_Reconcile = typed_Reconcile G_Artifact as_Artifact gloo_any_ops"

section \<open>Endpoint\<close>

fun as_Endpoint :: "gloo_resource \<Rightarrow> endpoint option" where
  "as_Endpoint (G_Endpoint r) = Some r"
| "as_Endpoint _ = None"

definition zero_Endpoint :: endpoint where
  "zero_Endpoint =
     \<lparr>ep_Upstreams = [], ep_Address = [], ep_Port = 0, ep_Metadata = zero_metadata\<rparr>"

definition EndpointList_functions :: "(endpoint, gloo_resource) list_functions" where
  "EndpointList_functions = list_functions_of False G_Endpoint endpoint_ops zero_Endpoint"

definition NewEndpointClient ::
  "('s, gloo_resource) base_client go \<Rightarrow> ('s, gloo_resource, endpoint) generated_client go" where
  "NewEndpointClient = new_client ''Endpoint'' G_Endpoint as_Endpoint"

definition EndpointReconciler_Reconcile ::
  "('s, gloo_resource) client \<Rightarrow> string \<Rightarrow> endpoint list \<Rightarrow> endpoint transition option \<Rightarrow>
   (string \<times> string) list \<Rightarrow> ('s, unit) act" where
  "EndpointReconciler_Reconcile = typed_Reconcile G_Endpoint as_Endpoint gloo_any_ops"

section \<open>Proxy\<close>

fun as_Proxy :: "gloo_resource \<Rightarrow> gloo_proxy option" where
  "as_Proxy (G_Proxy r) = Some r"
| "as_Proxy _ = None"

definition zero_Proxy :: gloo_proxy where
  "zero_Proxy =
     \<lparr>proxy_Listeners = [], proxy_Status = zero_status, proxy_Metadata = zero_metadata\<rparr>"

definition ProxyList_functions :: "(gloo_proxy, gloo_resource) list_functions" where
  "ProxyList_functions = list_functions_of True G_Proxy proxy_ops zero_Proxy"

definition NewProxyClient ::
  "('s, gloo_resource) base_client go \<Rightarrow> ('s, gloo_resource, gloo_proxy) generated_client go" where
  "NewProxyClient = new_client ''Proxy'' G_Proxy as_Proxy"

definition ProxyReconciler_Reconcile ::
  "('s, gloo_resource) client \<Rightarrow> string \<Rightarrow> gloo_proxy list \<Rightarrow> gloo_proxy transition option \<Rightarrow>
   (string \<times> string) list \<Rightarrow> ('s, unit) act" where
  "ProxyReconciler_Reconcile = typed_Reconcile G_Proxy as_Proxy gloo_any_ops"

section \<open>Secret\<close>

fun as_Secret :: "gloo_resource \<Rightarrow> gloo_secret option" where
  "as_Secret (G_Secret r) = Some r"
| "as_Secret _ = None"

definition zero_Secret :: gloo_secret where
  "zero_Secret =
     \<lparr>gsecret_Kind = None, gsecret_Metadata = zero_metadata\<rparr>"

definition SecretList_functions :: "(gloo_secret, gloo_resource) list_functions" where
  "SecretList_functions = list_functions_of False G_Secret secret_ops zero_Secret"

definition NewSecretClient ::
  "('s, gloo_resource) base_client go \<Rightarrow> ('s, gloo_resource, gloo_secret) generated_client go" where
  "NewSecretClient = new_client ''Secret'' G_Secret as_Secret"

definition SecretReconciler_Reconcile ::
  "('s, gloo_resource) client \<Rightarrow> string \<Rightarrow> gloo_secret list \<Rightarrow> gloo_secret transition option \<Rightarrow>
   (string \<times> string) list \<Rightarrow> ('s, unit) act" where
  "SecretReconciler_Reconcile = typed_Reconcile G_Secret as_Secret gloo_any_ops"

section \<open>Settings\<close>

fun as_Settings :: "gloo_resource \<Rightarrow> settings option" where
  "as_Settings (G_Settings r) = Some r"
| "as_Settings _ = None"

definition zero_Settings :: settings where
  "zero_Settings =
     \<lparr>set_DiscoveryNamespace = [], set_WatchNamespaces = [], set_ConfigSource = None, set_SecretSource = None,
      set_ArtifactSource = None, set_BindAddr = [], set_RefreshRate = None, set_DevMode = False,
      set_Metadata = zero_metadata, set_Status = zero_status\<rparr>"

definition SettingsList_functions :: "(settings, gloo_resource) list_functions" where
  "SettingsList_functions = list_functions_of True G_Settings settings_ops zero_Settings"

definition NewSettingsClient ::
  "('s, gloo_resource) base_client go \<Rightarrow> ('s, gloo_resource, settings) generated_client go" where
  "NewSettingsClient = new_client ''Settings'' G_Settings as_Settings"

definition SettingsReconciler_Reconcile ::
  "('s, gloo_resource) client \<Rightarrow> string \<Rightarrow> settings list \<Rightarrow> settings transition option \<Rightarrow>
   (string \<times> string) list \<Rightarrow> ('s, unit) act" where
  "SettingsReconciler_Reconcile = typed_Reconcile G_Settings as_Settings gloo_any_ops"

section \<open>The five kinds keep the promises of a kind\<close>

lemma gloo_resource_type: "resource_type gloo_any_ops"
proof
  show "GetMetadata gloo_any_ops (SetMetadata gloo_any_ops m r) = m" for m r
    by (cases r) (simp_all add: gloo_any_ops_def gloo_ops_simps)
  show "SetMetadata gloo_any_ops (GetMetadata gloo_any_ops r) r = r" for r
    by (cases r) (simp_all add: gloo_any_ops_def gloo_ops_simps)
  show "SetMetadata gloo_any_ops m (SetMetadata gloo_any_ops m' r) = SetMetadata gloo_any_ops m r" for m m' r
    by (cases r) (simp_all add: gloo_any_ops_def gloo_ops_simps)
  show "GetMetadata gloo_any_ops (ClearStatus gloo_any_ops r) = GetMetadata gloo_any_ops r" for r
    by (cases r) (simp_all add: gloo_any_ops_def gloo_ops_simps)
qed

interpretation artifact_kind: typed_kind artifact_ops G_Artifact as_Artifact gloo_any_ops
  by unfold_locales (auto simp: gloo_any_ops_def gloo_ops_simps elim: as_Artifact.elims)

interpretation endpoint_kind: typed_kind endpoint_ops G_Endpoint as_Endpoint gloo_any_ops
  by unfold_locales (auto simp: gloo_any_ops_def gloo_ops_simps elim: as_Endpoint.elims)

interpretation gloo_proxy_kind: typed_kind proxy_ops G_Proxy as_Proxy gloo_any_ops
  by unfold_locales (auto simp: gloo_any_ops_def gloo_ops_simps elim: as_Proxy.elims)

interpretation gloo_secret_kind: typed_kind secret_ops G_Secret as_Secret gloo_any_ops
  by unfold_locales (auto simp: gloo_any_ops_def gloo_ops_simps elim: as_Secret.elims)

interpretation settings_kind: typed_kind settings_ops G_Settings as_Settings gloo_any_ops
  by unfold_locales (auto simp: gloo_any_ops_def gloo_ops_simps elim: as_Settings.elims)

section \<open>Their reconcilers\<close>

text \<open>On any store of the kind a generated reconciler does what reconciling on the typed client does.\<close>

lemma artifact_reconciler_is_typed:
  assumes "typed_store artifact_ops G_Artifact as_Artifact gloo_any_ops rc P" and "P s"
  shows "ArtifactReconciler_Reconcile rc ns ds transition sel s =
    Reconcile artifact_ops (typed_client G_Artifact as_Artifact rc) ns ds transition sel s"
  unfolding ArtifactReconciler_Reconcile_def using assms by (rule typed_store.typed_Reconcile_typed)

lemma endpoint_reconciler_is_typed:
  assumes "typed_store endpoint_ops G_Endpoint as_Endpoint gloo_any_ops rc P" and "P s"
  shows "EndpointReconciler_Reconcile rc ns ds transition sel s =
    Reconcile endpoint_ops (typed_client G_Endpoint as_Endpoint rc) ns ds transition sel s"
  unfolding EndpointReconciler_Reconcile_def using assms by (rule typed_store.typed_Reconcile_typed)

lemma gloo_proxy_reconciler_is_typed:
  assumes "typed_store proxy_ops G_Proxy as_Proxy gloo_any_ops rc P" and "P s"
  shows "ProxyReconciler_Reconcile rc ns ds transition sel s =
    Reconcile proxy_ops (typed_client G_Proxy as_Proxy rc) ns ds transition sel s"
  unfolding ProxyReconciler_Reconcile_def using assms by (rule typed_store.typed_Reconcile_typed)

lemma gloo_secret_reconciler_is_typed:
  assumes "typed_store secret_ops G_Secret as_Secret gloo_any_ops rc P" and "P s"
  shows "SecretReconciler_Reconcile rc ns ds transition sel s =
    Reconcile secret_ops (typed_client G_Secret as_Secret rc) ns ds transition sel s"
  unfolding SecretReconciler_Reconcile_def using assms by (rule typed_store.typed_Reconcile_typed)

lemma settings_reconciler_is_typed:
  assumes "typed_store settings_ops G_Settings as_Settings gloo_any_ops rc P" and "P s"
  shows "SettingsReconciler_Reconcile rc ns ds transition sel s =
    Reconcile settings_ops (typed_client G_Settings as_Settings rc) ns ds transition sel s"
  unfolding SettingsReconciler_Reconcile_def using assms by (rule typed_store.typed_Reconcile_typed)

text \<open>The in-memory store of untyped resources, when it holds one kind only, is such a store.\<close>

lemmas gloo_memory_stores = artifact_kind.memory_typed_store
  endpoint_kind.memory_typed_store
  gloo_proxy_kind.memory_typed_store
  gloo_secret_kind.memory_typed_store
  settings_kind.memory_typed_store

end
