(* ===== verification/Generated_Loops.thy ===== *)
theory Generated_Loops
  imports Event_Loops Prometheus
begin

text \<open>
  The other emitters and event loops that are generated in the repository, over Istio's routing
  resources (\<open>networking/v1alpha3/routing_*.sk.go\<close>) and over the Prometheus configurations
  (\<open>prometheus/v1/observability_*.sk.go\<close>), and the hashes that every snapshot logs
  (\<open>HashFields\<close>). They are instances of the templates of \<open>Snapshot_Emitter\<close>.
\<close>

section \<open>Routing\<close>

record routing_snapshot =
  rsnap_Destinationrules :: "destination_rule by_namespace"
  rsnap_Virtualservices :: "virtual_service by_namespace"

definition routing_snapshot_Clone :: "routing_snapshot \<Rightarrow> routing_snapshot" where
  "routing_snapshot_Clone s =
     \<lparr>rsnap_Destinationrules = byNamespace_Clone destination_rule_ops (rsnap_Destinationrules s),
      rsnap_Virtualservices = byNamespace_Clone virtual_service_ops (rsnap_Virtualservices s)\<rparr>"

definition routing_snapshotToHash :: "routing_snapshot \<Rightarrow> routing_snapshot" where
  "routing_snapshotToHash s =
     (let c = routing_snapshot_Clone s
      in \<lparr>rsnap_Destinationrules = clear_all destination_rule_ops (rsnap_Destinationrules c),
          rsnap_Virtualservices = clear_all virtual_service_ops (rsnap_Virtualservices c)\<rparr>)"

definition routing_snapshot_Hash :: "(routing_snapshot \<Rightarrow> 64 word) \<Rightarrow> routing_snapshot \<Rightarrow> 64 word" where
  "routing_snapshot_Hash hash s = hash (routing_snapshotToHash s)"

datatype routing_update =
    DestinationRuleList string "destination_rule list"
  | VirtualServiceList string "virtual_service list"

fun routing_apply :: "routing_update \<Rightarrow> routing_snapshot \<Rightarrow> routing_snapshot" where
  "routing_apply (DestinationRuleList ns rs) s =
     s\<lparr>rsnap_Destinationrules := clear_and_add dr_Metadata ns rs (rsnap_Destinationrules s)\<rparr>"
| "routing_apply (VirtualServiceList ns rs) s =
     s\<lparr>rsnap_Virtualservices := clear_and_add vs_Metadata ns rs (rsnap_Virtualservices s)\<rparr>"

definition zero_routing_snapshot :: routing_snapshot where
  "zero_routing_snapshot = \<lparr>rsnap_Destinationrules = [], rsnap_Virtualservices = []\<rparr>"

definition routing_emitter ::
  "(routing_snapshot \<Rightarrow> 64 word) \<Rightarrow> routing_update emitter_event list \<Rightarrow> routing_snapshot emitter" where
  "routing_emitter hash es =
     fold (emitter_step routing_snapshot_Clone (routing_snapshot_Hash hash) routing_apply) es
       (emitter_start routing_snapshot_Clone zero_routing_snapshot)"

definition routingEmitter_Register :: "watch_client \<Rightarrow> watch_client \<Rightarrow> unit go" where
  "routingEmitter_Register destinationRules virtualServices =
     gbind (wc_Register destinationRules) (\<lambda>_. gbind (wc_Register virtualServices) (\<lambda>_. Ret ()))"

definition routingEmitter_Snapshots :: "watch_client \<Rightarrow> watch_client \<Rightarrow> string list \<Rightarrow> unit go" where
  "routingEmitter_Snapshots destinationRules virtualServices watchNamespaces =
     start_watches [(''DestinationRule'', wc_Watch destinationRules), (''VirtualService'', wc_Watch virtualServices)]
       watchNamespaces"

definition RoutingSyncers_Sync :: "(routing_snapshot \<Rightarrow> ('s, unit) act) list \<Rightarrow> routing_snapshot \<Rightarrow> ('s, unit) act" where
  "RoutingSyncers_Sync syncers snapshot =
     abind (acollect (\<lambda>syncer. syncer snapshot) syncers) (\<lambda>es. alift (ErrorOrNil es))"

definition routingEventLoop_Run ::
  "watch_client \<Rightarrow> watch_client \<Rightarrow> (routing_snapshot \<Rightarrow> 64 word) \<Rightarrow> (routing_snapshot \<Rightarrow> ('s, unit) act) \<Rightarrow>
   string list \<Rightarrow> routing_update emitter_event list \<Rightarrow> ('s, err list) act" where
  "routingEventLoop_Run destinationRules virtualServices hash syncer namespaces es =
     event_loop_Run (routingEmitter_Snapshots destinationRules virtualServices namespaces) syncer
       (em_sent (routing_emitter hash es))"

section \<open>Observability\<close>

record observability_snapshot =
  osnap_Prometheusconfigs :: "prometheus_resource by_namespace"

definition observability_snapshot_Clone :: "observability_snapshot \<Rightarrow> observability_snapshot" where
  "observability_snapshot_Clone s =
     \<lparr>osnap_Prometheusconfigs = byNamespace_Clone prometheus_ops (osnap_Prometheusconfigs s)\<rparr>"

text \<open>A configuration has no status to clear.\<close>

definition observability_snapshotToHash :: "observability_snapshot \<Rightarrow> observability_snapshot" where
  "observability_snapshotToHash s =
     \<lparr>osnap_Prometheusconfigs = clear_all prometheus_ops (osnap_Prometheusconfigs (observability_snapshot_Clone s))\<rparr>"

definition observability_snapshot_Hash ::
  "(observability_snapshot \<Rightarrow> 64 word) \<Rightarrow> observability_snapshot \<Rightarrow> 64 word" where
  "observability_snapshot_Hash hash s = hash (observability_snapshotToHash s)"

datatype observability_update = ConfigList string "prometheus_resource list"

fun observability_apply :: "observability_update \<Rightarrow> observability_snapshot \<Rightarrow> observability_snapshot" where
  "observability_apply (ConfigList ns rs) s =
     s\<lparr>osnap_Prometheusconfigs := clear_and_add pr_Metadata ns rs (osnap_Prometheusconfigs s)\<rparr>"

definition zero_observability_snapshot :: observability_snapshot where
  "zero_observability_snapshot = \<lparr>osnap_Prometheusconfigs = []\<rparr>"

definition observability_emitter ::
  "(observability_snapshot \<Rightarrow> 64 word) \<Rightarrow> observability_update emitter_event list \<Rightarrow> observability_snapshot emitter" where
  "observability_emitter hash es =
     fold (emitter_step observability_snapshot_Clone (observability_snapshot_Hash hash) observability_apply) es
       (emitter_start observability_snapshot_Clone zero_observability_snapshot)"

definition observabilityEmitter_Register :: "watch_client \<Rightarrow> unit go" where
  "observabilityEmitter_Register configs = gbind (wc_Register configs) (\<lambda>_. Ret ())"

definition observabilityEmitter_Snapshots :: "watch_client \<Rightarrow> string list \<Rightarrow> unit go" where
  "observabilityEmitter_Snapshots configs watchNamespaces =
     start_watches [(''Config'', wc_Watch configs)] watchNamespaces"

definition ObservabilitySyncers_Sync ::
  "(observability_snapshot \<Rightarrow> ('s, unit) act) list \<Rightarrow> observability_snapshot \<Rightarrow> ('s, unit) act" where
  "ObservabilitySyncers_Sync syncers snapshot =
     abind (acollect (\<lambda>syncer. syncer snapshot) syncers) (\<lambda>es. alift (ErrorOrNil es))"

definition observabilityEventLoop_Run ::
  "watch_client \<Rightarrow> (observability_snapshot \<Rightarrow> 64 word) \<Rightarrow> (observability_snapshot \<Rightarrow> ('s, unit) act) \<Rightarrow>
   string list \<Rightarrow> observability_update emitter_event list \<Rightarrow> ('s, err list) act" where
  "observabilityEventLoop_Run configs hash syncer namespaces es =
     event_loop_Run (observabilityEmitter_Snapshots configs namespaces) syncer
       (em_sent (observability_emitter hash es))"

section \<open>The hashes that are logged\<close>

text \<open>\<open>hashStruct\<close> takes a value of any type: one function per type that it is called on.\<close>

definition translator_HashFields ::
  "(mesh list \<Rightarrow> 64 word) \<Rightarrow> (routing_rule list \<Rightarrow> 64 word) \<Rightarrow> (upstream list \<Rightarrow> 64 word) \<Rightarrow>
   (istio_cacerts_secret list \<Rightarrow> 64 word) \<Rightarrow> (translator_snapshot \<Rightarrow> 64 word) \<Rightarrow>
   translator_snapshot \<Rightarrow> (string \<times> 64 word) list" where
  "translator_HashFields hm hr hu hi hash s =
     (let h = snapshotToHash s
      in [(''meshes'', hm (snap_List mesh_ops (snap_Meshes h))),
          (''routingrules'', hr (snap_List routing_rule_ops (snap_Routingrules h))),
          (''upstreams'', hu (snap_List upstream_ops (snap_Upstreams h))),
          (''istiocerts'', hi (snap_List istio_cacerts_secret_ops (snap_Istiocerts h))),
          (''snapshotHash'', hash h)])"

definition install_HashFields ::
  "(install list \<Rightarrow> 64 word) \<Rightarrow> (istio_cacerts_secret list \<Rightarrow> 64 word) \<Rightarrow> (install_snapshot \<Rightarrow> 64 word) \<Rightarrow>
   install_snapshot \<Rightarrow> (string \<times> 64 word) list" where
  "install_HashFields hi hc hash s =
     (let h = install_snapshotToHash s
      in [(''installs'', hi (snap_List install_ops (isnap_Installs h))),
          (''istiocerts'', hc (snap_List istio_cacerts_secret_ops (isnap_Istiocerts h))),
          (''snapshotHash'', hash h)])"

definition routing_HashFields ::
  "(destination_rule list \<Rightarrow> 64 word) \<Rightarrow> (virtual_service list \<Rightarrow> 64 word) \<Rightarrow> (routing_snapshot \<Rightarrow> 64 word) \<Rightarrow>
   routing_snapshot \<Rightarrow> (string \<times> 64 word) list" where
  "routing_HashFields hdr hvs hash s =
     (let h = routing_snapshotToHash s
      in [(''destinationrules'', hdr (snap_List destination_rule_ops (rsnap_Destinationrules h))),
          (''virtualservices'', hvs (snap_List virtual_service_ops (rsnap_Virtualservices h))),
          (''snapshotHash'', hash h)])"

definition observability_HashFields ::
  "(prometheus_resource list \<Rightarrow> 64 word) \<Rightarrow> (observability_snapshot \<Rightarrow> 64 word) \<Rightarrow>
   observability_snapshot \<Rightarrow> (string \<times> 64 word) list" where
  "observability_HashFields hc hash s =
     (let h = observability_snapshotToHash s
      in [(''prometheusconfigs'', hc (snap_List prometheus_ops (osnap_Prometheusconfigs h))),
          (''snapshotHash'', hash h)])"

section \<open>The snapshot operations keep their promises\<close>

lemma routing_Clone_Clone [simp]: "routing_snapshot_Clone (routing_snapshot_Clone s) = routing_snapshot_Clone s"
  by (simp add: routing_snapshot_Clone_def)

lemma observability_Clone_Clone [simp]:
  "observability_snapshot_Clone (observability_snapshot_Clone s) = observability_snapshot_Clone s"
  by (simp add: observability_snapshot_Clone_def)

interpretation routing_snap_ops: snapshot_ops routing_snapshot_Clone "routing_snapshot_Hash hash" for hash
  by unfold_locales (simp_all add: routing_snapshot_Hash_def routing_snapshotToHash_def)

interpretation observability_snap_ops: snapshot_ops observability_snapshot_Clone "observability_snapshot_Hash hash" for hash
  by unfold_locales (simp_all add: observability_snapshot_Hash_def observability_snapshotToHash_def)

text \<open>The hash of the whole snapshot is the one that decides whether a snapshot is sent.\<close>

lemma HashFields_Hash:
  "map_of (translator_HashFields hm hr hu hi hash s) ''snapshotHash'' = Some (snapshot_Hash hash s)"
  "map_of (install_HashFields hn hi hash' i) ''snapshotHash'' = Some (install_snapshot_Hash hash' i)"
  "map_of (routing_HashFields hdr hvs hash'' r) ''snapshotHash'' = Some (routing_snapshot_Hash hash'' r)"
  "map_of (observability_HashFields hc hash''' p) ''snapshotHash'' = Some (observability_snapshot_Hash hash''' p)"
  by (simp_all add: translator_HashFields_def install_HashFields_def routing_HashFields_def observability_HashFields_def
      Let_def snapshot_Hash_def install_snapshot_Hash_def routing_snapshot_Hash_def observability_snapshot_Hash_def)

section \<open>What the snapshots hold\<close>

fun destination_rule_deliveries :: "routing_update list \<Rightarrow> (string \<times> destination_rule list) list" where
  "destination_rule_deliveries [] = []"
| "destination_rule_deliveries (DestinationRuleList k rs # us) = (k, rs) # destination_rule_deliveries us"
| "destination_rule_deliveries (VirtualServiceList k rs # us) = destination_rule_deliveries us"

fun virtual_service_deliveries :: "routing_update list \<Rightarrow> (string \<times> virtual_service list) list" where
  "virtual_service_deliveries [] = []"
| "virtual_service_deliveries (DestinationRuleList k rs # us) = virtual_service_deliveries us"
| "virtual_service_deliveries (VirtualServiceList k rs # us) = (k, rs) # virtual_service_deliveries us"

lemma fold_routing_apply:
  "rsnap_Destinationrules (fold routing_apply us s) =
     fold (\<lambda>(k, rs). clear_and_add dr_Metadata k rs) (destination_rule_deliveries us) (rsnap_Destinationrules s)"
  "rsnap_Virtualservices (fold routing_apply us s) =
     fold (\<lambda>(k, rs). clear_and_add vs_Metadata k rs) (virtual_service_deliveries us) (rsnap_Virtualservices s)"
  by (induction us arbitrary: s rule: destination_rule_deliveries.induct) simp_all

text \<open>In every reachable state the routing snapshot holds the lists delivered last.\<close>

lemma routing_emitter_current:
  assumes "emitter_run routing_snapshot_Clone (routing_snapshot_Hash hash) routing_apply zero_routing_snapshot es e"
    and "own_namespace dr_Metadata (destination_rule_deliveries (delivered es))"
      "own_namespace vs_Metadata (virtual_service_deliveries (delivered es))"
  shows "byNamespace_get (rsnap_Destinationrules (em_current e)) ns =
      last_delivered ns (destination_rule_deliveries (delivered es)) \<and>
    byNamespace_get (rsnap_Virtualservices (em_current e)) ns =
      last_delivered ns (virtual_service_deliveries (delivered es))"
proof -
  have zero: "byNamespace_Clone ops [] = []" for ops :: "'r resource_ops"
    by (simp add: byNamespace_Clone_def byNamespace_List_def list_Sort_def list_ByNamespace_def byNamespace_Add_def)
  show ?thesis
    using routing_snap_ops.run_current [OF assms(1)] fold_clear_and_add [OF assms(2)] fold_clear_and_add [OF assms(3)]
    by (simp add: fold_routing_apply routing_snapshot_Clone_def zero_routing_snapshot_def zero)
qed

end
