(* ===== verification/Gloo_Loops.thy ===== *)
theory Gloo_Loops
  imports Gloo_Kinds Generated_Loops
begin

text \<open>
  The emitters and event loops that are generated for gloo itself, over the snapshots \<open>ApiSnapshot\<close>,
  \<open>DiscoverySnapshot\<close> and \<open>SetupSnapshot\<close>: instances of the templates of \<open>Snapshot_Emitter\<close>. The program starts
  none of them.
\<close>

section \<open>Api\<close>

record api_snapshot =
  apisnap_Artifacts :: "artifact by_namespace"
  apisnap_Endpoints :: "endpoint by_namespace"
  apisnap_Proxies :: "gloo_proxy by_namespace"
  apisnap_Secrets :: "gloo_secret by_namespace"
  apisnap_Upstreams :: "upstream by_namespace"

definition api_snapshot_Clone :: "api_snapshot \<Rightarrow> api_snapshot" where
  "api_snapshot_Clone s =
     \<lparr>apisnap_Artifacts = byNamespace_Clone artifact_ops (apisnap_Artifacts s),
      apisnap_Endpoints = byNamespace_Clone endpoint_ops (apisnap_Endpoints s),
      apisnap_Proxies = byNamespace_Clone proxy_ops (apisnap_Proxies s),
      apisnap_Secrets = byNamespace_Clone secret_ops (apisnap_Secrets s),
      apisnap_Upstreams = byNamespace_Clone upstream_ops (apisnap_Upstreams s)\<rparr>"

definition api_snapshotToHash :: "api_snapshot \<Rightarrow> api_snapshot" where
  "api_snapshotToHash s =
     (let c = api_snapshot_Clone s
      in \<lparr>apisnap_Artifacts = clear_all artifact_ops (apisnap_Artifacts c),
          apisnap_Endpoints = clear_all endpoint_ops (apisnap_Endpoints c),
          apisnap_Proxies = clear_all proxy_ops (apisnap_Proxies c),
          apisnap_Secrets = clear_all secret_ops (apisnap_Secrets c),
          apisnap_Upstreams = clear_all upstream_ops (apisnap_Upstreams c)\<rparr>)"

definition api_snapshot_Hash :: "(api_snapshot \<Rightarrow> 64 word) \<Rightarrow> api_snapshot \<Rightarrow> 64 word" where
  "api_snapshot_Hash hash s = hash (api_snapshotToHash s)"

definition api_HashFields ::
  "(artifact list \<Rightarrow> 64 word) \<Rightarrow>
   (endpoint list \<Rightarrow> 64 word) \<Rightarrow>
   (gloo_proxy list \<Rightarrow> 64 word) \<Rightarrow>
   (gloo_secret list \<Rightarrow> 64 word) \<Rightarrow>
   (upstream list \<Rightarrow> 64 word) \<Rightarrow> (api_snapshot \<Rightarrow> 64 word) \<Rightarrow>
   api_snapshot \<Rightarrow> (string \<times> 64 word) list" where
  "api_HashFields h1 h2 h3 h4 h5 hash s =
     (let c = api_snapshotToHash s
      in [(''artifacts'', h1 (snap_List artifact_ops (apisnap_Artifacts c))),
          (''endpoints'', h2 (snap_List endpoint_ops (apisnap_Endpoints c))),
          (''proxies'', h3 (snap_List proxy_ops (apisnap_Proxies c))),
          (''secrets'', h4 (snap_List secret_ops (apisnap_Secrets c))),
          (''upstreams'', h5 (snap_List upstream_ops (apisnap_Upstreams c))),
          (''snapshotHash'', hash c)])"

datatype api_update =
    Api_ArtifactList string "artifact list"
  | Api_EndpointList string "endpoint list"
  | Api_ProxyList string "gloo_proxy list"
  | Api_SecretList string "gloo_secret list"
  | Api_UpstreamList string "upstream list"

fun api_apply :: "api_update \<Rightarrow> api_snapshot \<Rightarrow> api_snapshot" where
  "api_apply (Api_ArtifactList ns rs) s =
     s\<lparr>apisnap_Artifacts := clear_and_add artifact_Metadata ns rs (apisnap_Artifacts s)\<rparr>"
| "api_apply (Api_EndpointList ns rs) s =
     s\<lparr>apisnap_Endpoints := clear_and_add ep_Metadata ns rs (apisnap_Endpoints s)\<rparr>"
| "api_apply (Api_ProxyList ns rs) s =
     s\<lparr>apisnap_Proxies := clear_and_add proxy_Metadata ns rs (apisnap_Proxies s)\<rparr>"
| "api_apply (Api_SecretList ns rs) s =
     s\<lparr>apisnap_Secrets := clear_and_add gsecret_Metadata ns rs (apisnap_Secrets s)\<rparr>"
| "api_apply (Api_UpstreamList ns rs) s =
     s\<lparr>apisnap_Upstreams := clear_and_add upstream_Metadata ns rs (apisnap_Upstreams s)\<rparr>"

definition zero_api_snapshot :: api_snapshot where
  "zero_api_snapshot = \<lparr>apisnap_Artifacts = [],
     apisnap_Endpoints = [],
     apisnap_Proxies = [],
     apisnap_Secrets = [],
     apisnap_Upstreams = []\<rparr>"

definition api_emitter :: "(api_snapshot \<Rightarrow> 64 word) \<Rightarrow> api_update emitter_event list \<Rightarrow> api_snapshot emitter" where
  "api_emitter hash es =
     fold (emitter_step api_snapshot_Clone (api_snapshot_Hash hash) api_apply) es
       (emitter_start api_snapshot_Clone zero_api_snapshot)"

definition apiEmitter_Register :: "watch_client \<Rightarrow> watch_client \<Rightarrow> watch_client \<Rightarrow> watch_client \<Rightarrow> watch_client \<Rightarrow> unit go" where
  "apiEmitter_Register artifact endpoint proxy secret upstream =
     gbind (wc_Register artifact) (\<lambda>_.
     gbind (wc_Register endpoint) (\<lambda>_.
     gbind (wc_Register proxy) (\<lambda>_.
     gbind (wc_Register secret) (\<lambda>_.
     gbind (wc_Register upstream) (\<lambda>_.
     Ret ())))))"

definition apiEmitter_Snapshots :: "watch_client \<Rightarrow> watch_client \<Rightarrow> watch_client \<Rightarrow> watch_client \<Rightarrow> watch_client \<Rightarrow> string list \<Rightarrow> unit go" where
  "apiEmitter_Snapshots artifact endpoint proxy secret upstream watchNamespaces =
     start_watches
       [(''Artifact'', wc_Watch artifact),
        (''Endpoint'', wc_Watch endpoint),
        (''Proxy'', wc_Watch proxy),
        (''Secret'', wc_Watch secret),
        (''Upstream'', wc_Watch upstream)]
       watchNamespaces"

definition ApiSyncers_Sync :: "(api_snapshot \<Rightarrow> ('s, unit) act) list \<Rightarrow> api_snapshot \<Rightarrow> ('s, unit) act" where
  "ApiSyncers_Sync syncers snapshot =
     abind (acollect (\<lambda>syncer. syncer snapshot) syncers) (\<lambda>es. alift (ErrorOrNil es))"

definition apiEventLoop_Run ::
  "watch_client \<Rightarrow> watch_client \<Rightarrow> watch_client \<Rightarrow> watch_client \<Rightarrow> watch_client \<Rightarrow> (api_snapshot \<Rightarrow> 64 word) \<Rightarrow>
   (api_snapshot \<Rightarrow> ('s, unit) act) \<Rightarrow> string list \<Rightarrow> api_update emitter_event list \<Rightarrow> ('s, err list) act" where
  "apiEventLoop_Run artifact endpoint proxy secret upstream hash syncer namespaces es =
     event_loop_Run (apiEmitter_Snapshots artifact endpoint proxy secret upstream namespaces) syncer
       (em_sent (api_emitter hash es))"

lemma api_Clone_Clone [simp]: "api_snapshot_Clone (api_snapshot_Clone s) = api_snapshot_Clone s"
  by (simp add: api_snapshot_Clone_def)

interpretation api_snap_ops: snapshot_ops api_snapshot_Clone "api_snapshot_Hash hash" for hash
  by unfold_locales (simp_all add: api_snapshot_Hash_def api_snapshotToHash_def)

lemma api_HashFields_Hash: "map_of (api_HashFields h1 h2 h3 h4 h5 hash s) ''snapshotHash'' = Some (api_snapshot_Hash hash s)"
  by (simp add: api_HashFields_def api_snapshot_Hash_def Let_def)

section \<open>Discovery\<close>

record discovery_snapshot =
  discoverysnap_Secrets :: "gloo_secret by_namespace"
  discoverysnap_Upstreams :: "upstream by_namespace"

definition discovery_snapshot_Clone :: "discovery_snapshot \<Rightarrow> discovery_snapshot" where
  "discovery_snapshot_Clone s =
     \<lparr>discoverysnap_Secrets = byNamespace_Clone secret_ops (discoverysnap_Secrets s),
      discoverysnap_Upstreams = byNamespace_Clone upstream_ops (discoverysnap_Upstreams s)\<rparr>"

definition discovery_snapshotToHash :: "discovery_snapshot \<Rightarrow> discovery_snapshot" where
  "discovery_snapshotToHash s =
     (let c = discovery_snapshot_Clone s
      in \<lparr>discoverysnap_Secrets = clear_all secret_ops (discoverysnap_Secrets c),
          discoverysnap_Upstreams = clear_all upstream_ops (discoverysnap_Upstreams c)\<rparr>)"

definition discovery_snapshot_Hash :: "(discovery_snapshot \<Rightarrow> 64 word) \<Rightarrow> discovery_snapshot \<Rightarrow> 64 word" where
  "discovery_snapshot_Hash hash s = hash (discovery_snapshotToHash s)"

definition discovery_HashFields ::
  "(gloo_secret list \<Rightarrow> 64 word) \<Rightarrow>
   (upstream list \<Rightarrow> 64 word) \<Rightarrow> (discovery_snapshot \<Rightarrow> 64 word) \<Rightarrow>
   discovery_snapshot \<Rightarrow> (string \<times> 64 word) list" where
  "discovery_HashFields h1 h2 hash s =
     (let c = discovery_snapshotToHash s
      in [(''secrets'', h1 (snap_List secret_ops (discoverysnap_Secrets c))),
          (''upstreams'', h2 (snap_List upstream_ops (discoverysnap_Upstreams c))),
          (''snapshotHash'', hash c)])"

datatype discovery_update =
    Discovery_SecretList string "gloo_secret list"
  | Discovery_UpstreamList string "upstream list"

fun discovery_apply :: "discovery_update \<Rightarrow> discovery_snapshot \<Rightarrow> discovery_snapshot" where
  "discovery_apply (Discovery_SecretList ns rs) s =
     s\<lparr>discoverysnap_Secrets := clear_and_add gsecret_Metadata ns rs (discoverysnap_Secrets s)\<rparr>"
| "discovery_apply (Discovery_UpstreamList ns rs) s =
     s\<lparr>discoverysnap_Upstreams := clear_and_add upstream_Metadata ns rs (discoverysnap_Upstreams s)\<rparr>"

definition zero_discovery_snapshot :: discovery_snapshot where
  "zero_discovery_snapshot = \<lparr>discoverysnap_Secrets = [],
     discoverysnap_Upstreams = []\<rparr>"

definition discovery_emitter :: "(discovery_snapshot \<Rightarrow> 64 word) \<Rightarrow> discovery_update emitter_event list \<Rightarrow> discovery_snapshot emitter" where
  "discovery_emitter hash es =
     fold (emitter_step discovery_snapshot_Clone (discovery_snapshot_Hash hash) discovery_apply) es
       (emitter_start discovery_snapshot_Clone zero_discovery_snapshot)"

definition discoveryEmitter_Register :: "watch_client \<Rightarrow> watch_client \<Rightarrow> unit go" where
  "discoveryEmitter_Register secret upstream =
     gbind (wc_Register secret) (\<lambda>_.
     gbind (wc_Register upstream) (\<lambda>_.
     Ret ()))"

definition discoveryEmitter_Snapshots :: "watch_client \<Rightarrow> watch_client \<Rightarrow> string list \<Rightarrow> unit go" where
  "discoveryEmitter_Snapshots secret upstream watchNamespaces =
     start_watches
       [(''Secret'', wc_Watch secret),
        (''Upstream'', wc_Watch upstream)]
       watchNamespaces"

definition DiscoverySyncers_Sync :: "(discovery_snapshot \<Rightarrow> ('s, unit) act) list \<Rightarrow> discovery_snapshot \<Rightarrow> ('s, unit) act" where
  "DiscoverySyncers_Sync syncers snapshot =
     abind (acollect (\<lambda>syncer. syncer snapshot) syncers) (\<lambda>es. alift (ErrorOrNil es))"

definition discoveryEventLoop_Run ::
  "watch_client \<Rightarrow> watch_client \<Rightarrow> (discovery_snapshot \<Rightarrow> 64 word) \<Rightarrow>
   (discovery_snapshot \<Rightarrow> ('s, unit) act) \<Rightarrow> string list \<Rightarrow> discovery_update emitter_event list \<Rightarrow> ('s, err list) act" where
  "discoveryEventLoop_Run secret upstream hash syncer namespaces es =
     event_loop_Run (discoveryEmitter_Snapshots secret upstream namespaces) syncer
       (em_sent (discovery_emitter hash es))"

lemma discovery_Clone_Clone [simp]: "discovery_snapshot_Clone (discovery_snapshot_Clone s) = discovery_snapshot_Clone s"
  by (simp add: discovery_snapshot_Clone_def)

interpretation discovery_snap_ops: snapshot_ops discovery_snapshot_Clone "discovery_snapshot_Hash hash" for hash
  by unfold_locales (simp_all add: discovery_snapshot_Hash_def discovery_snapshotToHash_def)

lemma discovery_HashFields_Hash: "map_of (discovery_HashFields h1 h2 hash s) ''snapshotHash'' = Some (discovery_snapshot_Hash hash s)"
  by (simp add: discovery_HashFields_def discovery_snapshot_Hash_def Let_def)

section \<open>Setup\<close>

record setup_snapshot =
  setupsnap_Settings :: "settings by_namespace"

definition setup_snapshot_Clone :: "setup_snapshot \<Rightarrow> setup_snapshot" where
  "setup_snapshot_Clone s =
     \<lparr>setupsnap_Settings = byNamespace_Clone settings_ops (setupsnap_Settings s)\<rparr>"

definition setup_snapshotToHash :: "setup_snapshot \<Rightarrow> setup_snapshot" where
  "setup_snapshotToHash s =
     (let c = setup_snapshot_Clone s
      in \<lparr>setupsnap_Settings = clear_all settings_ops (setupsnap_Settings c)\<rparr>)"

definition setup_snapshot_Hash :: "(setup_snapshot \<Rightarrow> 64 word) \<Rightarrow> setup_snapshot \<Rightarrow> 64 word" where
  "setup_snapshot_Hash hash s = hash (setup_snapshotToHash s)"

definition setup_HashFields ::
  "(settings list \<Rightarrow> 64 word) \<Rightarrow> (setup_snapshot \<Rightarrow> 64 word) \<Rightarrow>
   setup_snapshot \<Rightarrow> (string \<times> 64 word) list" where
  "setup_HashFields h1 hash s =
     (let c = setup_snapshotToHash s
      in [(''settings'', h1 (snap_List settings_ops (setupsnap_Settings c))),
          (''snapshotHash'', hash c)])"

datatype setup_update =
    Setup_SettingsList string "settings list"

fun setup_apply :: "setup_update \<Rightarrow> setup_snapshot \<Rightarrow> setup_snapshot" where
  "setup_apply (Setup_SettingsList ns rs) s =
     s\<lparr>setupsnap_Settings := clear_and_add set_Metadata ns rs (setupsnap_Settings s)\<rparr>"

definition zero_setup_snapshot :: setup_snapshot where
  "zero_setup_snapshot = \<lparr>setupsnap_Settings = []\<rparr>"

definition setup_emitter :: "(setup_snapshot \<Rightarrow> 64 word) \<Rightarrow> setup_update emitter_event list \<Rightarrow> setup_snapshot emitter" where
  "setup_emitter hash es =
     fold (emitter_step setup_snapshot_Clone (setup_snapshot_Hash hash) setup_apply) es
       (emitter_start setup_snapshot_Clone zero_setup_snapshot)"

definition setupEmitter_Register :: "watch_client \<Rightarrow> unit go" where
  "setupEmitter_Register settings =
     gbind (wc_Register settings) (\<lambda>_.
     Ret ())"

definition setupEmitter_Snapshots :: "watch_client \<Rightarrow> string list \<Rightarrow> unit go" where
  "setupEmitter_Snapshots settings watchNamespaces =
     start_watches
       [(''Settings'', wc_Watch settings)]
       watchNamespaces"

definition SetupSyncers_Sync :: "(setup_snapshot \<Rightarrow> ('s, unit) act) list \<Rightarrow> setup_snapshot \<Rightarrow> ('s, unit) act" where
  "SetupSyncers_Sync syncers snapshot =
     abind (acollect (\<lambda>syncer. syncer snapshot) syncers) (\<lambda>es. alift (ErrorOrNil es))"

definition setupEventLoop_Run ::
  "watch_client \<Rightarrow> (setup_snapshot \<Rightarrow> 64 word) \<Rightarrow>
   (setup_snapshot \<Rightarrow> ('s, unit) act) \<Rightarrow> string list \<Rightarrow> setup_update emitter_event list \<Rightarrow> ('s, err list) act" where
  "setupEventLoop_Run settings hash syncer namespaces es =
     event_loop_Run (setupEmitter_Snapshots settings namespaces) syncer
       (em_sent (setup_emitter hash es))"

lemma setup_Clone_Clone [simp]: "setup_snapshot_Clone (setup_snapshot_Clone s) = setup_snapshot_Clone s"
  by (simp add: setup_snapshot_Clone_def)

interpretation setup_snap_ops: snapshot_ops setup_snapshot_Clone "setup_snapshot_Hash hash" for hash
  by unfold_locales (simp_all add: setup_snapshot_Hash_def setup_snapshotToHash_def)

lemma setup_HashFields_Hash: "map_of (setup_HashFields h1 hash s) ''snapshotHash'' = Some (setup_snapshot_Hash hash s)"
  by (simp add: setup_HashFields_def setup_snapshot_Hash_def Let_def)

end
