(* ===== verification/Rate_Limit_Xds.thy ===== *)
theory Rate_Limit_Xds
  imports Go_Strings "HOL-Library.Word"
begin

text \<open>
  The discovery service of rate limits (\<open>gloo/v1/rate_limit_discovery_service_xds.sk.sk.go\<close>): the resource that
  wraps a configuration, the server around the generic one, and the client that hands typed
  configurations to a callback. The generic server and client of solo-kit are parameters.
\<close>

datatype rate_limit_unit = RateLimit_UNKNOWN | RateLimit_SECOND | RateLimit_MINUTE | RateLimit_HOUR | RateLimit_DAY

record rate_limit =
  rl_Unit :: rate_limit_unit
  rl_RequestsPerUnit :: "32 word"

datatype rate_limit_constraint =
  Constraint (con_Key: string) (con_Value: string) (con_RateLimit: "rate_limit option") (con_Constraints: "rate_limit_constraint list")

record rate_limit_config =
  rlc_Domain :: string
  rlc_Constraints :: "rate_limit_constraint list"

record xds_reference =
  xref_Type :: string
  xref_Name :: string

text \<open>
  A resource of the cache is an interface: what its methods return. A message is a pointer to a rate limit
  configuration, which may be nil, or of another type.
\<close>

datatype xds_proto = Proto_RateLimitConfig "rate_limit_config option" | Proto_Other string

record xds_resource =
  xr_Self :: "xds_reference go"
  xr_ResourceProto :: xds_proto
  xr_References :: "xds_reference list"

definition RateLimitConfigType :: string where
  "RateLimitConfigType = ''type.googleapis.com/gloo.solo.io.RateLimitConfig''"

definition wrapper_Self :: "rate_limit_config option \<Rightarrow> xds_reference go" where
  "wrapper_Self r =
     (case r of None \<Rightarrow> nil_deref | Some c \<Rightarrow> Ret \<lparr>xref_Type = RateLimitConfigType, xref_Name = rlc_Domain c\<rparr>)"

definition NewRateLimitConfigXdsResourceWrapper :: "rate_limit_config option \<Rightarrow> xds_resource" where
  "NewRateLimitConfigXdsResourceWrapper r =
     \<lparr>xr_Self = wrapper_Self r, xr_ResourceProto = Proto_RateLimitConfig r, xr_References = []\<rparr>"

text \<open>The type record: an empty message, and the conversion of a message, which asserts its type.\<close>

record type_record =
  tr_TypeURL :: string
  tr_EmptyProto :: xds_proto
  tr_ProtoToResource :: "xds_proto \<Rightarrow> xds_resource go"

definition RateLimitConfigTypeRecord :: type_record where
  "RateLimitConfigTypeRecord =
     \<lparr>tr_TypeURL = RateLimitConfigType,
      tr_EmptyProto = Proto_RateLimitConfig (Some \<lparr>rlc_Domain = [], rlc_Constraints = []\<rparr>),
      tr_ProtoToResource = (\<lambda>p. case p of
          Proto_RateLimitConfig r \<Rightarrow> Ret (NewRateLimitConfigXdsResourceWrapper r)
        | Proto_Other t \<Rightarrow> Panic ''interface conversion'')\<rparr>"

section \<open>The server\<close>

record discovery_request =
  dreq_TypeUrl :: string
  dreq_ResourceNames :: "string list"

record ('s, 'stream, 'resp) xds_server =
  srv_Stream :: "'stream \<Rightarrow> string \<Rightarrow> ('s, unit) act"
  srv_Fetch :: "discovery_request \<Rightarrow> ('s, 'resp) act"

definition StreamRateLimitConfig :: "('s, 'stream, 'resp) xds_server \<Rightarrow> 'stream \<Rightarrow> ('s, unit) act" where
  "StreamRateLimitConfig s stream = srv_Stream s stream RateLimitConfigType"

definition FetchRateLimitConfig ::
  "('s, 'stream, 'resp) xds_server \<Rightarrow> discovery_request option \<Rightarrow> ('s, 'resp) act" where
  "FetchRateLimitConfig s req =
     (case req of
        None \<Rightarrow> afail (Errorf ''empty request'')
      | Some r \<Rightarrow> srv_Fetch s (r\<lparr>dreq_TypeUrl := RateLimitConfigType\<rparr>))"

definition IncrementalRateLimitConfig :: "('s, 'stream, 'resp) xds_server \<Rightarrow> 'stream \<Rightarrow> ('s, unit) act" where
  "IncrementalRateLimitConfig s stream = afail (Errorf ''not implemented'')"

section \<open>The client\<close>

record xds_resources =
  xrs_Version :: string
  xrs_Items :: "(string \<times> xds_resource) list"

text \<open>The first item of another type ends the loop; the error names it, so that \<open>Self\<close> is called.\<close>

fun typed_configs :: "xds_resource list \<Rightarrow> rate_limit_config option list go" where
  "typed_configs [] = Ret []"
| "typed_configs (r # rs) =
     (case xr_ResourceProto r of
        Proto_RateLimitConfig c \<Rightarrow> gbind (typed_configs rs) (\<lambda>cs. Ret (c # cs))
      | Proto_Other t \<Rightarrow> gbind (xr_Self r) (\<lambda>self. Fail (Errorf ''resource %s of type %s incorrect'')))"

definition applyRateLimitConfig ::
  "((string \<times> xds_resource) list \<Rightarrow> (string \<times> xds_resource) list) \<Rightarrow>
   (string \<Rightarrow> rate_limit_config option list \<Rightarrow> ('s, unit) act) \<Rightarrow> xds_resources \<Rightarrow> ('s, unit) act" where
  "applyRateLimitConfig rng typedApply resources =
     abind (alift (typed_configs (map snd (rng (xrs_Items resources))))) (\<lambda>configs.
       typedApply (xrs_Version resources) configs)"

section \<open>Facts\<close>

text \<open>What the server hands out, the client reads back.\<close>

lemma typed_configs_wrapped: "typed_configs (map NewRateLimitConfigXdsResourceWrapper cs) = Ret cs"
  by (induction cs) (simp_all add: NewRateLimitConfigXdsResourceWrapper_def)

lemma typed_configs_Ret:
  "typed_configs rs = Ret cs \<longleftrightarrow> map xr_ResourceProto rs = map Proto_RateLimitConfig cs"
  by (induction rs arbitrary: cs) (auto split: xds_proto.splits simp: Cons_eq_map_conv)

lemma typed_configs_other: "r \<in> set rs \<Longrightarrow> xr_ResourceProto r = Proto_Other t \<Longrightarrow> typed_configs rs \<noteq> Ret cs"
  by (induction rs arbitrary: cs) (auto split: xds_proto.splits)

text \<open>
  The callback gets every configuration of the cache once, in the order in which the map is
  visited; it is not called when an item has another type.
\<close>

theorem applied_configs:
  assumes "valid_range rng"
    and "map (xr_ResourceProto \<circ> snd) (xrs_Items resources) = map Proto_RateLimitConfig cs"
  shows "\<exists>cs'. mset cs' = mset cs \<and>
    applyRateLimitConfig rng typedApply resources = typedApply (xrs_Version resources) cs'"
proof -
  let ?cast = "\<lambda>p. case p of Proto_RateLimitConfig c \<Rightarrow> c | _ \<Rightarrow> None" and ?items = "xrs_Items resources"
  let ?cs = "map (?cast \<circ> xr_ResourceProto \<circ> snd) (rng ?items)"
  have "xr_ResourceProto (snd e) \<in> range Proto_RateLimitConfig" if "e \<in> set ?items" for e
    using arg_cong [OF assms(2), of set] that by auto
  then have "\<forall>e \<in> set (rng ?items). xr_ResourceProto (snd e) = Proto_RateLimitConfig (?cast (xr_ResourceProto (snd e)))"
    using valid_range_set [OF assms(1), of ?items] by fastforce
  then have "typed_configs (map snd (rng ?items)) = Ret ?cs" by (simp add: typed_configs_Ret)
  moreover have "mset ?cs = mset (map ?cast (map (xr_ResourceProto \<circ> snd) ?items))"
    using valid_range_mset [OF assms(1), of ?items] by (simp add: multiset.map_comp flip: comp_assoc)
  then have "mset ?cs = mset cs" unfolding assms(2) by (simp add: comp_def)
  ultimately show ?thesis
    by (intro exI [of _ ?cs]) (simp add: applyRateLimitConfig_def abind_def alift_def fun_eq_iff)
qed

lemma wrong_type_refused:
  assumes "valid_range rng" and "(k, r) \<in> set (xrs_Items resources)" and "xr_ResourceProto r = Proto_Other t"
  shows "snd (applyRateLimitConfig rng typedApply resources s) = s \<and>
    (\<nexists>u. fst (applyRateLimitConfig rng typedApply resources s) = Ret u)"
proof -
  have "r \<in> set (map snd (rng (xrs_Items resources)))" using assms(1,2) by force
  then have "typed_configs (map snd (rng (xrs_Items resources))) \<noteq> Ret cs" for cs
    using typed_configs_other assms(3) by blast
  then show ?thesis
    by (cases "typed_configs (map snd (rng (xrs_Items resources)))") (auto simp: applyRateLimitConfig_def abind_def alift_def)
qed

end
