(* ===== verification/Cobra.thy ===== *)
theory Cobra
  imports Go_Strings
begin

text \<open>
  The library that takes a command line apart (\<open>vendor/github.com/spf13/cobra\<close>,
  \<open>vendor/github.com/spf13/pflag\<close>): the flags of a command and of its parents, how they are parsed, how the
  command is found in the tree, and what is checked before it runs.

  Commands are over a type of options, which flags assign to, and a type of actions, the functions that
  they run. What no command of the program uses is left out: aliases, hooks, deprecated flags, flags of
  Go's own library, unknown flags that are let through, and suggestions. Sets of flags are lists without
  an order of their own.
\<close>

section \<open>Flags\<close>

text \<open>What a flag assigns to: an option that is bound by address, or a new variable of its own.\<close>

datatype 'o flag_value = StringVar "string \<Rightarrow> 'o \<Rightarrow> 'o" | BoolVar "bool \<Rightarrow> 'o \<Rightarrow> 'o" | NewBool | NewStringArray

record 'o pflag =
  fl_Name :: string
  fl_Shorthand :: string
  fl_Value :: "'o flag_value"
  fl_Required :: bool

definition flag_var :: "string \<Rightarrow> string \<Rightarrow> 'o flag_value \<Rightarrow> 'o pflag" where
  "flag_var name shorthand v = \<lparr>fl_Name = name, fl_Shorthand = shorthand, fl_Value = v, fl_Required = False\<rparr>"

definition NoOptDefVal :: "'o pflag \<Rightarrow> string" where
  "NoOptDefVal f = (case fl_Value f of BoolVar _ \<Rightarrow> ''true'' | NewBool \<Rightarrow> ''true'' | _ \<Rightarrow> [])"

definition flag_Lookup :: "'o pflag list \<Rightarrow> string \<Rightarrow> 'o pflag option" where
  "flag_Lookup fs name = find (\<lambda>f. fl_Name f = name) fs"

definition ShorthandLookup :: "'o pflag list \<Rightarrow> char \<Rightarrow> 'o pflag option" where
  "ShorthandLookup fs c = find (\<lambda>f. fl_Shorthand f = [c]) fs"

definition AddFlag :: "'o pflag \<Rightarrow> 'o pflag list \<Rightarrow> 'o pflag list go" where
  "AddFlag f fs =
     (if flag_Lookup fs (fl_Name f) \<noteq> None then Panic ''%s flag redefined: %s''
      else
        (case fl_Shorthand f of
           [] \<Rightarrow> Ret (fs @ [f])
         | [c] \<Rightarrow>
             if ShorthandLookup fs c \<noteq> None then Panic ''unable to redefine %q shorthand in %q flagset: it's already used for %q flag''
             else Ret (fs @ [f])
         | _ \<Rightarrow> Panic ''%q shorthand is more than one ASCII character''))"

definition AddFlagSet :: "'o pflag list \<Rightarrow> 'o pflag list \<Rightarrow> 'o pflag list go" where
  "AddFlagSet newSet fs = gfold (\<lambda>f fs. if flag_Lookup fs (fl_Name f) = None then AddFlag f fs else Ret fs) newSet fs"

section \<open>Parsing\<close>

record 'o flag_state =
  fs_Opts :: 'o
  fs_Bools :: "string list"
  fs_Arrays :: "(string \<times> string) list"
  fs_Changed :: "string list"
  fs_Args :: "string list"

definition ParseBool :: "string \<Rightarrow> bool go" where
  "ParseBool s =
     (if s \<in> set [''1'', ''t'', ''T'', ''true'', ''TRUE'', ''True''] then Ret True
      else if s \<in> set [''0'', ''f'', ''F'', ''false'', ''FALSE'', ''False''] then Ret False
      else Fail (Errorf ''invalid argument %q for %q flag: %v''))"

definition flag_Set :: "'o pflag \<Rightarrow> string \<Rightarrow> 'o flag_state \<Rightarrow> 'o flag_state go" where
  "flag_Set f value st =
     (let st = st\<lparr>fs_Changed := List.insert (fl_Name f) (fs_Changed st)\<rparr> in
      case fl_Value f of
        StringVar set_p \<Rightarrow> Ret (st\<lparr>fs_Opts := set_p value (fs_Opts st)\<rparr>)
      | BoolVar set_p \<Rightarrow> gbind (ParseBool value) (\<lambda>v. Ret (st\<lparr>fs_Opts := set_p v (fs_Opts st)\<rparr>))
      | NewBool \<Rightarrow> gbind (ParseBool value) (\<lambda>v.
          Ret (st\<lparr>fs_Bools := (if v then List.insert (fl_Name f) (fs_Bools st) else removeAll (fl_Name f) (fs_Bools st))\<rparr>))
      | NewStringArray \<Rightarrow> Ret (st\<lparr>fs_Arrays := fs_Arrays st @ [(fl_Name f, value)]\<rparr>))"

definition ErrHelp :: err where
  "ErrHelp = Errorf ''pflag: help requested''"

text \<open>\<open>--name\<close>, \<open>--name=value\<close> and \<open>--name value\<close>.\<close>

definition parseLongArg ::
  "'o pflag list \<Rightarrow> string \<Rightarrow> string list \<Rightarrow> 'o flag_state \<Rightarrow> (string list \<times> 'o flag_state) go" where
  "parseLongArg fs s a st =
     (let arg = drop 2 s in
      if arg = [] \<or> hd arg = CHR ''-'' \<or> hd arg = CHR ''='' then Fail (Errorf ''bad flag syntax: %s'')
      else
        (let name = takeWhile (\<lambda>c. c \<noteq> CHR ''='') arg; rest = dropWhile (\<lambda>c. c \<noteq> CHR ''='') arg in
         case flag_Lookup fs name of
           None \<Rightarrow> if name = ''help'' then Fail ErrHelp else Fail (Errorf ''unknown flag: --%s'')
         | Some f \<Rightarrow>
             if rest \<noteq> [] then gbind (flag_Set f (tl rest) st) (\<lambda>st. Ret (a, st))
             else if NoOptDefVal f \<noteq> [] then gbind (flag_Set f (NoOptDefVal f) st) (\<lambda>st. Ret (a, st))
             else
               (case a of
                  value # a \<Rightarrow> gbind (flag_Set f value st) (\<lambda>st. Ret (a, st))
                | [] \<Rightarrow> Fail (Errorf ''flag needs an argument: %s''))))"

text \<open>The first of a series of shorthands: what is left of the series and of the arguments.\<close>

definition parseSingleShortArg ::
  "'o pflag list \<Rightarrow> char \<Rightarrow> string \<Rightarrow> string list \<Rightarrow> 'o flag_state \<Rightarrow> (string \<times> string list \<times> 'o flag_state) go" where
  "parseSingleShortArg fs c rest args st =
     (if strings_HasPrefix (c # rest) ''test.'' then Ret ([], [], st)
      else
        (case ShorthandLookup fs c of
           None \<Rightarrow> if c = CHR ''h'' then Fail ErrHelp else Fail (Errorf ''unknown shorthand flag: %q in -%s'')
         | Some f \<Rightarrow>
             if length rest \<ge> 2 \<and> hd rest = CHR ''='' then gbind (flag_Set f (tl rest) st) (\<lambda>st. Ret ([], args, st))
             else if NoOptDefVal f \<noteq> [] then gbind (flag_Set f (NoOptDefVal f) st) (\<lambda>st. Ret (rest, args, st))
             else if rest \<noteq> [] then gbind (flag_Set f rest st) (\<lambda>st. Ret ([], args, st))
             else
               (case args of
                  value # args \<Rightarrow> gbind (flag_Set f value st) (\<lambda>st. Ret (rest, args, st))
                | [] \<Rightarrow> Fail (Errorf ''flag needs an argument: %q in -%s''))))"

lemma parseSingleShortArg_shrinks:
  assumes "parseSingleShortArg fs c rest args st = Ret (out, a, st')"
  shows "length out \<le> length rest" "length a \<le> length args"
  using assms
  by (auto simp: parseSingleShortArg_def gbind_eq_Ret split: if_splits option.splits list.splits)

lemma parseLongArg_shrinks:
  assumes "parseLongArg fs s args st = Ret (a, st')"
  shows "length a \<le> length args"
  using assms by (auto simp: parseLongArg_def Let_def gbind_eq_Ret split: if_splits option.splits list.splits)

text \<open>Each shorthand of the series starts from the same arguments.\<close>

function parseShortArg ::
  "'o pflag list \<Rightarrow> string \<Rightarrow> string list \<Rightarrow> string list \<Rightarrow> 'o flag_state \<Rightarrow> (string list \<times> 'o flag_state) go" where
  "parseShortArg fs [] args a st = Ret (a, st)"
| "parseShortArg fs (c # rest) args a st =
     (case parseSingleShortArg fs c rest args st of
        Ret (out, a, st) \<Rightarrow> parseShortArg fs out args a st
      | Fail e \<Rightarrow> Fail e
      | Panic p \<Rightarrow> Panic p)"
  by pat_completeness auto
termination
  by (relation "measure (\<lambda>(fs, shorthands, args, a, st). length shorthands)")
    (auto dest: parseSingleShortArg_shrinks(1) intro: le_imp_less_Suc)

lemma parseShortArg_shrinks:
  "parseShortArg fs shorthands args a st = Ret (b, st') \<Longrightarrow> length a \<le> length args \<Longrightarrow> length b \<le> length args"
  by (induction fs shorthands args a st rule: parseShortArg.induct)
    (auto split: go.splits prod.splits dest: parseSingleShortArg_shrinks(2))

function parseArgs :: "'o pflag list \<Rightarrow> string list \<Rightarrow> 'o flag_state \<Rightarrow> 'o flag_state go" where
  "parseArgs fs [] st = Ret st"
| "parseArgs fs (s # args) st =
     (if s = [] \<or> hd s \<noteq> CHR ''-'' \<or> length s = 1 then parseArgs fs args (st\<lparr>fs_Args := fs_Args st @ [s]\<rparr>)
      else if s = ''--'' then Ret (st\<lparr>fs_Args := fs_Args st @ args\<rparr>)
      else
        (case if s ! 1 = CHR ''-'' then parseLongArg fs s args st else parseShortArg fs (tl s) args args st of
           Ret (args, st) \<Rightarrow> parseArgs fs args st
         | Fail e \<Rightarrow> Fail e
         | Panic p \<Rightarrow> Panic p))"
  by pat_completeness auto
termination
  by (relation "measure (\<lambda>(fs, args, st). length args)")
    (auto dest!: parseShortArg_shrinks parseLongArg_shrinks split: if_splits)

section \<open>Commands\<close>

datatype ('o, 'a) command = Command
  (cmd_Use: string) (cmd_Version: string) (cmd_Args: "(string list \<Rightarrow> unit go) option")
  (cmd_PFlags: "'o pflag list") (cmd_Flags: "'o pflag list") (cmd_Run: "'a option")
  (cmd_Sub: "('o, 'a) command list")

definition cmd_Name :: "('o, 'a) command \<Rightarrow> string" where
  "cmd_Name c = takeWhile (\<lambda>x. x \<noteq> CHR '' '') (cmd_Use c)"

definition ExactArgs :: "nat \<Rightarrow> string list \<Rightarrow> unit go" where
  "ExactArgs n args = (if length args \<noteq> n then Fail (Errorf ''accepts %d arg(s), received %d'') else Ret ())"

definition RangeArgs :: "nat \<Rightarrow> nat \<Rightarrow> string list \<Rightarrow> unit go" where
  "RangeArgs lo hi args =
     (if length args < lo \<or> length args > hi then Fail (Errorf ''accepts between %d and %d arg(s), received %d'') else Ret ())"

lemma rule_no_Panic [simp]: "ExactArgs n args \<noteq> Panic p" "RangeArgs lo hi args \<noteq> Panic p"
  by (simp_all add: ExactArgs_def RangeArgs_def)

text \<open>The flags of a command and the persistent ones of its parents, the nearest first.\<close>

definition new_FlagSet :: "'o pflag list \<Rightarrow> 'o pflag list go" where
  "new_FlagSet fs = gfold AddFlag fs []"

definition updateParentsPflags :: "('o, 'a) command list \<Rightarrow> 'o pflag list \<Rightarrow> 'o pflag list go" where
  "updateParentsPflags parents fs =
     gfold (\<lambda>p fs. gbind (new_FlagSet (cmd_PFlags p)) (\<lambda>ps. AddFlagSet ps fs)) parents fs"

definition mergePersistentFlags :: "('o, 'a) command list \<Rightarrow> ('o, 'a) command \<Rightarrow> 'o pflag list go" where
  "mergePersistentFlags parents c =
     gbind (updateParentsPflags parents []) (\<lambda>parentsPflags.
     gbind (new_FlagSet (cmd_Flags c)) (\<lambda>fs.
     gbind (new_FlagSet (cmd_PFlags c)) (\<lambda>ps.
     gbind (AddFlagSet ps fs) (\<lambda>fs.
     AddFlagSet parentsPflags fs))))"

subsection \<open>Finding a command\<close>

definition hasNoOptDefVal :: "string \<Rightarrow> 'o pflag list \<Rightarrow> bool" where
  "hasNoOptDefVal name fs = (case flag_Lookup fs name of None \<Rightarrow> False | Some f \<Rightarrow> NoOptDefVal f \<noteq> [])"

definition shortHasNoOptDefVal :: "string \<Rightarrow> 'o pflag list \<Rightarrow> bool" where
  "shortHasNoOptDefVal name fs =
     (case name of [] \<Rightarrow> False | c # _ \<Rightarrow> (case ShorthandLookup fs c of None \<Rightarrow> False | Some f \<Rightarrow> NoOptDefVal f \<noteq> []))"

text \<open>The value of the last flag is not looked at when nothing comes after it.\<close>

fun stripFlags :: "'o pflag list \<Rightarrow> string list \<Rightarrow> string list" where
  "stripFlags fs [] = []"
| "stripFlags fs (s # args) =
     (if s = ''--'' then []
      else if (strings_HasPrefix s ''--'' \<and> \<not> strings_Contains s ''='' \<and> \<not> hasNoOptDefVal (drop 2 s) fs) \<or>
              (strings_HasPrefix s ''-'' \<and> \<not> strings_Contains s ''='' \<and> length s = 2 \<and> \<not> shortHasNoOptDefVal (drop 1 s) fs)
      then if length args \<le> 1 then [] else stripFlags fs (tl args)
      else if s \<noteq> [] \<and> \<not> strings_HasPrefix s ''-'' then s # stripFlags fs args
      else stripFlags fs args)"

fun argsMinusFirstX :: "string list \<Rightarrow> string \<Rightarrow> string list" where
  "argsMinusFirstX [] x = []"
| "argsMinusFirstX (y # args) x = (if x = y then args else y # argsMinusFirstX args x)"

definition findNext :: "('o, 'a) command \<Rightarrow> string \<Rightarrow> ('o, 'a) command option" where
  "findNext c next = find (\<lambda>cmd. cmd_Name cmd = next) (cmd_Sub c)"

lemma findNext_Some: "findNext c next = Some d \<Longrightarrow> d \<in> set (cmd_Sub c)"
  by (auto simp: findNext_def find_Some_iff)

lemma findNext_size [termination_simp]: "findNext c next = Some d \<Longrightarrow> size d < size c"
proof (cases c)
  case (Command use version args pfs fs run subs)
  moreover assume "findNext c next = Some d"
  ultimately have "d \<in> set subs" by (auto dest: findNext_Some)
  then have "size d \<le> size_list size subs" by (rule size_list_estimation') simp
  with Command show ?thesis by simp
qed

fun innerfind ::
  "('o, 'a) command list \<Rightarrow> ('o, 'a) command \<Rightarrow> string list \<Rightarrow>
   (('o, 'a) command list \<times> ('o, 'a) command \<times> string list) go" where
  "innerfind parents c innerArgs =
     (if innerArgs = [] then Ret (parents, c, innerArgs)
      else
        (case mergePersistentFlags parents c of
           Ret fs \<Rightarrow>
             (case stripFlags fs innerArgs of
                [] \<Rightarrow> Ret (parents, c, innerArgs)
              | nextSubCmd # _ \<Rightarrow>
                  (case findNext c nextSubCmd of
                     Some cmd \<Rightarrow> innerfind (c # parents) cmd (argsMinusFirstX innerArgs nextSubCmd)
                   | None \<Rightarrow> Ret (parents, c, innerArgs)))
         | Fail e \<Rightarrow> Fail e
         | Panic p \<Rightarrow> Panic p))"

declare innerfind.simps [simp del]

text \<open>Without a rule of its own, the root with subcommands takes no arguments, every other command any.\<close>

definition command_Find ::
  "('o, 'a) command \<Rightarrow> string list \<Rightarrow> (('o, 'a) command list \<times> ('o, 'a) command \<times> string list) go" where
  "command_Find root args =
     gbind (innerfind [] root args) (\<lambda>(parents, c, a).
       if cmd_Args c = None then
         gbind (if a = [] then Ret [] else gbind (mergePersistentFlags parents c) (\<lambda>fs. Ret (stripFlags fs a))) (\<lambda>rest.
           if cmd_Sub c \<noteq> [] \<and> parents = [] \<and> rest \<noteq> [] then Fail (Errorf ''unknown command %q for %q%s'')
           else Ret (parents, c, a))
       else Ret (parents, c, a))"

subsection \<open>Before the command runs\<close>

datatype ('o, 'a) dispatched = Shows_Help | Shows_Version | Runs 'a "string list" 'o

definition InitDefaultFlag :: "string \<Rightarrow> string \<Rightarrow> 'o pflag list \<Rightarrow> 'o pflag list go" where
  "InitDefaultFlag name shorthand fs =
     (if flag_Lookup fs name = None then AddFlag (flag_var name shorthand NewBool) fs else Ret fs)"

definition validateRequiredFlags :: "'o pflag list \<Rightarrow> 'o flag_state \<Rightarrow> unit go" where
  "validateRequiredFlags fs st =
     (if \<exists>f \<in> set fs. fl_Required f \<and> fl_Name f \<notin> set (fs_Changed st) then Fail (Errorf ''required flag(s) \"%s\" not set'')
      else Ret ())"

text \<open>\<open>execute\<close> up to the call of \<open>Run\<close>; \<open>zero\<close> is the options before the flags are parsed.\<close>

definition command_execute ::
  "'o \<Rightarrow> ('o, 'a) command list \<Rightarrow> ('o, 'a) command \<Rightarrow> string list \<Rightarrow> ('o, 'a) dispatched go" where
  "command_execute zero parents c a =
     gbind (mergePersistentFlags parents c) (\<lambda>fs.
     gbind (InitDefaultFlag ''help'' ''h'' fs) (\<lambda>fs.
     gbind (if cmd_Version c = [] then Ret fs else InitDefaultFlag ''version'' [] fs) (\<lambda>fs.
     gbind (parseArgs fs a \<lparr>fs_Opts = zero, fs_Bools = [], fs_Arrays = [], fs_Changed = [], fs_Args = []\<rparr>) (\<lambda>st.
     if ''help'' \<in> set (fs_Bools st) then Fail ErrHelp
     else if cmd_Version c \<noteq> [] \<and> ''version'' \<in> set (fs_Bools st) then Ret Shows_Version
     else
       (case cmd_Run c of
          None \<Rightarrow> Fail ErrHelp
        | Some run \<Rightarrow>
            gbind (case cmd_Args c of None \<Rightarrow> Ret () | Some rule \<Rightarrow> rule (fs_Args st)) (\<lambda>_.
            gbind (validateRequiredFlags fs st) (\<lambda>_.
            Ret (Runs run (fs_Args st) (fs_Opts st)))))))))"

definition InitDefaultHelpCmd :: "'a \<Rightarrow> ('o, 'a) command \<Rightarrow> ('o, 'a) command" where
  "InitDefaultHelpCmd show_help c =
     (if cmd_Sub c = [] then c
      else Command (cmd_Use c) (cmd_Version c) (cmd_Args c) (cmd_PFlags c) (cmd_Flags c) (cmd_Run c)
        (cmd_Sub c @ [Command ''help [command]'' [] None [] [] (Some show_help) []]))"

text \<open>An error that asks for help shows it and is no error.\<close>

definition dispatch :: "'a \<Rightarrow> 'o \<Rightarrow> ('o, 'a) command \<Rightarrow> string list \<Rightarrow> ('o, 'a) dispatched go" where
  "dispatch show_help zero root args =
     gbind (command_Find (InitDefaultHelpCmd show_help root) args) (\<lambda>(parents, c, a).
       case command_execute zero parents c a of
         Fail e \<Rightarrow> if e = ErrHelp then Ret Shows_Help else Fail e
       | r \<Rightarrow> r)"

section \<open>Facts\<close>

subsection \<open>Parsing assigns to options through flags only\<close>

definition flag_keeps :: "('o \<Rightarrow> bool) \<Rightarrow> 'o pflag \<Rightarrow> bool" where
  "flag_keeps P f \<longleftrightarrow>
     (case fl_Value f of
        StringVar set_p \<Rightarrow> \<forall>v opts. P opts \<longrightarrow> P (set_p v opts)
      | BoolVar set_p \<Rightarrow> \<forall>v opts. P opts \<longrightarrow> P (set_p v opts)
      | _ \<Rightarrow> True)"

lemma flag_Lookup_Some: "flag_Lookup fs name = Some f \<Longrightarrow> f \<in> set fs \<and> fl_Name f = name"
  by (auto simp: flag_Lookup_def find_Some_iff)

lemma ShorthandLookup_Some: "ShorthandLookup fs c = Some f \<Longrightarrow> f \<in> set fs"
  by (auto simp: ShorthandLookup_def find_Some_iff)

lemma flag_Set_keeps:
  assumes "flag_Set f value st = Ret st'" "flag_keeps P f" "P (fs_Opts st)"
  shows "P (fs_Opts st')"
  using assms by (auto simp: flag_Set_def flag_keeps_def Let_def gbind_eq_Ret split: flag_value.splits)

lemma parseLongArg_keeps:
  assumes "parseLongArg fs s a st = Ret (a', st')" "\<forall>f \<in> set fs. flag_keeps P f" "P (fs_Opts st)"
  shows "P (fs_Opts st')"
  using assms
  by (auto simp: parseLongArg_def Let_def gbind_eq_Ret split: if_splits option.splits list.splits
      dest!: flag_Lookup_Some intro: flag_Set_keeps [where P = P])

lemma parseSingleShortArg_keeps:
  assumes "parseSingleShortArg fs c rest args st = Ret (out, a', st')" "\<forall>f \<in> set fs. flag_keeps P f" "P (fs_Opts st)"
  shows "P (fs_Opts st')"
  using assms
  by (auto simp: parseSingleShortArg_def gbind_eq_Ret split: if_splits option.splits list.splits
      dest!: ShorthandLookup_Some intro: flag_Set_keeps [where P = P])

lemma parseShortArg_keeps:
  "parseShortArg fs shorthands args a st = Ret (a', st') \<Longrightarrow> \<forall>f \<in> set fs. flag_keeps P f \<Longrightarrow> P (fs_Opts st) \<Longrightarrow>
   P (fs_Opts st')"
  by (induction fs shorthands args a st rule: parseShortArg.induct)
    (auto split: go.splits prod.splits dest: parseSingleShortArg_keeps [where P = P])

lemma parseArgs_keeps:
  "parseArgs fs args st = Ret st' \<Longrightarrow> \<forall>f \<in> set fs. flag_keeps P f \<Longrightarrow> P (fs_Opts st) \<Longrightarrow> P (fs_Opts st')"
proof (induction fs args st rule: parseArgs.induct)
  case (2 fs s args st)
  then show ?case
    by (auto split: go.splits prod.splits if_splits dest: parseLongArg_keeps [where P = P] parseShortArg_keeps [where P = P])
qed simp

subsection \<open>Parsing never panics\<close>

lemma flag_Set_no_Panic [simp]: "flag_Set f value st \<noteq> Panic p"
  by (auto simp: flag_Set_def ParseBool_def Let_def split: flag_value.splits)

lemma parseLongArg_no_Panic [simp]: "parseLongArg fs s args st \<noteq> Panic p"
  by (auto simp: parseLongArg_def Let_def gbind_eq_Panic split: option.splits list.splits)

lemma parseSingleShortArg_no_Panic [simp]: "parseSingleShortArg fs c rest args st \<noteq> Panic p"
  by (auto simp: parseSingleShortArg_def gbind_eq_Panic split: option.splits list.splits)

lemma parseShortArg_no_Panic [simp]: "parseShortArg fs shorthands args a st \<noteq> Panic p"
  by (induction fs shorthands args a st rule: parseShortArg.induct) (auto split: go.splits)

lemma parseArgs_no_Panic [simp]: "parseArgs fs args st \<noteq> Panic p"
  by (induction fs args st rule: parseArgs.induct) (auto split: go.splits)

subsection \<open>The command that is found\<close>

text \<open>The commands of a tree, each with its parents.\<close>

fun contexts :: "('o, 'a) command list \<Rightarrow> ('o, 'a) command \<Rightarrow> (('o, 'a) command list \<times> ('o, 'a) command) list" where
  "contexts parents (Command use version args pfs fs run subs) =
     (parents, Command use version args pfs fs run subs) #
     concat (map (contexts (Command use version args pfs fs run subs # parents)) subs)"

lemma contexts_eq: "contexts parents c = (parents, c) # concat (map (contexts (c # parents)) (cmd_Sub c))"
  by (cases c) simp

lemma innerfind_contexts:
  "innerfind parents c args = Ret (parents', c', args') \<Longrightarrow> (parents', c') \<in> set (contexts parents c)"
proof (induction parents c args rule: innerfind.induct)
  case (1 parents c innerArgs)
  show ?case
  proof (cases "(parents', c') = (parents, c)")
    case True
    then show ?thesis by (subst contexts_eq) simp
  next
    case False
    with "1.prems" obtain fs nxt rest cmd where step: "innerArgs \<noteq> []" "mergePersistentFlags parents c = Ret fs"
        "stripFlags fs innerArgs = nxt # rest" "findNext c nxt = Some cmd"
        "innerfind (c # parents) cmd (argsMinusFirstX innerArgs nxt) = Ret (parents', c', args')"
      by (subst (asm) innerfind.simps) (auto split: if_splits go.splits list.splits option.splits)
    from "1.IH" [OF step] findNext_Some [OF step(4)] show ?thesis by (subst contexts_eq) auto
  qed
qed

lemma contexts_parents:
  "(ps, d) \<in> set (contexts parents c) \<Longrightarrow> p \<in> set ps \<Longrightarrow> p \<in> set parents \<or> p \<in> snd ` set (contexts parents c)"
proof (induction parents c rule: contexts.induct)
  case (1 parents use version args pfs fs run subs)
  then show ?case by fastforce
qed

subsection \<open>Its flags\<close>

lemma AddFlag_subset: "AddFlag f fs = Ret fs' \<Longrightarrow> set fs' \<subseteq> insert f (set fs)"
  by (auto simp: AddFlag_def split: if_splits list.splits)

lemma gfold_AddFlag_subset: "gfold AddFlag new fs = Ret fs' \<Longrightarrow> set fs' \<subseteq> set new \<union> set fs"
  by (induction new arbitrary: fs) (auto simp: gbind_eq_Ret dest!: AddFlag_subset)

lemma new_FlagSet_subset: "new_FlagSet new = Ret fs \<Longrightarrow> set fs \<subseteq> set new"
  using gfold_AddFlag_subset [of new "[]" fs] by (simp add: new_FlagSet_def)

lemma AddFlagSet_subset: "AddFlagSet new fs = Ret fs' \<Longrightarrow> set fs' \<subseteq> set new \<union> set fs"
  unfolding AddFlagSet_def
  by (induction new arbitrary: fs) (auto simp: gbind_eq_Ret split: if_splits dest!: AddFlag_subset)

lemma updateParentsPflags_subset:
  "updateParentsPflags parents fs = Ret fs' \<Longrightarrow> set fs' \<subseteq> (\<Union>p \<in> set parents. set (cmd_PFlags p)) \<union> set fs"
  unfolding updateParentsPflags_def
proof (induction parents arbitrary: fs)
  case (Cons p parents)
  from Cons.prems obtain ps fs1 where "new_FlagSet (cmd_PFlags p) = Ret ps" "AddFlagSet ps fs = Ret fs1"
    and rest: "gfold (\<lambda>p fs. gbind (new_FlagSet (cmd_PFlags p)) (\<lambda>ps. AddFlagSet ps fs)) parents fs1 = Ret fs'"
    by (auto simp: gbind_eq_Ret)
  with Cons.IH [OF rest] show ?case by (auto dest!: new_FlagSet_subset AddFlagSet_subset)
qed simp

lemma mergePersistentFlags_subset:
  assumes "mergePersistentFlags parents c = Ret fs"
  shows "set fs \<subseteq> set (cmd_Flags c) \<union> set (cmd_PFlags c) \<union> (\<Union>p \<in> set parents. set (cmd_PFlags p))"
proof -
  from assms obtain parentsPflags fs1 ps fs2 where merged: "updateParentsPflags parents [] = Ret parentsPflags"
      "new_FlagSet (cmd_Flags c) = Ret fs1" "new_FlagSet (cmd_PFlags c) = Ret ps"
      "AddFlagSet ps fs1 = Ret fs2" "AddFlagSet parentsPflags fs2 = Ret fs"
    by (auto simp: mergePersistentFlags_def gbind_eq_Ret)
  show ?thesis
    using updateParentsPflags_subset [OF merged(1)] new_FlagSet_subset [OF merged(2)] new_FlagSet_subset [OF merged(3)]
      AddFlagSet_subset [OF merged(4)] AddFlagSet_subset [OF merged(5)]
    by simp blast
qed

lemma InitDefaultFlag_keeps:
  "InitDefaultFlag name shorthand fs = Ret fs' \<Longrightarrow> \<forall>f \<in> set fs. flag_keeps P f \<Longrightarrow> \<forall>f \<in> set fs'. flag_keeps P f"
  by (auto simp: InitDefaultFlag_def flag_keeps_def flag_var_def split: if_splits dest!: AddFlag_subset)

subsection \<open>The command that runs\<close>

lemma dispatch_Runs:
  assumes "dispatch show_help zero root argv = Ret (Runs run args opts)"
  obtains parents c where "(parents, c) \<in> set (contexts [] (InitDefaultHelpCmd show_help root))" "cmd_Run c = Some run"
    "\<And>rule. cmd_Args c = Some rule \<Longrightarrow> rule args = Ret ()"
    "\<And>P. \<forall>(_, d) \<in> set (contexts [] (InitDefaultHelpCmd show_help root)). \<forall>f \<in> set (cmd_Flags d @ cmd_PFlags d). flag_keeps P f \<Longrightarrow>
       P zero \<Longrightarrow> P opts"
proof -
  from assms obtain parents c a where found: "command_Find (InitDefaultHelpCmd show_help root) argv = Ret (parents, c, a)"
    and r: "(case command_execute zero parents c a of Fail e \<Rightarrow> if e = ErrHelp then Ret Shows_Help else Fail e | r \<Rightarrow> r) =
      Ret (Runs run args opts)"
    by (auto simp: dispatch_def gbind_eq_Ret)
  from r have run: "command_execute zero parents c a = Ret (Runs run args opts)"
    by (cases "command_execute zero parents c a") (auto split: if_splits)
  from found have inner: "innerfind [] (InitDefaultHelpCmd show_help root) argv = Ret (parents, c, a)"
    by (auto simp: command_Find_def gbind_eq_Ret split: if_splits)
  from run obtain fs fs1 fs2 st where flags: "mergePersistentFlags parents c = Ret fs" "InitDefaultFlag ''help'' ''h'' fs = Ret fs1"
      "fs2 = fs1 \<or> InitDefaultFlag ''version'' [] fs1 = Ret fs2"
    and parsed: "parseArgs fs2 a \<lparr>fs_Opts = zero, fs_Bools = [], fs_Arrays = [], fs_Changed = [], fs_Args = []\<rparr> = Ret st"
    and c: "cmd_Run c = Some run" "\<And>rule. cmd_Args c = Some rule \<Longrightarrow> rule args = Ret ()" "opts = fs_Opts st"
    by (fastforce simp: command_execute_def gbind_eq_Ret split: if_splits option.splits)
  note found_context = innerfind_contexts [OF inner]
  have "P opts" if keeps: "\<forall>(_, d) \<in> set (contexts [] (InitDefaultHelpCmd show_help root)).
      \<forall>f \<in> set (cmd_Flags d @ cmd_PFlags d). flag_keeps P f" and zero: "P zero" for P
  proof -
    have "\<forall>f \<in> set (cmd_PFlags p). flag_keeps P f" if "p \<in> set parents" for p
      using contexts_parents [OF found_context that] keeps by fastforce
    with keeps found_context have "\<forall>f \<in> set fs. flag_keeps P f"
      using mergePersistentFlags_subset [OF flags(1)] by fastforce
    with flags(2,3) have "\<forall>f \<in> set fs2. flag_keeps P f" by (metis InitDefaultFlag_keeps)
    with parseArgs_keeps [OF parsed, of P] zero c(3) show ?thesis by simp
  qed
  with found_context c(1,2) show thesis by (rule that)
qed

lemma dispatch_keeps:
  assumes "dispatch show_help zero root argv = Ret (Runs run args opts)" "P zero"
    and "\<forall>(_, d) \<in> set (contexts [] (InitDefaultHelpCmd show_help root)). \<forall>f \<in> set (cmd_Flags d @ cmd_PFlags d). flag_keeps P f"
  shows "P opts"
proof (rule dispatch_Runs [OF assms(1)])
  assume "\<And>Q. \<forall>(_, d) \<in> set (contexts [] (InitDefaultHelpCmd show_help root)). \<forall>f \<in> set (cmd_Flags d @ cmd_PFlags d). flag_keeps Q f \<Longrightarrow>
      Q zero \<Longrightarrow> Q opts"
  from this [OF assms(3,2)] show "P opts" .
qed

text \<open>Taking a command line apart panics only if two flags of a command and its parents have the same shorthand or name.\<close>

definition flags_ok :: "('o, 'a) command list \<Rightarrow> ('o, 'a) command \<Rightarrow> bool" where
  "flags_ok parents c =
     (case mergePersistentFlags parents c of Ret fs \<Rightarrow> ShorthandLookup fs CHR ''h'' = None | _ \<Rightarrow> False)"

lemma flags_okE:
  assumes "flags_ok parents c"
  obtains fs where "mergePersistentFlags parents c = Ret fs" "ShorthandLookup fs CHR ''h'' = None"
  using assms by (auto simp: flags_ok_def split: go.splits)

lemma innerfind_no_Panic:
  "\<forall>(ps, d) \<in> set (contexts parents c). flags_ok ps d \<Longrightarrow> innerfind parents c args \<noteq> Panic p"
proof (induction parents c args rule: innerfind.induct)
  case (1 parents c innerArgs)
  have subs: "\<forall>(ps, d) \<in> set (contexts (c # parents) cmd). flags_ok ps d" if "findNext c nxt = Some cmd" for nxt cmd
    using "1.prems" findNext_Some [OF that] by (subst (asm) contexts_eq) fastforce
  obtain fs where fs: "mergePersistentFlags parents c = Ret fs"
    using "1.prems" by (subst (asm) contexts_eq) (auto elim: flags_okE)
  have "innerfind (c # parents) cmd (argsMinusFirstX innerArgs nxt) \<noteq> Panic p"
    if "innerArgs \<noteq> []" "stripFlags fs innerArgs = nxt # rest" "findNext c nxt = Some cmd" for nxt rest cmd
    using "1.IH" [OF that(1) fs that(2,3)] subs [OF that(3)] .
  then show ?case
    by (subst innerfind.simps) (auto simp: fs split: list.split option.split)
qed

lemma InitDefaultFlag_no_Panic:
  "ShorthandLookup fs CHR ''h'' = None \<Longrightarrow> InitDefaultFlag ''help'' ''h'' fs \<noteq> Panic p"
  "InitDefaultFlag ''version'' [] fs \<noteq> Panic p"
  by (auto simp: InitDefaultFlag_def AddFlag_def flag_var_def)

lemma dispatch_no_Panic:
  assumes flags: "\<forall>(ps, d) \<in> set (contexts [] (InitDefaultHelpCmd show_help root)). flags_ok ps d"
    and rules: "\<forall>(ps, d) \<in> set (contexts [] (InitDefaultHelpCmd show_help root)). \<forall>rule args p. cmd_Args d = Some rule \<longrightarrow> rule args \<noteq> Panic p"
  shows "dispatch show_help zero root argv \<noteq> Panic p"
proof (cases "innerfind [] (InitDefaultHelpCmd show_help root) argv")
  case (Ret x)
  obtain parents c a where x: "x = (parents, c, a)" by (cases x)
  note found_context = innerfind_contexts [OF Ret [unfolded x]]
  with flags have "flags_ok parents c" by blast
  then obtain fs where fs: "mergePersistentFlags parents c = Ret fs" "ShorthandLookup fs CHR ''h'' = None"
    by (rule flags_okE)
  have rule: "rule args \<noteq> Panic p" if "cmd_Args c = Some rule" for rule args p
    using rules found_context that by fastforce
  have "command_execute zero parents c a \<noteq> Panic q" for q
    using fs rule
    by (auto simp: command_execute_def gbind_eq_Panic InitDefaultFlag_no_Panic validateRequiredFlags_def
        split: if_splits option.splits)
  moreover have "command_Find (InitDefaultHelpCmd show_help root) argv \<noteq> Panic q" for q
    using Ret x fs by (auto simp: command_Find_def gbind_eq_Panic)
  ultimately show ?thesis
    using Ret x by (auto simp: dispatch_def gbind_eq_Panic command_Find_def gbind_eq_Ret split: go.splits if_splits)
next
  case (Panic q)
  with innerfind_no_Panic [OF flags] show ?thesis by blast
qed (simp add: dispatch_def command_Find_def)

end
