(* ===== verification/Cli_Cache.thy ===== *)
theory Cli_Cache
  imports Supergloo_Types Istio_Names
begin

text \<open>
  The command line: what every command starts from. The cache of namespaces and resources and
  the readiness of pods (\<open>cli/pkg/setup/setup.go\<close>), the choice and the check of resources
  (\<open>cli/pkg/nsutil\<close>), and the helpers of \<open>cli/pkg/common\<close>.

  A \<open>range\<close> over the cache visits the namespaces in an order of the run time, \<open>rng\<close>. What
  the user chooses from a menu is a parameter. A pointer of a map that has no entry is nil, and
  using it panics.
\<close>

section \<open>Helpers\<close>

definition SuperglooNamespace :: string where
  "SuperglooNamespace = ''supergloo-system''"

fun cli_Contains :: "string list \<Rightarrow> string \<Rightarrow> bool" where
  "cli_Contains [] s = False"
| "cli_Contains (n # a) s = (if s = n then True else cli_Contains a s)"

fun ContainsSubstring :: "string list \<Rightarrow> string \<Rightarrow> bool" where
  "ContainsSubstring [] substring = False"
| "ContainsSubstring (n # a) substring = (if strings_Contains n substring then True else ContainsSubstring a substring)"

lemma cli_Contains_eq [simp]: "cli_Contains a s \<longleftrightarrow> s \<in> set a"
  by (induction a) auto

lemma ContainsSubstring_eq: "ContainsSubstring a s \<longleftrightarrow> (\<exists>n \<in> set a. strings_Contains n s)"
  by (induction a) auto

text \<open>The menus: one choice, or several.\<close>

record survey =
  survey_Select :: "string \<Rightarrow> string list \<Rightarrow> string go"
  survey_MultiSelect :: "string \<Rightarrow> string list \<Rightarrow> string list go"

section \<open>The cache\<close>

record ns_resource =
  nsr_Meshes :: "string list"
  nsr_Secrets :: "string list"
  nsr_Upstreams :: "string list"
  nsr_MeshesByInstallNs :: "resource_ref list"

type_synonym ns_resource_map = "(string \<times> ns_resource) list"

record options_cache =
  cache_Namespaces :: "string list"
  cache_NsResources :: ns_resource_map

text \<open>\<open>opts.Cache.NsResources[ns].F\<close>.\<close>

definition ns_field :: "ns_resource_map \<Rightarrow> string \<Rightarrow> (ns_resource \<Rightarrow> 'a) \<Rightarrow> 'a go" where
  "ns_field nsr ns f = (case map_of nsr ns of None \<Rightarrow> nil_deref | Some r \<Rightarrow> Ret (f r))"

subsection \<open>Filling it\<close>

text \<open>The lists of the three clients, as functions of the namespace.\<close>

record cli_lists =
  ls_Meshes :: "string \<Rightarrow> mesh list go"
  ls_Secrets :: "string \<Rightarrow> istio_cacerts_secret list go"
  ls_Upstreams :: "string \<Rightarrow> upstream list go"

text \<open>The body of the first loop of \<open>InitCache\<close>.\<close>

definition list_namespace :: "cli_lists \<Rightarrow> string \<Rightarrow> ns_resource go" where
  "list_namespace ls ns =
     gbind (ls_Meshes ls ns) (\<lambda>meshList.
     gbind (ls_Secrets ls ns) (\<lambda>secretList.
     gbind (ls_Upstreams ls ns) (\<lambda>upstreamList.
     Ret \<lparr>nsr_Meshes = map (\<lambda>m. meta_Name (mesh_Metadata m)) meshList,
          nsr_Secrets = map (\<lambda>m. meta_Name (cacerts_Metadata m)) secretList,
          nsr_Upstreams = map (\<lambda>m. meta_Name (upstream_Metadata m)) upstreamList,
          nsr_MeshesByInstallNs = []\<rparr>)))"

definition prime_namespace :: "cli_lists \<Rightarrow> string \<Rightarrow> ns_resource_map \<Rightarrow> ns_resource_map go" where
  "prime_namespace ls ns nsr = gbind (list_namespace ls ns) (\<lambda>r. Ret (AList.update ns r nsr))"

definition installationNamespaceOf :: "mesh \<Rightarrow> string go" where
  "installationNamespaceOf m =
     (case mesh_MeshType m of
        None \<Rightarrow> Ret []
      | Some (Mesh_Consul x) \<Rightarrow> (case x of None \<Rightarrow> nil_deref | Some c \<Rightarrow> Ret (consul_InstallationNamespace c))
      | Some (Mesh_Linkerd2 x) \<Rightarrow> (case x of None \<Rightarrow> nil_deref | Some l \<Rightarrow> Ret (linkerd2_InstallationNamespace l))
      | Some (Mesh_Istio x) \<Rightarrow> (case x of None \<Rightarrow> nil_deref | Some i \<Rightarrow> Ret (istio_InstallationNamespace i)))"

text \<open>The body of the second loop: an installation namespace without an entry is a nil pointer.\<close>

definition add_mesh_by_install :: "mesh \<Rightarrow> ns_resource_map \<Rightarrow> ns_resource_map go" where
  "add_mesh_by_install m nsr =
     gbind (installationNamespaceOf m) (\<lambda>iNs.
     case map_of nsr iNs of
       None \<Rightarrow> nil_deref
     | Some r \<Rightarrow>
         Ret (AList.update iNs
           (r\<lparr>nsr_MeshesByInstallNs := nsr_MeshesByInstallNs r @ [Metadata_Ref (mesh_Metadata m)]\<rparr>) nsr))"

definition InitCache :: "string list go \<Rightarrow> cli_lists \<Rightarrow> options_cache go" where
  "InitCache namespaces ls =
     gbind namespaces (\<lambda>namespaces.
     gbind (gfold (prime_namespace ls) namespaces []) (\<lambda>nsr.
     gbind (gfold (\<lambda>ns nsr. gbind (ls_Meshes ls ns) (\<lambda>meshList. gfold add_mesh_by_install meshList nsr)) namespaces nsr) (\<lambda>nsr.
     Ret \<lparr>cache_Namespaces = namespaces, cache_NsResources = nsr\<rparr>)))"

subsection \<open>Pods\<close>

record pod_condition =
  pcond_IsReadyType :: bool
  pcond_IsTrue :: bool

record pod =
  pod_Name :: string
  pod_Succeeded :: bool
  pod_Conditions :: "pod_condition list"

text \<open>The loops ask the API server once a round; the answers are a list of results.\<close>

definition PodAppears :: "pod list go \<Rightarrow> string \<Rightarrow> bool" where
  "PodAppears pods podName =
     (case pods of Ret ps \<Rightarrow> (\<exists>pod \<in> set ps. strings_Contains (pod_Name pod) podName) | _ \<Rightarrow> False)"

definition LoopUntilPodAppears :: "(nat \<Rightarrow> pod list go) \<Rightarrow> string \<Rightarrow> bool" where
  "LoopUntilPodAppears pods podName = list_ex (\<lambda>i. PodAppears (pods i) podName) [0..<30]"

text \<open>The names are searched for the name of the pod.\<close>

definition AllPodsReadyOrSucceeded :: "pod list go \<Rightarrow> string list \<Rightarrow> bool" where
  "AllPodsReadyOrSucceeded pods podNames =
     (case pods of
        Ret ps \<Rightarrow>
          (\<forall>pod \<in> set ps.
             if 0 < length podNames \<and> \<not> ContainsSubstring podNames (pod_Name pod) then True
             else (\<forall>condition \<in> set (pod_Conditions pod).
               pod_Succeeded pod \<or> \<not> (pcond_IsReadyType condition \<and> \<not> pcond_IsTrue condition)))
      | _ \<Rightarrow> False)"

definition LoopUntilAllPodsReadyOrTimeout :: "(nat \<Rightarrow> pod list go) \<Rightarrow> string list \<Rightarrow> bool" where
  "LoopUntilAllPodsReadyOrTimeout pods podNames = list_ex (\<lambda>i. AllPodsReadyOrSucceeded (pods i) podNames) [0..<30]"

subsection \<open>Preparing the cluster\<close>

text \<open>
  What \<open>InitSupergloo\<close> runs and asks for: the pods of the first look, of the rounds of the two
  loops, and the outcomes of the two commands. It returns the namespaces that it asks the API server
  to create; the outcome of that is not looked at.
\<close>

record init_env =
  ie_firstPods :: "pod list go"
  ie_appearPods :: "nat \<Rightarrow> pod list go"
  ie_readyPods :: "nat \<Rightarrow> pod list go"
  ie_kubectlApply :: "unit go"
  ie_helmInit :: "unit go"

definition ensure_tiller :: "init_env \<Rightarrow> unit go" where
  "ensure_tiller env =
     (if \<not> PodAppears (ie_firstPods env) ''tiller'' then
        gbind (ie_kubectlApply env) (\<lambda>_.
        gbind (ie_helmInit env) (\<lambda>_.
        if \<not> LoopUntilPodAppears (ie_appearPods env) ''tiller'' then Fail (Errorf ''Tiller pod didn't get created'')
        else if \<not> LoopUntilAllPodsReadyOrTimeout (ie_readyPods env) [''tiller''] then Fail (Errorf ''Tiller pod was not ready.'')
        else Ret ()))
      else Ret ())"

definition InitSupergloo :: "init_env \<Rightarrow> options_cache option \<Rightarrow> string list go \<Rightarrow> cli_lists \<Rightarrow> string list go" where
  "InitSupergloo env cached namespaces ls =
     gbind (case cached of None \<Rightarrow> InitCache namespaces ls | Some cache \<Rightarrow> Ret cache) (\<lambda>cache.
     gbind (ensure_tiller env) (\<lambda>_.
     Ret (if \<not> cli_Contains (cache_Namespaces cache) SuperglooNamespace then [SuperglooNamespace] else [])))"

section \<open>Choosing and checking resources\<close>

definition select_menu_string :: "string \<Rightarrow> string \<Rightarrow> string" where
  "select_menu_string ns name = ns @ '', '' @ name"

record res_select =
  rs_displayName :: string
  rs_displayNamespace :: string
  rs_resourceRef :: resource_ref

text \<open>The menu entries, and the map from an entry to its resource: a later entry overwrites an equal one.\<close>

definition menu_of :: "(string \<times> res_select) list \<Rightarrow> string list \<times> (string \<times> res_select) list" where
  "menu_of entries = (map fst entries, fold (\<lambda>(k, v) m. AList.update k v m) entries [])"

definition generateMeshSelectOptions ::
  "(ns_resource_map \<Rightarrow> ns_resource_map) \<Rightarrow> ns_resource_map \<Rightarrow> string list \<times> (string \<times> res_select) list" where
  "generateMeshSelectOptions rng nsrMap =
     menu_of (concat (map (\<lambda>(installNs, nsr).
       map (\<lambda>meshRef. (select_menu_string installNs (ref_Name meshRef),
         \<lparr>rs_displayName = ref_Name meshRef, rs_displayNamespace = installNs, rs_resourceRef = meshRef\<rparr>))
         (nsr_MeshesByInstallNs nsr)) (rng nsrMap)))"

definition resArray :: "string \<Rightarrow> ns_resource \<Rightarrow> string list go" where
  "resArray typeName nsr =
     (if typeName = ''secret'' then Ret (nsr_Secrets nsr)
      else if typeName = ''upstream'' then Ret (nsr_Upstreams nsr)
      else Panic ''resource type %v not recognized'')"

definition generateCommonResourceSelectOptions ::
  "(ns_resource_map \<Rightarrow> ns_resource_map) \<Rightarrow> string \<Rightarrow> ns_resource_map \<Rightarrow>
   (string list \<times> (string \<times> res_select) list) go" where
  "generateCommonResourceSelectOptions rng typeName nsrMap =
     gbind (gmapM (\<lambda>(namespace, nsr). gbind (resArray typeName nsr) (\<lambda>names.
         Ret (map (\<lambda>res. (select_menu_string namespace res,
           \<lparr>rs_displayName = res, rs_displayNamespace = namespace, rs_resourceRef = ResourceRef namespace res\<rparr>)) names)))
       (rng nsrMap)) (\<lambda>entries. Ret (menu_of (concat entries)))"

text \<open>A choice that is no entry reads the zero value of the map.\<close>

definition chosen_ref :: "(string \<times> res_select) list \<Rightarrow> string \<Rightarrow> resource_ref" where
  "chosen_ref m choice = (case map_of m choice of None \<Rightarrow> ResourceRef [] [] | Some r \<Rightarrow> rs_resourceRef r)"

definition ChooseMesh :: "survey \<Rightarrow> (ns_resource_map \<Rightarrow> ns_resource_map) \<Rightarrow> ns_resource_map \<Rightarrow> resource_ref go" where
  "ChooseMesh ask rng nsr =
     (case generateMeshSelectOptions rng nsr of
        (meshOptions, meshMap) \<Rightarrow>
          if length meshOptions = 0 then Fail (Errorf ''No meshs found. Please create a mesh'')
          else gbind (survey_Select ask ''Select a mesh'' meshOptions) (\<lambda>choice. Ret (chosen_ref meshMap choice)))"

definition ChooseResource ::
  "survey \<Rightarrow> (ns_resource_map \<Rightarrow> ns_resource_map) \<Rightarrow> string \<Rightarrow> string \<Rightarrow> ns_resource_map \<Rightarrow> resource_ref go" where
  "ChooseResource ask rng typeName menuDescription nsr =
     gbind (generateCommonResourceSelectOptions rng typeName nsr) (\<lambda>(resOptions, resMap).
       if length resOptions = 0 then Fail (Errorf ''No %v found. Please create a %v'')
       else gbind (survey_Select ask (''Select a '' @ menuDescription) resOptions) (\<lambda>choice. Ret (chosen_ref resMap choice)))"

definition validateResourceRefForStaticMode ::
  "bool \<Rightarrow> options_cache \<Rightarrow> string \<Rightarrow> resource_ref \<Rightarrow> unit go" where
  "validateResourceRefForStaticMode static cache typeName resRef =
     (if \<not> static then Ret ()
      else if ref_Name resRef = [] then Fail (Errorf ''Please provide a %v name'')
      else if ref_Namespace resRef = [] then Fail (Errorf ''Please provide a %v namespace'')
      else if \<not> cli_Contains (cache_Namespaces cache) (ref_Namespace resRef)
        then Fail (Errorf ''Please specify a valid namespace. Namespace %v not found.'')
      else
        gbind
          (if typeName = ''mesh'' then ns_field (cache_NsResources cache) (ref_Namespace resRef) nsr_Meshes
           else if typeName = ''secret'' then ns_field (cache_NsResources cache) (ref_Namespace resRef) nsr_Secrets
           else if typeName = ''upstream'' then ns_field (cache_NsResources cache) (ref_Namespace resRef) nsr_Upstreams
           else Panic ''typename %v not recognized'') (\<lambda>names.
        if \<not> cli_Contains names (ref_Name resRef)
        then Fail (Errorf ''Please specify a valid %v name. %v not found in namespace %v.'') else Ret ()))"

text \<open>Both return the reference that the pointer points to afterwards.\<close>

definition EnsureMesh ::
  "survey \<Rightarrow> (ns_resource_map \<Rightarrow> ns_resource_map) \<Rightarrow> bool \<Rightarrow> options_cache \<Rightarrow> resource_ref \<Rightarrow> resource_ref go" where
  "EnsureMesh ask rng static cache meshRef =
     gbind (validateResourceRefForStaticMode static cache ''mesh'' meshRef) (\<lambda>_.
       if ref_Name meshRef = [] \<or> ref_Namespace meshRef = []
       then ChooseMesh ask rng (cache_NsResources cache) else Ret meshRef)"

definition EnsureCommonResource ::
  "survey \<Rightarrow> (ns_resource_map \<Rightarrow> ns_resource_map) \<Rightarrow> bool \<Rightarrow> options_cache \<Rightarrow> string \<Rightarrow> string \<Rightarrow> resource_ref \<Rightarrow>
   resource_ref go" where
  "EnsureCommonResource ask rng static cache typeName menuDescription resRef =
     gbind (validateResourceRefForStaticMode static cache typeName resRef) (\<lambda>_.
       if ref_Name resRef = [] \<or> ref_Namespace resRef = []
       then ChooseResource ask rng typeName menuDescription (cache_NsResources cache) else Ret resRef)"

definition ChooseNamespace :: "survey \<Rightarrow> options_cache \<Rightarrow> string \<Rightarrow> string go" where
  "ChooseNamespace ask cache message = survey_Select ask message (cache_Namespaces cache)"

definition ChooseBool :: "survey \<Rightarrow> string \<Rightarrow> bool go" where
  "ChooseBool ask message = gbind (survey_Select ask message [''yes'', ''no'']) (\<lambda>choice. Ret (choice = ''yes''))"

end
