(* ===== verification/Cli_Commands.thy ===== *)
theory Cli_Commands
  imports Cli_Cache Resource_Client
begin

text \<open>
  The commands that write resources: \<open>cli/pkg/cmd/create\<close> (routing rules and secrets),
  \<open>cli/pkg/cmd/meshtoolbox\<close> (mutual TLS and policies), \<open>cli/pkg/cmd/config/ca\<close>,
  \<open>cli/pkg/cmd/install\<close> and \<open>cli/pkg/cmd/uninstall\<close>.

  Each is the function that the command runs, on the values of its flags; what it prints is left
  out. What the user chooses, random names and files are parameters, and so is the outcome of getting
  each client, a failure at the place where the code gets it. Flags that no
  command reads (\<open>Filename\<close>, \<open>UseCustomSecret\<close>, \<open>MeshType\<close> of uninstall) have no field here. The
  \<open>mtls\<close> command is compiled out (\<open>DEV_MTLS = false\<close>); what it would run is modelled.
\<close>

fun amapM :: "('a \<Rightarrow> ('s, 'b) act) \<Rightarrow> 'a list \<Rightarrow> ('s, 'b list) act" where
  "amapM f [] = aret []"
| "amapM f (x # xs) = abind (f x) (\<lambda>y. abind (amapM f xs) (\<lambda>ys. aret (y # ys)))"

text \<open>What a command is run with: the static mode, the cache, the menus and the order of maps.\<close>

record cli_env =
  cli_Static :: bool
  cli_Cache :: options_cache
  cli_Survey :: survey
  cli_rng :: "ns_resource_map \<Rightarrow> ns_resource_map"

abbreviation ensure_mesh :: "cli_env \<Rightarrow> resource_ref \<Rightarrow> resource_ref go" where
  "ensure_mesh env \<equiv> EnsureMesh (cli_Survey env) (cli_rng env) (cli_Static env) (cli_Cache env)"

abbreviation ensure_resource :: "cli_env \<Rightarrow> string \<Rightarrow> string \<Rightarrow> resource_ref \<Rightarrow> resource_ref go" where
  "ensure_resource env \<equiv> EnsureCommonResource (cli_Survey env) (cli_rng env) (cli_Static env) (cli_Cache env)"

section \<open>Creating a routing rule\<close>

record routing_rule_opts =
  rro_Mesh :: string
  rro_Namespace :: string
  rro_Sources :: string
  rro_Destinations :: string
  rro_Matchers :: "string list option"
  rro_OverrideExisting :: bool

definition cli_toResourceRefs :: "upstream list \<Rightarrow> resource_ref list" where
  "cli_toResourceRefs upstreams =
     map (\<lambda>u. ResourceRef (meta_Namespace (upstream_Metadata u)) (meta_Name (upstream_Metadata u))) upstreams"

definition validateUpstreams :: "('u, upstream) client \<Rightarrow> string \<Rightarrow> ('u, upstream list) act" where
  "validateUpstreams client upstreamOption =
     amapM (\<lambda>u.
       case strings_Split u '':'' of
         [namespace, name] \<Rightarrow> client_Read client namespace name
       | _ \<Rightarrow> afail (Errorf ''invalid format for option: %v.'')) (strings_Split upstreamOption '','')"

definition ValidMatcherHttpMethods :: string where
  "ValidMatcherHttpMethods = ''GET|HEAD|POST|PUT|PATCH|DELETE|CONNECT|OPTIONS|TRACE''"

definition zero_matcher :: matcher where
  "zero_matcher = \<lparr>matcher_PathSpecifier = None, matcher_Headers = [], matcher_QueryParameters = [], matcher_Methods = []\<rparr>"

text \<open>
  One clause of a matcher. The methods are checked in upper case and kept as they are; a split
  list is never empty, so that an empty list of methods is nil.
\<close>

definition matcher_clause :: "string \<Rightarrow> matcher \<Rightarrow> matcher go" where
  "matcher_clause clause m =
     (case strings_Split clause ''='' of
        [matcherType, value] \<Rightarrow>
          (if matcherType = ''prefix'' then
             (if matcher_PathSpecifier m \<noteq> None then Fail (Errorf ''invalid format for option: %v.'')
              else Ret (m\<lparr>matcher_PathSpecifier := Some (Matcher_Prefix value)\<rparr>))
           else if matcherType = ''methods'' then
             (if matcher_Methods m \<noteq> [] then Fail (Errorf ''invalid format for option: %v.'')
              else
                (let methods = strings_Split value ''|''; validMethods = strings_Split ValidMatcherHttpMethods ''|'' in
                 if \<exists>method \<in> set methods. \<not> cli_Contains validMethods (strings_ToUpper method)
                 then Fail (Errorf ''invalid HTTP method: %v'')
                 else Ret (m\<lparr>matcher_Methods := methods\<rparr>)))
           else Fail (Errorf ''invalid format for option: %v.''))
      | _ \<Rightarrow> Fail (Errorf ''invalid format for option: %v.''))"

definition validateMatchers :: "string list \<Rightarrow> matcher list go" where
  "validateMatchers matcherOption =
     gmapM (\<lambda>matcher. gfold matcher_clause (strings_Split matcher '','') zero_matcher) matcherOption"

text \<open>The mesh and the namespace of the rule, checked or chosen.\<close>

definition rule_mesh :: "cli_env \<Rightarrow> routing_rule_opts \<Rightarrow> resource_ref go" where
  "rule_mesh env rrOpts =
     (let cache = cli_Cache env; ns = rro_Namespace rrOpts in
      if cli_Static env \<and> ns = [] then Fail (Errorf ''Please specify a mesh namespace'')
      else if cli_Static env \<and> rro_Mesh rrOpts = [] then Fail (Errorf ''Please specify a mesh'')
      else
        gbind
          (if ns \<noteq> [] then
             (if \<not> cli_Contains (cache_Namespaces cache) ns
              then Fail (Errorf ''Please specify a valid mesh namespace. Namespace %v not found'')
              else
                gbind (ns_field (cache_NsResources cache) ns nsr_Meshes) (\<lambda>meshes.
                  if length meshes = 0
                  then Fail (Errorf ''Please choose a namespace with meshes. Namespace %v contains no meshes.'')
                  else Ret ()))
           else Ret ()) (\<lambda>_.
        if rro_Mesh rrOpts = [] then
          (case ChooseMesh (cli_Survey env) (cli_rng env) (cache_NsResources cache) of
             Ret meshRef \<Rightarrow> Ret meshRef
           | Fail _ \<Rightarrow> Fail (Errorf ''input error'')
           | Panic p \<Rightarrow> Panic p)
        else
          gbind (ns_field (cache_NsResources cache) ns nsr_Meshes) (\<lambda>meshes.
            if \<not> cli_Contains meshes (rro_Mesh rrOpts)
            then Fail (Errorf ''Please specify a valid mesh name. Mesh %v not found in namespace %v not found'')
            else Ret (ResourceRef ns (rro_Mesh rrOpts)))))"

text \<open>The upstreams of the destinations are assigned to the sources, as in the code.\<close>

definition createRoutingRule ::
  "cli_env \<Rightarrow> ('u, upstream) client go \<Rightarrow> ('r, routing_rule) client go \<Rightarrow> string \<Rightarrow> routing_rule_opts \<Rightarrow> ('u \<times> 'r, unit) act"
where
  "createRoutingRule env upstreamClient rrClient routeName rrOpts =
     abind (alift (rule_mesh env rrOpts)) (\<lambda>meshRef.
     abind (alift upstreamClient) (\<lambda>upstreamClient.
     abind (if rro_Sources rrOpts \<noteq> []
            then on_fst (validateUpstreams upstreamClient (rro_Sources rrOpts)) else aret []) (\<lambda>sources.
     abind (if rro_Destinations rrOpts \<noteq> []
            then on_fst (validateUpstreams upstreamClient (rro_Destinations rrOpts)) else aret sources) (\<lambda>sources.
     let destinations = [] in
     abind (case rro_Matchers rrOpts of
              None \<Rightarrow> aret None
            | Some ms \<Rightarrow> abind (alift (validateMatchers ms)) (\<lambda>r. aret (Some r))) (\<lambda>matchers.
     let routingRule =
       \<lparr>rr_Status = zero_status, rr_Metadata = new_metadata (ref_Namespace meshRef) routeName,
        rr_TargetMesh = Some (ResourceRef (ref_Namespace meshRef) (ref_Name meshRef)),
        rr_Sources = cli_toResourceRefs sources, rr_Destinations = cli_toResourceRefs destinations,
        rr_RequestMatchers = matchers, rr_TrafficShifting = None, rr_FaultInjection = None, rr_Timeout = None,
        rr_Retries = None, rr_CorsPolicy = None, rr_Mirror = None, rr_HeaderManipulaition = None\<rparr> in
     abind (alift rrClient) (\<lambda>rrClient.
     abind (on_snd (client_Write rrClient routingRule (rro_OverrideExisting rrOpts))) (\<lambda>_. aret ())))))))"

section \<open>Creating a secret\<close>

record secret_opts =
  so_RootCa :: string
  so_PrivateKey :: string
  so_CertChain :: string
  so_Namespace :: string

definition validateSecretArgs :: "cli_env \<Rightarrow> secret_opts \<Rightarrow> unit go" where
  "validateSecretArgs env sOpts =
     (if cli_Static env \<and> so_Namespace sOpts = [] then Fail (Errorf ''please provide a namespace for the secret'')
      else if so_Namespace sOpts \<noteq> [] \<and> \<not> cli_Contains (cache_Namespaces (cli_Cache env)) (so_Namespace sOpts)
        then Fail (Errorf ''please provide a valid namespace for the secret. %v does not exist'')
      else Ret ())"

definition gatherSecretArgs :: "cli_env \<Rightarrow> secret_opts \<Rightarrow> secret_opts go" where
  "gatherSecretArgs env sOpts =
     (if cli_Static env then Ret sOpts
      else if so_Namespace sOpts = [] then
        (case ChooseNamespace (cli_Survey env) (cli_Cache env) ''Select a namespace'' of
           Ret namespace \<Rightarrow> Ret (sOpts\<lparr>so_Namespace := namespace\<rparr>)
         | Fail _ \<Rightarrow> Fail (Errorf ''input error'')
         | Panic p \<Rightarrow> Panic p)
      else Ret sOpts)"

fun greplace :: "string \<Rightarrow> 'a go \<Rightarrow> 'a go" where
  "greplace msg (Fail e) = Fail (Errorf msg)"
| "greplace msg r = r"

definition createSecret ::
  "(string \<Rightarrow> string go) \<Rightarrow> ('s, istio_cacerts_secret) client go \<Rightarrow> string \<Rightarrow> secret_opts \<Rightarrow> ('s, unit) act" where
  "createSecret readFile secretClient name sOpts =
     abind (alift (greplace ''Error while reading rootca file: %v'' (readFile (so_RootCa sOpts)))) (\<lambda>rootCa.
     abind (alift (greplace ''Error while reading private key file: %v'' (readFile (so_PrivateKey sOpts)))) (\<lambda>privateKey.
     abind (alift (greplace ''Error while reading certchain file: %v'' (readFile (so_CertChain sOpts)))) (\<lambda>certChain.
     let secret = \<lparr>cacerts_Metadata = new_metadata (so_Namespace sOpts) name, cacerts_RootCert = rootCa,
       cacerts_CertChain = certChain, cacerts_CaCert = rootCa, cacerts_CaKey = privateKey\<rparr> in
     abind (alift secretClient) (\<lambda>secretClient.
     abind (client_Write secretClient secret False) (\<lambda>_. aret ())))))"

definition SecretCmd ::
  "cli_env \<Rightarrow> (string \<Rightarrow> string go) \<Rightarrow> ('s, istio_cacerts_secret) client go \<Rightarrow> string \<Rightarrow> secret_opts \<Rightarrow> ('s, unit) act" where
  "SecretCmd env readFile secretClient name sOpts =
     abind (alift (validateSecretArgs env sOpts)) (\<lambda>_.
     abind (alift (gatherSecretArgs env sOpts)) (\<lambda>sOpts.
     createSecret readFile secretClient name sOpts))"

section \<open>Mutual TLS\<close>

datatype mtls_operation = ENABLE_MTLS | DISABLE_MTLS | TOGGLE_MTLS

definition set_tls :: "mtls_operation \<Rightarrow> encryption option \<Rightarrow> encryption" where
  "set_tls operation e =
     (case operation of
        ENABLE_MTLS \<Rightarrow>
          (case e of None \<Rightarrow> \<lparr>enc_TlsEnabled = True, enc_Secret = None\<rparr> | Some e \<Rightarrow> e\<lparr>enc_TlsEnabled := True\<rparr>)
      | DISABLE_MTLS \<Rightarrow>
          (case e of None \<Rightarrow> \<lparr>enc_TlsEnabled = False, enc_Secret = None\<rparr> | Some e \<Rightarrow> e\<lparr>enc_TlsEnabled := False\<rparr>)
      | TOGGLE_MTLS \<Rightarrow>
          (case e of None \<Rightarrow> \<lparr>enc_TlsEnabled = True, enc_Secret = None\<rparr>
           | Some e \<Rightarrow> e\<lparr>enc_TlsEnabled := \<not> enc_TlsEnabled e\<rparr>))"

definition updateMtls :: "cli_env \<Rightarrow> ('m, mesh) client go \<Rightarrow> mtls_operation \<Rightarrow> resource_ref \<Rightarrow> ('m, mesh) act" where
  "updateMtls env meshClient operation meshRef =
     abind (alift (ensure_mesh env meshRef)) (\<lambda>meshRef.
     abind (alift meshClient) (\<lambda>meshClient.
     abind (client_Read meshClient (ref_Namespace meshRef) (ref_Name meshRef)) (\<lambda>mesh.
     client_Write meshClient (mesh\<lparr>mesh_Encryption := Some (set_tls operation (mesh_Encryption mesh))\<rparr>) True)))"

section \<open>Policies\<close>

datatype policy_operation = ADD_POLICY | REMOVE_POLICY | CLEAR_POLICIES

record policy_opts =
  po_Source :: resource_ref
  po_Destination :: resource_ref

definition ensureCommonPolicyFlags ::
  "cli_env \<Rightarrow> policy_operation \<Rightarrow> resource_ref \<Rightarrow> policy_opts \<Rightarrow> (resource_ref \<times> policy_opts) go" where
  "ensureCommonPolicyFlags env operation meshRef po =
     gbind (ensure_mesh env meshRef) (\<lambda>meshRef.
       if operation = ADD_POLICY \<or> operation = REMOVE_POLICY then
         gbind (ensure_resource env ''upstream'' ''policy source'' (po_Source po)) (\<lambda>sOp.
         gbind (ensure_resource env ''upstream'' ''policy destination'' (po_Destination po)) (\<lambda>dOp.
         Ret (meshRef, \<lparr>po_Source = sOp, po_Destination = dOp\<rparr>)))
       else Ret (meshRef, po))"

text \<open>
  The condition of the removal reads the rules of the policy only when the policy is nil, which
  panics; what comes after it is never reached.
\<close>

definition update_rules :: "policy_operation \<Rightarrow> policy_opts \<Rightarrow> policy option \<Rightarrow> policy go" where
  "update_rules operation po p =
     (case operation of
        ADD_POLICY \<Rightarrow>
          (let newRule = \<lparr>rule_Source = Some (po_Source po), rule_Destination = Some (po_Destination po)\<rparr> in
           case p of
             None \<Rightarrow> Ret \<lparr>policy_Rules = [newRule]\<rparr>
           | Some q \<Rightarrow> Ret (q\<lparr>policy_Rules := policy_Rules q @ [newRule]\<rparr>))
      | REMOVE_POLICY \<Rightarrow>
          (case p of
             Some q \<Rightarrow> Fail (Errorf ''There are no policy rules to remove.'')
           | None \<Rightarrow> nil_deref)
      | CLEAR_POLICIES \<Rightarrow> Ret \<lparr>policy_Rules = []\<rparr>)"

definition updatePolicy ::
  "cli_env \<Rightarrow> ('m, mesh) client go \<Rightarrow> policy_operation \<Rightarrow> resource_ref \<Rightarrow> policy_opts \<Rightarrow> ('m, unit) act" where
  "updatePolicy env meshClient operation meshRef po =
     abind (alift (ensureCommonPolicyFlags env operation meshRef po)) (\<lambda>(meshRef, po).
     abind (alift meshClient) (\<lambda>meshClient.
     abind (client_Read meshClient (ref_Namespace meshRef) (ref_Name meshRef)) (\<lambda>mesh.
     abind (alift (update_rules operation po (mesh_Policy mesh))) (\<lambda>p.
     abind (client_Write meshClient (mesh\<lparr>mesh_Policy := Some p\<rparr>) True) (\<lambda>_. aret ())))))"

section \<open>The certificate authority\<close>

text \<open>The secret is stored through the pointer, which panics when it is nil.\<close>

definition configureCa ::
  "cli_env \<Rightarrow> ('m, mesh) client go \<Rightarrow> resource_ref \<Rightarrow> resource_ref \<Rightarrow> ('m, unit) act" where
  "configureCa env meshClient meshRef secretRef =
     abind (alift (ensure_mesh env meshRef)) (\<lambda>meshRef.
     abind (alift (ensure_resource env ''secret'' ''secret'' secretRef)) (\<lambda>secretRef.
     abind (alift meshClient) (\<lambda>meshClient.
     abind (client_Read meshClient (ref_Namespace meshRef) (ref_Name meshRef)) (\<lambda>mesh.
     case mesh_Encryption mesh of
       None \<Rightarrow> alift nil_deref
     | Some e \<Rightarrow>
         if \<not> enc_TlsEnabled e
         then afail (Errorf ''TLS is not enabled on mesh %v. You must first enable TLS before configuring CA.'')
         else
           (case enc_Secret e of
              None \<Rightarrow> alift nil_deref
            | Some _ \<Rightarrow>
                abind (client_Write meshClient
                  (mesh\<lparr>mesh_Encryption := Some (e\<lparr>enc_Secret := Some secretRef\<rparr>)\<rparr>) True) (\<lambda>_. aret ()))))))"

section \<open>Installing\<close>

record install_opts =
  io_MeshType :: string
  io_Namespace :: string
  io_Mtls :: bool
  io_SecretRef :: resource_ref
  io_WatchNamespaces :: "string list"
  io_ConsulServerAddress :: string

definition getMetadataFromOpts :: "string \<Rightarrow> install_opts \<Rightarrow> metadata" where
  "getMetadataFromOpts random iop = new_metadata SuperglooNamespace (io_MeshType iop @ ''-'' @ random)"

definition getEncryptionFromOpts :: "install_opts \<Rightarrow> encryption option" where
  "getEncryptionFromOpts iop =
     (if io_Mtls iop then Some \<lparr>enc_TlsEnabled = io_Mtls iop, enc_Secret = None\<rparr>
      else Some \<lparr>enc_TlsEnabled = False, enc_Secret = None\<rparr>)"

definition input_error :: "'a go \<Rightarrow> 'a go" where
  "input_error r = greplace ''input error'' r"

text \<open>The static checks, and the questions of the interactive mode, one after the other.\<close>

definition qualify_static :: "install_opts \<Rightarrow> install_opts go" where
  "qualify_static iop =
     (if io_Namespace iop = [] then Fail (Errorf ''please provide a namespace'')
      else if io_MeshType iop = [] then Fail (Errorf ''please provide a mesh type'')
      else if ref_Namespace (io_SecretRef iop) \<noteq> [] \<and> ref_Name (io_SecretRef iop) = []
        then Fail (Errorf ''please specify a secret name to use mTLS'')
      else if ref_Name (io_SecretRef iop) \<noteq> [] \<and> ref_Namespace (io_SecretRef iop) = []
        then Fail (Errorf ''please specify a secret namespace to use mTLS'')
      else Ret iop)"

definition qualifyFlags :: "cli_env \<Rightarrow> install_opts \<Rightarrow> install_opts go" where
  "qualifyFlags env iop =
     (if cli_Static env then qualify_static iop
      else
        gbind (if io_MeshType iop = []
               then gbind (input_error (survey_Select (cli_Survey env) ''Select a mesh type'' [''istio'', ''consul'', ''linkerd2'']))
                 (\<lambda>t. Ret (iop\<lparr>io_MeshType := t\<rparr>))
               else Ret iop) (\<lambda>iop.
        gbind (if io_Namespace iop = []
               then gbind (input_error (ChooseNamespace (cli_Survey env) (cli_Cache env) ''Select an installation namespace''))
                 (\<lambda>ns. Ret (iop\<lparr>io_Namespace := ns\<rparr>))
               else Ret iop) (\<lambda>iop.
        gbind (if cli_Contains [''istio'', ''linkerd2''] (io_MeshType iop)
               then gbind (input_error (survey_MultiSelect (cli_Survey env) ''Which namespaces should this mesh watch:''
                   (cache_Namespaces (cli_Cache env)))) (\<lambda>ws. Ret (iop\<lparr>io_WatchNamespaces := ws\<rparr>))
               else Ret iop) (\<lambda>iop.
        gbind (input_error (ChooseBool (cli_Survey env) ''use mTLS?'')) (\<lambda>mtls.
        let iop = iop\<lparr>io_Mtls := mtls\<rparr> in
        if io_Mtls iop then
          gbind (input_error (ChooseBool (cli_Survey env) ''use custom secret?'')) (\<lambda>useCustomSecret.
            if useCustomSecret then
              gbind (ensure_resource env ''secret'' ''secret'' (io_SecretRef iop)) (\<lambda>ref. Ret (iop\<lparr>io_SecretRef := ref\<rparr>))
            else Ret iop)
        else Ret iop)))))"

definition install_spec :: "string \<Rightarrow> install_opts \<Rightarrow> mesh_type \<Rightarrow> string \<Rightarrow> install" where
  "install_spec random iop meshType path =
     \<lparr>install_Status = zero_status, install_Metadata = getMetadataFromOpts random iop,
      install_MeshType = Some meshType, install_ChartLocator = Some (Some (ChartPath path)),
      install_Encryption = getEncryptionFromOpts iop, install_Enabled = None\<rparr>"

definition generateConsulInstallSpecFromOpts :: "string \<Rightarrow> install_opts \<Rightarrow> install" where
  "generateConsulInstallSpecFromOpts random iop =
     install_spec random iop
       (Mesh_Consul (Some \<lparr>consul_InstallationNamespace = io_Namespace iop, consul_ServerAddress = io_ConsulServerAddress iop,
          consul_PrometheusConfigmap = None\<rparr>))
       ''https://s3.amazonaws.com/supergloo.solo.io/consul.tar.gz''"

definition generateIstioInstallSpecFromOpts :: "string \<Rightarrow> install_opts \<Rightarrow> install" where
  "generateIstioInstallSpecFromOpts random iop =
     install_spec random iop
       (Mesh_Istio (Some \<lparr>istio_InstallationNamespace = io_Namespace iop, istio_WatchNamespaces = io_WatchNamespaces iop,
          istio_PrometheusConfigmap = None\<rparr>))
       ''https://s3.amazonaws.com/supergloo.solo.io/istio-1.0.3.tgz''"

definition generateLinkerd2InstallSpecFromOpts :: "string \<Rightarrow> install_opts \<Rightarrow> install" where
  "generateLinkerd2InstallSpecFromOpts random iop =
     install_spec random iop
       (Mesh_Linkerd2 (Some \<lparr>linkerd2_InstallationNamespace = io_Namespace iop,
          linkerd2_WatchNamespaces = io_WatchNamespaces iop, linkerd2_PrometheusConfigmap = None\<rparr>))
       ''https://s3.amazonaws.com/supergloo.solo.io/linkerd2-0.1.1.tgz''"

text \<open>With a mesh type of none of the three the spec is nil, and writing it panics. The result is what the summary prints.\<close>

definition cli_install ::
  "cli_env \<Rightarrow> ('i, install) client go \<Rightarrow> string \<Rightarrow> install_opts \<Rightarrow> ('i, install_opts) act" where
  "cli_install env installClient random iop =
     abind (alift (qualifyFlags env iop)) (\<lambda>iop.
     abind (alift installClient) (\<lambda>installClient.
     let installSpec =
       (if io_MeshType iop = ''consul'' then Some (generateConsulInstallSpecFromOpts random iop)
        else if io_MeshType iop = ''istio'' then Some (generateIstioInstallSpecFromOpts random iop)
        else if io_MeshType iop = ''linkerd2'' then Some (generateLinkerd2InstallSpecFromOpts random iop)
        else None) in
     case installSpec of
       None \<Rightarrow> alift nil_deref
     | Some spec \<Rightarrow> abind (client_Write installClient spec False) (\<lambda>_. aret iop)))"

section \<open>Uninstalling\<close>

record uninstall_opts =
  uo_All :: bool
  uo_MeshNames :: string

definition activeMeshInstalls :: "install list \<Rightarrow> string list" where
  "activeMeshInstalls installList =
     map (\<lambda>v. meta_Name (install_Metadata v))
       (filter (\<lambda>v. install_Enabled v = None \<or> install_Enabled v = Some True) installList)"

definition fmtNameList :: "string \<Rightarrow> string list" where
  "fmtNameList names = strings_Split (strings_Replace names '' '' []) '',''"

text \<open>Each name of the list is checked by looking up the whole option.\<close>

definition staticArgParse :: "('i, install) client \<Rightarrow> uninstall_opts \<Rightarrow> ('i, string list) act" where
  "staticArgParse installClient uop =
     abind (areplace ''unable to retrieve list of installed meshes'' (client_List installClient SuperglooNamespace []))
       (\<lambda>installList.
     if \<not> uo_All uop then
       if uo_MeshNames uop = [] then afail (Errorf ''please provide at least one mesh name'')
       else
         (let meshesToDelete = fmtNameList (uo_MeshNames uop) in
          if length meshesToDelete < 1 then afail (Errorf ''no names supplied, or names incorrectly formatted'')
          else
            abind (aforeach (\<lambda>name. areplace ''supplied mesh name (%s) could not be found''
              (abind (alift (list_Find install_Metadata SuperglooNamespace (uo_MeshNames uop) installList)) (\<lambda>_. aret ())))
              meshesToDelete) (\<lambda>_.
            aret meshesToDelete))
     else aret (activeMeshInstalls installList))"

text \<open>The two menus of the interactive mode are parameters.\<close>

definition dynamicArgParse ::
  "('i, install) client \<Rightarrow> bool go \<Rightarrow> (string list \<Rightarrow> string list go) \<Rightarrow> ('i, string list) act" where
  "dynamicArgParse installClient deleteAllMeshes selectMeshByName =
     abind (areplace ''unable to retrieve list of installed meshes'' (client_List installClient SuperglooNamespace []))
       (\<lambda>installList.
     abind (alift deleteAllMeshes) (\<lambda>deleteAll.
     if \<not> deleteAll
     then alift (greplace ''unable to select list of mesh names'' (selectMeshByName (activeMeshInstalls installList)))
     else aret (activeMeshInstalls installList)))"

definition updateMeshInstall :: "('i, install) client \<Rightarrow> install \<Rightarrow> ('i, unit) act" where
  "updateMeshInstall installClient installCrd =
     abind (client_Write installClient (installCrd\<lparr>install_Enabled := Some False\<rparr>) True) (\<lambda>_. aret ())"

text \<open>The error of the listing is looked at after the loop, over whatever list came with it.\<close>

definition uninstallMeshes :: "('i, install) client \<Rightarrow> string list \<Rightarrow> ('i, unit) act" where
  "uninstallMeshes installClient meshList =
     abind (atry (client_List installClient SuperglooNamespace [])) (\<lambda>r.
     let installList = (case r of Inl _ \<Rightarrow> [] | Inr l \<Rightarrow> l) in
     abind (aforeach (\<lambda>v.
       abind (areplace ''unable to fetch CRD for (%s)''
         (alift (list_Find install_Metadata SuperglooNamespace v installList))) (\<lambda>installCrd.
       areplace ''unable to update CRD for (%s)'' (updateMeshInstall installClient installCrd))) meshList) (\<lambda>_.
     case r of Inl e \<Rightarrow> afail e | Inr _ \<Rightarrow> aret ()))"

definition cli_uninstall ::
  "bool \<Rightarrow> ('i, install) client \<Rightarrow> bool go \<Rightarrow> (string list \<Rightarrow> string list go) \<Rightarrow> uninstall_opts \<Rightarrow> ('i, unit) act" where
  "cli_uninstall static installClient deleteAllMeshes selectMeshByName uop =
     abind (areplace ''unable to retrieve list of install CRDs'' (client_List installClient SuperglooNamespace []))
       (\<lambda>installList.
     if length (activeMeshInstalls installList) < 1 then afail (Errorf ''no meshes currently installed'')
     else
       abind (if static then staticArgParse installClient uop
              else dynamicArgParse installClient deleteAllMeshes selectMeshByName) (\<lambda>meshesToDelete.
       uninstallMeshes installClient meshesToDelete))"

end
