(* ===== verification/Cli_Info.thy ===== *)
theory Cli_Info
  imports Cli_Commands
begin

text \<open>
  The command that displays resources: \<open>cli/pkg/cmd/get/get.go\<close> and \<open>cli/pkg/cmd/get/info\<close>.
  The clients are parameters; the table that is printed is the result.
\<close>

section \<open>Tables\<close>

record header =
  hdr_Name :: string
  hdr_WideOnly :: bool
  hdr_Multiline :: bool

type_synonym row = "(string \<times> string) list"

record resource_info =
  info_headers :: "header list"
  info_data :: "row list"

definition info_Headers :: "string \<Rightarrow> resource_info \<Rightarrow> string list" where
  "info_Headers output info =
     map hdr_Name (filter (\<lambda>h. \<not> hdr_WideOnly h \<or> output = ''wide'') (info_headers info))"

definition info_Resources :: "string \<Rightarrow> resource_info \<Rightarrow> string list list" where
  "info_Resources output info =
     (let includedHeaders = info_Headers output info in
      map (\<lambda>fieldMap. map (\<lambda>h. case map_of fieldMap h of None \<Rightarrow> [] | Some val \<Rightarrow> val) includedHeaders) (info_data info))"

section \<open>Meshes\<close>

definition meshHeaders :: "header list" where
  "meshHeaders =
     [\<lparr>hdr_Name = ''NAME'', hdr_WideOnly = False, hdr_Multiline = False\<rparr>,
      \<lparr>hdr_Name = ''NAMESPACE'', hdr_WideOnly = False, hdr_Multiline = False\<rparr>,
      \<lparr>hdr_Name = ''TARGET-MESH'', hdr_WideOnly = False, hdr_Multiline = False\<rparr>,
      \<lparr>hdr_Name = ''STATUS'', hdr_WideOnly = False, hdr_Multiline = False\<rparr>,
      \<lparr>hdr_Name = ''ENCRYPTION'', hdr_WideOnly = True, hdr_Multiline = False\<rparr>]"

definition info_getMeshType :: "mesh \<Rightarrow> (string \<times> string) go" where
  "info_getMeshType mesh =
     (case mesh_MeshType mesh of
        None \<Rightarrow> Ret ([], [])
      | Some (Mesh_Istio x) \<Rightarrow> (case x of None \<Rightarrow> nil_deref | Some i \<Rightarrow> Ret (''istio'', istio_InstallationNamespace i))
      | Some (Mesh_Consul x) \<Rightarrow> (case x of None \<Rightarrow> nil_deref | Some c \<Rightarrow> Ret (''consul'', consul_InstallationNamespace c))
      | Some (Mesh_Linkerd2 x) \<Rightarrow>
          (case x of None \<Rightarrow> nil_deref | Some l \<Rightarrow> Ret (''linkerd2'', linkerd2_InstallationNamespace l)))"

definition Status_State_name :: "status_state \<Rightarrow> string" where
  "Status_State_name s =
     (case s of Status_Pending \<Rightarrow> ''Pending'' | Status_Accepted \<Rightarrow> ''Accepted'' | Status_Rejected \<Rightarrow> ''Rejected'')"

text \<open>The encryption of a mesh is read without a nil check.\<close>

definition transformMesh :: "mesh \<Rightarrow> row go" where
  "transformMesh mesh =
     gbind (info_getMeshType mesh) (\<lambda>(target, namespace).
     case mesh_Encryption mesh of
       None \<Rightarrow> nil_deref
     | Some e \<Rightarrow>
         Ret [(''NAME'', meta_Name (mesh_Metadata mesh)), (''TARGET-MESH'', target), (''NAMESPACE'', namespace),
              (''STATUS'', Status_State_name (status_State (mesh_Status mesh))),
              (''ENCRYPTION'', strconv_FormatBool (enc_TlsEnabled e))])"

definition FromMesh :: "mesh \<Rightarrow> resource_info go" where
  "FromMesh mesh = gbind (transformMesh mesh) (\<lambda>d. Ret \<lparr>info_headers = meshHeaders, info_data = [d]\<rparr>)"

definition FromMeshList :: "mesh list \<Rightarrow> resource_info go" where
  "FromMeshList l = gbind (gmapM transformMesh l) (\<lambda>d. Ret \<lparr>info_headers = meshHeaders, info_data = d\<rparr>)"

section \<open>Routing rules\<close>

definition routingRuleHeaders :: "header list" where
  "routingRuleHeaders =
     [\<lparr>hdr_Name = ''NAME'', hdr_WideOnly = False, hdr_Multiline = False\<rparr>,
      \<lparr>hdr_Name = ''TARGET-MESH'', hdr_WideOnly = False, hdr_Multiline = False\<rparr>,
      \<lparr>hdr_Name = ''SOURCES'', hdr_WideOnly = True, hdr_Multiline = False\<rparr>,
      \<lparr>hdr_Name = ''DESTINATIONS'', hdr_WideOnly = True, hdr_Multiline = False\<rparr>,
      \<lparr>hdr_Name = ''MATCHERS'', hdr_WideOnly = True, hdr_Multiline = False\<rparr>]"

text \<open>The loop writes a separator after every reference but the last.\<close>

fun info_getUpstreams :: "resource_ref list \<Rightarrow> string" where
  "info_getUpstreams [] = []"
| "info_getUpstreams (ref # refs) =
     ref_Namespace ref @ '':'' @ ref_Name ref @ (if refs \<noteq> [] then '','' else []) @ info_getUpstreams refs"

definition matcher_text :: "matcher \<Rightarrow> string" where
  "matcher_text m =
     (let clauses =
        (case matcher_PathSpecifier m of Some (Matcher_Prefix p) \<Rightarrow> [''prefix='' @ p] | _ \<Rightarrow> []) @
        (if matcher_Methods m \<noteq> [] then [''methods='' @ strings_Join (matcher_Methods m) ''|''] else [])
      in strings_Join clauses '','')"

definition info_getMatchers :: "matcher list \<Rightarrow> string" where
  "info_getMatchers matchers = strings_Join (map matcher_text matchers) '' && ''"

definition info_transform :: "routing_rule \<Rightarrow> row go" where
  "info_transform routingRule =
     (case rr_TargetMesh routingRule of
        None \<Rightarrow> nil_deref
      | Some target \<Rightarrow>
          Ret [(''NAME'', meta_Name (rr_Metadata routingRule)), (''TARGET-MESH'', ref_Name target),
               (''SOURCES'', info_getUpstreams (rr_Sources routingRule)),
               (''DESTINATIONS'', info_getUpstreams (rr_Destinations routingRule)),
               (''MATCHERS'', info_getMatchers (case rr_RequestMatchers routingRule of None \<Rightarrow> [] | Some ms \<Rightarrow> ms))])"

definition FromRoutingRule :: "routing_rule \<Rightarrow> resource_info go" where
  "FromRoutingRule routingRule =
     gbind (info_transform routingRule) (\<lambda>d. Ret \<lparr>info_headers = routingRuleHeaders, info_data = [d]\<rparr>)"

definition FromRoutingRuleList :: "routing_rule list \<Rightarrow> resource_info go" where
  "FromRoutingRuleList l =
     gbind (gmapM info_transform l) (\<lambda>d. Ret \<lparr>info_headers = routingRuleHeaders, info_data = d\<rparr>)"

section \<open>The command\<close>

text \<open>The client has the names of the definitions in the cluster and the two typed clients.\<close>

record ('m, 'r) info_client =
  ic_CrdNames :: "string list go"
  ic_meshClient :: "('m, mesh) client"
  ic_routingRulesClient :: "('r, routing_rule) client"

definition ListResourceTypes :: "('m, 'r) info_client \<Rightarrow> string list go" where
  "ListResourceTypes client =
     gbind (greplace ''Error retrieving supergloo resource types. Cause: %v'' (ic_CrdNames client)) (\<lambda>crdList.
       Ret (map (\<lambda>name. hd (strings_Split name ''.'')) (filter (\<lambda>name. strings_Contains name ''supergloo.solo.io'') crdList)))"

definition ListResources :: "('m, 'r) info_client \<Rightarrow> string \<Rightarrow> string \<Rightarrow> ('m \<times> 'r, resource_info) act" where
  "ListResources client resourceType resourceName =
     (if resourceType = ''meshes'' then
        (if resourceName = []
         then abind (on_fst (client_List (ic_meshClient client) SuperglooNamespace [])) (\<lambda>l. alift (FromMeshList l))
         else abind (on_fst (client_Read (ic_meshClient client) SuperglooNamespace resourceName)) (\<lambda>m. alift (FromMesh m)))
      else if resourceType = ''routingrules'' then
        (if resourceName = []
         then abind (on_snd (client_List (ic_routingRulesClient client) ''default'' [])) (\<lambda>l. alift (FromRoutingRuleList l))
         else abind (on_snd (client_Read (ic_routingRulesClient client) ''default'' resourceName)) (\<lambda>r.
           alift (FromRoutingRule r)))
      else afail (Errorf ''the server doesn't have a resource type''))"

definition supportedOutputFormats :: "string list" where
  "supportedOutputFormats = [''wide'']"

text \<open>The lines of the table: the headers, then one line for each resource.\<close>

definition getResource ::
  "('m, 'r) info_client go \<Rightarrow> string \<Rightarrow> string \<Rightarrow> string \<Rightarrow> ('m \<times> 'r, string list list) act" where
  "getResource infoClient resourceType resourceName output =
     abind (alift infoClient) (\<lambda>infoClient.
     abind (alift (ListResourceTypes infoClient)) (\<lambda>resourceTypes.
     if \<not> cli_Contains resourceTypes resourceType then afail (Errorf ''the server doesn't have a resource type'')
     else
       abind (ListResources infoClient resourceType resourceName) (\<lambda>resourceInfo.
       aret (info_Headers output resourceInfo # info_Resources output resourceInfo))))"

definition cli_get :: "('m, 'r) info_client go \<Rightarrow> string list \<Rightarrow> string \<Rightarrow> ('m \<times> 'r, string list list) act" where
  "cli_get infoClient args output =
     (if output \<noteq> [] \<and> \<not> cli_Contains supportedOutputFormats output
      then afail (Errorf ''unknown output format'')
      else
        (case args of
           [resourceType] \<Rightarrow> getResource infoClient resourceType [] output
         | resourceType # resourceName # _ \<Rightarrow> getResource infoClient resourceType resourceName output
         | [] \<Rightarrow> afail (Errorf ''accepts between 1 and 2 arg(s)'')))"

end
