(* ===== verification/Cli_Clients.thy ===== *)
theory Cli_Clients
  imports Cli_Info Typed_Kinds
begin

text \<open>
  How the command line gets its clients (\<open>cli/pkg/common/clients.go\<close>, \<open>NewClient\<close> of
  \<open>cli/pkg/cmd/get/info/client.go\<close>), and the check of the arguments of the mtls command
  (\<open>cli/pkg/cmd/meshtoolbox/mtls/root.go\<close>). The Kubernetes libraries are parameters: the configuration,
  the client set, and the factories of base clients, one per custom resource definition and one for secrets.
\<close>

record ('cfg, 'cs, 'crd, 's) kube_env =
  ke_GetConfig :: "'cfg go"
  ke_NewForConfig :: "'cfg \<Rightarrow> 'cs go"
  ke_Factory :: "string \<Rightarrow> 'cfg \<Rightarrow> ('s, any_resource) base_client go"
  ke_SecretFactory :: "'cs option \<Rightarrow> ('s, any_resource) base_client go"
  ke_ApiExtensions :: "'cfg \<Rightarrow> 'crd go"

definition KubeConfigError :: string where
  "KubeConfigError = ''Error retrieving Kubernetes configuration: %v '' @ [CHR 0x0A]"

definition GetKubernetesConfig :: "('cfg, 'cs, 'crd, 's) kube_env \<Rightarrow> 'cfg go" where
  "GetKubernetesConfig env = greplace KubeConfigError (ke_GetConfig env)"

definition GetKubernetesClient :: "('cfg, 'cs, 'crd, 's) kube_env \<Rightarrow> 'cs go" where
  "GetKubernetesClient env =
     gbind (GetKubernetesConfig env) (\<lambda>config. gbind (ke_NewForConfig env config) (\<lambda>kubeClient. Ret kubeClient))"

text \<open>A client is made and registered.\<close>

definition registered :: "('s, 'a, 'r) generated_client go \<Rightarrow> ('s, 'a, 'r) generated_client go" where
  "registered c = gbind c (\<lambda>client. gbind (gc_Register client) (\<lambda>_. Ret client))"

definition GetUpstreamClient :: "('cfg, 'cs, 'crd, 's) kube_env \<Rightarrow> ('s, any_resource, upstream) generated_client go" where
  "GetUpstreamClient env =
     gbind (GetKubernetesConfig env) (\<lambda>config. registered (NewUpstreamClient (ke_Factory env ''Upstream'' config)))"

definition GetMeshClient :: "('cfg, 'cs, 'crd, 's) kube_env \<Rightarrow> ('s, any_resource, mesh) generated_client go" where
  "GetMeshClient env =
     gbind (GetKubernetesConfig env) (\<lambda>config. registered (NewMeshClient (ke_Factory env ''Mesh'' config)))"

definition GetRoutingRuleClient :: "('cfg, 'cs, 'crd, 's) kube_env \<Rightarrow> ('s, any_resource, routing_rule) generated_client go" where
  "GetRoutingRuleClient env =
     gbind (GetKubernetesConfig env) (\<lambda>config. registered (NewRoutingRuleClient (ke_Factory env ''RoutingRule'' config)))"

text \<open>The only one that returns the error of the configuration as it is.\<close>

definition GetInstallClient :: "('cfg, 'cs, 'crd, 's) kube_env \<Rightarrow> ('s, any_resource, install) generated_client go" where
  "GetInstallClient env =
     gbind (ke_GetConfig env) (\<lambda>cfg. registered (NewInstallClient (ke_Factory env ''Install'' cfg)))"

text \<open>The error of \<open>GetKubernetesClient\<close> is assigned and overwritten: the client set is nil then.\<close>

definition GetSecretClient ::
  "('cfg, 'cs, 'crd, 's) kube_env \<Rightarrow> ('s, any_resource, istio_cacerts_secret) generated_client go" where
  "GetSecretClient env =
     (case GetKubernetesClient env of
        Ret clientset \<Rightarrow> registered (NewIstioCacertsSecretClient (ke_SecretFactory env (Some clientset)))
      | Fail _ \<Rightarrow> registered (NewIstioCacertsSecretClient (ke_SecretFactory env None))
      | Panic p \<Rightarrow> Panic p)"

section \<open>The client of get\<close>

definition getCrdClient :: "('cfg, 'cs, 'crd, 's) kube_env \<Rightarrow> 'cfg \<Rightarrow> 'crd go" where
  "getCrdClient env config =
     gbind (greplace ''Error building Kubernetes client: %v'' (ke_ApiExtensions env config)) (\<lambda>apiExtClient. Ret apiExtClient)"

text \<open>\<open>names\<close> lists the names of the definitions that the client of custom resource definitions returns.\<close>

definition NewClient ::
  "('cfg, 'cs, 'crd, 's) kube_env \<Rightarrow> ('crd \<Rightarrow> string list go) \<Rightarrow> ('s, 's) info_client go" where
  "NewClient env names =
     gbind (greplace KubeConfigError (ke_GetConfig env)) (\<lambda>config.
     gbind (getCrdClient env config) (\<lambda>crdClient.
     gbind (GetMeshClient env) (\<lambda>meshClient.
     gbind (GetRoutingRuleClient env) (\<lambda>rrClient.
       Ret \<lparr>ic_CrdNames = names crdClient, ic_meshClient = gc_Client meshClient,
            ic_routingRulesClient = gc_Client rrClient\<rparr>))))"

section \<open>Arguments of the mtls command\<close>

definition validRootArgs :: "string list" where
  "validRootArgs = [''enable'', ''disable'', ''toggle'']"

definition rootArgValidation :: "string list \<Rightarrow> unit go" where
  "rootArgValidation args =
     (if length args \<noteq> 1 then Fail (Errorf ''Too many args'')
      else if \<not> cli_Contains validRootArgs (hd args) then Fail (Errorf ''not a valid argument'')
      else Ret ())"

section \<open>Facts\<close>

lemma greplace_Ret: "greplace msg r = Ret x \<longleftrightarrow> r = Ret x"
  by (cases r) auto

lemma registered_Ret:
  "registered c = Ret client \<longleftrightarrow> c = Ret client \<and> gc_Register client = Ret ()"
  by (auto simp: registered_def gbind_eq_Ret)

text \<open>The clients that work on the cluster are the typed ones around the factory's base clients.\<close>

lemma GetMeshClient_Ret:
  "GetMeshClient env = Ret client \<longleftrightarrow>
     (\<exists>config rc. ke_GetConfig env = Ret config \<and> ke_Factory env ''Mesh'' config = Ret rc \<and> base_Register rc = Ret () \<and>
        NewMeshClient (Ret rc) = Ret client \<and> gc_Client client = typed_client R_Mesh as_Mesh (base_Client rc))"
  by (auto simp: GetMeshClient_def GetKubernetesConfig_def gbind_eq_Ret registered_Ret NewMeshClient_def new_client_def
      greplace_Ret)

text \<open>Without a configuration every getter fails but the one for secrets, which goes on with a nil client set.\<close>

lemma no_configuration:
  assumes "ke_GetConfig env = Fail e"
  shows "GetMeshClient env = Fail (Errorf KubeConfigError)" "GetRoutingRuleClient env = Fail (Errorf KubeConfigError)"
    "GetUpstreamClient env = Fail (Errorf KubeConfigError)" "GetInstallClient env = Fail e"
    "GetSecretClient env = registered (NewIstioCacertsSecretClient (ke_SecretFactory env None))"
  using assms
  by (simp_all add: GetMeshClient_def GetRoutingRuleClient_def GetUpstreamClient_def GetInstallClient_def
      GetSecretClient_def GetKubernetesClient_def GetKubernetesConfig_def)

lemma rootArgValidation_accepts: "rootArgValidation args = Ret () \<longleftrightarrow> args \<in> {[''enable''], [''disable''], [''toggle'']}"
proof (cases args)
  case (Cons a as)
  then show ?thesis by (auto simp: rootArgValidation_def cli_Contains_eq validRootArgs_def split: if_splits)
qed (simp add: rootArgValidation_def)

end
