(* ===== verification/Cli_Tree.thy ===== *)
theory Cli_Tree
  imports Cobra Cli_Clients
begin

text \<open>
  The program \<open>supergloo\<close> of the command line: the options (\<open>cli/pkg/cmd/options\<close>), the tree of commands
  with the flags of each (\<open>cli/pkg/cmd/top.go\<close> and the functions \<open>Cmd\<close> of the packages under it), what each
  command runs, and \<open>main\<close> (\<open>cli/cmd/main.go\<close>).

  The function that a command runs is named by an \<open>action\<close>; \<open>run_action\<close> says what it does, on the stores of
  the five kinds that commands use and on the output. The text of a message is its format. The Kubernetes
  libraries, the menus, files, random names and \<open>kubectl\<close> are parameters.
\<close>

section \<open>Options\<close>

text \<open>The default of every flag is the zero value, with which the options start.\<close>

record options =
  opt_Static :: bool
  opt_Filename :: string
  opt_Install :: install_opts
  opt_Uninstall :: uninstall_opts
  opt_UninstallMeshType :: string
  opt_Mesh :: resource_ref
  opt_ServiceId :: string
  opt_AddPolicy :: policy_opts
  opt_IngressId :: string
  opt_RouteId :: string
  opt_Output :: string
  opt_RoutingRule :: routing_rule_opts
  opt_Secret :: secret_opts
  opt_CaMesh :: resource_ref
  opt_CaSecret :: resource_ref

definition zero_ref :: resource_ref where
  "zero_ref = ResourceRef [] []"

definition zero_options :: options where
  "zero_options =
     \<lparr>opt_Static = False, opt_Filename = [],
      opt_Install = \<lparr>io_MeshType = [], io_Namespace = [], io_Mtls = False, io_SecretRef = zero_ref, io_WatchNamespaces = [],
        io_ConsulServerAddress = []\<rparr>,
      opt_Uninstall = \<lparr>uo_All = False, uo_MeshNames = []\<rparr>, opt_UninstallMeshType = [],
      opt_Mesh = zero_ref, opt_ServiceId = [], opt_AddPolicy = \<lparr>po_Source = zero_ref, po_Destination = zero_ref\<rparr>,
      opt_IngressId = [], opt_RouteId = [], opt_Output = [],
      opt_RoutingRule = \<lparr>rro_Mesh = [], rro_Namespace = [], rro_Sources = [], rro_Destinations = [], rro_Matchers = None,
        rro_OverrideExisting = False\<rparr>,
      opt_Secret = \<lparr>so_RootCa = [], so_PrivateKey = [], so_CertChain = [], so_Namespace = []\<rparr>,
      opt_CaMesh = zero_ref, opt_CaSecret = zero_ref\<rparr>"

definition set_Name :: "string \<Rightarrow> resource_ref \<Rightarrow> resource_ref" where
  "set_Name name r = ResourceRef (ref_Namespace r) name"

definition set_Namespace :: "string \<Rightarrow> resource_ref \<Rightarrow> resource_ref" where
  "set_Namespace ns r = ResourceRef ns (ref_Name r)"

section \<open>The commands\<close>

datatype action =
    A_Help
  | A_Init
  | A_Install
  | A_Uninstall
  | A_Get
  | A_Create
  | A_CreateRoutingRule
  | A_CreateSecret
  | A_Config
  | A_ConfigureCa
  | A_FaultInjection
  | A_LoadBalancing
  | A_Retries
  | A_Policy
  | A_UpdatePolicy policy_operation
  | A_MtlsPlaceholder
  | A_MtlsRoot
  | A_UpdateMtls mtls_operation
  | A_Ingress

type_synonym cmd = "(options, action) command"

definition initsupergloo_Cmd :: cmd where
  "initsupergloo_Cmd = Command ''init'' [] None [] [] (Some A_Init) []"

definition install_Cmd :: cmd where
  "install_Cmd = Command ''install'' [] None
     [flag_var ''filename'' ''f'' (StringVar (\<lambda>v. opt_Filename_update (\<lambda>_. v))),
      flag_var ''meshtype'' ''m'' (StringVar (\<lambda>v. opt_Install_update (io_MeshType_update (\<lambda>_. v)))),
      flag_var ''namespace'' ''n'' (StringVar (\<lambda>v. opt_Install_update (io_Namespace_update (\<lambda>_. v)))),
      flag_var ''mtls'' [] (BoolVar (\<lambda>v. opt_Install_update (io_Mtls_update (\<lambda>_. v)))),
      flag_var ''secret.name'' [] (StringVar (\<lambda>v. opt_Install_update (io_SecretRef_update (set_Name v)))),
      flag_var ''secret.namespace'' [] (StringVar (\<lambda>v. opt_Install_update (io_SecretRef_update (set_Namespace v))))]
     [] (Some A_Install) []"

definition uninstall_Cmd :: cmd where
  "uninstall_Cmd = Command ''uninstall'' [] None
     [flag_var ''meshtype'' ''m'' (StringVar (\<lambda>v. opt_UninstallMeshType_update (\<lambda>_. v))),
      flag_var ''meshnames'' ''n'' (StringVar (\<lambda>v. opt_Uninstall_update (uo_MeshNames_update (\<lambda>_. v)))),
      flag_var ''all'' [] (BoolVar (\<lambda>v. opt_Uninstall_update (uo_All_update (\<lambda>_. v))))]
     [] (Some A_Uninstall) []"

definition get_Cmd :: cmd where
  "get_Cmd = Command ''get'' [] (Some (RangeArgs 1 2)) []
     [flag_var ''output'' ''o'' (StringVar (\<lambda>v. opt_Output_update (\<lambda>_. v)))] (Some A_Get) []"

text \<open>The matchers go to a new variable, which is copied before anything is parsed.\<close>

definition RoutingRuleCmd :: cmd where
  "RoutingRuleCmd = Command ''routingrule'' [] (Some (ExactArgs 1)) []
     [flag_var ''mesh'' [] (StringVar (\<lambda>v. opt_RoutingRule_update (rro_Mesh_update (\<lambda>_. v)))),
      flag_var ''namespace'' ''n'' (StringVar (\<lambda>v. opt_RoutingRule_update (rro_Namespace_update (\<lambda>_. v)))),
      flag_var ''sources'' [] (StringVar (\<lambda>v. opt_RoutingRule_update (rro_Sources_update (\<lambda>_. v)))),
      flag_var ''destinations'' [] (StringVar (\<lambda>v. opt_RoutingRule_update (rro_Destinations_update (\<lambda>_. v)))),
      flag_var ''override'' [] (BoolVar (\<lambda>v. opt_RoutingRule_update (rro_OverrideExisting_update (\<lambda>_. v)))),
      flag_var ''matchers'' ''m'' NewStringArray]
     (Some A_CreateRoutingRule) []"

definition MarkFlagRequired :: "options pflag \<Rightarrow> options pflag" where
  "MarkFlagRequired f = f\<lparr>fl_Required := True\<rparr>"

definition create_SecretCmd :: cmd where
  "create_SecretCmd = Command ''secret'' [] (Some (ExactArgs 1)) []
     [MarkFlagRequired (flag_var ''rootca'' [] (StringVar (\<lambda>v. opt_Secret_update (so_RootCa_update (\<lambda>_. v))))),
      MarkFlagRequired (flag_var ''privatekey'' [] (StringVar (\<lambda>v. opt_Secret_update (so_PrivateKey_update (\<lambda>_. v))))),
      MarkFlagRequired (flag_var ''certchain'' [] (StringVar (\<lambda>v. opt_Secret_update (so_CertChain_update (\<lambda>_. v))))),
      flag_var ''secretnamespace'' [] (StringVar (\<lambda>v. opt_Secret_update (so_Namespace_update (\<lambda>_. v))))]
     (Some A_CreateSecret) []"

definition create_Cmd :: cmd where
  "create_Cmd = Command ''create'' [] (Some (ExactArgs 1)) [] [] (Some A_Create) [RoutingRuleCmd, create_SecretCmd]"

definition ca_Cmd :: cmd where
  "ca_Cmd = Command ''ca'' [] None []
     [flag_var ''mesh.name'' [] (StringVar (\<lambda>v. opt_CaMesh_update (set_Name v))),
      flag_var ''mesh.namespace'' [] (StringVar (\<lambda>v. opt_CaMesh_update (set_Namespace v))),
      flag_var ''secret.name'' [] (StringVar (\<lambda>v. opt_CaSecret_update (set_Name v))),
      flag_var ''secret.namespace'' [] (StringVar (\<lambda>v. opt_CaSecret_update (set_Namespace v)))]
     (Some A_ConfigureCa) []"

definition config_Cmd :: cmd where
  "config_Cmd = Command ''config'' [] (Some (ExactArgs 1)) [] [] (Some A_Config) [ca_Cmd]"

subsection \<open>The mesh tool box\<close>

definition linkMeshToolFlags :: "options pflag list" where
  "linkMeshToolFlags =
     [flag_var ''mesh.name'' [] (StringVar (\<lambda>v. opt_Mesh_update (set_Name v))),
      flag_var ''mesh.namespace'' [] (StringVar (\<lambda>v. opt_Mesh_update (set_Namespace v))),
      flag_var ''serviceid'' [] (StringVar (\<lambda>v. opt_ServiceId_update (\<lambda>_. v)))]"

definition FaultInjection :: cmd where
  "FaultInjection = Command ''fault-injection'' [] None linkMeshToolFlags [] (Some A_FaultInjection) []"

definition LoadBalancing :: cmd where
  "LoadBalancing = Command ''load-balancing'' [] None linkMeshToolFlags [] (Some A_LoadBalancing) []"

definition Retries :: cmd where
  "Retries = Command ''retries'' [] None linkMeshToolFlags [] (Some A_Retries) []"

text \<open>The source's flags assign to the destination and the destination's to the source.\<close>

definition LinkPolicyFlags :: "options pflag list" where
  "LinkPolicyFlags =
     [flag_var ''source.name'' [] (StringVar (\<lambda>v. opt_AddPolicy_update (po_Destination_update (set_Name v)))),
      flag_var ''source.namespace'' [] (StringVar (\<lambda>v. opt_AddPolicy_update (po_Destination_update (set_Namespace v)))),
      flag_var ''destination.name'' [] (StringVar (\<lambda>v. opt_AddPolicy_update (po_Source_update (set_Name v)))),
      flag_var ''destination.namespace'' [] (StringVar (\<lambda>v. opt_AddPolicy_update (po_Source_update (set_Namespace v))))]"

definition policy_Add :: cmd where
  "policy_Add = Command ''add'' [] None [] [] (Some (A_UpdatePolicy ADD_POLICY)) []"

definition policy_Remove :: cmd where
  "policy_Remove = Command ''remove'' [] None [] [] (Some (A_UpdatePolicy REMOVE_POLICY)) []"

definition policy_Clear :: cmd where
  "policy_Clear = Command ''clear'' [] None [] [] (Some (A_UpdatePolicy CLEAR_POLICIES)) []"

definition meshtool_Policy :: cmd where
  "meshtool_Policy = Command ''policy'' [] (Some (ExactArgs 1)) (linkMeshToolFlags @ LinkPolicyFlags) [] (Some A_Policy)
     [policy_Add, policy_Remove, policy_Clear]"

definition DEV_MTLS :: bool where
  "DEV_MTLS = False"

definition mtls_Enable :: cmd where
  "mtls_Enable = Command ''enable'' [] None [] [] (Some (A_UpdateMtls ENABLE_MTLS)) []"

definition mtls_Disable :: cmd where
  "mtls_Disable = Command ''disable'' [] None [] [] (Some (A_UpdateMtls DISABLE_MTLS)) []"

definition mtls_Toggle :: cmd where
  "mtls_Toggle = Command ''toggle'' [] None [] [] (Some (A_UpdateMtls TOGGLE_MTLS)) []"

text \<open>\<open>Root\<close>, and the flags that \<open>ToggleMtls\<close> adds to it.\<close>

definition mtls_Root :: "options pflag list \<Rightarrow> cmd" where
  "mtls_Root pflags =
     (if \<not> DEV_MTLS then Command ''mtls'' [] None pflags [] (Some A_MtlsPlaceholder) []
      else Command ''mtls'' [] (Some rootArgValidation) pflags [] (Some A_MtlsRoot) [mtls_Enable, mtls_Disable, mtls_Toggle])"

definition ToggleMtls :: cmd where
  "ToggleMtls = mtls_Root linkMeshToolFlags"

subsection \<open>The ingress tool box\<close>

definition linkIngressToolFlags :: "options pflag list" where
  "linkIngressToolFlags =
     [flag_var ''ingressid'' [] (StringVar (\<lambda>v. opt_IngressId_update (\<lambda>_. v))),
      flag_var ''routeid'' [] (StringVar (\<lambda>v. opt_RouteId_update (\<lambda>_. v)))]"

definition FortifyIngress :: cmd where
  "FortifyIngress = Command ''fortify-ingress'' [] None linkIngressToolFlags [] (Some A_Ingress) []"

definition ingress_AddRoute :: cmd where
  "ingress_AddRoute = Command ''add-route'' [] None linkIngressToolFlags [] (Some A_Ingress) []"

subsection \<open>The root\<close>

definition App_command :: "string \<Rightarrow> cmd" where
  "App_command version = Command ''supergloo'' version None
     [flag_var ''static'' ''s'' (BoolVar (\<lambda>v. opt_Static_update (\<lambda>_. v)))] [] None
     [initsupergloo_Cmd, install_Cmd, uninstall_Cmd, get_Cmd, create_Cmd, config_Cmd, FaultInjection, LoadBalancing, Retries,
      meshtool_Policy, ToggleMtls, FortifyIngress, ingress_AddRoute]"

lemmas command_defs =
  App_command_def initsupergloo_Cmd_def install_Cmd_def uninstall_Cmd_def get_Cmd_def create_Cmd_def config_Cmd_def
  RoutingRuleCmd_def create_SecretCmd_def ca_Cmd_def FaultInjection_def LoadBalancing_def Retries_def
  meshtool_Policy_def policy_Add_def policy_Remove_def policy_Clear_def ToggleMtls_def mtls_Root_def DEV_MTLS_def
  FortifyIngress_def ingress_AddRoute_def

section \<open>What the commands run\<close>

datatype printed = Printed_error err | Printed string | Printed_lines "string list" | Usage | Version

record 's cluster =
  cl_Upstreams :: 's
  cl_Rules :: 's
  cl_Meshes :: 's
  cl_Installs :: 's
  cl_Secrets :: 's
  cl_Output :: "printed list"

record ('cfg, 'cs, 'crd, 's) app_env =
  ae_kube :: "('cfg, 'cs, 'crd, 's) kube_env"
  ae_CrdNames :: "'crd \<Rightarrow> string list go"
  ae_survey :: survey
  ae_Confirm :: "string \<Rightarrow> bool go"
  ae_rng :: "ns_resource_map \<Rightarrow> ns_resource_map"
  ae_RandString :: string
  ae_ReadFile :: "string \<Rightarrow> string go"
  ae_kubectl :: "string list \<Rightarrow> 's cluster \<Rightarrow> unit go \<times> 's cluster"
  ae_Cache :: options_cache

definition Println :: "printed \<Rightarrow> ('s cluster, unit) act" where
  "Println p = amodify (cl_Output_update (\<lambda>out. out @ [p]))"

text \<open>An action on a part of the cluster.\<close>

definition on_part :: "('w \<Rightarrow> 'p) \<Rightarrow> ('p \<Rightarrow> 'w \<Rightarrow> 'w) \<Rightarrow> ('p, 'a) act \<Rightarrow> ('w, 'a) act" where
  "on_part get put m w = (case m (get w) of (r, p) \<Rightarrow> (r, put p w))"

abbreviation on_upstreams_rules :: "('s \<times> 's, 'a) act \<Rightarrow> ('s cluster, 'a) act" where
  "on_upstreams_rules \<equiv> on_part (\<lambda>w. (cl_Upstreams w, cl_Rules w)) (\<lambda>(u, r) w. w\<lparr>cl_Upstreams := u, cl_Rules := r\<rparr>)"

abbreviation on_meshes_rules :: "('s \<times> 's, 'a) act \<Rightarrow> ('s cluster, 'a) act" where
  "on_meshes_rules \<equiv> on_part (\<lambda>w. (cl_Meshes w, cl_Rules w)) (\<lambda>(m, r) w. w\<lparr>cl_Meshes := m, cl_Rules := r\<rparr>)"

abbreviation on_meshes :: "('s, 'a) act \<Rightarrow> ('s cluster, 'a) act" where
  "on_meshes \<equiv> on_part cl_Meshes (\<lambda>m w. w\<lparr>cl_Meshes := m\<rparr>)"

abbreviation on_installs :: "('s, 'a) act \<Rightarrow> ('s cluster, 'a) act" where
  "on_installs \<equiv> on_part cl_Installs (\<lambda>i w. w\<lparr>cl_Installs := i\<rparr>)"

abbreviation on_secrets :: "('s, 'a) act \<Rightarrow> ('s cluster, 'a) act" where
  "on_secrets \<equiv> on_part cl_Secrets (\<lambda>x w. w\<lparr>cl_Secrets := x\<rparr>)"

definition client_of :: "('s, 'a, 'r) generated_client go \<Rightarrow> ('s, 'r) client go" where
  "client_of c = gbind c (\<lambda>client. Ret (gc_Client client))"

definition cli_env_of :: "('cfg, 'cs, 'crd, 's) app_env \<Rightarrow> options \<Rightarrow> cli_env" where
  "cli_env_of env opts =
     \<lparr>cli_Static = opt_Static opts, cli_Cache = ae_Cache env, cli_Survey = ae_survey env, cli_rng = ae_rng env\<rparr>"

text \<open>\<open>if err := f(); err != nil { fmt.Println(err); return }\<close>, and what follows when there is none.\<close>

definition print_error :: "('s cluster, 'a) act \<Rightarrow> ('a \<Rightarrow> ('s cluster, unit) act) \<Rightarrow> ('s cluster, unit) act" where
  "print_error m f = abind (atry m) (\<lambda>r. case r of Inl e \<Rightarrow> Println (Printed_error e) | Inr x \<Rightarrow> f x)"

definition initsupergloo :: "('cfg, 'cs, 'crd, 's) app_env \<Rightarrow> ('s cluster, unit) act" where
  "initsupergloo env =
     print_error
       (ae_kubectl env [''apply'', ''-f'', ''https://raw.githubusercontent.com/solo-io/supergloo/master/hack/install/supergloo.yaml''])
       aret"

definition installationSummaryMessage :: "install_opts \<Rightarrow> ('s cluster, unit) act" where
  "installationSummaryMessage iop =
     abind (Println (Printed ''Installing %v in namespace %v.'')) (\<lambda>_.
     if io_Mtls iop then Println (Printed ''mTLS active.'') else aret ())"

definition install_Run :: "('cfg, 'cs, 'crd, 's) app_env \<Rightarrow> options \<Rightarrow> ('s cluster, unit) act" where
  "install_Run env opts =
     print_error
       (on_installs (cli_install (cli_env_of env opts) (client_of (GetInstallClient (ae_kube env))) (ae_RandString env)
          (opt_Install opts)))
       installationSummaryMessage"

definition selectMeshByName :: "('cfg, 'cs, 'crd, 's) app_env \<Rightarrow> string list \<Rightarrow> string list go" where
  "selectMeshByName env names = survey_MultiSelect (ae_survey env) ''Which meshes would you like to delete?'' names"

definition deleteAllMeshes :: "('cfg, 'cs, 'crd, 's) app_env \<Rightarrow> bool go" where
  "deleteAllMeshes env = ae_Confirm env ''Delete all meshes?''"

definition uninstall_Run :: "('cfg, 'cs, 'crd, 's) app_env \<Rightarrow> options \<Rightarrow> ('s cluster, unit) act" where
  "uninstall_Run env opts =
     print_error (alift (client_of (GetInstallClient (ae_kube env)))) (\<lambda>installClient.
     print_error
       (on_installs (cli_uninstall (opt_Static opts) installClient (deleteAllMeshes env) (selectMeshByName env) (opt_Uninstall opts)))
       aret)"

text \<open>The cells of a line are joined by tabulators; aligning them is left to \<open>text/tabwriter\<close>.\<close>

definition WriteLine :: "string list \<Rightarrow> string" where
  "WriteLine line = strings_Join line [CHR 0x09]"

definition get_Run :: "('cfg, 'cs, 'crd, 's) app_env \<Rightarrow> string list \<Rightarrow> options \<Rightarrow> ('s cluster, unit) act" where
  "get_Run env args opts =
     print_error (on_meshes_rules (cli_get (NewClient (ae_kube env) (ae_CrdNames env)) args (opt_Output opts)))
       (\<lambda>table. Println (Printed_lines (map WriteLine table)))"

definition createRoutingRule_Run :: "('cfg, 'cs, 'crd, 's) app_env \<Rightarrow> string list \<Rightarrow> options \<Rightarrow> ('s cluster, unit) act" where
  "createRoutingRule_Run env args opts =
     print_error
       (on_upstreams_rules (createRoutingRule (cli_env_of env opts) (client_of (GetUpstreamClient (ae_kube env)))
          (client_of (GetRoutingRuleClient (ae_kube env))) (hd args) (opt_RoutingRule opts)))
       (\<lambda>_. Println (Printed ''Created routing rule [%v] in namespace [%v]''))"

definition createSecret_Run :: "('cfg, 'cs, 'crd, 's) app_env \<Rightarrow> string list \<Rightarrow> options \<Rightarrow> ('s cluster, unit) act" where
  "createSecret_Run env args opts =
     print_error
       (on_secrets (SecretCmd (cli_env_of env opts) (ae_ReadFile env) (client_of (GetSecretClient (ae_kube env))) (hd args)
          (opt_Secret opts)))
       (\<lambda>_. Println (Printed ''Created secret [%v] in namespace [%v]''))"

definition configureCa_Run :: "('cfg, 'cs, 'crd, 's) app_env \<Rightarrow> options \<Rightarrow> ('s cluster, unit) act" where
  "configureCa_Run env opts =
     print_error
       (on_meshes (configureCa (cli_env_of env opts) (client_of (GetMeshClient (ae_kube env))) (opt_CaMesh opts) (opt_CaSecret opts)))
       (\<lambda>_. Println (Printed ''Configured mesh %v to use secret %v''))"

definition policy_message :: "policy_operation \<Rightarrow> string" where
  "policy_message operation =
     (case operation of
        ADD_POLICY \<Rightarrow> ''Added policy to mesh %v''
      | REMOVE_POLICY \<Rightarrow> ''Removed policy from mesh %v''
      | CLEAR_POLICIES \<Rightarrow> ''Cleared policies from mesh %v'')"

definition policy_Run :: "('cfg, 'cs, 'crd, 's) app_env \<Rightarrow> policy_operation \<Rightarrow> options \<Rightarrow> ('s cluster, unit) act" where
  "policy_Run env operation opts =
     print_error
       (on_meshes (updatePolicy (cli_env_of env opts) (client_of (GetMeshClient (ae_kube env))) operation (opt_Mesh opts)
          (opt_AddPolicy opts)))
       (\<lambda>_. Println (Printed (policy_message operation)))"

text \<open>The commands of mutual TLS return their errors (\<open>RunE\<close>).\<close>

definition mtls_message :: "mtls_operation \<Rightarrow> mesh \<Rightarrow> string go" where
  "mtls_message operation mesh =
     (case operation of
        ENABLE_MTLS \<Rightarrow> Ret ''Enabled mTLS on mesh %v''
      | DISABLE_MTLS \<Rightarrow> Ret ''Disabled mTLS on mesh %v''
      | TOGGLE_MTLS \<Rightarrow> (case mesh_Encryption mesh of None \<Rightarrow> nil_deref | Some e \<Rightarrow> Ret ''Toggled (%v) mTLS on mesh %v''))"

definition mtls_RunE :: "('cfg, 'cs, 'crd, 's) app_env \<Rightarrow> mtls_operation \<Rightarrow> options \<Rightarrow> ('s cluster, unit) act" where
  "mtls_RunE env operation opts =
     abind (on_meshes (updateMtls (cli_env_of env opts) (client_of (GetMeshClient (ae_kube env))) operation (opt_Mesh opts)))
       (\<lambda>mesh. abind (alift (mtls_message operation mesh)) (\<lambda>msg. Println (Printed msg)))"

fun run_action :: "('cfg, 'cs, 'crd, 's) app_env \<Rightarrow> action \<Rightarrow> string list \<Rightarrow> options \<Rightarrow> ('s cluster, unit) act" where
  "run_action env A_Help args opts = Println Usage"
| "run_action env A_Init args opts = initsupergloo env"
| "run_action env A_Install args opts = install_Run env opts"
| "run_action env A_Uninstall args opts = uninstall_Run env opts"
| "run_action env A_Get args opts = get_Run env args opts"
| "run_action env A_Create args opts = aret ()"
| "run_action env A_CreateRoutingRule args opts = createRoutingRule_Run env args opts"
| "run_action env A_CreateSecret args opts = createSecret_Run env args opts"
| "run_action env A_Config args opts = aret ()"
| "run_action env A_ConfigureCa args opts = configureCa_Run env opts"
| "run_action env A_FaultInjection args opts = Println (Printed ''this feature will be available in 2019'')"
| "run_action env A_LoadBalancing args opts = Println (Printed ''this feature will be available in 2019'')"
| "run_action env A_Retries args opts = Println (Printed ''this mesh feature will be available in 2019'')"
| "run_action env A_Policy args opts = aret ()"
| "run_action env (A_UpdatePolicy operation) args opts = policy_Run env operation opts"
| "run_action env A_MtlsPlaceholder args opts =
     Println (Printed ''Warning: mTLS config is not yet available. In the meantime, you can specify mTLS properties during install.'')"
| "run_action env A_MtlsRoot args opts = aret ()"
| "run_action env (A_UpdateMtls operation) args opts = mtls_RunE env operation opts"
| "run_action env A_Ingress args opts = Println (Printed ''this ingress feature will be available in 2019'')"

section \<open>The program\<close>

definition App_Execute :: "('cfg, 'cs, 'crd, 's) app_env \<Rightarrow> cmd \<Rightarrow> string list \<Rightarrow> ('s cluster, unit) act" where
  "App_Execute env root argv =
     abind (alift (dispatch A_Help zero_options root argv)) (\<lambda>d.
       case d of
         Shows_Help \<Rightarrow> Println Usage
       | Shows_Version \<Rightarrow> Println Version
       | Runs action args opts \<Rightarrow> run_action env action args opts)"

text \<open>
  \<open>App\<close>: the first run of \<open>InitCache\<close> leaves a cache, which is \<open>cached\<close>, or no client of the cluster, and
  its error is dropped; the error of \<open>InitSupergloo\<close> is a panic. The result has the tree, the cache that the
  commands see, and the namespaces that are created.
\<close>

definition App ::
  "init_env \<Rightarrow> options_cache option \<Rightarrow> string list go \<Rightarrow> cli_lists \<Rightarrow> string \<Rightarrow> (cmd \<times> options_cache \<times> string list) go" where
  "App init cached namespaces ls version =
     (case InitSupergloo init cached namespaces ls of
        Ret created \<Rightarrow>
          gbind (case cached of None \<Rightarrow> InitCache namespaces ls | Some cache \<Rightarrow> Ret cache) (\<lambda>cache.
            Ret (App_command version, cache, created))
      | Fail e \<Rightarrow> Panic ''Error during initialization.''
      | Panic p \<Rightarrow> Panic p)"

text \<open>\<open>main\<close>, with the exit status: two when the program panics.\<close>

definition cli_main ::
  "('cfg, 'cs, 'crd, 's) app_env \<Rightarrow> (cmd \<times> options_cache \<times> string list) go \<Rightarrow> string list \<Rightarrow> 's cluster \<Rightarrow> nat \<times> 's cluster" where
  "cli_main env app argv w =
     (case app of
        Ret (root, cache, _) \<Rightarrow>
          (case App_Execute (env\<lparr>ae_Cache := cache\<rparr>) root argv w of
             (Ret _, w) \<Rightarrow> (0, w)
           | (Fail e, w) \<Rightarrow> (1, snd (Println (Printed_error e) w))
           | (Panic p, w) \<Rightarrow> (2, w))
      | _ \<Rightarrow> (2, w))"

end
