(* ===== verification/Cli_Tree_Properties.thy ===== *)
theory Cli_Tree_Properties
  imports Cli_Tree Typed_Properties
begin

text \<open>
  What the tree of commands makes of a command line: which errors reach the exit status, which flags reach
  which options, and which command lines do nothing.
\<close>

section \<open>Errors\<close>

lemma on_part_no_Fail: "(\<And>s. fst (m s) \<noteq> Fail e) \<Longrightarrow> fst (on_part get put m w) \<noteq> Fail e"
  by (auto simp: on_part_def split: prod.splits) (metis fst_conv)

lemma Println_eq [simp]: "Println p w = (Ret (), w\<lparr>cl_Output := cl_Output w @ [p]\<rparr>)"
  by (simp add: Println_def amodify_def)

lemma print_error_no_Fail:
  assumes "\<And>x w. fst (f x w) \<noteq> Fail e"
  shows "fst (print_error m f w) \<noteq> Fail e"
  using assms by (auto simp: print_error_def abind_def atry_def split: prod.splits go.splits)

text \<open>Only the commands of mutual TLS, which are switched off, return an error.\<close>

lemma run_action_no_Fail:
  assumes "\<forall>operation. action \<noteq> A_UpdateMtls operation"
  shows "fst (run_action env action args opts w) \<noteq> Fail e"
  using assms
  by (cases action)
    (auto simp: initsupergloo_def install_Run_def uninstall_Run_def get_Run_def createRoutingRule_Run_def createSecret_Run_def
      configureCa_Run_def policy_Run_def installationSummaryMessage_def aret_def abind_def intro!: print_error_no_Fail split: if_split_asm)

section \<open>The tree\<close>

abbreviation (input) root :: "string \<Rightarrow> cmd" where
  "root version \<equiv> InitDefaultHelpCmd A_Help (App_command version)"

lemma root_no_mtls: "(ps, c) \<in> set (contexts [] (root version)) \<Longrightarrow> cmd_Run c \<noteq> Some (A_UpdateMtls operation)"
  by (auto simp: command_defs InitDefaultHelpCmd_def)

lemma root_rules:
  "(ps, c) \<in> set (contexts [] (root version)) \<Longrightarrow> cmd_Args c = Some rule \<Longrightarrow> rule args \<noteq> Panic p"
  by (auto simp: command_defs InitDefaultHelpCmd_def)

text \<open>No command has a flag whose name or shorthand one of its parents has too.\<close>

lemma root_flags: "\<forall>(ps, c) \<in> set (contexts [] (root version)). flags_ok ps c"
  by (simp add: command_defs InitDefaultHelpCmd_def flags_ok_def mergePersistentFlags_def updateParentsPflags_def new_FlagSet_def
      AddFlagSet_def AddFlag_def flag_Lookup_def ShorthandLookup_def flag_var_def linkMeshToolFlags_def LinkPolicyFlags_def
      linkIngressToolFlags_def MarkFlagRequired_def)

text \<open>
  C40: The exit status is decided by the command line alone. Either the command line is rejected, with the
  same error whatever the cluster and the outcomes of everything else are, and nothing is done; or it shows the
  help or the version; or it runs one command, and whatever this command meets, it returns no error: a
  command that fails prints its error and exits with status zero.
\<close>
theorem exit_status_ignores_failures:
  "(\<exists>e. \<forall>env w. App_Execute env (App_command version) argv w = (Fail e, w)) \<or>
   (\<exists>out \<in> {Usage, Version}. \<forall>env w. App_Execute env (App_command version) argv w =
      (Ret (), w\<lparr>cl_Output := cl_Output w @ [out]\<rparr>)) \<or>
   (\<exists>action args opts. \<forall>env w. App_Execute env (App_command version) argv w = run_action env action args opts w \<and>
      (\<forall>e. fst (App_Execute env (App_command version) argv w) \<noteq> Fail e))"
proof (cases "dispatch A_Help zero_options (App_command version) argv")
  case (Ret d)
  show ?thesis
  proof (cases d)
    case (Runs action args opts)
    with Ret obtain ps c where "(ps, c) \<in> set (contexts [] (root version))" "cmd_Run c = Some action"
      by (auto elim: dispatch_Runs)
    then have "\<forall>operation. action \<noteq> A_UpdateMtls operation" using root_no_mtls by blast
    with Ret Runs show ?thesis
      by (auto simp: App_Execute_def abind_def alift_def run_action_no_Fail intro!: exI [of _ action])
  qed (use Ret in \<open>auto simp: App_Execute_def abind_def alift_def\<close>)
next
  case (Fail e)
  then show ?thesis by (auto simp: App_Execute_def abind_def alift_def)
next
  case (Panic p)
  with dispatch_no_Panic [OF root_flags] root_rules show ?thesis by fastforce
qed

section \<open>From the command line to the options\<close>

text \<open>The matchers of the command line never reach the options, and so never reach a rule.\<close>

lemma matchers_never_read:
  assumes "dispatch A_Help zero_options (App_command version) argv = Ret (Runs action args opts)"
  shows "rro_Matchers (opt_RoutingRule opts) = None"
  by (rule dispatch_keeps [OF assms])
    (simp_all add: zero_options_def command_defs InitDefaultHelpCmd_def flag_keeps_def flag_var_def linkMeshToolFlags_def
      LinkPolicyFlags_def linkIngressToolFlags_def MarkFlagRequired_def)

lemmas dispatch_simps =
  dispatch_def command_Find_def innerfind.simps command_execute_def findNext_def cmd_Name_def command_defs InitDefaultHelpCmd_def
  mergePersistentFlags_def updateParentsPflags_def new_FlagSet_def AddFlagSet_def AddFlag_def InitDefaultFlag_def
  flag_Lookup_def ShorthandLookup_def flag_var_def NoOptDefVal_def hasNoOptDefVal_def shortHasNoOptDefVal_def
  linkMeshToolFlags_def LinkPolicyFlags_def linkIngressToolFlags_def MarkFlagRequired_def
  strings_HasPrefix_def flag_Set_def ParseBool_def parseLongArg_def validateRequiredFlags_def

text \<open>What is given as the source of a policy becomes its destination, and the other way round.\<close>

lemma added_policy_swapped:
  "dispatch A_Help zero_options (App_command version)
     [''policy'', ''add'', ''--source.name='' @ source, ''--destination.name='' @ destination] =
   Ret (Runs (A_UpdatePolicy ADD_POLICY) []
     (zero_options\<lparr>opt_AddPolicy := \<lparr>po_Source = ResourceRef [] destination, po_Destination = ResourceRef [] source\<rparr>\<rparr>))"
  by (simp add: dispatch_simps zero_options_def zero_ref_def set_Name_def)

text \<open>
  A subcommand that does not exist is taken as the argument of its parent, which does nothing and succeeds.
  The subcommands of \<open>mtls\<close> do not exist, so that \<open>mtls enable\<close> only prints its warning.
\<close>

lemma unknown_subcommands:
  assumes "x \<noteq> []" "hd x \<noteq> CHR ''-''"
  shows "x \<notin> {''routingrule'', ''secret''} \<Longrightarrow>
      dispatch A_Help zero_options (App_command version) [''create'', x] = Ret (Runs A_Create [x] zero_options)"
    and "x \<noteq> ''ca'' \<Longrightarrow> dispatch A_Help zero_options (App_command version) [''config'', x] = Ret (Runs A_Config [x] zero_options)"
    and "x \<notin> {''add'', ''remove'', ''clear''} \<Longrightarrow>
      dispatch A_Help zero_options (App_command version) [''policy'', x] = Ret (Runs A_Policy [x] zero_options)"
    and "dispatch A_Help zero_options (App_command version) [''mtls'', x] = Ret (Runs A_MtlsPlaceholder [x] zero_options)"
proof -
  obtain a l where [simp]: "x = a # l" "a \<noteq> CHR ''-''" using assms by (cases x) auto
  show "x \<notin> {''routingrule'', ''secret''} \<Longrightarrow>
      dispatch A_Help zero_options (App_command version) [''create'', x] = Ret (Runs A_Create [x] zero_options)"
    by (auto simp: dispatch_simps ExactArgs_def)
  show "x \<noteq> ''ca'' \<Longrightarrow> dispatch A_Help zero_options (App_command version) [''config'', x] = Ret (Runs A_Config [x] zero_options)"
    by (auto simp: dispatch_simps ExactArgs_def)
  show "x \<notin> {''add'', ''remove'', ''clear''} \<Longrightarrow>
      dispatch A_Help zero_options (App_command version) [''policy'', x] = Ret (Runs A_Policy [x] zero_options)"
    by (auto simp: dispatch_simps ExactArgs_def)
  show "dispatch A_Help zero_options (App_command version) [''mtls'', x] = Ret (Runs A_MtlsPlaceholder [x] zero_options)"
    by (simp add: dispatch_simps)
qed

text \<open>A secret needs its three files, even when the help does not say so.\<close>

lemma secret_without_files:
  "x \<noteq> [] \<Longrightarrow> hd x \<noteq> CHR ''-'' \<Longrightarrow>
   dispatch A_Help zero_options (App_command version) [''create'', ''secret'', x] = Fail (Errorf ''required flag(s) \"%s\" not set'')"
  by (cases x) (simp_all add: dispatch_simps ExactArgs_def ErrHelp_def)


section \<open>From the command line to the store\<close>











end
