(* ===== verification/Linkerd_Templates.thy ===== *)
theory Linkerd_Templates
  imports Go_Strings Prometheus
begin

text \<open>
  The generator of the Linkerd chart's templates (\<open>hack/install/linkerd2/generate.go\<close>): it splits the
  manifest of Linkerd into documents and writes one template for each. The manifest, the YAML library, the
  conversion to snake case and the files are parameters; a YAML document is converted to JSON and decoded
  as a map of untyped values.
\<close>

type_synonym gen_object = "(string \<times> json) list"

record 'fs gen_env =
  ge_Unmarshal :: "string \<Rightarrow> gen_object option go"
  ge_Marshal :: "gen_object \<Rightarrow> string go"
  ge_ToSnake :: "string \<Rightarrow> string"
  ge_MkdirAll :: "string \<Rightarrow> ('fs, unit) act"
  ge_WriteFile :: "string \<Rightarrow> string \<Rightarrow> ('fs, unit) act"

definition gen_Filename :: "(string \<Rightarrow> string) \<Rightarrow> gen_object \<Rightarrow> string go" where
  "gen_Filename toSnake obj =
     (case map_of obj ''metadata'' of
        Some (JObj meta) \<Rightarrow>
          (case map_of meta ''name'' of
             None \<Rightarrow> Panic ''metadata bad - name''
           | Some (JStr name) \<Rightarrow>
               (case map_of obj ''kind'' of
                  None \<Rightarrow> Panic ''kind bad''
                | Some (JStr kind) \<Rightarrow> Ret (strings_Replace (toSnake (name @ kind)) ''-'' ''_'' @ ''.yaml'')
                | Some _ \<Rightarrow> Panic ''kind not string'')
           | Some _ \<Rightarrow> Panic ''name not string'')
      | _ \<Rightarrow> Panic ''metadata bad'')"

text \<open>A document that is empty is logged and left out.\<close>

fun gen_parse :: "(string \<Rightarrow> gen_object option go) \<Rightarrow> string list \<Rightarrow> gen_object list go" where
  "gen_parse unmarshal [] = Ret []"
| "gen_parse unmarshal (objectYaml # snippets) =
     gbind (unmarshal objectYaml) (\<lambda>kubeObj. gbind (gen_parse unmarshal snippets) (\<lambda>objs.
       Ret (case kubeObj of None \<Rightarrow> objs | Some obj \<Rightarrow> obj # objs)))"

definition gen_ParseKubeManifest :: "(string \<Rightarrow> gen_object option go) \<Rightarrow> string \<Rightarrow> gen_object list go" where
  "gen_ParseKubeManifest unmarshal manifest = gen_parse unmarshal (strings_Split manifest ''---'')"

text \<open>The errors of creating the directory and of writing a file are dropped.\<close>

definition write_template :: "'fs gen_env \<Rightarrow> string \<Rightarrow> gen_object \<Rightarrow> ('fs, unit) act" where
  "write_template env dir obj =
     abind (alift (ge_Marshal env obj)) (\<lambda>ymlString.
     abind (alift (gen_Filename (ge_ToSnake env) obj)) (\<lambda>filename.
     abind (atry (ge_WriteFile env (dir @ ''/'' @ filename)
       (strings_Replace ymlString ''namespace: linkerd'' ''namespace: {{ .Release.Namespace }}''))) (\<lambda>_. aret ())))"

definition writeTemplates :: "'fs gen_env \<Rightarrow> string \<Rightarrow> string \<Rightarrow> ('fs, unit) act" where
  "writeTemplates env source dir =
     abind (alift (gen_ParseKubeManifest (ge_Unmarshal env) source)) (\<lambda>objs.
     abind (atry (ge_MkdirAll env dir)) (\<lambda>_. aforeach (write_template env dir) objs))"

section \<open>Facts\<close>

lemma gen_parse_all:
  "gmapM unmarshal snippets = Ret os \<Longrightarrow> gen_parse unmarshal snippets = Ret (List.map_filter id os)"
  by (induction snippets arbitrary: os) (auto simp: gbind_eq_Ret List.map_filter_simps split: option.splits)

text \<open>No failure to write stops the generator.\<close>

lemma write_template_never_fails:
  assumes "ge_Marshal env obj = Ret yml" and "gen_Filename (ge_ToSnake env) obj = Ret f"
    and "\<And>path text fs p. fst (ge_WriteFile env path text fs) \<noteq> Panic p"
  shows "fst (write_template env dir obj fs) = Ret ()"
proof -
  let ?text = "strings_Replace yml ''namespace: linkerd'' ''namespace: {{ .Release.Namespace }}''"
  obtain r fs' where w: "ge_WriteFile env (dir @ ''/'' @ f) ?text fs = (r, fs')" by fastforce
  with assms(3) [of "dir @ ''/'' @ f" ?text fs] have "\<not> (\<exists>p. r = Panic p)" by auto
  with w show ?thesis
    by (cases r) (simp_all add: write_template_def assms(1,2) abind_def atry_def act_defs)
qed

text \<open>A document separator is taken for one wherever it stands: also inside a value.\<close>

lemma dashes_split: "strings_Split ''data: a---b'' ''---'' = [''data: a'', ''b'']"
  by code_simp

text \<open>A namespace that begins with linkerd is changed as well.\<close>

lemma prefix_replaced:
  "strings_Replace ''namespace: linkerd-viz'' ''namespace: linkerd'' ''namespace: {{ .Release.Namespace }}'' =
     ''namespace: {{ .Release.Namespace }}-viz''"
  by code_simp

end
