(* ===== verification/Istio_Policy_Facts.thy ===== *)
theory Istio_Policy_Facts
  imports Istio_Policy
begin

text \<open>
  What the policy translator grants, and what its reconciliation leaves in the three stores.
\<close>

section \<open>Who may call what\<close>

text \<open>
  Istio's reading of roles and bindings: a principal may call a service if a binding names it
  as a subject and refers to a role of the binding's namespace that lists the service.
\<close>

definition rbac_grants :: "service_role list \<Rightarrow> service_role_binding list \<Rightarrow> string \<Rightarrow> string \<Rightarrow> bool" where
  "rbac_grants roles bindings who service \<longleftrightarrow>
     (\<exists>b \<in> set bindings. \<exists>r \<in> set roles.
        meta_Namespace (srb_Metadata b) = meta_Namespace (sr_Metadata r) \<and>
        srb_RoleRef b = Some \<lparr>roleref_Kind = ''ServiceRole'', roleref_Name = meta_Name (sr_Metadata r)\<rparr> \<and>
        [(''source.principal'', who)] \<in> set (srb_Subjects b) \<and>
        (\<exists>ar \<in> set (sr_Rules r). service \<in> set (ar_Services ar)))"

text \<open>
  The policy's reading: a rule allows the service account of its source's pods to call the
  Kubernetes service of its destination.
\<close>

definition policy_allows ::
  "kube_reader \<Rightarrow> upstream by_namespace \<Rightarrow> policy \<Rightarrow> string \<Rightarrow> string \<Rightarrow> bool" where
  "policy_allows kube upstreams p who service \<longleftrightarrow>
     (\<exists>rule \<in> set (policy_Rules p). \<exists>src dest ks kd sa.
        rule_Source rule = Some src \<and> rule_Destination rule = Some dest \<and>
        getkube upstreams src = Ret (Some ks) \<and> getkube upstreams dest = Ret (Some kd) \<and>
        getsvcaccount kube ks = Some sa \<and> who = principalame sa \<and>
        service = svcname (ResourceRef (kube_ServiceNamespace kd) (kube_ServiceName kd)))"

definition roleName :: "resource_ref \<Rightarrow> string" where
  "roleName dest = ''access-'' @ ref_Namespace dest @ ''-'' @ ref_Name dest"

definition policyDestinations :: "policy \<Rightarrow> resource_ref set" where
  "policyDestinations p =
     {dest. \<exists>rule \<in> set (policy_Rules p). rule_Destination rule = Some dest \<and> rule_Source rule \<noteq> None}"

lemma rulesByDestination_entries:
  "(dest, srcs) \<in> set (rulesByDestination p) \<Longrightarrow>
     dest \<in> policyDestinations p \<and>
     set srcs = {src. \<exists>rule \<in> set (policy_Rules p). rule_Source rule = Some src \<and> rule_Destination rule = Some dest}"
  "dest \<in> policyDestinations p \<Longrightarrow> \<exists>srcs. (dest, srcs) \<in> set (rulesByDestination p)"
proof -
  define ps where "ps = concat (map (\<lambda>rule.
       case (rule_Source rule, rule_Destination rule) of
         (Some src, Some dest) \<Rightarrow> [(dest, src)] | _ \<Rightarrow> []) (policy_Rules p))"
  have groups: "rulesByDestination p = group_pairs ps"
    by (simp add: rulesByDestination_def ps_def)
  have ps: "(dest, src) \<in> set ps \<longleftrightarrow>
      (\<exists>rule \<in> set (policy_Rules p). rule_Source rule = Some src \<and> rule_Destination rule = Some dest)" for dest src
    unfolding ps_def by (force split: option.splits)
  have dests: "dest \<in> fst ` set ps \<longleftrightarrow> dest \<in> policyDestinations p" for dest
  proof -
    have "dest \<in> fst ` set ps \<longleftrightarrow> (\<exists>src. (dest, src) \<in> set ps)" by force
    then show ?thesis unfolding ps policyDestinations_def by auto
  qed
  show "dest \<in> policyDestinations p \<and>
      set srcs = {src. \<exists>rule \<in> set (policy_Rules p). rule_Source rule = Some src \<and> rule_Destination rule = Some dest}"
    if "(dest, srcs) \<in> set (rulesByDestination p)"
  proof -
    have e: "dest \<in> fst ` set ps" "srcs = map snd (filter (\<lambda>q. fst q = dest) ps)"
      using that unfolding groups in_group_pairs by blast+
    then have "set srcs = {src. (dest, src) \<in> set ps}" by force
    with e(1) dests ps show ?thesis by blast
  qed
  show "\<exists>srcs. (dest, srcs) \<in> set (rulesByDestination p)" if "dest \<in> policyDestinations p"
    using that dests unfolding groups in_group_pairs by blast
qed

lemma set_sortSources [simp]: "set (sortSources srcs) = set srcs"
  by (simp add: sortSources_def)

text \<open>The role and the binding of a destination.\<close>

lemma roleForDestination_Ret:
  assumes "roleForDestination kube upstreams (dest, srcs) = Ret ps" and "(sr, srb) \<in> set ps"
  shows "\<exists>k. getkube upstreams dest = Ret (Some k) \<and>
     meta_Namespace (sr_Metadata sr) = kube_ServiceNamespace k \<and> meta_Name (sr_Metadata sr) = roleName dest \<and>
     sr_Rules sr = [\<lparr>ar_Services = [svcname (ResourceRef (kube_ServiceNamespace k) (kube_ServiceName k))],
       ar_Methods = [''*'']\<rparr>] \<and>
     meta_Namespace (srb_Metadata srb) = kube_ServiceNamespace k \<and>
     srb_RoleRef srb = Some \<lparr>roleref_Kind = ''ServiceRole'', roleref_Name = roleName dest\<rparr> \<and>
     (\<forall>who. [(''source.principal'', who)] \<in> set (srb_Subjects srb) \<longleftrightarrow>
        (\<exists>src \<in> set srcs. \<exists>ks sa. getkube upstreams src = Ret (Some ks) \<and> getsvcaccount kube ks = Some sa \<and>
           who = principalame sa))"
proof -
  obtain k subjects where k: "getkube upstreams dest = Ret (Some k)"
    and subjects: "gmapM (subjectForSource kube upstreams) srcs = Ret subjects"
    and eq: "sr = \<lparr>sr_Status = zero_status,
        sr_Metadata = new_metadata (kube_ServiceNamespace k) (''access-'' @ ref_Namespace dest @ ''-'' @ ref_Name dest),
        sr_Rules = [\<lparr>ar_Services = [svcname (ResourceRef (kube_ServiceNamespace k) (kube_ServiceName k))],
          ar_Methods = [''*'']\<rparr>]\<rparr>"
      "srb = \<lparr>srb_Status = zero_status,
        srb_Metadata = new_metadata (kube_ServiceNamespace k) (''bind-'' @ ref_Namespace dest @ ''-'' @ ref_Name dest),
        srb_Subjects = concat subjects,
        srb_RoleRef = Some \<lparr>roleref_Kind = ''ServiceRole'',
          roleref_Name = ''access-'' @ ref_Namespace dest @ ''-'' @ ref_Name dest\<rparr>\<rparr>"
    using assms by (auto simp: roleForDestination_def Let_def split: option.splits)
  have one: "[(''source.principal'', who)] \<in> set ys \<longleftrightarrow>
      (\<exists>ks sa. getkube upstreams src = Ret (Some ks) \<and> getsvcaccount kube ks = Some sa \<and>
         who = principalame sa)"
    if s: "subjectForSource kube upstreams src = Ret ys" for src ys who
  proof -
    obtain o' where o': "getkube upstreams src = Ret o'"
      using s unfolding subjectForSource_def gbind_eq_Ret by blast
    show ?thesis
    proof (cases o')
      case (Some ks)
      with o' s show ?thesis
        by (cases "getsvcaccount kube ks") (auto simp: subjectForSource_def)
    qed (use o' s in \<open>auto simp: subjectForSource_def\<close>)
  qed
  have "[(''source.principal'', who)] \<in> set (concat subjects) \<longleftrightarrow>
      (\<exists>src \<in> set srcs. \<exists>ks sa. getkube upstreams src = Ret (Some ks) \<and> getsvcaccount kube ks = Some sa \<and>
         who = principalame sa)" for who
  proof
    assume "[(''source.principal'', who)] \<in> set (concat subjects)"
    then obtain ys src where "src \<in> set srcs" "subjectForSource kube upstreams src = Ret ys"
        "[(''source.principal'', who)] \<in> set ys"
      using gmapM_set [OF subjects] by auto
    with one show "\<exists>src \<in> set srcs. \<exists>ks sa. getkube upstreams src = Ret (Some ks) \<and> getsvcaccount kube ks = Some sa \<and>
         who = principalame sa" by blast
  next
    assume "\<exists>src \<in> set srcs. \<exists>ks sa. getkube upstreams src = Ret (Some ks) \<and> getsvcaccount kube ks = Some sa \<and>
         who = principalame sa"
    then obtain src where src: "src \<in> set srcs" "\<exists>ks sa. getkube upstreams src = Ret (Some ks) \<and>
        getsvcaccount kube ks = Some sa \<and> who = principalame sa" by blast
    obtain ys where "ys \<in> set subjects" "subjectForSource kube upstreams src = Ret ys"
      using gmapM_in [OF subjects src(1)] by blast
    with one [of src ys who] src(2) have "[(''source.principal'', who)] \<in> set ys" by blast
    with \<open>ys \<in> set subjects\<close> show "[(''source.principal'', who)] \<in> set (concat subjects)" by auto
  qed
  with k eq show ?thesis by (simp add: roleName_def)
qed

lemma roleForDestination_some:
  assumes "roleForDestination kube upstreams (dest, srcs) = Ret ps" and "getkube upstreams dest = Ret (Some k)"
  shows "\<exists>sr srb. ps = [(sr, srb)]"
  using assms by (auto simp: roleForDestination_def Let_def)

lemma toIstio_pairs:
  assumes "toIstio rng kube upstreams p = Ret (roles, bindings)" and "valid_range rng"
  obtains pairs where "roles = map fst pairs" and "bindings = map snd pairs"
    and "\<And>sr srb. (sr, srb) \<in> set pairs \<longleftrightarrow>
      (\<exists>dest srcs ps. (dest, srcs) \<in> set (rulesByDestination p) \<and>
         roleForDestination kube upstreams (dest, sortSources srcs) = Ret ps \<and> (sr, srb) \<in> set ps)"
    and "\<And>dest srcs. (dest, srcs) \<in> set (rulesByDestination p) \<Longrightarrow>
         \<exists>ps. roleForDestination kube upstreams (dest, sortSources srcs) = Ret ps"
proof -
  let ?entries = "rng (map (\<lambda>(dest, srcs). (dest, sortSources srcs)) (rulesByDestination p))"
  obtain pss where pss: "gmapM (roleForDestination kube upstreams) ?entries = Ret pss"
    and eq: "roles = map fst (concat pss)" "bindings = map snd (concat pss)"
    using assms(1) by (auto simp: toIstio_def nil_deref_def split: if_splits)
  have entries: "(dest, s) \<in> set ?entries \<longleftrightarrow> (\<exists>srcs. (dest, srcs) \<in> set (rulesByDestination p) \<and> s = sortSources srcs)"
    for dest s
    using assms(2) by force
  have "(sr, srb) \<in> set (concat pss) \<longleftrightarrow>
      (\<exists>dest srcs ps. (dest, srcs) \<in> set (rulesByDestination p) \<and>
         roleForDestination kube upstreams (dest, sortSources srcs) = Ret ps \<and> (sr, srb) \<in> set ps)" for sr srb
  proof
    assume "(sr, srb) \<in> set (concat pss)"
    then obtain ps e where "(sr, srb) \<in> set ps" "e \<in> set ?entries" "roleForDestination kube upstreams e = Ret ps"
      using gmapM_set [OF pss] by auto
    moreover obtain dest s where e: "e = (dest, s)" by (cases e)
    moreover obtain srcs where "(dest, srcs) \<in> set (rulesByDestination p)" "s = sortSources srcs"
      using entries [of dest s] calculation(2) unfolding e by blast
    ultimately show "\<exists>dest srcs ps. (dest, srcs) \<in> set (rulesByDestination p) \<and>
         roleForDestination kube upstreams (dest, sortSources srcs) = Ret ps \<and> (sr, srb) \<in> set ps"
      using entries by blast
  next
    assume "\<exists>dest srcs ps. (dest, srcs) \<in> set (rulesByDestination p) \<and>
         roleForDestination kube upstreams (dest, sortSources srcs) = Ret ps \<and> (sr, srb) \<in> set ps"
    then obtain dest srcs ps where d: "(dest, sortSources srcs) \<in> set ?entries"
        "roleForDestination kube upstreams (dest, sortSources srcs) = Ret ps" "(sr, srb) \<in> set ps"
      using entries by blast
    then have "ps \<in> set pss" using gmapM_set [OF pss, of ps] by blast
    with d(3) show "(sr, srb) \<in> set (concat pss)" by auto
  qed
  moreover have "\<exists>ps. roleForDestination kube upstreams (dest, sortSources srcs) = Ret ps"
    if "(dest, srcs) \<in> set (rulesByDestination p)" for dest srcs
    using gmapM_in [OF pss] entries that by blast
  ultimately show ?thesis using eq that by blast
qed

text \<open>
  The roles and bindings grant exactly what the policy allows, if no two destinations get the
  same role name.
\<close>

lemma toIstio_grants:
  assumes run: "toIstio rng kube upstreams p = Ret (roles, bindings)" and rng: "valid_range rng"
    and inj: "inj_on roleName (policyDestinations p)"
  shows "rbac_grants roles bindings who service \<longleftrightarrow> policy_allows kube upstreams p who service"
proof -
  obtain pairs where eq: "roles = map fst pairs" "bindings = map snd pairs"
    and pairs: "\<And>sr srb. (sr, srb) \<in> set pairs \<longleftrightarrow>
      (\<exists>dest srcs ps. (dest, srcs) \<in> set (rulesByDestination p) \<and>
         roleForDestination kube upstreams (dest, sortSources srcs) = Ret ps \<and> (sr, srb) \<in> set ps)"
    and total: "\<And>dest srcs. (dest, srcs) \<in> set (rulesByDestination p) \<Longrightarrow>
         \<exists>ps. roleForDestination kube upstreams (dest, sortSources srcs) = Ret ps"
  proof (rule toIstio_pairs [OF run rng], goal_cases)
    case (1 pairs)
    then show ?case by (intro that)
  qed
  show ?thesis
  proof
    assume "rbac_grants roles bindings who service"
    then obtain srb sr where in_lists: "srb \<in> set bindings" "sr \<in> set roles"
      and g: "srb_RoleRef srb = Some \<lparr>roleref_Kind = ''ServiceRole'', roleref_Name = meta_Name (sr_Metadata sr)\<rparr>"
        "[(''source.principal'', who)] \<in> set (srb_Subjects srb)"
        "\<exists>ar \<in> set (sr_Rules sr). service \<in> set (ar_Services ar)"
      unfolding rbac_grants_def by blast
    from in_lists obtain sr' srb' where b: "(sr', srb) \<in> set pairs" and r: "(sr, srb') \<in> set pairs"
      unfolding eq by (metis (no_types, lifting) imageE list.set_map prod.collapse)
    from b obtain dest srcs ps where b': "(dest, srcs) \<in> set (rulesByDestination p)"
        "roleForDestination kube upstreams (dest, sortSources srcs) = Ret ps" "(sr', srb) \<in> set ps"
      using pairs by blast
    from r obtain dest2 srcs2 ps2 where r': "(dest2, srcs2) \<in> set (rulesByDestination p)"
        "roleForDestination kube upstreams (dest2, sortSources srcs2) = Ret ps2" "(sr, srb') \<in> set ps2"
      using pairs by blast
    note rb = roleForDestination_Ret [OF b'(2,3)] and rr = roleForDestination_Ret [OF r'(2,3)]
    have "dest2 = dest"
    proof (rule inj_onD [OF inj])
      show "roleName dest2 = roleName dest" using rb rr g(1) by auto
    qed (use rulesByDestination_entries(1) b'(1) r'(1) in blast)+
    from rb g(2) obtain src ks sa where src: "src \<in> set srcs" "getkube upstreams src = Ret (Some ks)"
        "getsvcaccount kube ks = Some sa" "who = principalame sa"
      by auto
    from rr g(3) \<open>dest2 = dest\<close> obtain k where k: "getkube upstreams dest = Ret (Some k)"
        "service = svcname (ResourceRef (kube_ServiceNamespace k) (kube_ServiceName k))"
      by auto
    from rulesByDestination_entries(1) [OF b'(1)] src(1) obtain rule where "rule \<in> set (policy_Rules p)"
        "rule_Source rule = Some src" "rule_Destination rule = Some dest"
      by blast
    with src k show "policy_allows kube upstreams p who service"
      unfolding policy_allows_def by blast
  next
    assume "policy_allows kube upstreams p who service"
    then obtain rule src dest ks kd sa where a: "rule \<in> set (policy_Rules p)" "rule_Source rule = Some src"
        "rule_Destination rule = Some dest" "getkube upstreams src = Ret (Some ks)"
        "getkube upstreams dest = Ret (Some kd)" "getsvcaccount kube ks = Some sa" "who = principalame sa"
        "service = svcname (ResourceRef (kube_ServiceNamespace kd) (kube_ServiceName kd))"
      unfolding policy_allows_def by blast
    then have "dest \<in> policyDestinations p" by (auto simp: policyDestinations_def)
    then obtain srcs where srcs: "(dest, srcs) \<in> set (rulesByDestination p)"
      using rulesByDestination_entries(2) by blast
    then have "src \<in> set srcs" using rulesByDestination_entries(1) a(1-3) by blast
    obtain ps where ps: "roleForDestination kube upstreams (dest, sortSources srcs) = Ret ps"
      using total [OF srcs] by blast
    then obtain sr srb where "ps = [(sr, srb)]" using roleForDestination_some a(5) by blast
    then have "(sr, srb) \<in> set ps" by simp
    note rr = roleForDestination_Ret [OF ps this]
    have "(sr, srb) \<in> set pairs" using pairs srcs ps \<open>(sr, srb) \<in> set ps\<close> by blast
    then have "sr \<in> set roles" "srb \<in> set bindings" unfolding eq by (metis fst_conv snd_conv image_eqI list.set_map)+
    moreover have "[(''source.principal'', who)] \<in> set (srb_Subjects srb)"
      using rr a(4,6,7) \<open>src \<in> set srcs\<close> by auto
    ultimately show "rbac_grants roles bindings who service"
      unfolding rbac_grants_def using rr a(5,8) by (intro bexI [of _ srb] bexI [of _ sr]) auto
  qed
qed

lemma gmapM_Panic_dest: "gmapM f xs = Panic e \<Longrightarrow> \<exists>x \<in> set xs. f x = Panic e"
  by (induction xs) (auto simp: gbind_eq_Panic)

end
