(* ===== verification/Istio_Policy_Properties.thy ===== *)
theory Istio_Policy_Properties
  imports Istio_Policy_Facts
begin

text \<open>
  The properties of Istio's policy syncer: who is granted access, what a sync leaves in the
  stores of roles, bindings and configurations, and what the nil write selector removes.
\<close>

section \<open>What is stored\<close>

definition same_srb :: "service_role_binding \<Rightarrow> service_role_binding \<Rightarrow> bool" where
  "same_srb r d \<longleftrightarrow>
     map (sort_key fst) (srb_Subjects r) = map (sort_key fst) (srb_Subjects d) \<and> srb_RoleRef r = srb_RoleRef d"

lemma but_version_srb:
  "but_version service_role_binding_ops r d \<Longrightarrow> srb_Subjects r = srb_Subjects d \<and> srb_RoleRef r = srb_RoleRef d"
  by (cases r; cases d) (simp add: but_version_def ops_simps)

lemma but_version_sr: "but_version service_role_ops r d \<Longrightarrow> sr_Rules r = sr_Rules d"
  by (cases r; cases d) (simp add: but_version_def ops_simps)

lemma but_version_rc:
  "but_version rbac_config_ops r d \<Longrightarrow> rc_Mode r = rc_Mode d \<and> rc_EnforcementMode r = rc_EnforcementMode d"
  by (cases r; cases d) (simp add: but_version_def ops_simps)

lemma policy_preserve_total:
  "total_transition (Some preserveServiceRoleBinding)" "total_transition (Some preserveServiceRole)"
  "total_transition (Some preserveRbacConfig)"
  by (simp_all add: total_transition_def preserveServiceRoleBinding_def preserveServiceRole_def
      preserveRbacConfig_def Let_def)

lemma settled_same_srb:
  assumes "settled service_role_binding_ops (Some preserveServiceRoleBinding) before d r"
  shows "same_srb r d"
proof (cases before)
  case None
  with assms but_version_srb [of r d] show ?thesis by (simp add: settled_def same_srb_def)
next
  case (Some r0)
  let ?d = "prepare_update service_role_binding_ops r0 d"
  have d: "srb_Subjects ?d = srb_Subjects d" "srb_RoleRef ?d = srb_RoleRef d"
    by (simp_all add: prepare_update_def ops_simps)
  show ?thesis
  proof (cases "preserveServiceRoleBinding r0 ?d = Ret False")
    case True
    with assms Some have "r = r0" by (simp add: settled_def)
    with True d show ?thesis
      by (cases r0; cases d)
        (simp add: preserveServiceRoleBinding_def same_srb_def normal_srb_def Let_def prepare_update_def ops_simps)
  next
    case False
    with assms Some but_version_srb [of r ?d] d show ?thesis by (simp add: settled_def same_srb_def)
  qed
qed

lemma settled_same_sr:
  assumes "settled service_role_ops (Some preserveServiceRole) before d r"
  shows "sr_Rules r = sr_Rules d"
proof (cases before)
  case None
  with assms but_version_sr [of r d] show ?thesis by (simp add: settled_def)
next
  case (Some r0)
  let ?d = "prepare_update service_role_ops r0 d"
  have d: "sr_Rules ?d = sr_Rules d" by (simp add: prepare_update_def ops_simps)
  show ?thesis
  proof (cases "preserveServiceRole r0 ?d = Ret False")
    case True
    with assms Some have "r = r0" by (simp add: settled_def)
    with True d show ?thesis
      by (cases r0; cases d) (simp add: preserveServiceRole_def Let_def prepare_update_def ops_simps)
  next
    case False
    with assms Some but_version_sr [of r ?d] d show ?thesis by (simp add: settled_def)
  qed
qed

lemma settled_same_rc:
  assumes "settled rbac_config_ops (Some preserveRbacConfig) before d r"
  shows "rc_Mode r = rc_Mode d \<and> rc_EnforcementMode r = rc_EnforcementMode d"
proof (cases before)
  case None
  with assms but_version_rc [of r d] show ?thesis by (simp add: settled_def)
next
  case (Some r0)
  let ?d = "prepare_update rbac_config_ops r0 d"
  have d: "rc_Mode ?d = rc_Mode d" "rc_EnforcementMode ?d = rc_EnforcementMode d"
    by (simp_all add: prepare_update_def ops_simps)
  show ?thesis
  proof (cases "preserveRbacConfig r0 ?d = Ret False")
    case True
    with assms Some have "r = r0" by (simp add: settled_def)
    with True d show ?thesis
      by (cases r0; cases d) (simp add: preserveRbacConfig_def Let_def prepare_update_def ops_simps)
  next
    case False
    with assms Some but_version_rc [of r ?d] d show ?thesis by (simp add: settled_def)
  qed
qed

section \<open>The three stores\<close>

locale policy_stores =
  rc: resource_client rbac_config_ops rcc rcv rcok rccov +
  srb: resource_client service_role_binding_ops srbc srbv srbok srbcov +
  sr: resource_client service_role_ops src srv srok srcov
  for rcc :: "('c, rbac_config) client" and rcv rcok rccov
    and srbc :: "('b, service_role_binding) client" and srbv srbok srbcov
    and src :: "('r, service_role) client" and srv srok srcov
begin

lemma reconcileRoles_converges:
  assumes s: "ps_serviceRoleBindings s = srbc" "ps_serviceRoles s = src" "ps_WriteSelector s = sel"
    and ok: "srbok b" "srok r"
    and w: "writable service_role_binding_ops srbcov sel nss bindings (srbv b)"
      "writable service_role_ops srcov sel nss roles (srv r)"
  shows "\<exists>b' r'. reconcileRoles s roles bindings nss (b, r) = (Ret (), (b', r')) \<and> srbok b' \<and> srok r' \<and>
     converged service_role_binding_ops (\<lambda>_ d x. same_srb x d) srbcov sel nss bindings (srbv b) (srbv b') \<and>
     converged service_role_ops (\<lambda>_ d x. sr_Rules x = sr_Rules d) srcov sel nss roles (srv r) (srv r')"
proof -
  have md: "GetMetadata service_role_binding_ops = srb_Metadata" "GetMetadata service_role_ops = sr_Metadata"
    by (simp_all add: ops_simps)
  obtain b' where b': "aforeach (\<lambda>ns. Reconcile service_role_binding_ops srbc ns
            (filter (\<lambda>d. meta_Namespace (srb_Metadata d) = ns) bindings) (Some preserveServiceRoleBinding) sel) nss b
          = (Ret (), b')" "srbok b'"
      "converged service_role_binding_ops (settled service_role_binding_ops (Some preserveServiceRoleBinding))
         srbcov sel nss bindings (srbv b) (srbv b')"
    using srb.foreach_Reconcile_converges [OF ok(1) w(1) policy_preserve_total(1)] by (auto simp: md)
  obtain r' where r': "aforeach (\<lambda>ns. Reconcile service_role_ops src ns
            (filter (\<lambda>d. meta_Namespace (sr_Metadata d) = ns) roles) (Some preserveServiceRole) sel) nss r
          = (Ret (), r')" "srok r'"
      "converged service_role_ops (settled service_role_ops (Some preserveServiceRole))
         srcov sel nss roles (srv r) (srv r')"
    using sr.foreach_Reconcile_converges [OF ok(2) w(2) policy_preserve_total(2)] by (auto simp: md)
  have "reconcileRoles s roles bindings nss (b, r) = (Ret (), (b', r'))"
    unfolding reconcileRoles_def s by (rule aforeach_two_stores [OF b'(1) r'(1)])
  moreover have "converged service_role_binding_ops (\<lambda>_ d x. same_srb x d) srbcov sel nss bindings (srbv b) (srbv b')"
    using b'(3) by (rule converged_mono) (rule settled_same_srb)
  moreover have "converged service_role_ops (\<lambda>_ d x. sr_Rules x = sr_Rules d) srcov sel nss roles (srv r) (srv r')"
    using r'(3) by (rule converged_mono) (rule settled_same_sr)
  ultimately show ?thesis using b'(2) r'(2) by blast
qed

lemma config_converges:
  assumes "rcok c" and "writable rbac_config_ops rccov sel [ns] ds (rcv c)"
    and "\<And>d. d \<in> set ds \<Longrightarrow> meta_Namespace (rc_Metadata d) = ns"
  shows "\<exists>c'. Reconcile rbac_config_ops rcc ns ds (Some preserveRbacConfig) sel c = (Ret (), c') \<and> rcok c' \<and>
     converged rbac_config_ops (\<lambda>_ d x. rc_Mode x = rc_Mode d \<and> rc_EnforcementMode x = rc_EnforcementMode d)
       rccov sel [ns] ds (rcv c) (rcv c')"
proof -
  have "GetMetadata rbac_config_ops = rc_Metadata" by (simp add: ops_simps)
  moreover have "filter (\<lambda>d. meta_Namespace (rc_Metadata d) = ns) ds = ds"
    using assms(3) by (simp add: filter_id_conv)
  ultimately obtain c' where c': "Reconcile rbac_config_ops rcc ns ds (Some preserveRbacConfig) sel c = (Ret (), c')"
      "rcok c'" "converged rbac_config_ops (settled rbac_config_ops (Some preserveRbacConfig)) rccov sel [ns] ds (rcv c) (rcv c')"
    using rc.foreach_Reconcile_converges [OF assms(1,2) policy_preserve_total(3)]
    by (auto simp: abind_eq_Ret aret_def)
  from c'(3) have "converged rbac_config_ops (\<lambda>_ d x. rc_Mode x = rc_Mode d \<and> rc_EnforcementMode x = rc_EnforcementMode d)
       rccov sel [ns] ds (rcv c) (rcv c')"
    by (rule converged_mono) (rule settled_same_rc)
  with c' show ?thesis by blast
qed

end

lemma mem_policy_stores:
  assumes "valid_range r1" and "valid_range r2" and "valid_range r3"
  shows "policy_stores
     (mem_client r1 rbac_config_ops k1) (mem_view rbac_config_ops k1) (mem_ok rbac_config_ops k1) mem_covers
     (mem_client r2 service_role_binding_ops k2) (mem_view service_role_binding_ops k2)
     (mem_ok service_role_binding_ops k2) mem_covers
     (mem_client r3 service_role_ops k3) (mem_view service_role_ops k3) (mem_ok service_role_ops k3) mem_covers"
  using assms by (intro policy_stores.intro mem_store_client rbac_config.resource_type_axioms
      service_role_binding.resource_type_axioms service_role.resource_type_axioms)

interpretation policy_memory:
  policy_stores "mem_client id rbac_config_ops ''*v1alpha1.RbacConfig''"
    "mem_view rbac_config_ops ''*v1alpha1.RbacConfig''" "mem_ok rbac_config_ops ''*v1alpha1.RbacConfig''" mem_covers
    "mem_client id service_role_binding_ops ''*v1alpha1.ServiceRoleBinding''"
    "mem_view service_role_binding_ops ''*v1alpha1.ServiceRoleBinding''"
    "mem_ok service_role_binding_ops ''*v1alpha1.ServiceRoleBinding''" mem_covers
    "mem_client id service_role_ops ''*v1alpha1.ServiceRole''"
    "mem_view service_role_ops ''*v1alpha1.ServiceRole''" "mem_ok service_role_ops ''*v1alpha1.ServiceRole''" mem_covers
  by (rule mem_policy_stores) simp_all

section \<open>An example\<close>

definition pol_upstream :: "string \<Rightarrow> string \<Rightarrow> upstream" where
  "pol_upstream name svc =
     \<lparr>upstream_UpstreamSpec = Some \<lparr>us_UpstreamType = Some (UpstreamSpec_Kube
        \<lparr>kube_ServiceName = svc, kube_ServiceNamespace = ''app'', kube_ServicePort = 80,
         kube_Selector = []\<rparr>)\<rparr>,
      upstream_Status = zero_status, upstream_Metadata = new_metadata ''ns'' name\<rparr>"

definition pol_upstreams :: "upstream by_namespace" where
  "pol_upstreams = [(''ns'', [pol_upstream ''u1'' ''web'', pol_upstream ''u2'' ''db''])]"

definition pol_policy :: policy where
  "pol_policy = \<lparr>policy_Rules = [\<lparr>rule_Source = Some (ResourceRef ''ns'' ''u1''),
     rule_Destination = Some (ResourceRef ''ns'' ''u2'')\<rparr>]\<rparr>"

definition pol_kube :: kube_reader where
  "pol_kube = \<lparr>kube_Namespaces_List = Ret [''app''],
     kube_Services_Get = (\<lambda>ns name. Ret [(''app'', name)]),
     kube_Pods_List = (\<lambda>ns sel. Ret [''sa''])\<rparr>"

definition pol_role :: service_role where
  "pol_role = \<lparr>sr_Status = zero_status, sr_Metadata = new_metadata ''app'' ''access-ns-u2'',
     sr_Rules = [\<lparr>ar_Services = [''db.app.svc.cluster.local''], ar_Methods = [''*'']\<rparr>]\<rparr>"

definition pol_binding :: service_role_binding where
  "pol_binding = \<lparr>srb_Status = zero_status, srb_Metadata = new_metadata ''app'' ''bind-ns-u2'',
     srb_Subjects = [[(''source.principal'', ''cluster.local/ns/app/sa/sa'')]],
     srb_RoleRef = Some \<lparr>roleref_Kind = ''ServiceRole'', roleref_Name = ''access-ns-u2''\<rparr>\<rparr>"

lemma pol_getkube [simp]:
  "getkube pol_upstreams (ResourceRef ''ns'' ''u1'') = Ret (Some \<lparr>kube_ServiceName = ''web'',
     kube_ServiceNamespace = ''app'', kube_ServicePort = 80, kube_Selector = []\<rparr>)"
  "getkube pol_upstreams (ResourceRef ''ns'' ''u2'') = Ret (Some \<lparr>kube_ServiceName = ''db'',
     kube_ServiceNamespace = ''app'', kube_ServicePort = 80, kube_Selector = []\<rparr>)"
  by (simp_all add: getkube_def pol_upstreams_def pol_upstream_def byNamespace_List_def list_Sort_def
      ops_simps Metadata_Ref_def less_eq_resource_ref_def upstream_Type_def del: ResourceRef_meta)

lemma pol_toIstio: "toIstio id pol_kube pol_upstreams pol_policy = Ret ([pol_role], [pol_binding])"
  by (simp add: toIstio_def rulesByDestination_def group_pairs_def map_append_def pol_policy_def
      sortSources_def roleForDestination_def subjectForSource_def getsvcaccount_def pol_kube_def
      svcname_def principalame_def pol_role_def pol_binding_def Let_def del: gbind_eq_Ret)

section \<open>Access\<close>

text \<open>
  C7: The generated service roles and bindings let a principal call a service exactly when a
  rule of the policy does: its source upstream resolves to a Kubernetes service with a pod of
  that service account, its destination upstream to that service. (No two destinations may
  get the same role name, which joins namespace and name with a dash.)
\<close>

theorem policy_access_correct:
  assumes "toIstio rng kube upstreams p = Ret (roles, bindings)" and "valid_range rng"
    and "inj_on roleName (policyDestinations p)"
  shows "rbac_grants roles bindings who service \<longleftrightarrow> policy_allows kube upstreams p who service"
  using assms by (rule toIstio_grants)

theorem policy_access_correct_witness:
  "policy_allows pol_kube pol_upstreams pol_policy ''cluster.local/ns/app/sa/sa'' ''db.app.svc.cluster.local''"
proof -
  have "inj_on roleName (policyDestinations pol_policy)"
    by (auto simp: policyDestinations_def pol_policy_def intro: inj_onI)
  moreover have "rbac_grants [pol_role] [pol_binding] ''cluster.local/ns/app/sa/sa'' ''db.app.svc.cluster.local''"
    by (simp add: rbac_grants_def pol_role_def pol_binding_def)
  ultimately show ?thesis
    using policy_access_correct [OF pol_toIstio valid_range_id(1)] by blast
qed

text \<open>
  A rule without a destination makes the conversion panic (the loop that sorts
  dereferences it), although the loop before skips such rules: no policy that contains one is
  synchronised, and nothing is written.
\<close>

theorem rule_without_destination_panics:
  assumes "rule \<in> set (policy_Rules p)" and "rule_Destination rule = None"
  shows "\<exists>e. syncPolicy rng s upstreams p st = (Panic e, st)"
proof -
  have "toIstio rng (ps_kubeClient s) upstreams p = nil_deref"
    unfolding toIstio_def using assms by auto
  then show ?thesis by (simp add: syncPolicy_def nil_deref_def alift_def abind_def)
qed

theorem rule_without_destination_panics_witness:
  "\<exists>e. syncPolicy id \<lparr>ps_WriteSelector = [], ps_WriteNamespace = ''sys'',
        ps_serviceRoleBindings = mem_client id service_role_binding_ops ''b'',
        ps_serviceRoles = mem_client id service_role_ops ''r'',
        ps_rbacConfigs = mem_client id rbac_config_ops ''c'', ps_kubeClient = pol_kube\<rparr> pol_upstreams
      \<lparr>policy_Rules = [\<lparr>rule_Source = None, rule_Destination = None\<rparr>]\<rparr> ([], [], []) = (Panic e, ([], [], []))"
  by (rule rule_without_destination_panics [of "\<lparr>rule_Source = None, rule_Destination = None\<rparr>"]) simp_all

section \<open>Synchronising\<close>

text \<open>
  C10: Synchronising a policy on three stores succeeds when its roles, bindings and the global
  configuration can be written. Then every generated role and binding of a listed namespace
  is stored with its rules, or its subjects and role, every other one there that the write
  selector matches is gone, and enforcement is on; nothing else has changed.
\<close>

theorem syncPolicy_converges:
  assumes rngs: "valid_range r1" "valid_range r2" "valid_range r3"
    and s: "s = \<lparr>ps_WriteSelector = sel, ps_WriteNamespace = wns,
        ps_serviceRoleBindings = mem_client r2 service_role_binding_ops k2,
        ps_serviceRoles = mem_client r3 service_role_ops k3,
        ps_rbacConfigs = mem_client r1 rbac_config_ops k1, ps_kubeClient = kube\<rparr>"
    and conv: "toIstio rng kube upstreams p = Ret (roles, bindings)" "kube_Namespaces_List kube = Ret nss"
    and ok: "mem_ok rbac_config_ops k1 c" "mem_ok service_role_binding_ops k2 b" "mem_ok service_role_ops k3 r"
    and w: "writable rbac_config_ops mem_covers sel [wns] [update_resource rbac_config_ops sel (globalConfig wns)]
          (mem_view rbac_config_ops k1 c)"
      "writable service_role_binding_ops mem_covers sel nss
          (map (update_resource service_role_binding_ops sel) bindings) (mem_view service_role_binding_ops k2 b)"
      "writable service_role_ops mem_covers sel nss (map (update_resource service_role_ops sel) roles)
          (mem_view service_role_ops k3 r)"
  shows "\<exists>c' b' r'. syncPolicy rng s upstreams p (c, b, r) = (Ret (), (c', b', r')) \<and>
     converged rbac_config_ops (\<lambda>_ d x. rc_Mode x = RbacConfig_ON \<and> rc_EnforcementMode x = EnforcementMode_ENFORCED)
       mem_covers sel [wns] [update_resource rbac_config_ops sel (globalConfig wns)]
       (mem_view rbac_config_ops k1 c) (mem_view rbac_config_ops k1 c') \<and>
     converged service_role_binding_ops (\<lambda>_ d x. same_srb x d) mem_covers sel nss
       (map (update_resource service_role_binding_ops sel) bindings)
       (mem_view service_role_binding_ops k2 b) (mem_view service_role_binding_ops k2 b') \<and>
     converged service_role_ops (\<lambda>_ d x. sr_Rules x = sr_Rules d) mem_covers sel nss
       (map (update_resource service_role_ops sel) roles)
       (mem_view service_role_ops k3 r) (mem_view service_role_ops k3 r')"
proof -
  let ?cfg = "update_resource rbac_config_ops sel (globalConfig wns)"
  note stores = mem_policy_stores [OF rngs]
  have cfg: "meta_Namespace (rc_Metadata ?cfg) = wns" "rc_Mode ?cfg = RbacConfig_ON"
      "rc_EnforcementMode ?cfg = EnforcementMode_ENFORCED"
    by (simp_all add: update_resource_def globalConfig_def policy_updateMetadata_def ops_simps)
  obtain b' r' where roles: "reconcileRoles s (map (update_resource service_role_ops sel) roles)
      (map (update_resource service_role_binding_ops sel) bindings) nss (b, r) = (Ret (), (b', r'))"
    and br: "converged service_role_binding_ops (\<lambda>_ d x. same_srb x d) mem_covers sel nss
       (map (update_resource service_role_binding_ops sel) bindings)
       (mem_view service_role_binding_ops k2 b) (mem_view service_role_binding_ops k2 b')"
      "converged service_role_ops (\<lambda>_ d x. sr_Rules x = sr_Rules d) mem_covers sel nss
       (map (update_resource service_role_ops sel) roles)
       (mem_view service_role_ops k3 r) (mem_view service_role_ops k3 r')"
    using policy_stores.reconcileRoles_converges [OF stores, where s = s and sel = sel and b = b and r = r] ok(2,3) w(2,3) s by fastforce
  obtain c' where c': "Reconcile rbac_config_ops (mem_client r1 rbac_config_ops k1) wns [?cfg]
      (Some preserveRbacConfig) sel c = (Ret (), c')"
    and cc: "converged rbac_config_ops (\<lambda>_ d x. rc_Mode x = rc_Mode d \<and> rc_EnforcementMode x = rc_EnforcementMode d)
       mem_covers sel [wns] [?cfg] (mem_view rbac_config_ops k1 c) (mem_view rbac_config_ops k1 c')"
    using policy_stores.config_converges [OF stores ok(1) w(1)] cfg(1) by auto
  have "converged rbac_config_ops (\<lambda>_ d x. rc_Mode x = RbacConfig_ON \<and> rc_EnforcementMode x = EnforcementMode_ENFORCED)
       mem_covers sel [wns] [?cfg] (mem_view rbac_config_ops k1 c) (mem_view rbac_config_ops k1 c')"
    using cc cfg by (simp add: converged_def)
  moreover have "syncPolicy rng s upstreams p (c, b, r) = (Ret (), (c', b', r'))"
    using roles c' conv by (simp add: syncPolicy_def s act_simps Let_def)
  ultimately show ?thesis using br by blast
qed

lemma pol_names: "ValidateName ''default''" "ValidateName ''access-ns-u2''" "ValidateName ''bind-ns-u2''"
  by code_simp+

lemma pol_empty: "mem_ok ops k []" "mem_view ops k [] ref = None"
  by (simp_all add: mem_ok_def mem_view_def)

theorem syncPolicy_converges_witness:
  "\<exists>c' b' r'. syncPolicy id \<lparr>ps_WriteSelector = [], ps_WriteNamespace = ''sys'',
        ps_serviceRoleBindings = mem_client id service_role_binding_ops ''b'',
        ps_serviceRoles = mem_client id service_role_ops ''r'',
        ps_rbacConfigs = mem_client id rbac_config_ops ''c'', ps_kubeClient = pol_kube\<rparr>
      pol_upstreams pol_policy ([], [], []) = (Ret (), (c', b', r')) \<and>
     (\<exists>x. mem_view service_role_ops ''r'' r' (ResourceRef ''app'' ''access-ns-u2'') = Some x \<and>
        sr_Rules x = sr_Rules pol_role)"
proof -
  let ?role = "update_resource service_role_ops [] pol_role"
  have role: "meta_Namespace (GetMetadata service_role_ops ?role) = ''app''"
      "resource_Ref service_role_ops ?role = ResourceRef ''app'' ''access-ns-u2''" "sr_Rules ?role = sr_Rules pol_role"
    by (simp_all add: update_resource_def pol_role_def ops_simps policy_updateMetadata_def Metadata_Ref_def
        del: ResourceRef_meta)
  have w: "writable rbac_config_ops mem_covers [] [''sys''] [update_resource rbac_config_ops [] (globalConfig ''sys'')]
          (mem_view rbac_config_ops ''c'' [])"
      "writable service_role_binding_ops mem_covers [] [''app'']
          (map (update_resource service_role_binding_ops []) [pol_binding]) (mem_view service_role_binding_ops ''b'' [])"
      "writable service_role_ops mem_covers [] [''app''] (map (update_resource service_role_ops []) [pol_role])
          (mem_view service_role_ops ''r'' [])"
    using pol_names by (simp_all add: writable_def pol_empty update_resource_def globalConfig_def pol_binding_def
        pol_role_def policy_updateMetadata_def ops_simps)
  have "kube_Namespaces_List pol_kube = Ret [''app'']" by (simp add: pol_kube_def)
  from syncPolicy_converges [OF valid_range_id(1) valid_range_id(1) valid_range_id(1) refl pol_toIstio this
      pol_empty(1) pol_empty(1) pol_empty(1) w]
  obtain c' b' r' where run: "syncPolicy id \<lparr>ps_WriteSelector = [], ps_WriteNamespace = ''sys'',
        ps_serviceRoleBindings = mem_client id service_role_binding_ops ''b'',
        ps_serviceRoles = mem_client id service_role_ops ''r'',
        ps_rbacConfigs = mem_client id rbac_config_ops ''c'', ps_kubeClient = pol_kube\<rparr>
      pol_upstreams pol_policy ([], [], []) = (Ret (), (c', b', r'))"
    and conv: "converged service_role_ops (\<lambda>_ d x. sr_Rules x = sr_Rules d) mem_covers [] [''app'']
       (map (update_resource service_role_ops []) [pol_role])
       (mem_view service_role_ops ''r'' []) (mem_view service_role_ops ''r'' r')"
    by blast
  with converged_stored [OF conv, of ?role] role show ?thesis by auto
qed

text \<open>
  C14: With the write selector that the constructor leaves, removing a policy removes every role
  and binding in every listed namespace and every configuration in the write namespace,
  whoever created them; nothing else is touched.
\<close>

theorem removePolicy_removes_everything:
  assumes rngs: "valid_range r1" "valid_range r2" "valid_range r3"
    and s: "NewPolicySyncer wns (Ret (mem_client r2 service_role_binding_ops k2)) (Ret ())
        (Ret (mem_client r3 service_role_ops k3)) (Ret ()) (Ret (mem_client r1 rbac_config_ops k1)) (Ret ()) (Ret kube) = Ret s"
    and nss: "kube_Namespaces_List kube = Ret nss" "distinct nss" "[] \<notin> set nss" "wns \<noteq> []"
      "\<And>ns ref. ns \<in> set nss \<Longrightarrow> ref_Namespace ref \<in> set nss \<Longrightarrow> mem_covers ns ref \<Longrightarrow> ref_Namespace ref = ns"
    and ok: "mem_ok rbac_config_ops k1 c" "mem_ok service_role_binding_ops k2 b" "mem_ok service_role_ops k3 r"
  shows "\<exists>c' b' r'. removePolicy s (c, b, r) = (Ret (), (c', b', r')) \<and>
     (\<forall>ref. mem_view rbac_config_ops k1 c' ref =
        (if mem_covers wns ref then None else mem_view rbac_config_ops k1 c ref)) \<and>
     (\<forall>ref. mem_view service_role_binding_ops k2 b' ref =
        (if \<exists>ns \<in> set nss. mem_covers ns ref then None else mem_view service_role_binding_ops k2 b ref)) \<and>
     (\<forall>ref. mem_view service_role_ops k3 r' ref =
        (if \<exists>ns \<in> set nss. mem_covers ns ref then None else mem_view service_role_ops k3 r ref))"
proof -
  have s': "ps_WriteSelector s = []" "ps_WriteNamespace s = wns"
      "ps_serviceRoleBindings s = mem_client r2 service_role_binding_ops k2"
      "ps_serviceRoles s = mem_client r3 service_role_ops k3" "ps_rbacConfigs s = mem_client r1 rbac_config_ops k1"
      "ps_kubeClient s = kube"
    using s by (auto simp: NewPolicySyncer_def)
  note stores = mem_policy_stores [OF rngs]
  have w: "writable ops mem_covers [] nss [] v" for ops :: "'x resource_ops" and v
    using nss(2,3,5) by (simp add: writable_def)
  have gone: "after ref = (if \<exists>ns \<in> set ns'. mem_covers ns ref then None else before ref)"
    if "converged ops st mem_covers [] ns' [] before after"
    for ops :: "'x resource_ops" and st ns' before after ref
    using that by (cases "before ref") (auto simp: converged_def selector_Matches_def)
  obtain b' r' where roles: "reconcileRoles s [] [] nss (b, r) = (Ret (), (b', r'))"
    and br: "converged service_role_binding_ops (\<lambda>_ d x. same_srb x d) mem_covers [] nss []
       (mem_view service_role_binding_ops k2 b) (mem_view service_role_binding_ops k2 b')"
      "converged service_role_ops (\<lambda>_ d x. sr_Rules x = sr_Rules d) mem_covers [] nss []
       (mem_view service_role_ops k3 r) (mem_view service_role_ops k3 r')"
    using policy_stores.reconcileRoles_converges [OF stores s'(3,4,1) ok(2,3) w w] by auto
  have "writable rbac_config_ops mem_covers [] [wns] [] (mem_view rbac_config_ops k1 c)"
    using nss(4) by (simp add: writable_def)
  from policy_stores.config_converges [OF stores ok(1) this] obtain c' where
    c': "Reconcile rbac_config_ops (mem_client r1 rbac_config_ops k1) wns [] (Some preserveRbacConfig) [] c = (Ret (), c')"
    and cc: "converged rbac_config_ops (\<lambda>_ d x. rc_Mode x = rc_Mode d \<and> rc_EnforcementMode x = rc_EnforcementMode d)
       mem_covers [] [wns] [] (mem_view rbac_config_ops k1 c) (mem_view rbac_config_ops k1 c')"
    by auto
  have "removePolicy s (c, b, r) = (Ret (), (c', b', r'))"
    using roles c' nss(1) by (simp add: removePolicy_def s' act_simps)
  then show ?thesis
    using gone [OF br(1)] gone [OF br(2)] gone [OF cc] by auto
qed

theorem removePolicy_removes_everything_witness:
  "\<exists>s c' b' r'. NewPolicySyncer ''sys'' (Ret (mem_client id service_role_binding_ops ''b'')) (Ret ())
        (Ret (mem_client id service_role_ops ''r'')) (Ret ()) (Ret (mem_client id rbac_config_ops ''c'')) (Ret ())
        (Ret pol_kube) = Ret s \<and>
     removePolicy s ([], [], [(''r;app;access-ns-u2'', pol_role)]) = (Ret (), (c', b', r')) \<and>
     mem_view service_role_ops ''r'' r' (ResourceRef ''app'' ''access-ns-u2'') = None"
proof -
  have r: "mem_ok service_role_ops ''r'' [(''r;app;access-ns-u2'', pol_role)]"
    using pol_names by (simp add: mem_ok_def pol_role_def ops_simps mem_key_def mem_Prefix_def)
  have kube: "kube_Namespaces_List pol_kube = Ret [''app'']" by (simp add: pol_kube_def)
  have covers: "mem_covers ''app'' (ResourceRef ''app'' ''access-ns-u2'')"
    by (simp add: mem_covers_def strings_HasPrefix_def)
  obtain s where s: "NewPolicySyncer ''sys'' (Ret (mem_client id service_role_binding_ops ''b'')) (Ret ())
        (Ret (mem_client id service_role_ops ''r'')) (Ret ()) (Ret (mem_client id rbac_config_ops ''c'')) (Ret ())
        (Ret pol_kube) = Ret s"
    by (simp add: NewPolicySyncer_def)
  from removePolicy_removes_everything [OF valid_range_id(1) valid_range_id(1) valid_range_id(1) s kube _ _ _ _
      pol_empty(1) pol_empty(1) r]
  show ?thesis using s covers by auto
qed

end
