(* ===== verification/Consul_Properties.thy ===== *)
theory Consul_Properties
  imports Consul_Sync
begin

text \<open>
  What the Consul translators achieve. The documented behaviour of the Consul API is stated by
  two predicates on the client: \<open>ca_server\<close> (reading the configuration of the certificate
  authority gives the one written last, and a configuration that Consul does not accept is not
  written) and \<open>intention_server\<close> (a created intention is listed, with an identifier of its
  own; an invalid one is refused, and so is a second one for the same source and destination;
  deleting an intention removes it).
\<close>

section \<open>The certificate authority\<close>

definition ca_server :: "'c consul_client \<Rightarrow> (ca_config \<Rightarrow> bool) \<Rightarrow> ('c \<Rightarrow> ca_config) \<Rightarrow> bool" where
  "ca_server client accepts ca \<longleftrightarrow>
     (\<forall>s. consul_CAGetConfig client s = (Ret (ca s), s)) \<and>
     (\<forall>conf s. if accepts conf
        then \<exists>s'. consul_CASetConfig client conf s = (Ret (), s') \<and> ca s' = conf
        else \<exists>e s'. consul_CASetConfig client conf s = (Fail e, s') \<and> ca s' = ca s)"

lemma ca_serverD:
  assumes "ca_server client accepts ca"
  shows "consul_CAGetConfig client s = (Ret (ca s), s)"
    and "accepts conf \<Longrightarrow> \<exists>s'. consul_CASetConfig client conf s = (Ret (), s') \<and> ca s' = conf"
    and "\<not> accepts conf \<Longrightarrow> \<exists>e s'. consul_CASetConfig client conf s = (Fail e, s') \<and> ca s' = ca s"
  using assms by (auto simp: ca_server_def split: if_splits)

definition has_root :: "string \<Rightarrow> ca_config \<Rightarrow> bool" where
  "has_root cert conf \<longleftrightarrow> map_of (ca_Config conf) ''RootCert'' = Some (ConfigString cert)"

lemma has_root_written [simp]: "has_root cert (getConsulConfigMap x) \<longleftrightarrow> cacerts_RootCert x = cert"
  by (simp add: has_root_def getConsulConfigMap_def getConsulInnerConfigMap_def)

lemma shouldUpdate_eq:
  assumes "ca_server client accepts ca"
  shows "shouldUpdateCurrentCert client x s = (Ret (\<not> has_root (cacerts_CaCert x) (ca s)), s)"
  by (simp add: shouldUpdateCurrentCert_def has_root_def ca_serverD(1) [OF assms])

text \<open>What a sync of a valid secret does: nothing, or it writes the configuration, or it fails.\<close>

lemma consul_syncSecret_eq:
  assumes server: "ca_server client accepts ca"
    and new: "NewClient (''127.0.0.1:'' @ fmt_d port) = Ret client"
    and valid: "consul_validateTlsSecret x = Ret ()"
  shows "\<exists>r s'. consul_syncSecret NewClient x port s = (r, s') \<and>
     (if has_root (cacerts_CaCert x) (ca s) then r = Ret () \<and> s' = s
      else if accepts (getConsulConfigMap x) then r = Ret () \<and> ca s' = getConsulConfigMap x
      else (\<exists>e. r = Fail e) \<and> ca s' = ca s)"
proof -
  have run: "consul_syncSecret NewClient x port s =
      (if has_root (cacerts_CaCert x) (ca s) then (Ret (), s)
       else areplace ''Error updating consul root certificate %v.''
              (consul_CASetConfig client (getConsulConfigMap x)) s)"
    using new valid
    by (simp add: consul_syncSecret_def areplace_def act_simps shouldUpdate_eq [OF server] abind_def)
  show ?thesis
    unfolding run using ca_serverD(2,3) [OF server, of "getConsulConfigMap x" s]
    by (cases "accepts (getConsulConfigMap x)") (auto simp: areplace_def)
qed



text \<open>A server for the witnesses: its state is the configuration.\<close>

definition ex_ca_client :: "ca_config consul_client" where
  "ex_ca_client = \<lparr>consul_CAGetConfig = (\<lambda>s. (Ret s, s)), consul_CASetConfig = (\<lambda>conf s. (Ret (), conf)),
     consul_Intentions = aret [], consul_IntentionCreate = (\<lambda>i. aret []), consul_IntentionDelete = (\<lambda>i. aret ())\<rparr>"

lemma ex_ca_server: "ca_server ex_ca_client (\<lambda>conf. True) id"
  by (simp add: ca_server_def ex_ca_client_def)

definition ex_ca_secret :: "string \<Rightarrow> istio_cacerts_secret" where
  "ex_ca_secret root = \<lparr>cacerts_Metadata = new_metadata ''ns'' ''ca'', cacerts_RootCert = root,
     cacerts_CertChain = [], cacerts_CaCert = ''cert'', cacerts_CaKey = ''key''\<rparr>"



text \<open>
  The private key of the secret never reaches Consul: two secrets that differ only in
  their (non-empty) private keys are synchronised alike, with the certificate sent in the key's place.
\<close>

theorem consul_private_key_ignored:
  assumes "cacerts_CaKey x \<noteq> []" and "k \<noteq> []"
  shows "consul_syncSecret NewClient (x\<lparr>cacerts_CaKey := k\<rparr>) port = consul_syncSecret NewClient x port \<and>
     map_of (ca_Config (getConsulConfigMap x)) ''PrivateKey'' = Some (ConfigString (cacerts_CaCert x))"
proof -
  have "consul_validateTlsSecret (x\<lparr>cacerts_CaKey := k\<rparr>) = consul_validateTlsSecret x"
    using assms by (simp add: consul_validateTlsSecret_def)
  moreover have "getConsulConfigMap (x\<lparr>cacerts_CaKey := k\<rparr>) = getConsulConfigMap x"
    by (simp add: getConsulConfigMap_def getConsulInnerConfigMap_def)
  moreover have "shouldUpdateCurrentCert client (x\<lparr>cacerts_CaKey := k\<rparr>) = shouldUpdateCurrentCert client x"
    for client :: "'a consul_client"
    by (rule ext) (simp add: shouldUpdateCurrentCert_def Let_def split: prod.splits go.splits)
  ultimately have "consul_syncSecret NewClient (x\<lparr>cacerts_CaKey := k\<rparr>) port = consul_syncSecret NewClient x port"
    by (simp only: consul_syncSecret_def)
  then show ?thesis
    by (simp add: getConsulConfigMap_def getConsulInnerConfigMap_def)
qed

theorem consul_private_key_ignored_witness:
  "consul_syncSecret (\<lambda>a. Ret ex_ca_client) ((ex_ca_secret ''cert'')\<lparr>cacerts_CaKey := ''other''\<rparr>) 1 =
     consul_syncSecret (\<lambda>a. Ret ex_ca_client) (ex_ca_secret ''cert'') 1"
  by (rule consul_private_key_ignored [THEN conjunct1]) (simp_all add: ex_ca_secret_def)

text \<open>
  A valid secret without a root certificate is written again by every sync that succeeds: what a
  sync writes has an empty root, so the next one finds another root than the certificate and
  decides to update once more.
\<close>

theorem consul_empty_root_never_settles:
  assumes "ca_server client accepts ca" and "NewClient (''127.0.0.1:'' @ fmt_d port) = Ret client"
    and "consul_validateTlsSecret x = Ret ()" and "cacerts_RootCert x = []"
    and "\<not> has_root (cacerts_CaCert x) (ca s)" and "consul_syncSecret NewClient x port s = (Ret (), s')"
  shows "shouldUpdateCurrentCert client x s' = (Ret True, s')"
proof -
  have "cacerts_CaCert x \<noteq> []"
    using assms(3) by (auto simp: consul_validateTlsSecret_def split: if_splits)
  then show ?thesis
    using consul_syncSecret_eq [where NewClient = NewClient and s = s, OF assms(1-3)] assms(4-6) shouldUpdate_eq [OF assms(1)]
    by (auto split: if_splits)
qed

theorem consul_empty_root_never_settles_witness:
  "shouldUpdateCurrentCert ex_ca_client (ex_ca_secret []) (getConsulConfigMap (ex_ca_secret [])) =
     (Ret True, getConsulConfigMap (ex_ca_secret []))"
proof -
  let ?s = "\<lparr>ca_Provider = [], ca_Config = []\<rparr>"
  have valid: "consul_validateTlsSecret (ex_ca_secret []) = Ret ()"
    by (simp add: ex_ca_secret_def consul_validateTlsSecret_def)
  have root: "\<not> has_root c ?s" for c by (simp add: has_root_def)
  have sync: "consul_syncSecret (\<lambda>a. Ret ex_ca_client) (ex_ca_secret []) 1 ?s =
      (Ret (), getConsulConfigMap (ex_ca_secret []))"
    using consul_syncSecret_eq [OF ex_ca_server _ valid, of "\<lambda>a. Ret ex_ca_client" 1 ?s] root by auto
  show ?thesis
    by (rule consul_empty_root_never_settles [OF ex_ca_server _ valid _ _ sync])
      (simp_all add: root ex_ca_secret_def)
qed

section \<open>Intentions\<close>

definition int_services :: "intention \<Rightarrow> string \<times> string" where
  "int_services i = (int_SourceName i, int_DestinationName i)"

text \<open>
  Consul refuses an intention without a source or destination, with a wildcard that is only a part of
  a name, and one for a source and destination that have an intention already, whatever its action.
\<close>

definition valid_service :: "string \<Rightarrow> bool" where
  "valid_service name \<longleftrightarrow> name \<noteq> [] \<and> (CHR ''*'' \<in> set name \<longrightarrow> name = ''*'')"

definition creatable :: "(string \<times> string) set \<Rightarrow> string \<times> string \<Rightarrow> bool" where
  "creatable old = (\<lambda>(src, dest). valid_service src \<and> valid_service dest \<and> (src, dest) \<notin> old)"

text \<open>Consul lists intentions in an order of its own, so only their multiset is known.\<close>

definition intention_server :: "'c consul_client \<Rightarrow> ('c \<Rightarrow> intention list) \<Rightarrow> bool" where
  "intention_server client ints \<longleftrightarrow>
     (\<forall>s. consul_Intentions client s = (Ret (ints s), s)) \<and>
     (\<forall>i s. if creatable (int_services ` set (ints s)) (int_services i)
        then \<exists>id s'. consul_IntentionCreate client i s = (Ret id, s') \<and>
          id \<notin> int_ID ` set (ints s) \<and> mset (ints s') = add_mset (i\<lparr>int_ID := id\<rparr>) (mset (ints s))
        else \<exists>e s'. consul_IntentionCreate client i s = (Fail e, s') \<and> mset (ints s') = mset (ints s)) \<and>
     (\<forall>id s. \<exists>s'. consul_IntentionDelete client id s = (Ret (), s') \<and>
        mset (ints s') = filter_mset (\<lambda>i. int_ID i \<noteq> id) (mset (ints s)))"

text \<open>The intention a rule asks for: who may call whom.\<close>

definition rule_services :: "upstream by_namespace \<Rightarrow> rule \<Rightarrow> (string \<times> string) list" where
  "rule_services upstreams rule =
     (case (rule_Source rule, rule_Destination rule) of
        (Some src, Some dest) \<Rightarrow>
          (case (consul_get upstreams src, consul_get upstreams dest) of
             (Ret a, Ret b) \<Rightarrow> [(cu_ServiceName a, cu_ServiceName b)] | _ \<Rightarrow> [])
      | _ \<Rightarrow> [])"

definition owned :: "intention \<Rightarrow> bool" where
  "owned i \<longleftrightarrow> int_Meta i \<noteq> None \<and> length (int_Name i) \<noteq> 0"

lemma desiredIntention_Ret:
  assumes "desiredIntention upstreams r = Ret ds"
  shows "map int_services ds = rule_services upstreams r"
    and "d \<in> set ds \<Longrightarrow> int_Action d = IntentionAllow \<and> int_Name d = intentionName"
  using assms
  by (auto simp: desiredIntention_def rule_services_def int_services_def int_Name_def split: option.splits)

lemma desired_all:
  assumes "gmapM (desiredIntention upstreams) rules = Ret dss"
  shows "map int_services (concat dss) = concat (map (rule_services upstreams) rules)"
    and "d \<in> set (concat dss) \<Longrightarrow> int_Action d = IntentionAllow \<and> int_Name d = intentionName"
proof -
  have "list_all2 (\<lambda>r ds. desiredIntention upstreams r = Ret ds) rules dss"
    using assms by (simp add: gmapM_eq_Ret)
  then show "map int_services (concat dss) = concat (map (rule_services upstreams) rules)"
    by induction (simp_all add: desiredIntention_Ret(1))
  assume "d \<in> set (concat dss)"
  then show "int_Action d = IntentionAllow \<and> int_Name d = intentionName"
    using assms by (auto simp: gmapM_set dest: desiredIntention_Ret(2))
qed


text \<open>
  All desired intentions have the same name, so the existing ones with that name are matched
  with them one by one, whatever services they are about.
\<close>

lemma planIntentions_eq:
  assumes "\<forall>d \<in> set desired. int_Name d = intentionName"
    and "\<forall>i \<in> set ints. owned i \<longrightarrow> int_Name i = intentionName"
  shows "planIntentions desired ints =
     (drop (length (filter owned ints)) desired, drop (length desired) (filter owned ints))"
  using assms
proof (induction ints arbitrary: desired)
  case (Cons i ints)
  have step: "planIntentions ds (i # ints) =
      (if \<not> owned i then planIntentions ds ints
       else if \<exists>d \<in> set ds. int_Name i = int_Name d
       then planIntentions (remove_first (\<lambda>d. int_Name i = int_Name d) ds) ints
       else (case planIntentions ds ints of (add, remove) \<Rightarrow> (add, i # remove)))" for ds
    by (simp add: owned_def)
  show ?case
  proof (cases "owned i")
    case True
    then have name: "int_Name i = intentionName" using Cons.prems(2) by simp
    show ?thesis
    proof (cases desired)
      case Nil
      with True Cons.IH [of "[]"] Cons.prems show ?thesis
        by (simp add: step del: planIntentions.simps(2))
    next
      case ds: (Cons d ds)
      then have "int_Name i = int_Name d" using name Cons.prems(1) by simp
      with ds True Cons.IH [of ds] Cons.prems show ?thesis
        by (simp add: step del: planIntentions.simps(2))
    qed
  next
    case False
    with Cons.IH [of desired] Cons.prems show ?thesis
      by (simp add: step del: planIntentions.simps(2))
  qed
qed simp




text \<open>
  Once SuperGloo owns as many intentions as a policy has complete rules, synchronising the
  policy changes nothing, whatever services the rules name and the intentions allow: all
  intentions carry the same constant name, and only names are compared.
\<close>

theorem consul_policy_change_ignored:
  assumes server: "intention_server client ints"
    and rules: "gmapM (desiredIntention upstreams) (policy_Rules p) = Ret dss"
    and owned: "\<forall>i \<in> set (ints s). owned i \<longrightarrow> int_Name i = intentionName"
    and count: "length (filter owned (ints s)) =
      length (concat (map (rule_services upstreams) (policy_Rules p)))"
  shows "consul_syncPolicy (Ret client) upstreams p s = (Ret (), s)"
proof -
  have "length (concat dss) = length (concat (map (rule_services upstreams) (policy_Rules p)))"
    using arg_cong [OF desired_all(1) [OF rules], of length] by simp
  then have "planIntentions (concat dss) (ints s) = ([], [])"
    using planIntentions_eq [of "concat dss" "ints s"] desired_all(2) [OF rules] owned count by simp
  moreover have "consul_Intentions client s = (Ret (ints s), s)"
    using server by (simp add: intention_server_def)
  ultimately show ?thesis
    using rules by (simp add: consul_syncPolicy_def act_simps ErrorOrNil_def)
qed

text \<open>A server for the witnesses: the identifier of a new intention is longer than the others'.\<close>

definition ex_int_client :: "intention list consul_client" where
  "ex_int_client = \<lparr>consul_CAGetConfig = afail (Errorf []), consul_CASetConfig = (\<lambda>conf. aret ()),
     consul_Intentions = (\<lambda>s. (Ret s, s)),
     consul_IntentionCreate = (\<lambda>i s.
       if creatable (int_services ` set s) (int_services i)
       then let id = concat (map int_ID s) @ ''1'' in (Ret id, s @ [i\<lparr>int_ID := id\<rparr>])
       else (Fail (Errorf ''duplicate or invalid intention''), s)),
     consul_IntentionDelete = (\<lambda>id s. (Ret (), filter (\<lambda>i. int_ID i \<noteq> id) s))\<rparr>"

lemma concat_too_long: "x \<in> set xs \<Longrightarrow> concat xs @ c # cs \<noteq> x"
proof (induction xs)
  case (Cons y xs)
  show ?case
  proof
    assume "concat (y # xs) @ c # cs = x"
    then have len: "length y + (length (concat xs) + Suc (length cs)) = length x" by auto
    with Cons.prems obtain "x \<in> set xs" by auto
    then have "length x \<le> length (concat xs)"
      by (induction xs) auto
    with len show False by simp
  qed
qed simp

lemma ex_int_server: "intention_server ex_int_client id"
proof -
  have "\<forall>s. concat (map int_ID s) @ ''1'' \<notin> int_ID ` set s"
  proof (intro allI notI)
    fix s
    assume "concat (map int_ID s) @ ''1'' \<in> int_ID ` set s"
    then have "concat (map int_ID s) @ ''1'' \<in> set (map int_ID s)" by simp
    from concat_too_long [OF this, of "CHR ''1''" "[]"] show False by simp
  qed
  then show ?thesis by (simp add: intention_server_def ex_int_client_def Let_def) blast
qed

definition ex_consul_upstreams :: "upstream by_namespace" where
  "ex_consul_upstreams = [(''ns'', map (\<lambda>n. \<lparr>upstream_UpstreamSpec =
       Some \<lparr>us_UpstreamType = Some (UpstreamSpec_Consul \<lparr>cu_ServiceName = n\<rparr>)\<rparr>,
     upstream_Status = zero_status, upstream_Metadata = new_metadata ''ns'' n\<rparr>) [''a'', ''b''])]"

definition ex_consul_rule :: "string \<Rightarrow> string \<Rightarrow> rule" where
  "ex_consul_rule src dest =
     \<lparr>rule_Source = Some (ResourceRef ''ns'' src), rule_Destination = Some (ResourceRef ''ns'' dest)\<rparr>"

definition ex_consul_policy :: policy where
  "ex_consul_policy = \<lparr>policy_Rules = [ex_consul_rule ''a'' ''b'']\<rparr>"



lemma ex_consul_get:
  "consul_get ex_consul_upstreams (ResourceRef ''ns'' ''a'') = Ret \<lparr>cu_ServiceName = ''a''\<rparr>"
  "consul_get ex_consul_upstreams (ResourceRef ''ns'' ''b'') = Ret \<lparr>cu_ServiceName = ''b''\<rparr>"
  by (simp_all add: consul_get_def ex_consul_upstreams_def byNamespace_get_def upstream_Type_def)

lemma ex_desired:
  "gmapM (desiredIntention ex_consul_upstreams) (policy_Rules ex_consul_policy) =
     Ret [[\<lparr>int_ID = [], int_Action = IntentionAllow, int_Meta = Some [(metadataName, intentionName)],
            int_SourceName = ''a'', int_DestinationName = ''b''\<rparr>]]"
  "concat (map (rule_services ex_consul_upstreams) (policy_Rules ex_consul_policy)) = [(''a'', ''b'')]"
  by (simp_all add: ex_consul_policy_def ex_consul_rule_def desiredIntention_def rule_services_def ex_consul_get
      del: gbind_eq_Ret)



theorem consul_policy_change_ignored_witness:
  "consul_syncPolicy (Ret ex_int_client) ex_consul_upstreams ex_consul_policy
       [\<lparr>int_ID = ''1'', int_Action = IntentionAllow, int_Meta = Some [(metadataName, intentionName)],
         int_SourceName = ''x'', int_DestinationName = ''y''\<rparr>] =
     (Ret (), [\<lparr>int_ID = ''1'', int_Action = IntentionAllow, int_Meta = Some [(metadataName, intentionName)],
         int_SourceName = ''x'', int_DestinationName = ''y''\<rparr>])"
  by (rule consul_policy_change_ignored [OF ex_int_server ex_desired(1)])
    (simp_all add: ex_desired(2) owned_def int_Name_def intentionName_def)

end
