(* ===== verification/Kube_Manifest_Properties.thy ===== *)
theory Kube_Manifest_Properties
  imports Kube_Manifest
begin

text \<open>What parsing a manifest gives and what the installer does with the parsed objects.\<close>

section \<open>Parsing returns\<close>

lemma omapM_None: "omapM f xs = None \<Longrightarrow> \<exists>x \<in> set xs. f x = None"
  by (induction xs) (auto split: option.splits go.splits)

lemma omapM_total: "(\<And>x. x \<in> set xs \<Longrightarrow> f x \<noteq> None) \<Longrightarrow> omapM f xs \<noteq> None"
  using omapM_None by blast

lemma omapM_mono:
  assumes "omapM f xs = Some r" and "\<And>x y. x \<in> set xs \<Longrightarrow> f x = Some y \<Longrightarrow> g x = Some y"
  shows "omapM g xs = Some r"
  using assms
proof (induction xs arbitrary: r)
  case (Cons x xs)
  then obtain y where y: "f x = Some y" by (cases "f x") auto
  then have gx: "g x = Some y" using Cons.prems(2) by simp
  show ?case
  proof (cases y)
    case (Ret a)
    with Cons.prems(1) y obtain r' where "omapM f xs = Some r'" by auto
    moreover from this have "omapM g xs = Some r'" using Cons by simp
    ultimately show ?thesis using Cons.prems(1) y gx Ret by simp
  qed (use Cons.prems(1) y gx in auto)
qed simp

lemma omapM_Ret: "omapM f xs = Some (Ret ys) \<longleftrightarrow> list_all2 (\<lambda>x y. f x = Some (Ret y)) xs ys"
proof (induction xs arbitrary: ys)
  case (Cons x xs)
  show ?case
  proof (cases "f x")
    case (Some r)
    then show ?thesis
    proof (cases r)
      case (Ret a)
      show ?thesis
        using Some Ret Cons.IH by (cases "omapM f xs") (auto simp: list_all2_Cons1)
    qed (simp_all add: list_all2_Cons1)
  qed (simp add: list_all2_Cons1)
qed auto

text \<open>
  What the code relies on in the YAML library: the text of a value reads as that value, and
  unmarshalling into an object of a Go type gives an object of that type.
\<close>

definition yaml_consistent :: "yaml_lib \<Rightarrow> bool" where
  "yaml_consistent lib \<longleftrightarrow>
     (\<forall>v s u. yl_Marshal lib v = Ret s \<longrightarrow> yl_Untyped lib s = Ret (Some u) \<longrightarrow> v = YMap u)"

definition yaml_typed :: "yaml_lib \<Rightarrow> bool" where
  "yaml_typed lib \<longleftrightarrow> (\<forall>t s obj. yl_Object lib t s = Ret obj \<longrightarrow> ko_Type obj = t)"

lemma items_smaller:
  assumes "map_of u ''items'' = Some (YSeq items)" and "v \<in> set items"
  shows "size v < size (YMap u)"
proof -
  have "size v < size (YSeq items)"
    using assms(2) by (simp add: size_list_estimation less_Suc_eq_le size_list_estimation' [OF assms(2) order_refl])
  moreover have "(''items'', YSeq items) \<in> set u" using assms(1) by (rule map_of_SomeD)
  then have "size (YSeq items) < size (YMap u)"
    by (induction u) auto
  ultimately show ?thesis by simp
qed

lemma convert_total:
  assumes "yaml_consistent lib"
    and "\<And>u. yl_Untyped lib y = Ret (Some u) \<Longrightarrow> size (YMap u) \<le> n"
  shows "convertYamlToResource (Suc n) lib y \<noteq> None"
  using assms(2)
proof (induction n arbitrary: y rule: less_induct)
  case (less n)
  show ?case
  proof (cases "yl_Untyped lib y")
    case (Ret x)
    show ?thesis
    proof (cases x)
      case (Some u)
      have "convertUntypedList lib (convertYamlToResource n lib) u \<noteq> None"
      proof (cases "map_of u ''items''")
        case (Some v)
        show ?thesis
        proof (cases v)
          case (YSeq items)
          have "convertYamlToResource n lib s \<noteq> None" if "item \<in> set items" "yl_Marshal lib item = Ret s" for item s
          proof -
            have le: "size (YMap u) \<le> n" using less.prems [of u] \<open>x = Some u\<close> Ret by simp
            have item: "size item < size (YMap u)" by (rule items_smaller) (use Some YSeq that in auto)
            with le have "n \<noteq> 0" by linarith
            then obtain m where n: "n = Suc m" using not0_implies_Suc by blast
            have "size (YMap u') \<le> m" if "yl_Untyped lib s = Ret (Some u')" for u'
            proof -
              have "item = YMap u'"
                using assms(1) \<open>yl_Marshal lib item = Ret s\<close> that unfolding yaml_consistent_def by blast
              then have "size (YMap u') < size (YMap u)" using item by (simp only:)
              with le n show ?thesis by linarith
            qed
            with less.IH [of m] n show ?thesis by simp
          qed
          then have "omapM (convertListItem lib (convertYamlToResource n lib)) items \<noteq> None"
            by (intro omapM_total) (auto simp: convertListItem_def split: go.splits)
          with Some YSeq show ?thesis by (simp add: convertUntypedList_def)
        qed (simp_all add: convertUntypedList_def Some)
      qed (simp add: convertUntypedList_def)
      with Ret Some show ?thesis by (simp split: go.splits)
    qed (simp add: Ret)
  qed simp_all
qed

lemma convertListItem_mono:
  assumes "convertListItem lib f item = Some r" and "\<And>s r. f s = Some r \<Longrightarrow> g s = Some r"
  shows "convertListItem lib g item = Some r"
proof (cases "yl_Marshal lib item")
  case (Ret s)
  with assms(1) obtain r' where "f s = Some r'" "gwrap ''converting resource in list'' r' = r"
    by (auto simp: convertListItem_def)
  with assms(2) [of s r'] Ret show ?thesis by (simp add: convertListItem_def)
qed (use assms(1) in \<open>simp_all add: convertListItem_def\<close>)

lemma convert_mono:
  "convertYamlToResource n lib y = Some r \<Longrightarrow> n \<le> m \<Longrightarrow> convertYamlToResource m lib y = Some r"
proof (induction n arbitrary: m y r)
  case (Suc n)
  from Suc.prems(2) obtain m' where m: "m = Suc m'" "n \<le> m'" by (cases m) auto
  have list: "convertUntypedList lib (convertYamlToResource m' lib) u = Some r"
    if conv: "convertUntypedList lib (convertYamlToResource n lib) u = Some r" for u r
  proof (cases "map_of u ''items''")
    case (Some v)
    show ?thesis
    proof (cases v)
      case (YSeq items)
      obtain r' where r': "omapM (convertListItem lib (convertYamlToResource n lib)) items = Some r'"
          "gbind r' (\<lambda>objs. Ret (concat objs)) = r"
        using conv Some YSeq by (auto simp: convertUntypedList_def simp del: gbind_eq_Ret)
      have "omapM (convertListItem lib (convertYamlToResource m' lib)) items = Some r'"
        by (rule omapM_mono [OF r'(1)], erule convertListItem_mono, erule Suc.IH, rule m(2))
      with r' Some YSeq show ?thesis by (simp add: convertUntypedList_def del: gbind_eq_Ret)
    qed (use conv Some in \<open>simp_all add: convertUntypedList_def\<close>)
  qed (use conv in \<open>simp add: convertUntypedList_def\<close>)
  show ?case
  proof (cases "\<exists>u tm. yl_Untyped lib y = Ret (Some u) \<and> yl_TypeMeta lib y = Ret tm \<and> tm_Kind tm = ''List''")
    case True
    then obtain u tm where "yl_Untyped lib y = Ret (Some u)" "yl_TypeMeta lib y = Ret tm" "tm_Kind tm = ''List''"
      by blast
    with Suc.prems(1) m(1) list [of u r] show ?thesis by simp
  next
    case False
    then have "convertYamlToResource (Suc n) lib y = convertYamlToResource (Suc m') lib y"
      by (auto split: go.split option.split)
    with Suc.prems(1) m(1) show ?thesis by (simp only:)
  qed
qed simp

text \<open>
  C23: Parsing a manifest returns: nested lists are finite values, each nesting shortens what is
  left, so from some recursion depth on the result is there and is the same for every
  greater bound.
\<close>

theorem ParseKubeManifest_terminates:
  assumes "yaml_consistent lib"
  shows "\<exists>n r. \<forall>m \<ge> n. ParseKubeManifest m lib manifest = Some r"
proof -
  let ?k = "\<lambda>y. case yl_Untyped lib y of Ret (Some u) \<Rightarrow> size (YMap u) | _ \<Rightarrow> 0"
  let ?ys = "strings_Split manifest ''---''"
  let ?n = "Suc (sum_list (map ?k ?ys))"
  have conv: "convertYamlToResource ?n lib y \<noteq> None" if "y \<in> set ?ys" for y
  proof (rule convert_total [OF assms])
    fix u
    assume "yl_Untyped lib y = Ret (Some u)"
    then have "size (YMap u) = ?k y" by simp
    also have "\<dots> \<le> sum_list (map ?k ?ys)" using that by (intro member_le_sum_list) auto
    finally show "size (YMap u) \<le> sum_list (map ?k ?ys)" .
  qed
  then have "omapM (parseobjectYaml ?n lib) ?ys \<noteq> None"
    by (intro omapM_total) (auto simp: parseobjectYaml_def)
  then obtain r where r: "omapM (parseobjectYaml ?n lib) ?ys = Some r" by auto
  have "omapM (parseobjectYaml m lib) ?ys = Some r" if "m \<ge> ?n" for m
    by (rule omapM_mono [OF r]) (auto simp: parseobjectYaml_def simp del: convertYamlToResource.simps
        dest!: convert_mono [OF _ that])
  then show ?thesis by (auto simp: ParseKubeManifest_def)
qed

text \<open>A library for the witnesses: it reads every text as a namespace of that name.\<close>

definition ex_yaml :: yaml_lib where
  "ex_yaml = \<lparr>yl_Untyped = (\<lambda>s. Ret (if s = [] then None else Some [(''name'', YScalar s)])),
     yl_TypeMeta = (\<lambda>s. Ret \<lparr>tm_Kind = ''Namespace'', tm_APIVersion = ''v1''\<rparr>),
     yl_Object = (\<lambda>t s. Ret \<lparr>ko_Type = t, ko_Name = s, ko_Namespace = [], ko_ResourceVersion = [], ko_Body = []\<rparr>),
     yl_Marshal = (\<lambda>v. case v of YMap [(k, YScalar s)] \<Rightarrow> (if k = ''name'' then Ret s else Fail (Errorf [])) | _ \<Rightarrow> Fail (Errorf []))\<rparr>"

lemma ex_yaml_consistent: "yaml_consistent ex_yaml" and ex_yaml_typed: "yaml_typed ex_yaml"
  by (auto simp: yaml_consistent_def yaml_typed_def ex_yaml_def split: yaml_value.splits list.splits if_splits)

theorem ParseKubeManifest_terminates_witness:
  "\<exists>n r. \<forall>m. ParseKubeManifest (n + m) ex_yaml ''a---b'' = Some r"
  using ParseKubeManifest_terminates [OF ex_yaml_consistent, of "''a---b''"] by (meson le_add1)

section \<open>Every parsed object can be created\<close>

definition implemented :: "kube_type \<Rightarrow> bool" where
  "implemented t \<longleftrightarrow> (case t of K_Other n \<Rightarrow> False | _ \<Rightarrow> True)"

definition cluster_scoped :: "kube_type \<Rightarrow> bool" where
  "cluster_scoped t \<longleftrightarrow> t \<in> {K_Namespace, K_ClusterRole, K_ClusterRoleBinding, K_CustomResourceDefinition,
     K_MutatingWebhookConfiguration}"

definition scope_of :: "'k kube_installer \<Rightarrow> kube_object \<Rightarrow> string option" where
  "scope_of k obj = (if cluster_scoped (ko_Type obj) then None else Some (installNamespaceFor k obj))"

lemma Create_implemented:
  "implemented (ko_Type obj) \<Longrightarrow> kubeInstaller_Create k obj = ka_Create (ki_api k) (ko_Type obj) (scope_of k obj) obj"
  by (cases "ko_Type obj") (simp_all add: implemented_def kubeInstaller_Create_def scope_of_def cluster_scoped_def)

lemma typeOfKind_implemented: "typeOfKind tm = Some t \<Longrightarrow> implemented t"
  by (auto simp: typeOfKind_def implemented_def Let_def split: if_splits)

lemma convert_implemented:
  assumes "yaml_typed lib"
  shows "convertYamlToResource n lib y = Some (Ret objs) \<Longrightarrow> obj \<in> set objs \<Longrightarrow> implemented (ko_Type obj)"
proof (induction n arbitrary: y objs)
  case (Suc n)
  have list: "implemented (ko_Type obj)"
    if conv: "convertUntypedList lib (convertYamlToResource n lib) u = Some (Ret objs)" for u
  proof -
    obtain items objss where items: "objs = concat objss"
      "omapM (convertListItem lib (convertYamlToResource n lib)) items = Some (Ret objss)"
      using conv by (auto simp: convertUntypedList_def split: option.splits yaml_value.splits)
    then obtain os where "os \<in> set objss" "obj \<in> set os" using Suc.prems(2) by auto
    then obtain item where "convertListItem lib (convertYamlToResource n lib) item = Some (Ret os)"
      using items(2) unfolding omapM_Ret by (auto simp: list_all2_conv_all_nth in_set_conv_nth)
    with Suc.IH \<open>obj \<in> set os\<close> show ?thesis by (auto simp: convertListItem_def split: go.splits)
  qed
  from Suc.prems show ?case
    using list typeOfKind_implemented assms
    by (auto simp: yaml_typed_def split: go.splits option.splits if_splits)
qed simp

lemma Parse_implemented:
  assumes "yaml_typed lib" and "ParseKubeManifest n lib manifest = Some (Ret objs)" and "obj \<in> set objs"
  shows "implemented (ko_Type obj)"
proof -
  obtain objss where "omapM (parseobjectYaml n lib) (strings_Split manifest ''---'') = Some (Ret objss)" "objs = concat objss"
    using assms(2) by (auto simp: ParseKubeManifest_def)
  moreover from this assms(3) obtain os where "os \<in> set objss" "obj \<in> set os" by auto
  ultimately obtain y where "parseobjectYaml n lib y = Some (Ret os)"
    unfolding omapM_Ret by (auto simp: list_all2_conv_all_nth in_set_conv_nth)
  then show ?thesis
    using convert_implemented [OF assms(1)] \<open>obj \<in> set os\<close> by (auto simp: parseobjectYaml_def)
qed

text \<open>
  C24: Every object that a manifest parses to is of a type the installer implements: creating it
  is a call of that type's client, cluster-wide or in the object's namespace (or the installer's),
  and never the error "no implementation".
\<close>

theorem parsed_objects_creatable:
  assumes "yaml_typed lib" and "ParseKubeManifest n lib manifest = Some (Ret objs)" and "obj \<in> set objs"
  shows "kubeInstaller_Create k obj = ka_Create (ki_api k) (ko_Type obj) (scope_of k obj) obj"
  using Parse_implemented [OF assms] by (rule Create_implemented)

theorem parsed_objects_creatable_witness:
  "\<exists>obj. ParseKubeManifest 1 ex_yaml ''a'' = Some (Ret [obj]) \<and>
     kubeInstaller_Create (NewKubeInstaller \<lparr>ka_Create = (\<lambda>t ns x. afail (Errorf (ko_Name x))), ka_Get = (\<lambda>t ns n. afail (Errorf [])),
        ka_Update = (\<lambda>t ns x. afail (Errorf [])), ka_Delete = (\<lambda>t ns n. afail (Errorf []))\<rparr> []) obj ()
       = (Fail (Errorf ''a''), ())"
proof -
  have split: "strings_Split ''a'' ''---'' = [''a'']" by (simp add: strings_Split_def split_from.simps)
  have p: "ParseKubeManifest 1 ex_yaml ''a'' = Some (Ret [\<lparr>ko_Type = K_Namespace, ko_Name = ''a'', ko_Namespace = [],
      ko_ResourceVersion = [], ko_Body = []\<rparr>])"
    by (simp add: ParseKubeManifest_def split parseobjectYaml_def ex_yaml_def typeOfKind_def One_nat_def [symmetric]
        del: One_nat_def gbind_eq_Ret) (simp add: ex_yaml_def typeOfKind_def del: gbind_eq_Ret)
  show ?thesis
    by (intro exI conjI, rule p, subst parsed_objects_creatable [OF ex_yaml_typed p])
      (simp_all add: NewKubeInstaller_def afail_def)
qed

section \<open>Updating and deleting\<close>

text \<open>
  C25: Update and Delete address the same object as Create, in the client of its type and the same
  scope, for every implemented type but the deployments and daemon sets of
  \<open>extensions/v1beta1\<close>: those can be created, but updating or deleting them is an error.
\<close>

theorem kubeInstaller_operations_agree:
  assumes "implemented (ko_Type obj)"
  shows "kubeInstaller_Create k obj = ka_Create (ki_api k) (ko_Type obj) (scope_of k obj) obj \<and>
     (if ko_Type obj \<in> {K_ExtDeployment, K_ExtDaemonSet}
      then kubeInstaller_Update k obj = no_implementation \<and> kubeInstaller_Delete k obj = no_implementation
      else kubeInstaller_Update k obj = get_and_update k obj (ko_Type obj) (scope_of k obj) \<and>
           kubeInstaller_Delete k obj = ka_Delete (ki_api k) (ko_Type obj) (scope_of k obj) (ko_Name obj))"
  using assms
  by (cases "ko_Type obj")
    (simp_all add: implemented_def kubeInstaller_Create_def kubeInstaller_Update_def kubeInstaller_Delete_def
      scope_of_def cluster_scoped_def)

definition ex_ext_deployment :: kube_object where
  "ex_ext_deployment = \<lparr>ko_Type = K_ExtDeployment, ko_Name = ''d'', ko_Namespace = ''ns'',
     ko_ResourceVersion = [], ko_Body = []\<rparr>"

definition ex_api :: "unit kube_api" where
  "ex_api = \<lparr>ka_Create = (\<lambda>t ns x. aret ()), ka_Get = (\<lambda>t ns n. afail (Errorf [])),
     ka_Update = (\<lambda>t ns x. aret ()), ka_Delete = (\<lambda>t ns n. aret ())\<rparr>"

theorem kubeInstaller_operations_agree_witness:
  "kubeInstaller_Delete (NewKubeInstaller ex_api []) ex_ext_deployment = no_implementation"
proof -
  have t: "ko_Type ex_ext_deployment = K_ExtDeployment" by (simp add: ex_ext_deployment_def)
  show ?thesis
    using kubeInstaller_operations_agree [of ex_ext_deployment "NewKubeInstaller ex_api []"]
    by (simp only: t) (simp add: implemented_def)
qed

section \<open>Custom resource definitions\<close>

text \<open>
  A manifest with an object that is no custom resource definition gives no definitions and no
  error: the error meant for it wraps a nil error and is lost.
\<close>

theorem foreign_object_hides_crds:
  assumes "ParseKubeManifest n lib manifest = Some (Ret objs)" and "obj \<in> set objs"
    and "ko_Type obj \<noteq> K_CustomResourceDefinition"
  shows "CrdsFromManifest n lib manifest = Some (Ret [])"
  using assms by (auto simp: CrdsFromManifest_def errors_Wrapf_def)

theorem foreign_object_hides_crds_witness:
  "CrdsFromManifest 1 ex_yaml ''a'' = Some (Ret [])"
proof -
  have split: "strings_Split ''a'' ''---'' = [''a'']" by (simp add: strings_Split_def split_from.simps)
  have p: "ParseKubeManifest 1 ex_yaml ''a'' = Some (Ret [\<lparr>ko_Type = K_Namespace, ko_Name = ''a'', ko_Namespace = [],
      ko_ResourceVersion = [], ko_Body = []\<rparr>])"
    by (simp add: ParseKubeManifest_def split parseobjectYaml_def ex_yaml_def typeOfKind_def One_nat_def [symmetric]
        del: One_nat_def gbind_eq_Ret) (simp add: ex_yaml_def typeOfKind_def del: gbind_eq_Ret)
  show ?thesis by (rule foreign_object_hides_crds [OF p, OF list.set_intros(1)]) simp
qed

text \<open>What the API server does with definitions: creating an existing one is the error AlreadyExists.\<close>

definition crd_server :: "'k kube_api \<Rightarrow> ('k \<Rightarrow> string set) \<Rightarrow> bool" where
  "crd_server api crds \<longleftrightarrow>
     (\<forall>crd s. if ko_Name crd \<in> crds s
        then ka_Create api K_CustomResourceDefinition None crd s = (Fail (KubeAlreadyExists (ko_Name crd)), s)
        else \<exists>s'. ka_Create api K_CustomResourceDefinition None crd s = (Ret (), s') \<and>
           crds s' = insert (ko_Name crd) (crds s))"

text \<open>
  C26: Creating custom resource definitions succeeds whether or not some exist already, and then all
  of them exist; creating them again changes nothing.
\<close>

theorem CreateCrds_idempotent:
  assumes "crd_server api crds"
  shows "\<exists>s'. CreateCrds api objs s = (Ret (), s') \<and> crds s' = crds s \<union> ko_Name ` set objs \<and>
     CreateCrds api objs s' = (Ret (), s')"
proof -
  let ?create = "\<lambda>crd. awrap ''failed to create crd: %v''
       (atolerate is_AlreadyExists (ka_Create api K_CustomResourceDefinition None crd))"
  have one: "\<exists>s'. ?create crd s = (Ret (), s') \<and> crds s' = insert (ko_Name crd) (crds s) \<and>
      (ko_Name crd \<in> crds s \<longrightarrow> s' = s)" for crd s
  proof (cases "ko_Name crd \<in> crds s")
    case True
    then have "ka_Create api K_CustomResourceDefinition None crd s = (Fail (KubeAlreadyExists (ko_Name crd)), s)"
      using assms unfolding crd_server_def by metis
    with True show ?thesis by (auto simp: atolerate_def)
  next
    case False
    then obtain s' where "ka_Create api K_CustomResourceDefinition None crd s = (Ret (), s')"
        "crds s' = insert (ko_Name crd) (crds s)"
      using assms unfolding crd_server_def by metis
    with False show ?thesis by (auto simp: atolerate_def)
  qed
  have all: "\<exists>s'. aforeach ?create objs s = (Ret (), s') \<and> crds s' = crds s \<union> ko_Name ` set objs" for objs s
  proof (induction objs arbitrary: s)
    case (Cons crd objs)
    obtain s1 where "?create crd s = (Ret (), s1)" "crds s1 = insert (ko_Name crd) (crds s)" using one by blast
    moreover obtain s2 where "aforeach ?create objs s1 = (Ret (), s2)" "crds s2 = crds s1 \<union> ko_Name ` set objs"
      using Cons.IH by blast
    ultimately show ?case by (intro exI [of _ s2]) (auto simp: abind_def simp del: awrap_eq_Ret)
  qed (simp add: aret_def)
  have again: "aforeach ?create objs s = (Ret (), s)" if "ko_Name ` set objs \<subseteq> crds s" for objs s
    using that
  proof (induction objs)
    case (Cons crd objs)
    then obtain s' where "?create crd s = (Ret (), s')" "s' = s" using one [of crd s] by auto
    with Cons show ?case by (simp add: abind_def del: awrap_eq_Ret)
  qed (simp add: aret_def)
  obtain s' where "aforeach ?create objs s = (Ret (), s')" "crds s' = crds s \<union> ko_Name ` set objs" using all by blast
  with again [of objs s'] show ?thesis by (auto simp: CreateCrds_def)
qed

theorem CreateCrds_idempotent_witness:
  "\<exists>s'. CreateCrds \<lparr>ka_Create = (\<lambda>t ns x s. if ko_Name x \<in> s then (Fail (KubeAlreadyExists (ko_Name x)), s)
          else (Ret (), insert (ko_Name x) s)), ka_Get = (\<lambda>t ns n. afail (Errorf [])),
        ka_Update = (\<lambda>t ns x. aret ()), ka_Delete = (\<lambda>t ns n. aret ())\<rparr>
     [\<lparr>ko_Type = K_CustomResourceDefinition, ko_Name = ''d'', ko_Namespace = [], ko_ResourceVersion = [], ko_Body = []\<rparr>] {''x''} =
     (Ret (), s') \<and> s' = {''d'', ''x''}"
  using CreateCrds_idempotent [of "\<lparr>ka_Create = (\<lambda>t ns x s. if ko_Name x \<in> s then (Fail (KubeAlreadyExists (ko_Name x)), s)
          else (Ret (), insert (ko_Name x) s)), ka_Get = (\<lambda>t ns n. afail (Errorf [])),
        ka_Update = (\<lambda>t ns x. aret ()), ka_Delete = (\<lambda>t ns n. aret ())\<rparr>" id
      "[\<lparr>ko_Type = K_CustomResourceDefinition, ko_Name = ''d'', ko_Namespace = [], ko_ResourceVersion = [], ko_Body = []\<rparr>]" "{''x''}"]
  by (auto simp: crd_server_def)

end
