(* ===== verification/Prometheus_Properties.thy ===== *)
theory Prometheus_Properties
  imports Prometheus_Sync
begin

text \<open>The configuration survives being written and read, and the syncer adds what is missing.\<close>

section \<open>Round trip\<close>

text \<open>
  What survives: an interval of whole seconds, moduli that are printed as they were after having
  become floating-point numbers, and regular expressions (a JSON value in the code) whose numbers
  are floating-point numbers.
\<close>

definition prints_exactly :: "nat \<Rightarrow> bool" where
  "prints_exactly n \<longleftrightarrow> float64_digits (float64_of_nat n) = n"

definition wf_relabel :: "relabel_config \<Rightarrow> bool" where
  "wf_relabel r \<longleftrightarrow> rl_Modulus r < 2 ^ 64 \<and> prints_exactly (rl_Modulus r) \<and>
     struct_of_json (rl_Regex r) = rl_Regex r"

definition wf_scrape :: "scrape_config \<Rightarrow> bool" where
  "wf_scrape c \<longleftrightarrow> (\<forall>r \<in> set (sc_RelabelConfigs c) \<union> set (sc_MetricRelabelConfigs c). wf_relabel r)"

definition wf_config :: "prometheus_config \<Rightarrow> bool" where
  "wf_config c \<longleftrightarrow> whole_seconds (pc_ScrapeInterval c) \<and> (\<forall>s \<in> set (pc_ScrapeConfigs c). wf_scrape s)"

subsection \<open>Printed numbers\<close>

lemma bit_length_bounds: "0 < n \<Longrightarrow> 2 ^ (bit_length n - 1) \<le> n \<and> n < 2 ^ bit_length n \<and> 0 < bit_length n"
proof (induction n rule: bit_length.induct)
  case (1 n)
  show ?case
  proof (cases "n = 1")
    case False
    then have n: "0 < n div 2" "n \<noteq> 0" using 1(2) by auto
    with 1(1) have IH: "2 ^ (bit_length (n div 2) - 1) \<le> n div 2" "n div 2 < 2 ^ bit_length (n div 2)"
      "0 < bit_length (n div 2)" by auto
    have b: "bit_length n = Suc (bit_length (n div 2))" using n by (subst bit_length.simps) simp
    obtain k where k: "bit_length (n div 2) = Suc k" using IH(3) by (cases "bit_length (n div 2)") auto
    have "2 * 2 ^ k \<le> n" using IH(1) unfolding k by simp
    moreover have "n < 2 * (2 * 2 ^ k)" using IH(2) unfolding k by simp
    ultimately show ?thesis unfolding b k by simp
  qed (simp add: bit_length.simps)
qed

lemma float64_large: "2 ^ 53 \<le> m \<Longrightarrow> 2 ^ 53 \<le> float64_of_nat m"
proof -
  assume m: "2 ^ 53 \<le> m"
  have b: "2 ^ (bit_length m - 1) \<le> m" "m < 2 ^ bit_length m" using bit_length_bounds [of m] m by auto
  have "53 < bit_length m"
  proof (rule ccontr)
    assume "\<not> 53 < bit_length m"
    then have "(2::nat) ^ bit_length m \<le> 2 ^ 53" by (intro power_increasing) auto
    with b(2) m show False by linarith
  qed
  then obtain e where e: "bit_length m = Suc e + 53" by (metis add.commute less_imp_Suc_add add_Suc_right)
  have "(2::nat) ^ 52 * 2 ^ Suc e \<le> m" using b(1) unfolding e by (simp add: power_add)
  then have q: "2 ^ 52 \<le> m div 2 ^ Suc e" by (simp add: less_eq_div_iff_mult_less_eq)
  have "(2::nat) ^ 53 \<le> 2 ^ 52 * 2 ^ Suc e" by simp
  also have "\<dots> \<le> (if 2 * (m mod 2 ^ Suc e) > 2 ^ Suc e \<or> 2 * (m mod 2 ^ Suc e) = 2 ^ Suc e \<and> odd (m div 2 ^ Suc e)
     then m div 2 ^ Suc e + 1 else m div 2 ^ Suc e) * 2 ^ Suc e"
    using q by (intro mult_le_mono1) auto
  also have "\<dots> = float64_of_nat m"
    using m e by (simp add: float64_of_nat_def Let_def del: power_Suc)
  finally show ?thesis .
qed

text \<open>The printed digits denote the number that was printed.\<close>

lemma shorten_denotes: "shorten n p = Some m \<Longrightarrow> float64_of_nat m = n"
  by (auto simp: shorten_def Let_def split: if_splits)

lemma shortest_denotes: "float64_of_nat n = n \<Longrightarrow> float64_of_nat (shortest n p) = n"
  by (induction p) (auto split: option.splits dest: shorten_denotes)

lemma float64_digits_denotes: "float64_of_nat n = n \<Longrightarrow> float64_of_nat (float64_digits n) = n"
  by (simp add: float64_digits_def shortest_denotes)

lemma float64_text_denotes:
  assumes "float64_of_int i = i"
  shows "float64_of_int (float64_text i) = i"
proof (cases "i < 0")
  case True
  then have n: "float64_of_nat (nat (- i)) = nat (- i)" using assms by (simp add: float64_of_int_def)
  have zero: "float64_of_nat 0 = 0" by (simp add: float64_of_nat_def)
  have "float64_digits (nat (- i)) \<noteq> 0"
    using float64_digits_denotes [OF n] True zero by (intro notI) simp
  with True float64_digits_denotes [OF n] show ?thesis
    by (simp add: float64_text_def float64_of_int_def)
next
  case False
  then have "float64_of_nat (nat i) = nat i" using assms by (simp add: float64_of_int_def)
  from float64_digits_denotes [OF this] False show ?thesis
    by (simp add: float64_text_def float64_of_int_def)
qed

text \<open>Numbers below \<open>2 ^ 53\<close> are printed exactly; larger ones need not be, even powers of two.\<close>

lemma small_prints_exactly: "n < 2 ^ 53 \<Longrightarrow> prints_exactly n"
proof -
  assume n: "n < 2 ^ 53"
  then have same: "float64_of_nat n = n" by (simp add: float64_of_nat_def)
  have "m = n" if "float64_of_nat m = n" for m
    using that n float64_large [of m] by (cases "m < 2 ^ 53") (auto simp: float64_of_nat_def)
  from this [OF float64_digits_denotes [OF same]] show ?thesis
    by (simp add: prints_exactly_def same)
qed




lemma map_numbers_twice: "map_numbers f (map_numbers g v) = map_numbers (f \<circ> g) v"
  by (induction v) auto

text \<open>What a number becomes when it is written and printed.\<close>

definition reprint :: "int \<Rightarrow> int" where
  "reprint = float64_text \<circ> float64_of_int"

lemma json_of_struct_of_json: "json_of_struct (struct_of_json v) = map_numbers reprint v"
  by (simp add: json_of_struct_def struct_of_json_def map_numbers_twice reprint_def)

lemma reprint_exact: "prints_exactly n \<Longrightarrow> reprint (int n) = int n"
  by (simp add: reprint_def float64_text_def float64_of_int_def prints_exactly_def)

lemma map_fixed: "map f xs = xs \<longleftrightarrow> (\<forall>x \<in> set xs. f x = x)"
  by (induction xs) auto

lemma reread:
  "map_numbers float64_of_int v = v \<Longrightarrow> map_numbers float64_of_int (map_numbers reprint v) = v"
proof (induction v)
  case (JNum i)
  then show ?case by (simp add: reprint_def float64_text_denotes)
next
  case (JArr xs)
  then show ?case by (auto simp: map_fixed)
next
  case (JObj o1)
  then have "\<forall>(k, v) \<in> set o1. map_numbers float64_of_int v = v" by (auto simp: map_fixed)
  with JObj(1) show ?case by (fastforce simp: map_fixed)
qed simp_all

abbreviation reprint_fields :: "(string \<times> json) list \<Rightarrow> (string \<times> json) list" where
  "reprint_fields \<equiv> map (\<lambda>(k, v). (k, map_numbers reprint v))"

named_theorems enc_simps \<open>fields of encoded objects\<close>

lemma map_of_enc [enc_simps]:
  "map_of (enc_string n s @ rest) m = (if n = m \<and> s \<noteq> [] then Some (JStr s) else map_of rest m)"
  "map_of (enc_string n s) m = (if n = m \<and> s \<noteq> [] then Some (JStr s) else None)"
  "map_of (enc_list f n xs @ rest) m = (if n = m \<and> xs \<noteq> [] then Some (JArr (map f xs)) else map_of rest m)"
  "map_of (enc_list f n xs) m = (if n = m \<and> xs \<noteq> [] then Some (JArr (map f xs)) else None)"
  "map_of (enc_pointer g n p @ rest) m = (if n = m \<and> p \<noteq> None then Some (g (the p)) else map_of rest m)"
  "map_of (enc_pointer g n p) m = (if n = m \<and> p \<noteq> None then Some (g (the p)) else None)"
  "map_of ((if b then [] else [(n, v)]) @ rest) m = (if n = m \<and> \<not> b then Some v else map_of rest m)"
  "map_of ((if b then [(n, v)] else []) @ rest) m = (if n = m \<and> b then Some v else map_of rest m)"
  by (auto simp: enc_string_def enc_list_def enc_pointer_def split: option.splits)

lemma struct_enc [enc_simps]:
  "reprint_fields (enc_string n s) = enc_string n s"
  "reprint_fields (enc_list f n xs) = enc_list (map_numbers reprint \<circ> f) n xs"
  "reprint_fields (enc_pointer g n p) = enc_pointer (map_numbers reprint \<circ> g) n p"
  by (auto simp: enc_string_def enc_list_def enc_pointer_def split: option.splits)

lemma enc_list_cong: "(\<And>x. x \<in> set xs \<Longrightarrow> f x = g x) \<Longrightarrow> enc_list f n xs = enc_list g n xs"
  by (simp add: enc_list_def)

lemma enc_pointer_cong: "(\<And>x. p = Some x \<Longrightarrow> f x = g x) \<Longrightarrow> enc_pointer f n p = enc_pointer g n p"
  by (simp add: enc_pointer_def split: option.splits)

lemma struct_JStr [simp]: "map_numbers f \<circ> JStr = JStr"
  by (rule ext) simp

subsection \<open>Encoded values after they were printed\<close>

definition reprint_relabel :: "relabel_config \<Rightarrow> relabel_config" where
  "reprint_relabel r = r\<lparr>rl_Regex := map_numbers reprint (rl_Regex r)\<rparr>"

lemma map_numbers_null: "map_numbers f v = JNull \<longleftrightarrow> v = JNull"
  by (cases v) simp_all

lemma struct_relabel: "wf_relabel r \<Longrightarrow> map_numbers reprint (enc_relabel r) = enc_relabel (reprint_relabel r)"
  by (simp add: enc_relabel_def enc_simps wf_relabel_def reprint_exact reprint_relabel_def map_numbers_null)

lemma struct_namespaces: "map_numbers reprint (enc_namespaces ns) = enc_namespaces ns"
  by (simp add: enc_namespaces_def enc_simps)

lemma struct_sd: "map_numbers reprint (enc_sd c) = enc_sd c"
  by (simp add: enc_sd_def enc_simps struct_namespaces cong: enc_pointer_cong)

lemma struct_tls: "map_numbers reprint (enc_tls c) = enc_tls c"
  by (simp add: enc_tls_def enc_simps)

subsection \<open>Decoding what was encoded\<close>

lemma dec_field_enc [enc_simps]: "map_of o1 n = None \<Longrightarrow> dec_field f z n o1 = Ret z"
  "map_of o1 n = Some v \<Longrightarrow> dec_field f z n o1 = f v"
  by (simp_all add: dec_field_def)

lemma gmapM_dec: "(\<And>x. x \<in> set xs \<Longrightarrow> dec (enc x) = Ret x) \<Longrightarrow> gmapM dec (map enc xs) = Ret xs"
  by (induction xs) auto

lemma dec_strings [simp]: "gmapM dec_string (map JStr xs) = Ret xs"
  by (rule gmapM_dec) simp

lemma dec_string_field [enc_simps]:
  "map_of o1 n = (if s \<noteq> [] then Some (JStr s) else None) \<Longrightarrow> dec_field dec_string [] n o1 = Ret s"
  by (simp add: dec_field_def split: if_splits)

lemma dec_list_field [enc_simps]:
  "map_of o1 n = (if xs \<noteq> [] then Some (JArr (map enc xs)) else None) \<Longrightarrow>
     (\<And>x. x \<in> set xs \<Longrightarrow> dec (enc x) = Ret x) \<Longrightarrow> dec_field (dec_list dec) [] n o1 = Ret xs"
  by (simp add: dec_field_def gmapM_dec split: if_splits)

lemma dec_pointer_field [enc_simps]:
  "map_of o1 n = (if p \<noteq> None then Some (enc (the p)) else None) \<Longrightarrow>
     (\<And>x. p = Some x \<Longrightarrow> dec (enc x) = Ret x \<and> enc x \<noteq> JNull) \<Longrightarrow>
     dec_field (dec_pointer dec) None n o1 = Ret p"
proof (cases p)
  case (Some x)
  assume "map_of o1 n = (if p \<noteq> None then Some (enc (the p)) else None)"
    "\<And>x. p = Some x \<Longrightarrow> dec (enc x) = Ret x \<and> enc x \<noteq> JNull"
  with Some show ?thesis by (cases "enc x") (auto simp: dec_field_def)
qed (simp add: dec_field_def)

lemma dec_relabel_enc: "wf_relabel r \<Longrightarrow> dec_relabel (map_numbers reprint (enc_relabel r)) = Ret r"
proof -
  assume wf: "wf_relabel r"
  let ?r = "map_numbers reprint (rl_Regex r)"
  let ?o = "enc_list JStr ''source_labels'' (rl_SourceLabels r) @
      enc_string ''separator'' (rl_Separator r) @
      (if ?r = JNull then [] else [(''regex'', ?r)]) @
      (if rl_Modulus r = 0 then [] else [(''modulus'', JNum (int (rl_Modulus r)))]) @
      enc_string ''target_label'' (rl_TargetLabel r) @
      enc_string ''replacement'' (rl_Replacement r) @
      enc_string ''action'' (rl_Action r)"
  have "dec_field (dec_list dec_string) [] ''source_labels'' ?o = Ret (rl_SourceLabels r)"
    by (rule dec_list_field [where enc = JStr]) (simp_all add: map_of_enc del: map_of_append)
  moreover have "dec_field dec_string [] ''separator'' ?o = Ret (rl_Separator r)"
    "dec_field dec_string [] ''target_label'' ?o = Ret (rl_TargetLabel r)"
    "dec_field dec_string [] ''replacement'' ?o = Ret (rl_Replacement r)"
    "dec_field dec_string [] ''action'' ?o = Ret (rl_Action r)"
    by (rule dec_string_field, simp add: map_of_enc del: map_of_append)+
  moreover have "dec_field dec_interface JNull ''regex'' ?o = Ret (rl_Regex r)"
    using reread [of "rl_Regex r"] wf
    by (cases "?r = JNull")
      (simp_all add: dec_field_def dec_interface_def map_of_enc wf_relabel_def struct_of_json_def map_numbers_null
        del: map_of_append)
  moreover have "dec_field dec_uint64 0 ''modulus'' ?o = Ret (rl_Modulus r)"
    using wf by (simp add: dec_field_def map_of_enc wf_relabel_def del: map_of_append)
  moreover have "enc_relabel (reprint_relabel r) = JObj ?o"
    by (simp add: enc_relabel_def reprint_relabel_def)
  ultimately show ?thesis
    unfolding struct_relabel [OF wf] by (simp add: dec_relabel_def)
qed

lemma dec_namespaces_enc: "dec_namespaces (enc_namespaces ns) = Ret ns"
  unfolding dec_namespaces_def enc_namespaces_def dec_struct.simps
  by (rule dec_list_field [where enc = JStr]) (simp_all add: map_of_enc)

lemma enc_not_null [simp]: "enc_namespaces ns \<noteq> JNull" "enc_tls c \<noteq> JNull"
  by (simp_all add: enc_namespaces_def enc_tls_def)

lemma dec_sd_enc: "dec_sd (enc_sd c) = Ret c"
proof -
  let ?o = "enc_pointer enc_namespaces ''namespaces'' (sd_Namespaces c) @ enc_string ''role'' (sd_Role c)"
  have "dec_field (dec_pointer dec_namespaces) None ''namespaces'' ?o = Ret (sd_Namespaces c)"
    by (rule dec_pointer_field [where enc = enc_namespaces])
      (simp_all add: map_of_enc dec_namespaces_enc del: map_of_append)
  moreover have "dec_field dec_string [] ''role'' ?o = Ret (sd_Role c)"
    by (rule dec_string_field) (simp add: map_of_enc del: map_of_append)
  ultimately show ?thesis by (simp add: dec_sd_def enc_sd_def)
qed

lemma dec_tls_enc: "dec_tls (enc_tls c) = Ret c"
proof -
  let ?o = "enc_string ''ca_file'' (tls_CaFile c) @
      enc_string ''cert_file'' (tls_CertFile c) @
      (if tls_InsecureSkipVerify c then [(''insecure_skip_verify'', JBool True)] else []) @
      enc_string ''key_file'' (tls_KeyFile c)"
  have "dec_field dec_string [] ''ca_file'' ?o = Ret (tls_CaFile c)"
    "dec_field dec_string [] ''cert_file'' ?o = Ret (tls_CertFile c)"
    "dec_field dec_string [] ''key_file'' ?o = Ret (tls_KeyFile c)"
    by (rule dec_string_field, simp add: map_of_enc del: map_of_append)+
  moreover have "dec_field dec_bool False ''insecure_skip_verify'' ?o = Ret (tls_InsecureSkipVerify c)"
    by (simp add: dec_field_def map_of_enc del: map_of_append)
  ultimately show ?thesis by (simp add: dec_tls_def enc_tls_def)
qed

lemma dec_scrape_enc: "wf_scrape c \<Longrightarrow> dec_scrape (map_numbers reprint (enc_scrape c)) = Ret c"
proof -
  assume wf: "wf_scrape c"
  let ?o = "enc_string ''job_name'' (sc_JobName c) @
      enc_list enc_sd ''kubernetes_sd_configs'' (sc_KubernetesSdConfigs c) @
      enc_list (map_numbers reprint \<circ> enc_relabel) ''relabel_configs'' (sc_RelabelConfigs c) @
      enc_string ''scrape_interval'' (sc_ScrapeInterval c) @
      enc_list (map_numbers reprint \<circ> enc_relabel) ''metric_relabel_configs'' (sc_MetricRelabelConfigs c) @
      enc_string ''metrics_path'' (sc_MetricsPath c) @
      enc_string ''bearer_token_file'' (sc_BearerTokenFile c) @
      enc_string ''scheme'' (sc_Scheme c) @
      enc_pointer enc_tls ''tls_config'' (sc_TLSConfig c)"
  have "dec_field dec_string [] ''job_name'' ?o = Ret (sc_JobName c)"
    "dec_field dec_string [] ''scrape_interval'' ?o = Ret (sc_ScrapeInterval c)"
    "dec_field dec_string [] ''metrics_path'' ?o = Ret (sc_MetricsPath c)"
    "dec_field dec_string [] ''bearer_token_file'' ?o = Ret (sc_BearerTokenFile c)"
    "dec_field dec_string [] ''scheme'' ?o = Ret (sc_Scheme c)"
    by (rule dec_string_field, simp add: map_of_enc del: map_of_append)+
  moreover have "dec_field (dec_list dec_sd) [] ''kubernetes_sd_configs'' ?o = Ret (sc_KubernetesSdConfigs c)"
    by (rule dec_list_field [where enc = enc_sd]) (simp_all add: map_of_enc dec_sd_enc del: map_of_append)
  moreover have "dec_field (dec_list dec_relabel) [] ''relabel_configs'' ?o = Ret (sc_RelabelConfigs c)"
    by (rule dec_list_field [where enc = "map_numbers reprint \<circ> enc_relabel"])
      (use wf in \<open>simp_all add: map_of_enc dec_relabel_enc wf_scrape_def del: map_of_append\<close>)
  moreover have "dec_field (dec_list dec_relabel) [] ''metric_relabel_configs'' ?o = Ret (sc_MetricRelabelConfigs c)"
    by (rule dec_list_field [where enc = "map_numbers reprint \<circ> enc_relabel"])
      (use wf in \<open>simp_all add: map_of_enc dec_relabel_enc wf_scrape_def del: map_of_append\<close>)
  moreover have "dec_field (dec_pointer dec_tls) None ''tls_config'' ?o = Ret (sc_TLSConfig c)"
    by (rule dec_pointer_field [where enc = enc_tls])
      (simp_all add: map_of_enc dec_tls_enc del: map_of_append)
  moreover have "map_numbers reprint (enc_scrape c) = JObj ?o"
    by (simp add: enc_scrape_def enc_simps struct_sd struct_tls comp_def cong: enc_pointer_cong enc_list_cong)
  ultimately show ?thesis by (simp add: dec_scrape_def)
qed

lemma dec_config_enc:
  assumes "wf_config c"
  shows "dec_config (reprint_fields (enc_config c)) = Ret c"
proof -
  let ?o = "[(''global'', JObj [(''scrape_interval'', Duration_MarshalJSON (pc_ScrapeInterval c))])] @
     enc_list (map_numbers reprint \<circ> enc_scrape) ''scrape_configs'' (pc_ScrapeConfigs c)"
  have "dec_field (dec_struct (dec_field Duration_UnmarshalJSON 0 ''scrape_interval'')) 0 ''global'' ?o = Ret (pc_ScrapeInterval c)"
    using assms by (simp add: dec_field_def Duration_MarshalJSON_def wf_config_def ParseDuration_String)
  moreover have "dec_field (dec_list dec_scrape) [] ''scrape_configs'' ?o = Ret (pc_ScrapeConfigs c)"
    by (rule dec_list_field [where enc = "map_numbers reprint \<circ> enc_scrape"])
      (use assms in \<open>simp_all add: map_of_enc dec_scrape_enc wf_config_def\<close>)
  moreover have "reprint_fields (enc_config c) = ?o"
    by (simp add: enc_config_def enc_simps Duration_MarshalJSON_def)
  ultimately show ?thesis by (simp add: dec_config_def)
qed

text \<open>What is written is printed and read as the same configuration.\<close>

lemma from_written:
  assumes "wf_config c" and "pr_Prometheus r = Some (map (\<lambda>(k, v). (k, struct_of_json v)) (enc_config c))"
  shows "ConfigFromResource (Some r) = Ret (Some c)"
proof -
  have "map (\<lambda>(k, v). (k, json_of_struct v)) (map (\<lambda>(k, v). (k, struct_of_json v)) (enc_config c)) =
      reprint_fields (enc_config c)"
    by (simp add: json_of_struct_of_json case_prod_unfold)
  with dec_config_enc [OF assms(1)] assms(2) show ?thesis by (simp add: ConfigFromResource_def del: map_map)
qed


lemma exact_zero [simp]: "prints_exactly 0" "struct_of_json (JStr s) = JStr s" "struct_of_json JNull = JNull"
  using small_prints_exactly [of 0] by (simp_all add: struct_of_json_def)

lemma wf_keep [simp]:
  "wf_relabel (keep_source ls x)" "wf_relabel (replace_into l u)" "wf_relabel (drop_source l x)" "wf_relabel (on_labels a x)"
  by (simp_all add: wf_relabel_def keep_source_def replace_into_def drop_source_def on_labels_def zero_relabel_def)

lemma wf_desired: "\<forall>c \<in> set IstioScrapeConfigs. wf_scrape c" "\<forall>c \<in> set LinkerdScrapeConfigs. wf_scrape c"
  by (auto simp: IstioScrapeConfigs_def LinkerdScrapeConfigs_def istio_job_def wf_scrape_def zero_scrape_config_def
      wf_relabel_def zero_relabel_def simp del: wf_keep simp add: keep_source_def replace_into_def
      drop_source_def on_labels_def)



text \<open>
  A modulus of \<open>2 ^ 63\<close> is a floating-point number, and still does not survive: its shortest digits
  denote another integer, and the field is read as an integer.
\<close>

text \<open>
  Prometheus writes a duration as one number with a unit: the text \<open>1m\<close> is read, but is written as
  two.
\<close>

lemma minute_rewritten: "duration_String 60000000000 = nat_digits 1 @ ''m'' @ nat_digits 0 @ ''s''"
  using duration_String_seconds [of 60] by simp

section \<open>Adding scrape configurations\<close>

definition job_names :: "prometheus_config \<Rightarrow> string set" where
  "job_names c = sc_JobName ` set (pc_ScrapeConfigs c)"

lemma add_scrape_config_simps:
  "add_scrape_config d (c, u) =
     (if sc_JobName d \<in> job_names c then (c, u) else (c\<lparr>pc_ScrapeConfigs := pc_ScrapeConfigs c @ [d]\<rparr>, True))"
  by (simp add: add_scrape_config_def job_names_def image_iff eq_commute [of "sc_JobName d"])

lemma job_names_append: "job_names (c\<lparr>pc_ScrapeConfigs := pc_ScrapeConfigs c @ xs\<rparr>) = job_names c \<union> sc_JobName ` set xs"
  by (auto simp: job_names_def)

text \<open>
  The fold, from any state: what is appended are desired configurations of new jobs; afterwards
  every desired job is there, and the flag tells whether anything was appended.
\<close>

lemma fold_add_scrape_config:
  "\<exists>xs. fold add_scrape_config ds (c, u) = (c\<lparr>pc_ScrapeConfigs := pc_ScrapeConfigs c @ xs\<rparr>, u \<or> xs \<noteq> []) \<and>
     set xs \<subseteq> set ds \<and> distinct (map sc_JobName xs) \<and> sc_JobName ` set xs \<inter> job_names c = {} \<and>
     sc_JobName ` set ds \<subseteq> job_names (c\<lparr>pc_ScrapeConfigs := pc_ScrapeConfigs c @ xs\<rparr>)"
proof (induction ds arbitrary: c u)
  case (Cons d ds)
  show ?case
  proof (cases "sc_JobName d \<in> job_names c")
    case True
    with Cons [of c u] show ?thesis
      by (auto simp: add_scrape_config_simps job_names_append)
  next
    case False
    let ?c = "c\<lparr>pc_ScrapeConfigs := pc_ScrapeConfigs c @ [d]\<rparr>"
    obtain xs where "fold add_scrape_config ds (?c, True) = (?c\<lparr>pc_ScrapeConfigs := pc_ScrapeConfigs ?c @ xs\<rparr>, True)"
      "set xs \<subseteq> set ds" "distinct (map sc_JobName xs)" "sc_JobName ` set xs \<inter> job_names ?c = {}"
      "sc_JobName ` set ds \<subseteq> job_names (?c\<lparr>pc_ScrapeConfigs := pc_ScrapeConfigs ?c @ xs\<rparr>)"
      using Cons [of ?c True] by auto
    with False show ?thesis
      by (intro exI [of _ "d # xs"]) (auto simp: add_scrape_config_simps job_names_append job_names_def)
  qed
qed (auto simp: job_names_def)

lemma AddScrapeConfigs_adds:
  obtains xs where "AddScrapeConfigs ds c = (c\<lparr>pc_ScrapeConfigs := pc_ScrapeConfigs c @ xs\<rparr>, xs \<noteq> [])"
    "set xs \<subseteq> set ds" "distinct (map sc_JobName xs)" "sc_JobName ` set xs \<inter> job_names c = {}"
    "sc_JobName ` set ds \<subseteq> job_names (c\<lparr>pc_ScrapeConfigs := pc_ScrapeConfigs c @ xs\<rparr>)"
  using fold_add_scrape_config [of ds c False] unfolding AddScrapeConfigs_def by auto

lemma AddScrapeConfigs_present:
  assumes "sc_JobName ` set ds \<subseteq> job_names c"
  shows "AddScrapeConfigs ds c = (c, False)"
  using assms unfolding AddScrapeConfigs_def
  by (induction ds) (simp_all add: add_scrape_config_simps)

section \<open>The syncer\<close>

text \<open>What a mesh asks for: its metrics in the configuration of a reference, and the pods to restart.\<close>

definition asks_metrics :: "('p, 'k) prometheus_syncer \<Rightarrow> mesh \<Rightarrow> resource_ref \<Rightarrow> bool" where
  "asks_metrics s mesh ref \<longleftrightarrow>
     (\<exists>obs prom. mesh_Observability mesh = Some obs \<and> obs_Prometheus obs = Some prom \<and> prom_EnableMetrics prom) \<and>
     ps_GetConfigMap s mesh = Ret (Some ref)"

locale prometheus_store = resource_client prometheus_ops client view ok covers
  for client :: "('p, prometheus_resource) client" and view ok covers
begin

lemma get_config:
  assumes "ok p" "ps_PrometheusClient s = client" "view p ref = Some r" "ConfigFromResource (Some r) = Ret (Some c)"
  shows "getPrometheusConfig s ref p = (Ret (Some c), p)"
  using Read_present [OF assms(1), of "ref_Namespace ref" "ref_Name ref" r] assms(2-4)
  by (simp add: getPrometheusConfig_def act_simps)

lemma write_config:
  assumes "ok p" "ps_PrometheusClient s = client" "view p ref = Some r" "wf_config c"
  shows "\<exists>p' r'. writePrometheusConfig s ref c p = (Ret (), p') \<and> ok p' \<and> view p' = (view p)(ref \<mapsto> r') \<and>
     ConfigFromResource (Some r') = Ret (Some c) \<and> fst ` set (the (pr_Prometheus r')) \<subseteq> {''global'', ''scrape_configs''}"
proof -
  let ?s = "map (\<lambda>(k, v). (k, struct_of_json v)) (enc_config c)"
  let ?d = "\<lparr>pr_Prometheus = Some ?s, pr_Metadata = pr_Metadata r\<rparr>"
  have conv: "ConfigToResource (Some c) = Ret (Some \<lparr>pr_Prometheus = Some ?s, pr_Metadata = new_metadata [] []\<rparr>)"
    by (simp add: ConfigToResource_def)
  have read: "client_Read client (ref_Namespace ref) (ref_Name ref) p = (Ret r, p)"
    using Read_present [OF assms(1), of "ref_Namespace ref" "ref_Name ref" r] assms(3) by simp
  have ref: "resource_Ref prometheus_ops ?d = ref"
    using view_Ref [OF assms(1,3)] by (simp add: prometheus_ops_def)
  obtain r' p' where w: "client_Write client ?d True p = (Ret r', p')" "ok p'" "but_version prometheus_ops r' ?d"
      "view p' = (view p)(ref \<mapsto> r')"
    using Write_over [OF assms(1), of ?d r] assms(3) ref by (auto simp: prometheus_ops_def)
  have same: "pr_Prometheus r' = Some ?s"
    using w(3) by (cases r') (simp add: but_version_def prometheus_ops_def)
  then have "ConfigFromResource (Some r') = Ret (Some c)"
    by (rule from_written [OF assms(4)])
  moreover have "fst ` set (the (pr_Prometheus r')) \<subseteq> {''global'', ''scrape_configs''}"
    using same by (auto simp: enc_config_def enc_list_def split: if_splits)
  moreover have "writePrometheusConfig s ref c p = (Ret (), p')"
    using assms(2) read w(1) conv by (simp add: writePrometheusConfig_def act_simps)
  ultimately show ?thesis using w(2,4) by blast
qed

lemma syncMesh_converges:
  assumes p: "ok p" "ps_PrometheusClient s = client" and asks: "asks_metrics s mesh ref"
    and r: "view p ref = Some r" "ConfigFromResource (Some r) = Ret (Some c)" "wf_config c"
    and desired: "\<forall>d \<in> set (ps_DesiredScrapeConfigs s). wf_scrape d"
  shows "\<exists>res p' k' r'. prometheus_syncMesh s mesh (p, k) = (res, (p', k')) \<and> ok p' \<and>
     view p' = (view p)(ref \<mapsto> r') \<and>
     ConfigFromResource (Some r') = Ret (Some (fst (AddScrapeConfigs (ps_DesiredScrapeConfigs s) c))) \<and>
     (if snd (AddScrapeConfigs (ps_DesiredScrapeConfigs s) c)
      then fst ` set (the (pr_Prometheus r')) \<subseteq> {''global'', ''scrape_configs''}
      else (res, p', k') = (Ret (), p, k)) \<and>
     (\<forall>k. prometheus_syncMesh s mesh (p', k) = (Ret (), (p', k)))"
proof -
  let ?ds = "ps_DesiredScrapeConfigs s"
  obtain obs prom where mesh: "mesh_Observability mesh = Some obs" "obs_Prometheus obs = Some prom" "prom_EnableMetrics prom"
      "ps_GetConfigMap s mesh = Ret (Some ref)"
    using asks by (auto simp: asks_metrics_def)
  obtain xs where add: "AddScrapeConfigs ?ds c = (c\<lparr>pc_ScrapeConfigs := pc_ScrapeConfigs c @ xs\<rparr>, xs \<noteq> [])"
      "set xs \<subseteq> set ?ds" "sc_JobName ` set ?ds \<subseteq> job_names (c\<lparr>pc_ScrapeConfigs := pc_ScrapeConfigs c @ xs\<rparr>)"
    by (rule AddScrapeConfigs_adds)
  let ?c = "c\<lparr>pc_ScrapeConfigs := pc_ScrapeConfigs c @ xs\<rparr>"
  have unchanged: "prometheus_syncMesh s mesh (p, k) = (Ret (), (p, k))"
    if "ok p" "view p ref = Some r" "ConfigFromResource (Some r) = Ret (Some c)" "AddScrapeConfigs ?ds c = (c', False)"
    for p k r c c'
    using get_config [OF that(1) p(2) that(2,3)] that(4) mesh
    by (simp add: prometheus_syncMesh_def act_simps)
  have again: "AddScrapeConfigs ?ds ?c = (?c, False)" by (rule AddScrapeConfigs_present [OF add(3)])
  show ?thesis
  proof (cases "xs = []")
    case True
    then have c: "?c = c" by simp
    with unchanged [OF p(1) r(1,2), of c] again p(1) r(1,2) add(1) True show ?thesis
      by (intro exI [of _ "Ret ()"] exI [of _ p] exI [of _ k] exI [of _ r]) (simp add: fun_upd_idem)
  next
    case False
    have "wf_config ?c" using r(3) desired add(2) by (auto simp: wf_config_def)
    from write_config [OF p r(1) this] obtain p' r' where w: "writePrometheusConfig s ref ?c p = (Ret (), p')" "ok p'"
        "view p' = (view p)(ref \<mapsto> r')" "ConfigFromResource (Some r') = Ret (Some ?c)"
        "fst ` set (the (pr_Prometheus r')) \<subseteq> {''global'', ''scrape_configs''}"
      by blast
    have "\<exists>res k'. prometheus_syncMesh s mesh (p, k) = (res, (p', k'))"
      using get_config [OF p r(1,2)] w(1) mesh add(1) False
      by (simp add: prometheus_syncMesh_def act_simps awrap_def on_snd_def split: prod.split)
    moreover have "prometheus_syncMesh s mesh (p', k) = (Ret (), (p', k))" for k
      by (rule unchanged [OF w(2) _ w(4) again]) (simp add: w(3))
    ultimately show ?thesis using w add(1) False by auto
  qed
qed

end

interpretation prometheus_memory:
  prometheus_store "mem_client id prometheus_ops ''*v1.Config''" "mem_view prometheus_ops ''*v1.Config''"
    "mem_ok prometheus_ops ''*v1.Config''" mem_covers
  by (intro prometheus_store.intro mem_store_client prom_resource.resource_type_axioms) simp

lemma mem_prometheus_store:
  "valid_range rng \<Longrightarrow> prometheus_store (mem_client rng prometheus_ops k) (mem_view prometheus_ops k)
     (mem_ok prometheus_ops k) mem_covers"
  by (intro prometheus_store.intro mem_store_client prom_resource.resource_type_axioms)

text \<open>
  C31: A sync of a mesh with metrics leaves a configuration with every desired job, after the
  jobs that were there; the rest of the store is not touched, and the same sync again
  changes nothing. When something is added, every section but the global interval and the scrape
  configurations is lost.
\<close>

theorem prometheus_sync_converges:
  assumes "valid_range rng" and "mem_ok prometheus_ops kd p" "ps_PrometheusClient s = mem_client rng prometheus_ops kd"
    and "asks_metrics s mesh ref" and "mem_view prometheus_ops kd p ref = Some r"
    and "ConfigFromResource (Some r) = Ret (Some c)" "wf_config c"
    and "\<forall>d \<in> set (ps_DesiredScrapeConfigs s). wf_scrape d"
  shows "\<exists>res p' k' r' xs. prometheus_syncMesh s mesh (p, k) = (res, (p', k')) \<and>
     mem_view prometheus_ops kd p' = (mem_view prometheus_ops kd p)(ref \<mapsto> r') \<and>
     ConfigFromResource (Some r') = Ret (Some (c\<lparr>pc_ScrapeConfigs := pc_ScrapeConfigs c @ xs\<rparr>)) \<and>
     set xs \<subseteq> set (ps_DesiredScrapeConfigs s) \<and> distinct (map sc_JobName xs) \<and>
     sc_JobName ` set xs = sc_JobName ` set (ps_DesiredScrapeConfigs s) - job_names c \<and>
     (if xs = [] then (res, p', k') = (Ret (), p, k)
      else fst ` set (the (pr_Prometheus r')) \<subseteq> {''global'', ''scrape_configs''}) \<and>
     (\<forall>k. prometheus_syncMesh s mesh (p', k) = (Ret (), (p', k)))"
proof -
  obtain xs where add: "AddScrapeConfigs (ps_DesiredScrapeConfigs s) c = (c\<lparr>pc_ScrapeConfigs := pc_ScrapeConfigs c @ xs\<rparr>, xs \<noteq> [])"
    "set xs \<subseteq> set (ps_DesiredScrapeConfigs s)" "distinct (map sc_JobName xs)" "sc_JobName ` set xs \<inter> job_names c = {}"
    "sc_JobName ` set (ps_DesiredScrapeConfigs s) \<subseteq> job_names (c\<lparr>pc_ScrapeConfigs := pc_ScrapeConfigs c @ xs\<rparr>)"
    by (rule AddScrapeConfigs_adds)
  then have jobs: "sc_JobName ` set xs = sc_JobName ` set (ps_DesiredScrapeConfigs s) - job_names c"
    unfolding job_names_append by blast
  obtain res p' k' r' where run: "prometheus_syncMesh s mesh (p, k) = (res, (p', k'))"
      "mem_view prometheus_ops kd p' = (mem_view prometheus_ops kd p)(ref \<mapsto> r')"
      "ConfigFromResource (Some r') = Ret (Some (c\<lparr>pc_ScrapeConfigs := pc_ScrapeConfigs c @ xs\<rparr>))"
      "if xs \<noteq> [] then fst ` set (the (pr_Prometheus r')) \<subseteq> {''global'', ''scrape_configs''}
       else (res, p', k') = (Ret (), p, k)"
      "\<forall>k. prometheus_syncMesh s mesh (p', k) = (Ret (), (p', k))"
    using prometheus_store.syncMesh_converges [OF mem_prometheus_store [OF assms(1)] assms(2-8), of k]
    unfolding add(1) fst_conv snd_conv by blast
  show ?thesis
    by (rule exI [of _ res], rule exI [of _ p'], rule exI [of _ k'], rule exI [of _ r'], rule exI [of _ xs])
      (use run add(2,3) jobs in \<open>cases "xs = []"; simp\<close>)
qed

definition ex_prometheus_mesh :: mesh where
  "ex_prometheus_mesh =
     \<lparr>mesh_Status = zero_status, mesh_Metadata = new_metadata ''ns'' ''mesh'',
      mesh_MeshType = Some (Mesh_Istio (Some \<lparr>istio_InstallationNamespace = [], istio_WatchNamespaces = [],
        istio_PrometheusConfigmap = Some (ResourceRef ''ns'' ''prom'')\<rparr>)),
      mesh_Encryption = None,
      mesh_Observability = Some \<lparr>obs_Prometheus = Some \<lparr>prom_PodLabels = [], prom_EnableMetrics = True\<rparr>\<rparr>,
      mesh_Policy = None\<rparr>"

definition ex_prometheus_resource :: prometheus_resource where
  "ex_prometheus_resource = \<lparr>pr_Prometheus = Some [(''rule_files'', JArr [JStr ''alerts.yml''])],
     pr_Metadata = new_metadata ''ns'' ''prom''\<rparr>"

theorem prometheus_sync_converges_witness:
  "\<exists>res p' r'. prometheus_syncMesh (istio_NewPrometheusSyncer None (mem_client id prometheus_ops ''c'')) ex_prometheus_mesh
       ([(mem_key ''c'' ''ns'' ''prom'', ex_prometheus_resource)], ()) = (res, (p', ())) \<and>
     mem_view prometheus_ops ''c'' p' (ResourceRef ''ns'' ''prom'') = Some r' \<and>
     map_of (the (pr_Prometheus r')) ''rule_files'' = None"
proof -
  let ?p = "[(mem_key ''c'' ''ns'' ''prom'', ex_prometheus_resource)]"
  let ?s = "istio_NewPrometheusSyncer None (mem_client id prometheus_ops ''c'') :: (prometheus_resource mem_cache, unit) prometheus_syncer"
  have "ValidateName ''prom''" by code_simp
  then have ok: "mem_ok prometheus_ops ''c'' ?p"
    by (simp add: mem_ok_def ex_prometheus_resource_def prometheus_ops_def new_metadata_def)
  have view: "mem_view prometheus_ops ''c'' ?p (ResourceRef ''ns'' ''prom'') = Some ex_prometheus_resource"
    by (simp add: mem_view_def ex_prometheus_resource_def prometheus_ops_def new_metadata_def Metadata_Ref_def
        del: ResourceRef_meta)
  have asks: "asks_metrics ?s ex_prometheus_mesh (ResourceRef ''ns'' ''prom'')"
    by (simp add: asks_metrics_def ex_prometheus_mesh_def istio_NewPrometheusSyncer_def)
  have conf: "ConfigFromResource (Some ex_prometheus_resource) = Ret (Some \<lparr>pc_ScrapeInterval = 0, pc_ScrapeConfigs = []\<rparr>)"
    by (simp add: ConfigFromResource_def ex_prometheus_resource_def dec_config_def dec_field_def)
  have wf: "wf_config \<lparr>pc_ScrapeInterval = 0, pc_ScrapeConfigs = []\<rparr>" by (simp add: wf_config_def whole_seconds_def)
  have client: "ps_PrometheusClient ?s = mem_client id prometheus_ops ''c''" and ds: "ps_DesiredScrapeConfigs ?s = IstioScrapeConfigs"
    by (simp_all add: istio_NewPrometheusSyncer_def)
  have d: "\<forall>d \<in> set (ps_DesiredScrapeConfigs ?s). wf_scrape d" using wf_desired(1) ds by simp
  obtain res p' k' r' and xs :: "scrape_config list" where run: "prometheus_syncMesh ?s ex_prometheus_mesh (?p, ()) = (res, (p', k'))"
      "mem_view prometheus_ops ''c'' p' = (mem_view prometheus_ops ''c'' ?p)(ResourceRef ''ns'' ''prom'' \<mapsto> r')"
      "sc_JobName ` set xs = sc_JobName ` set (ps_DesiredScrapeConfigs ?s) - job_names \<lparr>pc_ScrapeInterval = 0, pc_ScrapeConfigs = []\<rparr>"
      "if xs = [] then (res, p', k') = (Ret (), ?p, ())
       else fst ` set (the (pr_Prometheus r')) \<subseteq> {''global'', ''scrape_configs''}"
    using prometheus_sync_converges [OF valid_range_id(1) ok client asks view conf wf d, of "()"]
    by (elim exE conjE) (rule that; assumption)
  have "xs \<noteq> []" using run(3) by (auto simp: ds IstioScrapeConfigs_def job_names_def)
  with run(4) have "map_of (the (pr_Prometheus r')) ''rule_files'' = None" by (auto simp: map_of_eq_None_iff)
  with run(1,2) show ?thesis by auto
qed

end
