(* ===== verification/Cli_Properties.thy ===== *)
theory Cli_Properties
  imports Cli_Info Memory_Client
begin

text \<open>What the commands write, and what they display.\<close>

section \<open>Matchers\<close>









section \<open>Where a command does not do what its flags say\<close>

text \<open>Destinations are written as sources: the option alone is the option of the sources.\<close>

lemma destinations_are_sources:
  "createRoutingRule env upstreamClient rrClient routeName (rrOpts\<lparr>rro_Sources := [], rro_Destinations := d\<rparr>) =
   createRoutingRule env upstreamClient rrClient routeName (rrOpts\<lparr>rro_Sources := d, rro_Destinations := []\<rparr>)"
  by (simp add: createRoutingRule_def rule_mesh_def cong: if_cong)

text \<open>Removing a policy never succeeds and changes no mesh.\<close>

lemma remove_policy_never:
  "update_rules REMOVE_POLICY po p \<noteq> Ret q"
  by (simp add: update_rules_def nil_deref_def split: option.split)

lemma remove_policy_fails: "updatePolicy env meshClient REMOVE_POLICY meshRef po s \<noteq> (Ret (), t)"
  by (auto simp: updatePolicy_def abind_eq_Ret alift_def remove_policy_never split: prod.splits)

text \<open>
  A pod whose name contains the name that is waited for, and is longer, is not waited for: it
  counts as ready at once.
\<close>

lemma Contains_length: "strings_Contains s sub \<Longrightarrow> length sub \<le> length s"
  by (induction s) (auto dest: arg_cong [of _ _ length])

lemma longer_pods_not_awaited:
  assumes "names \<noteq> []" "\<forall>pod \<in> set ps. \<forall>n \<in> set names. length n < length (pod_Name pod)"
  shows "AllPodsReadyOrSucceeded (Ret ps) names"
proof -
  have "\<not> strings_Contains n (pod_Name pod)" if "pod \<in> set ps" "n \<in> set names" for pod n
    using assms(2) that Contains_length by (metis leD)
  with assms(1) show ?thesis by (auto simp: AllPodsReadyOrSucceeded_def ContainsSubstring_eq)
qed

text \<open>A mesh that is installed in a namespace that does not exist ends every command.\<close>

lemma missing_install_namespace_panics:
  assumes "installationNamespaceOf m = Ret iNs" "map_of nsr iNs = None"
  shows "\<exists>p. add_mesh_by_install m nsr = Panic p"
  using assms by (simp add: add_mesh_by_install_def nil_deref_def)

text \<open>A custom secret chosen for an install is not written to it.\<close>

lemma install_secret_dropped:
  "generateIstioInstallSpecFromOpts random (iop\<lparr>io_SecretRef := ref\<rparr>) = generateIstioInstallSpecFromOpts random iop"
  "generateConsulInstallSpecFromOpts random (iop\<lparr>io_SecretRef := ref\<rparr>) = generateConsulInstallSpecFromOpts random iop"
  "generateLinkerd2InstallSpecFromOpts random (iop\<lparr>io_SecretRef := ref\<rparr>) = generateLinkerd2InstallSpecFromOpts random iop"
  by (simp_all add: generateIstioInstallSpecFromOpts_def generateConsulInstallSpecFromOpts_def
      generateLinkerd2InstallSpecFromOpts_def install_spec_def getMetadataFromOpts_def getEncryptionFromOpts_def)

end
