(* ===== verification/Cli_Store_Properties.thy ===== *)
theory Cli_Store_Properties
  imports Cli_Properties Install_Properties Event_Loops
begin

text \<open>
  What the commands leave in the stores: uninstalling and mutual TLS, against the interface of
  the clients.
\<close>

lemma comma_not_label_char [simp]: "\<not> is_lower CHR '',''" "\<not> is_digit CHR '',''"
  by (simp_all add: is_lower_def is_digit_def)

lemma ValidateName_no_comma: "ValidateName n \<Longrightarrow> CHR '','' \<notin> set n"
  by (force simp: ValidateName_def IsDNS1035Label_def list_all_iff)

section \<open>The store of installs\<close>

text \<open>The commands also need that a list names no resource twice.\<close>

locale install_store = resource_client install_ops client view ok covers
  for client :: "('i, install) client" and view ok covers +
  assumes List_distinct: "ok s \<Longrightarrow> client_List client ns sel s = (Ret rs, s') \<Longrightarrow> distinct (map (\<lambda>r. Metadata_Ref (install_Metadata r)) rs)"
begin

lemma ops [simp]: "GetMetadata install_ops r = install_Metadata r"
  by (simp add: install_ops_def)

lemma disable_one:
  assumes "ok s" "view s (ResourceRef ns v) = Some r"
  shows "\<exists>s' r'. updateMeshInstall client r s = (Ret (), s') \<and> ok s' \<and> view s' = (view s)(ResourceRef ns v \<mapsto> r') \<and>
    but_version install_ops r' (r\<lparr>install_Enabled := Some False\<rparr>)"
  using Write_over [OF assms(1), of "r\<lparr>install_Enabled := Some False\<rparr>" r] view_Ref [OF assms] assms(2)
  by (auto simp: updateMeshInstall_def act_simps)

lemma disable_all:
  assumes "ok s" "distinct names"
    and "\<forall>v \<in> set names. \<exists>r. list_Find install_Metadata ns v rs = Ret r \<and> view s (ResourceRef ns v) = Some r"
  shows "\<exists>s'. aforeach (\<lambda>v.
       abind (areplace m1 (alift (list_Find install_Metadata ns v rs))) (\<lambda>installCrd.
       areplace m2 (updateMeshInstall client installCrd))) names s = (Ret (), s') \<and> ok s' \<and>
     (\<forall>ref. ref \<notin> ResourceRef ns ` set names \<longrightarrow> view s' ref = view s ref) \<and>
     (\<forall>v \<in> set names. \<exists>r r'. view s (ResourceRef ns v) = Some r \<and> view s' (ResourceRef ns v) = Some r' \<and>
        but_version install_ops r' (r\<lparr>install_Enabled := Some False\<rparr>))"
  using assms
proof (induction names arbitrary: s)
  case Nil
  then show ?case by (simp add: act_simps)
next
  case (Cons v names)
  obtain r where r: "list_Find install_Metadata ns v rs = Ret r" "view s (ResourceRef ns v) = Some r"
    using Cons.prems(3) by auto
  obtain s1 r' where s1: "updateMeshInstall client r s = (Ret (), s1)" "ok s1"
      "view s1 = (view s)(ResourceRef ns v \<mapsto> r')" "but_version install_ops r' (r\<lparr>install_Enabled := Some False\<rparr>)"
    using disable_one [OF Cons.prems(1) r(2)] by blast
  have other: "view s1 (ResourceRef ns x) = view s (ResourceRef ns x)" if "x \<in> set names" for x
    using Cons.prems(2) s1(3) that by auto
  obtain s' where s': "aforeach (\<lambda>v.
       abind (areplace m1 (alift (list_Find install_Metadata ns v rs))) (\<lambda>installCrd.
       areplace m2 (updateMeshInstall client installCrd))) names s1 = (Ret (), s')" "ok s'"
      "\<forall>ref. ref \<notin> ResourceRef ns ` set names \<longrightarrow> view s' ref = view s1 ref"
      "\<forall>x \<in> set names. \<exists>r r'. view s1 (ResourceRef ns x) = Some r \<and> view s' (ResourceRef ns x) = Some r' \<and>
        but_version install_ops r' (r\<lparr>install_Enabled := Some False\<rparr>)"
    using Cons.IH [OF s1(2)] Cons.prems(2,3) other by auto
  have "ResourceRef ns v \<notin> ResourceRef ns ` set names" using Cons.prems(2) by auto
  with s'(3) s1(3) have "view s' (ResourceRef ns v) = Some r'" by simp
  moreover have "(abind (areplace m1 (alift (list_Find install_Metadata ns v rs))) (\<lambda>installCrd.
       areplace m2 (updateMeshInstall client installCrd))) s = (Ret (), s1)"
    using r(1) s1(1) by (simp add: act_simps)
  ultimately show ?case
    using r(2) s1(3,4) s' other by (intro exI [of _ s']) (auto simp: abind_simps)
qed

text \<open>What the list of the program's namespace is, when no other namespace is listed with it.\<close>

lemma list_installs:
  assumes "ok s" "\<forall>ref r. view s ref = Some r \<longrightarrow> covers SuperglooNamespace ref \<longrightarrow> ref_Namespace ref = SuperglooNamespace"
  shows "\<exists>rs. client_List client SuperglooNamespace [] s = (Ret rs, s) \<and>
    (\<forall>r. r \<in> set rs \<longleftrightarrow> view s (ResourceRef SuperglooNamespace (meta_Name (install_Metadata r))) = Some r) \<and>
    distinct (map (\<lambda>r. meta_Name (install_Metadata r)) rs)"
proof -
  have "SuperglooNamespace \<noteq> []" by (simp add: SuperglooNamespace_def)
  then obtain rs where rs: "client_List client SuperglooNamespace [] s = (Ret rs, s)"
      "set rs = {r. \<exists>ref. view s ref = Some r \<and> covers SuperglooNamespace ref \<and> selector_Matches [] (GetMetadata install_ops r)}"
    using List_result [OF assms(1)] by blast
  have named: "Metadata_Ref (install_Metadata r) = ref" if "view s ref = Some r" for r ref
    using view_Ref [OF assms(1) that] by simp
  have mem: "r \<in> set rs \<longleftrightarrow> view s (ResourceRef SuperglooNamespace (meta_Name (install_Metadata r))) = Some r" for r
  proof
    assume "r \<in> set rs"
    then obtain ref where ref: "view s ref = Some r" "covers SuperglooNamespace ref" by (auto simp: rs(2))
    with assms(2) have "ref_Namespace ref = SuperglooNamespace" by blast
    with named [OF ref(1)] have "ref = ResourceRef SuperglooNamespace (meta_Name (install_Metadata r))"
      by (cases ref) (auto simp: Metadata_Ref_def simp del: ResourceRef_meta)
    with ref(1) show "view s (ResourceRef SuperglooNamespace (meta_Name (install_Metadata r))) = Some r" by simp
  next
    assume v: "view s (ResourceRef SuperglooNamespace (meta_Name (install_Metadata r))) = Some r"
    moreover have "covers SuperglooNamespace (ResourceRef SuperglooNamespace (meta_Name (install_Metadata r)))"
      using covers_refl [of "ResourceRef SuperglooNamespace (meta_Name (install_Metadata r))"] by simp
    ultimately show "r \<in> set rs" by (auto simp: rs(2) selector_Matches_def)
  qed
  have "inj_on (\<lambda>r. meta_Name (install_Metadata r)) (set rs)"
    by (rule inj_onI) (metis mem option.inject)
  moreover have "distinct rs" using List_distinct [OF assms(1) rs(1)] by (simp add: distinct_map)
  ultimately show ?thesis using rs(1) mem by (auto simp: distinct_map)
qed

lemma find_install:
  assumes "\<forall>r. r \<in> set rs \<longleftrightarrow> view s (ResourceRef ns (meta_Name (install_Metadata r))) = Some r" "ok s" "r \<in> set rs"
  shows "list_Find install_Metadata ns (meta_Name (install_Metadata r)) rs = Ret r"
proof -
  let ?n = "meta_Name (install_Metadata r)"
  have v: "view s (ResourceRef ns ?n) = Some r" using assms(1,3) by blast
  have "meta_Namespace (install_Metadata r) = ns"
    using view_Ref [OF assms(2) v] by (simp add: Metadata_Ref_def del: ResourceRef_meta)
  then have "ref_matches ns ?n (install_Metadata r)" by (simp add: ref_matches_def)
  then obtain r' where r': "list_Find install_Metadata ns ?n rs = Ret r'"
    using list_Find_fails [of install_Metadata ns ?n rs] assms(3)
    by (cases "list_Find install_Metadata ns ?n rs") auto
  with list_Find_RetD [OF r'] assms(1) v show ?thesis by (auto simp: ref_matches_def)
qed

lemma active_enabled: "install_Enabled r = None \<or> install_Enabled r = Some True \<longleftrightarrow> enabled r"
  by (cases "install_Enabled r") (auto simp: enabled_def)

lemma uninstall_all:
  assumes "ok s" "\<forall>ref r. view s ref = Some r \<longrightarrow> covers SuperglooNamespace ref \<longrightarrow> ref_Namespace ref = SuperglooNamespace"
    and "uo_All uop" and "view s (ResourceRef SuperglooNamespace n0) = Some r0" "enabled r0"
  shows "\<exists>s'. cli_uninstall True client deleteAllMeshes selectMeshByName uop s = (Ret (), s') \<and> ok s' \<and>
    (\<forall>ref. case view s ref of
       None \<Rightarrow> view s' ref = None
     | Some r \<Rightarrow>
         if ref_Namespace ref = SuperglooNamespace \<and> enabled r
         then \<exists>r'. view s' ref = Some r' \<and> but_version install_ops r' (r\<lparr>install_Enabled := Some False\<rparr>)
         else view s' ref = Some r)"
proof -
  obtain rs where rs: "client_List client SuperglooNamespace [] s = (Ret rs, s)"
      "\<forall>r. r \<in> set rs \<longleftrightarrow> view s (ResourceRef SuperglooNamespace (meta_Name (install_Metadata r))) = Some r"
      "distinct (map (\<lambda>r. meta_Name (install_Metadata r)) rs)"
    using list_installs [OF assms(1,2)] by blast
  have act: "activeMeshInstalls rs = map (\<lambda>r. meta_Name (install_Metadata r)) (filter enabled rs)"
    by (simp add: activeMeshInstalls_def active_enabled)
  have name: "meta_Name (install_Metadata r) = n" if "view s (ResourceRef SuperglooNamespace n) = Some r" for n r
    using view_Ref [OF assms(1) that] by (simp add: Metadata_Ref_def del: ResourceRef_meta)
  have "r0 \<in> set rs" using rs(2) assms(4) name [OF assms(4)] by simp
  then have some: "activeMeshInstalls rs \<noteq> []" using assms(5) by (auto simp: act filter_empty_conv)
  have "distinct (activeMeshInstalls rs)" using rs(3) by (simp add: act distinct_map_filter)
  moreover have "\<forall>v \<in> set (activeMeshInstalls rs). \<exists>r. list_Find install_Metadata SuperglooNamespace v rs = Ret r \<and>
      view s (ResourceRef SuperglooNamespace v) = Some r"
    using rs(2) find_install [OF rs(2) assms(1)] by (auto simp: act)
  ultimately obtain s' where s': "aforeach (\<lambda>v.
       abind (areplace ''unable to fetch CRD for (%s)'' (alift (list_Find install_Metadata SuperglooNamespace v rs))) (\<lambda>installCrd.
       areplace ''unable to update CRD for (%s)'' (updateMeshInstall client installCrd))) (activeMeshInstalls rs) s = (Ret (), s')"
      "ok s'"
      "\<forall>ref. ref \<notin> ResourceRef SuperglooNamespace ` set (activeMeshInstalls rs) \<longrightarrow> view s' ref = view s ref"
      "\<forall>v \<in> set (activeMeshInstalls rs). \<exists>r r'. view s (ResourceRef SuperglooNamespace v) = Some r \<and>
         view s' (ResourceRef SuperglooNamespace v) = Some r' \<and> but_version install_ops r' (r\<lparr>install_Enabled := Some False\<rparr>)"
    using disable_all [OF assms(1)] by blast
  have active: "ref \<in> ResourceRef SuperglooNamespace ` set (activeMeshInstalls rs) \<longleftrightarrow>
      ref_Namespace ref = SuperglooNamespace \<and> (\<exists>r. view s ref = Some r \<and> enabled r)" for ref
  proof
    assume "ref \<in> ResourceRef SuperglooNamespace ` set (activeMeshInstalls rs)"
    then show "ref_Namespace ref = SuperglooNamespace \<and> (\<exists>r. view s ref = Some r \<and> enabled r)"
      using rs(2) by (auto simp: act)
  next
    assume "ref_Namespace ref = SuperglooNamespace \<and> (\<exists>r. view s ref = Some r \<and> enabled r)"
    then obtain r n where r: "ref = ResourceRef SuperglooNamespace n" "view s (ResourceRef SuperglooNamespace n) = Some r" "enabled r"
      by (cases ref) auto
    with name [OF r(2)] rs(2) have "r \<in> set (filter enabled rs)" by simp
    with name [OF r(2)] show "ref \<in> ResourceRef SuperglooNamespace ` set (activeMeshInstalls rs)"
      by (auto simp: r(1) act)
  qed
  have list: "areplace msg (client_List client SuperglooNamespace []) s = (Ret rs, s)" for msg
    using rs(1) by (rule areplace_simps)
  have tried: "atry (client_List client SuperglooNamespace []) s = (Ret (Inr rs), s)"
    using rs(1) by (rule atry_simps)
  have names: "staticArgParse client uop s = (Ret (activeMeshInstalls rs), s)"
    using assms(3) list by (simp add: staticArgParse_def abind_simps aret_def)
  have "uninstallMeshes client (activeMeshInstalls rs) s = (Ret (), s')"
    unfolding uninstallMeshes_def using tried by (simp add: abind_simps s'(1) aret_def)
  then have run: "cli_uninstall True client deleteAllMeshes selectMeshByName uop s = (Ret (), s')"
    using some list names by (simp add: cli_uninstall_def abind_simps)
  have "case view s ref of
       None \<Rightarrow> view s' ref = None
     | Some r \<Rightarrow>
         if ref_Namespace ref = SuperglooNamespace \<and> enabled r
         then \<exists>r'. view s' ref = Some r' \<and> but_version install_ops r' (r\<lparr>install_Enabled := Some False\<rparr>)
         else view s' ref = Some r" for ref
  proof (cases "ref \<in> ResourceRef SuperglooNamespace ` set (activeMeshInstalls rs)")
    case True
    then show ?thesis using s'(4) active [of ref] by auto
  next
    case False
    then show ?thesis using s'(3) active [of ref] by (auto split: option.splits)
  qed
  with run s'(2) show ?thesis by blast
qed

text \<open>A name of the option is looked for as the whole option; no install has a name with a comma.\<close>

lemma uninstall_several:
  assumes "ok s" "\<not> uo_All uop" "CHR '','' \<in> set (uo_MeshNames uop)"
  shows "\<exists>e. cli_uninstall True client deleteAllMeshes selectMeshByName uop s = (Fail e, s)"
proof -
  have "SuperglooNamespace \<noteq> []" by (simp add: SuperglooNamespace_def)
  then obtain rs where rs: "client_List client SuperglooNamespace [] s = (Ret rs, s)"
      "set rs = {r. \<exists>ref. view s ref = Some r \<and> covers SuperglooNamespace ref \<and> selector_Matches [] (GetMetadata install_ops r)}"
    using List_result [OF assms(1)] by blast
  have "\<not> ref_matches SuperglooNamespace (uo_MeshNames uop) (install_Metadata r)" if "r \<in> set rs" for r
  proof -
    obtain ref where ref: "view s ref = Some r" using \<open>r \<in> set rs\<close> by (auto simp: rs(2))
    have "ValidateName (meta_Name (install_Metadata r))"
      using view_named [OF assms(1) ref] view_Ref [OF assms(1) ref] by (auto simp: Metadata_Ref_def simp del: ResourceRef_meta)
    then have "CHR '','' \<notin> set (meta_Name (install_Metadata r))" by (rule ValidateName_no_comma)
    with assms(3) show ?thesis by (auto simp: ref_matches_def)
  qed
  then obtain e where e: "list_Find install_Metadata SuperglooNamespace (uo_MeshNames uop) rs = Fail e"
    using list_Find_fails [of install_Metadata] by metis
  obtain n ns where ns: "fmtNameList (uo_MeshNames uop) = n # ns"
    by (cases "fmtNameList (uo_MeshNames uop)") (auto simp: fmtNameList_def)
  have list: "areplace msg (client_List client SuperglooNamespace []) s = (Ret rs, s)" for msg
    using rs(1) by (rule areplace_simps)
  let ?look = "\<lambda>msg. areplace msg (abind (alift (list_Find install_Metadata SuperglooNamespace (uo_MeshNames uop) rs)) (\<lambda>_. aret ()))"
  have look: "?look msg s = (Fail (Errorf msg), s)" for msg by (simp add: e areplace_def abind_def alift_def)
  have "aforeach (\<lambda>name. ?look msg) (n # ns) s = (Fail (Errorf msg), s)" for msg
    using look by (simp add: abind_simps(2))
  then have "\<exists>e. staticArgParse client uop s = (Fail e, s)"
    using assms(2,3) list by (auto simp: staticArgParse_def abind_simps(1,2) ns Let_def simp del: aforeach.simps)
  then obtain e' where static: "staticArgParse client uop s = (Fail e', s)" ..
  show ?thesis
    using list static by (cases "length (activeMeshInstalls rs) < 1") (auto simp: cli_uninstall_def abind_simps(1,2) afail_def)
qed

end

lemma mem_List_distinct:
  assumes "valid_range rng" "mem_ok ops kind s" "mem_List rng ops kind ns sel s = (Ret rs, s')"
  shows "distinct (map (resource_Ref ops) rs)"
proof -
  have "map fst s = map (\<lambda>ref. mem_key kind (ref_Namespace ref) (ref_Name ref)) (map (\<lambda>e. resource_Ref ops (snd e)) s)"
    using assms(2) by (auto simp: mem_ok_def Metadata_Ref_def simp del: ResourceRef_meta)
  then have "distinct (map (\<lambda>e. resource_Ref ops (snd e)) s)"
    using assms(2) unfolding mem_ok_def by (metis distinct_map)
  then have all: "distinct (map (\<lambda>e. resource_Ref ops (snd e)) (filter P (rng s)))" for P
    by (intro distinct_map_filter) (simp add: valid_range_distinct_map [OF assms(1)])
  obtain P where "mset rs = mset (map snd (filter P (rng s)))"
  proof -
    let ?P = "\<lambda>e. strings_HasPrefix (fst e) (mem_Prefix kind (DefaultNamespaceIfEmpty ns)) \<and>
      selector_Matches sel (GetMetadata ops (snd e))"
    have "mset rs = mset (map snd (filter ?P (rng s)))"
      using assms(3) by (auto simp: mem_List_def filter_map comp_def case_prod_beta conj_commute
          simp flip: mset_filter mset_map)
    then show thesis by (rule that)
  qed
  then have "mset (map (resource_Ref ops) rs) = mset (map (\<lambda>e. resource_Ref ops (snd e)) (filter P (rng s)))"
    by (simp add: multiset.map_comp comp_def)
  with all [of P] show ?thesis using mset_eq_imp_distinct_iff by blast
qed

lemma mem_install_store:
  assumes "valid_range rng"
  shows "install_store (mem_client rng install_ops k) (mem_view install_ops k) (mem_ok install_ops k) mem_covers"
proof (intro install_store.intro install_store_axioms.intro)
  show "resource_client install_ops (mem_client rng install_ops k) (mem_view install_ops k) (mem_ok install_ops k) mem_covers"
    by (rule mem_store_client [OF install.resource_type_axioms assms])
  show "distinct (map (\<lambda>r. Metadata_Ref (install_Metadata r)) rs)"
    if "mem_ok install_ops k s" "client_List (mem_client rng install_ops k) ns sel s = (Ret rs, s')" for s ns sel rs s'
    using mem_List_distinct [OF assms that(1)] that(2) by (simp add: mem_client_def install_ops_def)
qed

interpretation install_memory:
  install_store "mem_client id install_ops ''*v1.Install''" "mem_view install_ops ''*v1.Install''"
    "mem_ok install_ops ''*v1.Install''" mem_covers
  by (rule mem_install_store) simp

text \<open>A store with one install, and a store with one mesh, for the witnesses.\<close>

definition ex_cli_install :: install where
  "ex_cli_install = \<lparr>install_Status = zero_status, install_Metadata = new_metadata SuperglooNamespace ''istio'',
     install_MeshType = None, install_ChartLocator = None, install_Encryption = None, install_Enabled = None\<rparr>"

definition ex_cli_installs :: "install mem_cache" where
  "ex_cli_installs = [(mem_key ''i'' SuperglooNamespace ''istio'', ex_cli_install)]"

lemma ex_cli_installs_ok:
  "mem_ok install_ops ''i'' ex_cli_installs"
  "mem_view install_ops ''i'' ex_cli_installs (ResourceRef SuperglooNamespace ''istio'') = Some ex_cli_install"
  by (code_simp, simp add: mem_view_def ex_cli_installs_def ex_cli_install_def install_ops_def Metadata_Ref_def del: ResourceRef_meta)

lemma ex_cli_installs_view:
  "mem_view install_ops ''i'' ex_cli_installs ref = Some r \<Longrightarrow> ref = ResourceRef SuperglooNamespace ''istio'' \<and> r = ex_cli_install"
  by (auto simp: mem_view_def ex_cli_installs_def install_ops_def ex_cli_install_def Metadata_Ref_def simp del: ResourceRef_meta
      split: option.splits if_splits)

lemma ex_cli_install_enabled: "enabled ex_cli_install"
  by (simp add: enabled_def ex_cli_install_def)

text \<open>
  C33: Uninstalling all meshes, without a menu, succeeds whenever an install is enabled: each
  enabled install of the program's namespace is written back disabled, and every other install
  is left as it was. The store may list no other namespace with the program's.
\<close>

theorem uninstall_all_disables:
  assumes "valid_range rng" "mem_ok install_ops k s"
    and "\<forall>ref r. mem_view install_ops k s ref = Some r \<longrightarrow> mem_covers SuperglooNamespace ref \<longrightarrow> ref_Namespace ref = SuperglooNamespace"
    and "uo_All uop" and "mem_view install_ops k s (ResourceRef SuperglooNamespace n0) = Some r0" "enabled r0"
  shows "\<exists>s'. cli_uninstall True (mem_client rng install_ops k) deleteAllMeshes selectMeshByName uop s = (Ret (), s') \<and>
    mem_ok install_ops k s' \<and>
    (\<forall>ref. case mem_view install_ops k s ref of
       None \<Rightarrow> mem_view install_ops k s' ref = None
     | Some r \<Rightarrow>
         if ref_Namespace ref = SuperglooNamespace \<and> enabled r
         then \<exists>r'. mem_view install_ops k s' ref = Some r' \<and> but_version install_ops r' (r\<lparr>install_Enabled := Some False\<rparr>)
         else mem_view install_ops k s' ref = Some r)"
  by (rule install_store.uninstall_all [OF mem_install_store [OF assms(1)] assms(2-6)])

theorem uninstall_all_disables_witness:
  "\<exists>s' r'. cli_uninstall True (mem_client id install_ops ''i'') (Ret True) (\<lambda>_. Ret []) \<lparr>uo_All = True, uo_MeshNames = []\<rparr>
       ex_cli_installs = (Ret (), s') \<and>
     mem_view install_ops ''i'' s' (ResourceRef SuperglooNamespace ''istio'') = Some r' \<and>
     but_version install_ops r' (ex_cli_install\<lparr>install_Enabled := Some False\<rparr>)"
proof -
  have only: "\<forall>ref r. mem_view install_ops ''i'' ex_cli_installs ref = Some r \<longrightarrow> mem_covers SuperglooNamespace ref \<longrightarrow>
      ref_Namespace ref = SuperglooNamespace"
    by (auto dest: ex_cli_installs_view)
  obtain s' where s': "cli_uninstall True (mem_client id install_ops ''i'') (Ret True) (\<lambda>_. Ret []) \<lparr>uo_All = True, uo_MeshNames = []\<rparr>
       ex_cli_installs = (Ret (), s')"
      "\<forall>ref. case mem_view install_ops ''i'' ex_cli_installs ref of
       None \<Rightarrow> mem_view install_ops ''i'' s' ref = None
     | Some r \<Rightarrow>
         if ref_Namespace ref = SuperglooNamespace \<and> enabled r
         then \<exists>r'. mem_view install_ops ''i'' s' ref = Some r' \<and> but_version install_ops r' (r\<lparr>install_Enabled := Some False\<rparr>)
         else mem_view install_ops ''i'' s' ref = Some r"
    using uninstall_all_disables [OF valid_range_id(1) ex_cli_installs_ok(1) only _ ex_cli_installs_ok(2) ex_cli_install_enabled,
        of "\<lparr>uo_All = True, uo_MeshNames = []\<rparr>" "Ret True" "\<lambda>_. Ret []"]
    by auto
  show ?thesis
    using s'(1) s'(2) [rule_format, of "ResourceRef SuperglooNamespace ''istio''"]
    by (simp add: ex_cli_installs_ok(2) ex_cli_install_enabled)
qed

text \<open>
  Uninstalling two or more meshes by name, separated by commas, always fails and changes
  nothing, although every one of the names may be installed.
\<close>

theorem uninstall_names_fails:
  assumes "valid_range rng" "mem_ok install_ops k s" "\<not> uo_All uop" "CHR '','' \<in> set (uo_MeshNames uop)"
  shows "\<exists>e. cli_uninstall True (mem_client rng install_ops k) deleteAllMeshes selectMeshByName uop s = (Fail e, s)"
  by (rule install_store.uninstall_several [OF mem_install_store [OF assms(1)] assms(2-4)])

theorem uninstall_names_fails_witness:
  "\<exists>e. cli_uninstall True (mem_client id install_ops ''i'') (Ret True) (\<lambda>_. Ret []) \<lparr>uo_All = False, uo_MeshNames = ''istio,istio''\<rparr>
     ex_cli_installs = (Fail e, ex_cli_installs)"
  by (rule uninstall_names_fails [OF valid_range_id(1) ex_cli_installs_ok(1)]) simp_all

section \<open>The store of meshes\<close>

lemma but_version_mesh:
  "but_version mesh_ops a b \<Longrightarrow> \<exists>v. a = b\<lparr>mesh_Metadata := (mesh_Metadata b)\<lparr>meta_ResourceVersion := v\<rparr>\<rparr>"
  by (cases a; cases b; cases "mesh_Metadata a"; cases "mesh_Metadata b") (auto simp: but_version_def ops_simps)

context mesh_store
begin

text \<open>An operation writes the mesh back with its encryption changed and nothing else.\<close>

lemma mtls_written:
  assumes "ok s" "view s ref = Some m" "ensure_mesh env meshRef = Ret ref"
  shows "\<exists>s' m'. updateMtls env (Ret client) operation meshRef s = (Ret m', s') \<and> ok s' \<and> view s' = (view s)(ref \<mapsto> m') \<and>
    but_version mesh_ops m' (m\<lparr>mesh_Encryption := Some (set_tls operation (mesh_Encryption m))\<rparr>)"
proof -
  let ?m = "m\<lparr>mesh_Encryption := Some (set_tls operation (mesh_Encryption m))\<rparr>"
  have ref: "Metadata_Ref (mesh_Metadata m) = ref" using view_Ref [OF assms(1,2)] by (simp add: ops_simps)
  obtain m' s' where w: "client_Write client ?m True s = (Ret m', s')" "ok s'" "but_version mesh_ops m' ?m"
      "view s' = (view s)(ref \<mapsto> m')"
    using Write_over [OF assms(1), of ?m m] assms(2) ref by (auto simp: ops_simps)
  have "client_Read client (ref_Namespace ref) (ref_Name ref) s = (Ret m, s)"
    using Read_present [OF assms(1), of "ref_Namespace ref" "ref_Name ref"] assms(2) by simp
  with w assms(3) show ?thesis by (auto simp: updateMtls_def act_simps)
qed

lemma toggle_twice:
  assumes "ok s" "view s ref = Some m" "ensure_mesh env meshRef = Ret ref" "mesh_Encryption m \<noteq> None"
  shows "\<exists>s' m'. abind (updateMtls env (Ret client) TOGGLE_MTLS meshRef) (\<lambda>_. updateMtls env (Ret client) TOGGLE_MTLS meshRef) s = (Ret m', s') \<and>
    ok s' \<and> view s' = (view s)(ref \<mapsto> m') \<and> but_version mesh_ops m' m"
proof -
  obtain s1 m1 where s1: "updateMtls env (Ret client) TOGGLE_MTLS meshRef s = (Ret m1, s1)" "ok s1" "view s1 = (view s)(ref \<mapsto> m1)"
      "but_version mesh_ops m1 (m\<lparr>mesh_Encryption := Some (set_tls TOGGLE_MTLS (mesh_Encryption m))\<rparr>)"
    using mtls_written [OF assms(1-3)] by blast
  obtain s2 m2 where s2: "updateMtls env (Ret client) TOGGLE_MTLS meshRef s1 = (Ret m2, s2)" "ok s2" "view s2 = (view s1)(ref \<mapsto> m2)"
      "but_version mesh_ops m2 (m1\<lparr>mesh_Encryption := Some (set_tls TOGGLE_MTLS (mesh_Encryption m1))\<rparr>)"
    using mtls_written [OF s1(2) _ assms(3)] s1(3) by (metis fun_upd_same)
  obtain v w where v: "m1 = m\<lparr>mesh_Encryption := Some (set_tls TOGGLE_MTLS (mesh_Encryption m)),
        mesh_Metadata := (mesh_Metadata m)\<lparr>meta_ResourceVersion := v\<rparr>\<rparr>"
      "m2 = m1\<lparr>mesh_Encryption := Some (set_tls TOGGLE_MTLS (mesh_Encryption m1)),
        mesh_Metadata := (mesh_Metadata m1)\<lparr>meta_ResourceVersion := w\<rparr>\<rparr>"
    using but_version_mesh [OF s1(4)] but_version_mesh [OF s2(4)] by auto
  have "but_version mesh_ops m2 m"
    using assms(4) unfolding v by (cases m) (auto simp: but_version_def ops_simps set_tls_def)
  with s1 s2 show ?thesis by (auto simp: act_simps)
qed

end

text \<open>
  Toggling mutual TLS twice leaves a mesh that has an encryption as it was, but for the
  version that the store assigns, and touches no other mesh.
\<close>

theorem mtls_toggle_twice:
  assumes "valid_range rng" "mem_ok mesh_ops k s" "mem_view mesh_ops k s ref = Some m"
    and "ensure_mesh env meshRef = Ret ref" "mesh_Encryption m \<noteq> None"
  shows "\<exists>s' m'. abind (updateMtls env (Ret (mem_client rng mesh_ops k)) TOGGLE_MTLS meshRef)
        (\<lambda>_. updateMtls env (Ret (mem_client rng mesh_ops k)) TOGGLE_MTLS meshRef) s = (Ret m', s') \<and>
    mem_ok mesh_ops k s' \<and> mem_view mesh_ops k s' = (mem_view mesh_ops k s)(ref \<mapsto> m') \<and> but_version mesh_ops m' m"
  by (rule mesh_store.toggle_twice [OF mem_mesh_store [OF assms(1)] assms(2-5)])

definition ex_cli_mesh :: mesh where
  "ex_cli_mesh = \<lparr>mesh_Status = zero_status, mesh_Metadata = new_metadata ''ns'' ''mesh'', mesh_MeshType = None,
     mesh_Encryption = Some \<lparr>enc_TlsEnabled = True, enc_Secret = None\<rparr>, mesh_Observability = None, mesh_Policy = None\<rparr>"

definition ex_cli_env :: cli_env where
  "ex_cli_env = \<lparr>cli_Static = True,
     cli_Cache = \<lparr>cache_Namespaces = [''ns''],
       cache_NsResources = [(''ns'', \<lparr>nsr_Meshes = [''mesh''], nsr_Secrets = [], nsr_Upstreams = [], nsr_MeshesByInstallNs = []\<rparr>)]\<rparr>,
     cli_Survey = \<lparr>survey_Select = (\<lambda>_ _. Ret []), survey_MultiSelect = (\<lambda>_ _. Ret [])\<rparr>, cli_rng = id\<rparr>"

theorem mtls_toggle_twice_witness:
  "\<exists>s' m'. abind (updateMtls ex_cli_env (Ret (mem_client id mesh_ops ''m'')) TOGGLE_MTLS (ResourceRef ''ns'' ''mesh''))
        (\<lambda>_. updateMtls ex_cli_env (Ret (mem_client id mesh_ops ''m'')) TOGGLE_MTLS (ResourceRef ''ns'' ''mesh''))
        [(mem_key ''m'' ''ns'' ''mesh'', ex_cli_mesh)] = (Ret m', s') \<and> but_version mesh_ops m' ex_cli_mesh"
proof -
  have ok: "mem_ok mesh_ops ''m'' [(mem_key ''m'' ''ns'' ''mesh'', ex_cli_mesh)]" by code_simp
  have view: "mem_view mesh_ops ''m'' [(mem_key ''m'' ''ns'' ''mesh'', ex_cli_mesh)] (ResourceRef ''ns'' ''mesh'') = Some ex_cli_mesh"
    by (simp add: mem_view_def ex_cli_mesh_def ops_simps Metadata_Ref_def del: ResourceRef_meta)
  have mesh: "ensure_mesh ex_cli_env (ResourceRef ''ns'' ''mesh'') = Ret (ResourceRef ''ns'' ''mesh'')"
    by (simp add: ex_cli_env_def EnsureMesh_def validateResourceRefForStaticMode_def ns_field_def)
  have "mesh_Encryption ex_cli_mesh \<noteq> None" by (simp add: ex_cli_mesh_def)
  from mtls_toggle_twice [OF valid_range_id(1) ok view mesh this] show ?thesis by blast
qed

end
