(* ===== verification/Spec2Isabelle.thy ===== *)
theory Spec2Isabelle
  imports End_To_End Memory_Cache Gloo_Loops Rate_Limit_Xds Cli_Tree_Properties Linkerd_Templates Istio_Routing_Properties Istio_Policy_Properties Secret_Sync
    Consul_Properties Event_Loop_Properties Kube_Manifest_Properties Install_Properties Prometheus_Properties Cli_Store_Properties
    Setup_Properties
begin

text \<open>
  A verification library for SuperGloo, a controller that manages service meshes on Kubernetes.

  \<^bold>\<open>The program.\<close> Users describe meshes, installations, routing rules and policies as resources.
  \<open>pkg/setup/setup.go\<close> makes one client per kind of resource and starts two event loops. Each loop
  has an emitter, which watches its kinds and sends a snapshot when something has changed, and syncers,
  which bring the outside world in line with a snapshot. The translator's loop has seven syncers: Istio's
  routing, Istio's encryption, Istio's policies, Consul's encryption, Consul's policies, and the
  Prometheus configurations of Istio and Linkerd. The installer's loop installs and removes meshes with Helm.
  The command line (\<open>cli/\<close>) writes and displays the same resources.

  \<^bold>\<open>Conventions.\<close> A call returns a value, returns an error or panics: the type \<open>go\<close> of \<open>Go_Prelude\<close>. A
  call that changes state is an \<open>act\<close>, a function from the state to an outcome and the new state: what was
  written before an error or a panic stays written. A struct is a record, a oneof a datatype, a pointer that
  may be nil an option; dereferencing nil is a panic. A Go map is an association list with the order of its
  iteration as a parameter, \<open>rng\<close>, of which only \<open>valid_range\<close> is assumed: it permutes. Every
  theorem about a function that ranges over a map holds for every order. Third-party code (Kubernetes,
  Helm, Consul, YAML, the hash of a struct) is a parameter, an argument of the definitions that use it.

  \<^bold>\<open>The theories\<close>, each with the part of the source that it models.
  \<^item> \<open>Go_Prelude\<close>, \<open>Go_Strings\<close>, \<open>Go_MD5\<close>, \<open>Go_Duration\<close>: outcomes, actions, the parts of Go's standard library
    that the program uses, and the collections \<open>act_simps\<close> and \<open>keeps_intros\<close> that most proofs run on.
  \<^item> \<open>Resources\<close>, \<open>Supergloo_Types\<close>: metadata, references, lists by namespace; the messages of
    \<open>pkg/api/v1\<close> and \<open>pkg/api/external\<close>.
  \<^item> \<open>Resource_Client\<close>, \<open>Memory_Client\<close>: solo-kit's client interface, as the locale \<open>resource_client\<close>; its reconciler,
    verified against the locale; its in-memory client, the provider.
  \<^item> \<open>Memory_Cache\<close>: the same client on its cache of objects, with pointers and subscriptions. It refines the client on
    values for programs that do not change objects that the store holds.
  \<^item> \<open>Typed_Clients\<close>, \<open>Typed_Kinds\<close>, \<open>Typed_Properties\<close>: the generated \<open>*.sk.go\<close>, \<open>*_client.sk.go\<close> and
    \<open>*_reconciler.sk.go\<close>, the templates once and eleven kinds. The locale \<open>typed_kind\<close> is what a kind provides; a
    typed client on a store of its kind satisfies \<open>resource_client\<close>, and the typed reconciler does
    what the reconciler does.
  \<^item> \<open>Translator_Snapshot\<close>, \<open>Snapshot_Emitter\<close>, \<open>Event_Loops\<close>, \<open>Event_Loop_Properties\<close>, \<open>Generated_Loops\<close>: the generated
    snapshots, emitters and event loops, as one template over the locale \<open>snapshot_ops\<close> with seven instances. An
    emitter is a step function over the events of its select; \<open>emitter_run\<close> are its reachable states.
  \<^item> \<open>Gloo_Kinds\<close>, \<open>Gloo_Loops\<close>, \<open>Rate_Limit_Xds\<close>: what is generated in \<open>pkg/api/external/gloo/v1\<close> besides the upstreams: five
    more kinds and three more loops, instances of the same templates, and the discovery service of rate
    limits. The program does not use them.
  \<^item> \<open>Watch_Pipeline\<close>: a store, its watch, the generated watch, the forwarding goroutine and the emitter as one state
    machine, with the invariant that no write is missed although signals coalesce.
  \<^item> \<open>Watch_System\<close>, \<open>End_To_End\<close>: all watches of the translator on one store and one emitter. The invariant is per
    watch: without a signal pending, its newest list is what the store holds. It gives that an idle system's
    snapshot is the store's content, and with \<open>Setup_Properties\<close> that what is stored is what Istio is told.
  \<^item> \<open>Istio_Names\<close>, \<open>Istio_Matchers\<close>, \<open>Istio_Rules\<close>, \<open>Istio_Routing\<close>, \<open>Istio_Routing_Facts\<close>, \<open>Istio_Routing_Sync\<close>,
    \<open>Reconcile_Namespaces\<close>, \<open>Istio_Routing_Properties\<close>: \<open>pkg/translator/istio/mesh_routing_syncer.go\<close>, from names and
    hosts over matchers and the merging of rules to destination rules, virtual services and their
    reconciliation. Requests have a semantics of their own, and the generated routes are proved to
    match the requests that the rules match.
  \<^item> \<open>Istio_Policy\<close>, \<open>Istio_Policy_Facts\<close>, \<open>Istio_Policy_Properties\<close>: \<open>policy_syncer.go\<close>; the roles grant exactly what the
    policy says.
  \<^item> \<open>Secret_Sync\<close>: \<open>pkg/secret/secret_syncer.go\<close> and Istio's \<open>encryption_syncer.go\<close>.
  \<^item> \<open>Consul_Sync\<close>, \<open>Consul_Properties\<close>: \<open>pkg/translator/consul\<close>.
  \<^item> \<open>Prometheus\<close>, \<open>Prometheus_Sync\<close>, \<open>Prometheus_Properties\<close>: the configuration as JSON and as a resource, and the syncers
    that add the scrape configurations of a mesh.
  \<^item> \<open>Kube_Manifest\<close>, \<open>Kube_Manifest_Properties\<close>: \<open>pkg/install/shared\<close>: parsing a manifest and creating,
    updating and deleting its objects.
  \<^item> \<open>Helm\<close>, \<open>Mesh_Installers\<close>, \<open>Install_Sync\<close>, \<open>Install_Properties\<close>: \<open>pkg/install\<close>. The locale \<open>mesh_installer_spec\<close> is what
    the syncer needs of an installer; the three installers are its instances.
  \<^item> \<open>Setup\<close>, \<open>Setup_Properties\<close>: \<open>pkg/setup/setup.go\<close>: one world that all syncers write to, and the two loops.
  \<^item> \<open>Cli_Cache\<close>, \<open>Cli_Commands\<close>, \<open>Cli_Info\<close>, \<open>Cli_Clients\<close>, \<open>Cli_Properties\<close>, \<open>Cli_Store_Properties\<close>: \<open>cli/pkg\<close>.
  \<^item> \<open>Cobra\<close>: what the command line uses of the libraries \<open>cobra\<close> and \<open>pflag\<close>: the flags of a command and of its parents,
    how a command is found and its flags are parsed. \<open>Cli_Tree\<close>, \<open>Cli_Tree_Properties\<close>: the tree of commands of
    \<open>cli/pkg/cmd\<close>, the options that flags assign to, what each command runs, and \<open>main\<close> with its exit status.
  \<^item> \<open>Linkerd_Templates\<close>: \<open>hack/install/linkerd2/generate.go\<close>.

  \<^bold>\<open>What is proved.\<close>
  \<^item> Translation: every subset that a virtual service routes to is defined by a destination rule; the routes
    of a host are those of the rules; merged rules have the features of their parts; the roles and bindings
    of a policy grant exactly its rules; the order of maps does not change destination rules.
  \<^item> Convergence: a sync leaves exactly the wanted resources in the written namespaces and nothing else
    changed, for routing, policies, Consul's certificates, Prometheus and installs; it is proved against
    \<open>resource_client\<close> and so for every client that satisfies it. When translation fails, nothing is written.
  \<^item> Change detection: an emitter holds the lists delivered last, sends every change but those of versions and
    statuses, and with all watches in front of it catches up with the store from every reachable state.
  \<^item> Composition: the seven syncers do together what each does alone, whatever errors the others return; the
    two loops do not interfere, however their syncs alternate. From end to end, the resources of the store
    determine the destination rules and virtual services.
  \<^item> The command line: arguments are rejected, or run one command, independently of the cluster; whatever the
    command meets, it returns no error. Installing a mesh is followed from the arguments to the store.
  \<^item> Parsing: what is displayed for a matcher is read back as the same matcher; a Prometheus configuration
    survives the conversion to a resource; the parser of manifests ends.
  \<^item> Theorems about defects state what the code does instead of what it means to do.

  \<^bold>\<open>Bounds.\<close> The loops of the command line that wait for pods run at most thirty rounds, as in the code. The
  parser of manifests recurses into lists of objects, on text that the YAML library prints; its fuel is
  the depth, and \<open>ParseKubeManifest_terminates\<close> gives an amount that is enough, for a YAML library that
  prints items smaller than their list. Integers that can overflow are taken modulo their width:
  durations (64 bits), resource versions (64 bits), hashes (\<open>64 word\<close>).

  \<^bold>\<open>Not modelled.\<close>
  \<^item> Time and overlap within a loop: an event loop syncs one snapshot after the other, and the syncs of
    the two loops do not overlap. Contexts and their cancellation are the end of a run.
  \<^item> Logging, tracing and metrics, and the text of messages beyond their format.
  \<^item> The text of Istio's resource definitions (\<open>istio_crds.go\<close>) and of Linkerd's manifest (\<open>generate.go\<close>): parameters.
  \<^item> The display of menus, the alignment of tables and the help texts; of cobra and pflag what no command uses.
  \<^item> Marshalling of protocol buffers, and the fields of messages that no code reads.
  \<^item> Code in comments (a long part of \<open>prometheus_config.go\<close>), and the utilities of the tests.
\<close>

end
